(* ===== verification/Py_Prelude.thy ===== *)
theory Py_Prelude
  imports Complex_Main
begin

text \<open>
  The Python runtime the clients of the repository rely on, as far as their chat logic
  uses it: decoded JSON values (what \<open>response.json()\<close> and \<open>json.load\<close> return and
  what \<open>json.dump\<close> writes), Python truthiness (\<open>if data.get(...)\<close>), the dictionary
  operations \<open>d.get(k, default)\<close>, \<open>d[k]\<close> and \<open>k in d\<close> with the exceptions they
  raise, and \<open>str.strip()\<close>. Every client theory imports this one.

  Conventions. A Python exception is the left value of a sum \<open>py_error + 'a\<close>.
  A JSON object is the association list of a decoded Python \<open>dict\<close>: its keys are
  distinct (\<open>json.loads\<close> keeps one value per key), so the first binding of a key is
  its value. A JSON number is an \<open>int\<close> or a \<open>float\<close>; a float is modelled by its exact
  real value (rounding of binary floats plays no part in the code modelled). Strings are
  byte lists: \<open>str.strip\<close> is modelled on the ASCII whitespace Python strips.
\<close>

section \<open>Collections of facts shared by the component theories\<close>

named_theorems py_simps "evaluation rules of the Python runtime model"
named_theorems chat_simps "evaluation rules of the chat protocol model"

section \<open>Decoded JSON values\<close>

datatype json =
    JNull
  | JBool bool
  | JInt int
  | JFloat real
  | JStr string
  | JArr "json list"
  | JObj "(string \<times> json) list"

type_synonym py_dict = "(string \<times> json) list"

text \<open>The Python type name of a value, as exception messages print it.\<close>

fun py_type_name :: "json \<Rightarrow> string" where
  "py_type_name JNull = ''NoneType''"
| "py_type_name (JBool _) = ''bool''"
| "py_type_name (JInt _) = ''int''"
| "py_type_name (JFloat _) = ''float''"
| "py_type_name (JStr _) = ''str''"
| "py_type_name (JArr _) = ''list''"
| "py_type_name (JObj _) = ''dict''"

section \<open>Exceptions\<close>

datatype py_error =
    AttributeError string  \<comment> \<open>\<open>'<type>' object has no attribute '<name>'\<close>\<close>
  | KeyError string        \<comment> \<open>a missing dictionary key\<close>
  | TypeError string       \<comment> \<open>subscript or \<open>in\<close> on a value that does not support it\<close>
  | JSONDecodeError        \<comment> \<open>\<open>response.json()\<close> / \<open>json.load\<close> on a body that is not JSON\<close>
  | OSError string         \<comment> \<open>opening a file failed\<close>
  | TclError               \<comment> \<open>\<open>IntVar.get()\<close> / \<open>DoubleVar.get()\<close> on a non-number\<close>
  | ValueError string      \<comment> \<open>an argument out of its domain (\<open>textwrap\<close>'s width)\<close>
  | CursesError            \<comment> \<open>\<open>curses.error\<close>: drawing outside a window\<close>
  | NameError string       \<comment> \<open>a global name that the module does not define\<close>
  | ValueError_index       \<comment> \<open>\<open>list.index\<close> of a value not in the list\<close>

section \<open>Truthiness\<close>

text \<open>\<open>bool(v)\<close> for a decoded JSON value: \<open>None\<close>, \<open>False\<close>, zero, and empty strings,
  lists and dicts are false.\<close>

fun truthy :: "json \<Rightarrow> bool" where
  "truthy JNull = False"
| "truthy (JBool b) = b"
| "truthy (JInt i) = (i \<noteq> 0)"
| "truthy (JFloat r) = (r \<noteq> 0)"
| "truthy (JStr s) = (s \<noteq> [])"
| "truthy (JArr xs) = (xs \<noteq> [])"
| "truthy (JObj kvs) = (kvs \<noteq> [])"

section \<open>Dictionary access\<close>

text \<open>\<open>d.get(k, default)\<close>: only a dict has a \<open>get\<close> method.\<close>

definition py_get :: "json \<Rightarrow> string \<Rightarrow> json \<Rightarrow> py_error + json" where
  "py_get d k dflt =
     (case d of
        JObj kvs \<Rightarrow> Inr (case map_of kvs k of Some v \<Rightarrow> v | None \<Rightarrow> dflt)
      | _ \<Rightarrow> Inl (AttributeError (py_type_name d)))"

text \<open>\<open>d[k]\<close> with a string key.\<close>

definition py_subscript :: "json \<Rightarrow> string \<Rightarrow> py_error + json" where
  "py_subscript d k =
     (case d of
        JObj kvs \<Rightarrow> (case map_of kvs k of Some v \<Rightarrow> Inr v | None \<Rightarrow> Inl (KeyError k))
      | _ \<Rightarrow> Inl (TypeError (py_type_name d)))"

text \<open>\<open>k in d\<close> with a string \<open>k\<close>: key membership for a dict, element membership for
  a list, substring test for a string; other values are not iterable.\<close>

text \<open>\<open>k in s\<close> for strings: \<open>k\<close> occurs in \<open>s\<close> at some position.\<close>

fun py_in_str :: "string \<Rightarrow> string \<Rightarrow> bool" where
  "py_in_str k [] = (k = [])"
| "py_in_str k (c # cs) = (take (length k) (c # cs) = k \<or> py_in_str k cs)"

definition py_contains :: "json \<Rightarrow> string \<Rightarrow> py_error + bool" where
  "py_contains d k =
     (case d of
        JObj kvs \<Rightarrow> Inr (k \<in> fst ` set kvs)
      | JArr xs \<Rightarrow> Inr (JStr k \<in> set xs)
      | JStr s \<Rightarrow> Inr (py_in_str k s)
      | _ \<Rightarrow> Inl (TypeError (py_type_name d)))"

section \<open>Sequencing and lists\<close>

text \<open>Python evaluates statements in order and the first exception abandons the rest:
  \<open>py_bind\<close> threads the result of one step into the next.\<close>

definition py_bind :: "py_error + 'a \<Rightarrow> ('a \<Rightarrow> py_error + 'b) \<Rightarrow> py_error + 'b" where
  "py_bind r f = (case r of Inl e \<Rightarrow> Inl e | Inr a \<Rightarrow> f a)"

text \<open>Iterating over a value (\<open>for x in v\<close>, \<open>list.extend(v)\<close>): the elements of a
  list, the keys of a dict, the one-character strings of a string.\<close>

definition py_iter :: "json \<Rightarrow> py_error + json list" where
  "py_iter v =
     (case v of
        JArr xs \<Rightarrow> Inr xs
      | JObj kvs \<Rightarrow> Inr (map (\<lambda>kv. JStr (fst kv)) kvs)
      | JStr s \<Rightarrow> Inr (map (\<lambda>c. JStr [c]) s)
      | _ \<Rightarrow> Inl (TypeError (py_type_name v)))"

text \<open>\<open>v.append(x)\<close>: only a list has an \<open>append\<close> method; the new list is returned.\<close>

definition py_append :: "json \<Rightarrow> json \<Rightarrow> py_error + json list" where
  "py_append v x =
     (case v of
        JArr xs \<Rightarrow> Inr (xs @ [x])
      | _ \<Rightarrow> Inl (AttributeError (py_type_name v)))"

text \<open>A list comprehension \<open>[f(x) for x in xs]\<close> whose body may raise.\<close>

fun py_map :: "(json \<Rightarrow> py_error + 'a) \<Rightarrow> json list \<Rightarrow> py_error + 'a list" where
  "py_map f [] = Inr []"
| "py_map f (x # xs) = py_bind (f x) (\<lambda>y. py_bind (py_map f xs) (\<lambda>ys. Inr (y # ys)))"

section \<open>Files\<close>

text \<open>The file system as the clients see it: a path holds the text of a JSON document
  (\<open>json.dump\<close> writes one and \<open>json.load\<close> reads it back unchanged) or some other
  text, on which \<open>json.load\<close> raises. A path that is not in the map cannot be opened.\<close>

datatype file_data = File_json json | File_text

type_synonym file_store = "string \<Rightarrow> file_data option"

definition json_load :: "file_store \<Rightarrow> string \<Rightarrow> py_error + json" where
  "json_load fs path =
     (case fs path of
        None \<Rightarrow> Inl (OSError path)
      | Some (File_json v) \<Rightarrow> Inr v
      | Some File_text \<Rightarrow> Inl JSONDecodeError)"

definition json_dump :: "file_store \<Rightarrow> string \<Rightarrow> json \<Rightarrow> file_store" where
  "json_dump fs path v = fs(path := Some (File_json v))"

section \<open>Lists\<close>

text \<open>\<open>xs.index(x)\<close>: the first position of \<open>x\<close>, \<open>ValueError\<close> when there is none.\<close>

fun py_index :: "'a list \<Rightarrow> 'a \<Rightarrow> py_error + nat" where
  "py_index [] x = Inl ValueError_index"
| "py_index (y # ys) x = (if y = x then Inr 0 else py_bind (py_index ys x) (\<lambda>i. Inr (Suc i)))"

section \<open>Strings\<close>

text \<open>The characters \<open>str.isspace\<close> accepts among the ASCII ones.\<close>

definition py_isspace :: "char \<Rightarrow> bool" where
  "py_isspace c \<longleftrightarrow>
     c = CHR '' '' \<or> c = CHR 0x09 \<or> c = CHR 0x0A \<or> c = CHR 0x0B \<or> c = CHR 0x0C \<or>
     c = CHR 0x0D \<or> c = CHR 0x1C \<or> c = CHR 0x1D \<or> c = CHR 0x1E \<or> c = CHR 0x1F"

definition py_lstrip :: "string \<Rightarrow> string" where
  "py_lstrip s = dropWhile py_isspace s"

definition py_strip :: "string \<Rightarrow> string" where
  "py_strip s = rev (py_lstrip (rev (py_lstrip s)))"

text \<open>\<open>str(n)\<close> of a natural number, and \<open>os.path.basename\<close>.\<close>

fun py_nat_str :: "nat \<Rightarrow> string" where
  "py_nat_str n =
     (if n < 10 then [''0123456789'' ! n]
      else py_nat_str (n div 10) @ [''0123456789'' ! (n mod 10)])"

definition py_basename :: "string \<Rightarrow> string" where
  "py_basename p = rev (takeWhile (\<lambda>c. c \<noteq> CHR ''/'') (rev p))"

text \<open>\<open>s.split(sep)\<close> with a one-character separator: the pieces between the separators,
  empty ones included (\<open>"".split(sep)\<close> is \<open>[""]\<close>), and \<open>sep.join(xs)\<close>.\<close>

fun py_split_on :: "char \<Rightarrow> string \<Rightarrow> string list" where
  "py_split_on c [] = [[]]"
| "py_split_on c (x # xs) =
     (if x = c then [] # py_split_on c xs
      else (let ls = py_split_on c xs in (x # hd ls) # tl ls))"

fun py_join :: "string \<Rightarrow> string list \<Rightarrow> string" where
  "py_join sep [] = []"
| "py_join sep [x] = x"
| "py_join sep (x # y # ys) = x @ sep @ py_join sep (y # ys)"

text \<open>\<open>s.find(p)\<close>: the index of the first occurrence of \<open>p\<close> in \<open>s\<close>, \<open>None\<close> for
  Python's \<open>-1\<close>; \<open>p in s\<close> is \<open>py_find p s \<noteq> None\<close>.\<close>

fun py_find :: "string \<Rightarrow> string \<Rightarrow> nat option" where
  "py_find p [] = (if p = [] then Some 0 else None)"
| "py_find p (c # s) = (if take (length p) (c # s) = p then Some 0 else map_option Suc (py_find p s))"

text \<open>\<open>s[:i]\<close>: a negative \<open>i\<close> counts from the end.\<close>

definition py_take :: "int \<Rightarrow> 'a list \<Rightarrow> 'a list" where
  "py_take i xs = (if 0 \<le> i then take (nat i) xs else take (nat (int (length xs) + i)) xs)"

section \<open>Lemmas on the runtime model\<close>

lemma py_get_obj [py_simps]:
  "py_get (JObj kvs) k dflt = Inr (case map_of kvs k of Some v \<Rightarrow> v | None \<Rightarrow> dflt)"
  by (simp add: py_get_def)

lemma py_get_not_obj [py_simps]:
  "(\<forall>kvs. d \<noteq> JObj kvs) \<Longrightarrow> py_get d k dflt = Inl (AttributeError (py_type_name d))"
  by (cases d) (auto simp: py_get_def)

lemma py_subscript_obj [py_simps]:
  "py_subscript (JObj kvs) k = (case map_of kvs k of Some v \<Rightarrow> Inr v | None \<Rightarrow> Inl (KeyError k))"
  by (simp add: py_subscript_def)

lemma py_contains_obj [py_simps]:
  "py_contains (JObj kvs) k = Inr (k \<in> fst ` set kvs)"
  by (simp add: py_contains_def)

lemma py_contains_obj_map_of:
  "py_contains (JObj kvs) k = Inr (map_of kvs k \<noteq> None)"
  by (simp add: py_contains_def map_of_eq_None_iff)

lemma py_bind_Inl [simp, py_simps]: "py_bind (Inl e) f = Inl e"
  by (simp add: py_bind_def)

lemma py_bind_Inr [simp, py_simps]: "py_bind (Inr a) f = f a"
  by (simp add: py_bind_def)

lemma py_bind_eq_Inr:
  "py_bind r f = Inr b \<longleftrightarrow> (\<exists>a. r = Inr a \<and> f a = Inr b)"
  by (cases r) auto

lemma py_iter_JArr [simp, py_simps]: "py_iter (JArr xs) = Inr xs"
  by (simp add: py_iter_def)

lemma py_iter_truthy:
  "py_iter v = Inr xs \<Longrightarrow> xs \<noteq> [] \<Longrightarrow> truthy v"
  by (cases v) (auto simp: py_iter_def)

lemma py_append_JArr [simp, py_simps]: "py_append (JArr xs) x = Inr (xs @ [x])"
  by (simp add: py_append_def)

lemma py_append_not_list:
  "(\<forall>xs. v \<noteq> JArr xs) \<Longrightarrow> py_append v x = Inl (AttributeError (py_type_name v))"
  by (cases v) (auto simp: py_append_def)

lemma py_map_Inr_length:
  "py_map f xs = Inr ys \<Longrightarrow> length ys = length xs"
  by (induction xs arbitrary: ys) (auto simp: py_bind_eq_Inr)

lemma map_of_Some_key:
  "map_of kvs k = Some v \<Longrightarrow> k \<in> fst ` set kvs"
  by (induction kvs) (auto split: if_splits)

lemma key_map_of_Some:
  "k \<in> fst ` set kvs \<Longrightarrow> \<exists>v. map_of kvs k = Some v"
  by (induction kvs) auto

text \<open>What \<open>strip\<close> leaves has no whitespace at either end, and stripping twice is
  stripping once.\<close>

lemma py_lstrip_head:
  "py_lstrip s \<noteq> [] \<Longrightarrow> \<not> py_isspace (hd (py_lstrip s))"
  unfolding py_lstrip_def using hd_dropWhile by blast

lemma py_lstrip_idem [simp]: "py_lstrip (py_lstrip s) = py_lstrip s"
  by (induction s) (auto simp: py_lstrip_def)

lemma py_lstrip_Nil [simp]: "py_lstrip [] = []"
  by (simp add: py_lstrip_def)

lemma py_lstrip_rev_lstrip:
  "py_lstrip (rev (py_lstrip (rev (py_lstrip s)))) = rev (py_lstrip (rev (py_lstrip s)))"
proof (cases "py_lstrip s")
  case Nil
  then show ?thesis by simp
next
  case (Cons c cs)
  then have c: "\<not> py_isspace c" using py_lstrip_head [of s] by simp
  have "py_lstrip (rev (c # cs)) = py_lstrip (rev cs) @ [c]"
    using c by (simp add: py_lstrip_def dropWhile_append3)
  then have "rev (py_lstrip (rev (c # cs))) = c # rev (py_lstrip (rev cs))" by simp
  then show ?thesis using c Cons by (simp add: py_lstrip_def)
qed

lemma py_strip_idem [simp]: "py_strip (py_strip s) = py_strip s"
  by (simp add: py_strip_def py_lstrip_rev_lstrip)

lemma py_strip_Nil [simp]: "py_strip [] = []"
  by (simp add: py_strip_def)

lemma py_strip_all_space:
  assumes "\<forall>c \<in> set s. py_isspace c"
  shows "py_strip s = []"
proof -
  from assms have "py_lstrip s = []" by (simp add: py_lstrip_def)
  then show ?thesis by (simp add: py_strip_def)
qed

lemma json_load_dump [simp]: "json_load (json_dump fs path v) path = Inr v"
  by (simp add: json_load_def json_dump_def)

lemma json_load_dump_other:
  "path' \<noteq> path \<Longrightarrow> json_load (json_dump fs path v) path' = json_load fs path'"
  by (simp add: json_load_def json_dump_def)

lemma py_index_Inr:
  "py_index xs x = Inr i \<Longrightarrow> i < length xs \<and> xs ! i = x"
  by (induction xs arbitrary: i) (auto simp: py_bind_eq_Inr split: if_splits)

lemma py_index_Inl:
  "py_index xs x = Inl e \<longleftrightarrow> x \<notin> set xs \<and> e = ValueError_index"
  by (induction xs) (auto simp: py_bind_def split: sum.splits)

text \<open>Removing the \<open>i\<close>-th element of a list (a thread that finished) from a count.\<close>

lemma filter_remove_nth:
  "i < length ws \<Longrightarrow>
   length (filter P ws) = length (filter P (take i ws @ drop (Suc i) ws)) + (if P (ws ! i) then 1 else 0)"
proof -
  assume "i < length ws"
  then have "ws = take i ws @ ws ! i # drop (Suc i) ws" by (simp add: id_take_nth_drop)
  then have "length (filter P ws) = length (filter P (take i ws @ ws ! i # drop (Suc i) ws))"
    by simp
  then show ?thesis by simp
qed

lemma py_split_on_not_Nil [simp]: "py_split_on c s \<noteq> []"
  by (induction s) (simp_all add: Let_def)

lemma py_join_split_on: "py_join [c] (py_split_on c s) = s"
proof (induction s)
  case Nil
  then show ?case by simp
next
  case (Cons x xs)
  obtain l ls where ls: "py_split_on c xs = l # ls"
    by (cases "py_split_on c xs") simp_all
  from Cons ls show ?case
    by (cases ls) (auto simp: Let_def)
qed

lemma py_split_on_pieces: "l \<in> set (py_split_on c s) \<Longrightarrow> c \<notin> set l"
proof (induction s arbitrary: l)
  case Nil
  then show ?case by simp
next
  case (Cons x xs)
  obtain l' ls where ls: "py_split_on c xs = l' # ls"
    by (cases "py_split_on c xs") simp_all
  with Cons show ?case by (auto simp: Let_def split: if_splits)
qed

lemma list_all_remove_nth: "list_all P xs \<Longrightarrow> list_all P (take i xs @ drop (Suc i) xs)"
  by (auto simp: list_all_iff dest: in_set_takeD in_set_dropD)

text \<open>\<open>find\<close>: its result lies inside the string, a first character that does not
  occur is not found, and a prefix without that character only shifts the index.\<close>

lemma py_find_Some: "py_find p s = Some i \<Longrightarrow> i + length p \<le> length s"
proof (induction p s arbitrary: i rule: py_find.induct)
  case (1 p)
  then show ?case by (simp split: if_splits)
next
  case (2 p c s)
  show ?case
  proof (cases "take (length p) (c # s) = p")
    case True
    with "2.prems" have "i = 0" by simp
    moreover from True have "length p \<le> length (c # s)" by (metis length_take min.cobounded1)
    ultimately show ?thesis by simp
  next
    case False
    with "2.prems" obtain k where "py_find p s = Some k" "i = Suc k" by auto
    with "2.IH" [OF False] show ?thesis by simp
  qed
qed

lemma py_find_None: "p \<noteq> [] \<Longrightarrow> hd p \<notin> set s \<Longrightarrow> py_find p s = None"
  by (induction p s rule: py_find.induct) (auto simp: neq_Nil_conv)

lemma py_find_skip: "p \<noteq> [] \<Longrightarrow> hd p \<notin> set a \<Longrightarrow> py_find p (a @ s) = map_option ((+) (length a)) (py_find p s)"
proof (induction a)
  case Nil
  then show ?case by (simp add: option.map_ident)
next
  case (Cons x a)
  then have "take (length p) (x # a @ s) \<noteq> p" by (cases p) auto
  with Cons show ?case by (simp add: option.map_comp comp_def)
qed

lemma py_find_at: "p \<noteq> [] \<Longrightarrow> hd p \<notin> set a \<Longrightarrow> py_find p (a @ p @ b) = Some (length a)"
  by (simp add: py_find_skip) (cases p; simp)

end
