(* ===== verification/Chat_Protocol.thy ===== *)
theory Chat_Protocol
  imports Py_Prelude
begin

text \<open>
  The exchange with the language-model service that every client of the repository
  reimplements, written once from the Tk client \<open>src/gui_app/ollama_gui.py\<close>. The
  other clients repeat these lines character for character, or their own theory says
  where they differ:
  \<^item> a chat message is the dict \<open>{"role": r, "content": c}\<close> (\<open>msg\<close>);
  \<^item> the outgoing message list is the stripped system prompt (only when it is not
    empty) followed by the history (\<open>request_messages\<close>);
  \<^item> the request body is \<open>{"model", "messages", "stream": False, "options"}\<close>
    (\<open>chat_payload\<close>);
  \<^item> what comes back from \<open>requests\<close> is an HTTP status with a body, or an exception
    (\<open>http_result\<close>);
  \<^item> a reply is accepted when \<open>data.get("message") and data["message"].get("content")\<close>
    holds (\<open>reply_content\<close>);
  \<^item> a non-200 reply is reported by its status, or by the service's \<open>error\<close> field
    (\<open>status_error\<close>);
  \<^item> the model catalogue is \<open>[m["name"] for m in data.get("models", [])]\<close>
    (\<open>fetch_model_names\<close>).
  The notices a client shows for a failure are values of \<open>notice\<close>; their rendering as
  text (\<open>str(e)\<close> of an exception) is presentation and not modelled.
\<close>

section \<open>Messages, results and notices\<close>

definition msg :: "string \<Rightarrow> json \<Rightarrow> json" where
  "msg role content = JObj [(''role'', JStr role), (''content'', content)]"

text \<open>The outcome of \<open>requests.get\<close> / \<open>requests.post\<close>: the status code with the body as
  \<open>response.json()\<close> decodes it (\<open>None\<close> when the body is not JSON, so that
  \<open>response.json()\<close> raises), or the exception \<open>requests\<close> raised (connection refused,
  timeout), with its message.\<close>

datatype http_result =
    Http_response nat "json option"
  | Http_exception string

datatype exn =
    Transport_error string  \<comment> \<open>raised by \<open>requests\<close>\<close>
  | Runtime_error py_error  \<comment> \<open>raised by the client's own code\<close>

datatype notice =
    Empty_response          \<comment> \<open>\<open>"Error: Received empty response from model."\<close>\<close>
  | Api_status nat          \<comment> \<open>\<open>f"Error: API returned {status}"\<close>\<close>
  | Service_error json      \<comment> \<open>\<open>f"Error: {error_data['error']}"\<close>\<close>
  | Exception_raised exn    \<comment> \<open>\<open>f"Error: {str(e)}"\<close>\<close>

section \<open>The request\<close>

text \<open>\<open>ollama_gui.py\<close>, \<open>send_message\<close>: the system message is added only when the
  stripped prompt is not empty; then the history is appended (\<open>messages.extend\<close>).\<close>

definition request_messages :: "string \<Rightarrow> json list \<Rightarrow> json list" where
  "request_messages system_prompt history =
     (let sp = py_strip system_prompt
      in (if sp \<noteq> [] then [msg ''system'' (JStr sp)] else []) @ history)"

definition chat_payload :: "json \<Rightarrow> json list \<Rightarrow> json \<Rightarrow> json \<Rightarrow> json" where
  "chat_payload model messages temperature num_predict =
     JObj [(''model'', model), (''messages'', JArr messages), (''stream'', JBool False),
           (''options'', JObj [(''temperature'', temperature), (''num_predict'', num_predict)])]"

section \<open>The reply\<close>

text \<open>
  \<^verbatim>\<open>if data.get("message") and data["message"].get("content"):
    content = data["message"]["content"]\<close>
  \<open>Inr (Some c)\<close>: the reply is accepted with content \<open>c\<close>; \<open>Inr None\<close>: the else
  branch (empty response); \<open>Inl e\<close>: the test itself raised (a body that is not a dict,
  or a \<open>message\<close> that is not one).
\<close>

definition reply_content :: "json \<Rightarrow> py_error + json option" where
  "reply_content data =
     py_bind (py_get data ''message'' JNull) (\<lambda>m.
       if \<not> truthy m then Inr None
       else py_bind (py_subscript data ''message'') (\<lambda>m'.
         py_bind (py_get m' ''content'' JNull) (\<lambda>c.
           if \<not> truthy c then Inr None
           else py_bind (py_subscript data ''message'') (\<lambda>m''.
             py_bind (py_subscript m'' ''content'') (\<lambda>c'. Inr (Some c'))))))"

text \<open>
  A non-200 status: \<^verbatim>\<open>error_msg = f"Error: API returned {response.status_code}"
try:
    error_data = response.json()
    if error_data.get("error"):
        error_msg = f"Error: {error_data['error']}"
except:
    pass\<close>
\<close>

definition status_error :: "nat \<Rightarrow> json option \<Rightarrow> notice" where
  "status_error status body =
     (case body of
        None \<Rightarrow> Api_status status
      | Some error_data \<Rightarrow>
          (case py_get error_data ''error'' JNull of
             Inl _ \<Rightarrow> Api_status status
           | Inr e \<Rightarrow>
               if truthy e
               then (case py_subscript error_data ''error'' of
                       Inl _ \<Rightarrow> Api_status status
                     | Inr e' \<Rightarrow> Service_error e')
               else Api_status status))"

section \<open>The model catalogue\<close>

definition fetch_model_names :: "json \<Rightarrow> py_error + json list" where
  "fetch_model_names data =
     py_bind (py_get data ''models'' (JArr [])) (\<lambda>ms.
       py_bind (py_iter ms) (\<lambda>items. py_map (\<lambda>m. py_subscript m ''name'') items))"

section \<open>Lemmas\<close>

lemma msg_eq_iff [simp]: "msg r c = msg r' c' \<longleftrightarrow> r = r' \<and> c = c'"
  by (simp add: msg_def)

text \<open>The reply test, case by case: the shape of the decoded body decides it.\<close>

lemma reply_content_obj [chat_simps]:
  "reply_content (JObj kvs) =
     (case map_of kvs ''message'' of
        None \<Rightarrow> Inr None
      | Some m \<Rightarrow>
          if \<not> truthy m then Inr None
          else (case m of
                  JObj ms \<Rightarrow>
                    (case map_of ms ''content'' of
                       None \<Rightarrow> Inr None
                     | Some c \<Rightarrow> if truthy c then Inr (Some c) else Inr None)
                | _ \<Rightarrow> Inl (AttributeError (py_type_name m))))"
  by (auto simp: reply_content_def py_get_def py_subscript_def
      split: option.splits json.splits)

lemma reply_content_not_obj [chat_simps]:
  "(\<forall>kvs. data \<noteq> JObj kvs) \<Longrightarrow>
   reply_content data = Inl (AttributeError (py_type_name data))"
  by (cases data) (simp_all add: reply_content_def py_get_def)

lemma reply_content_Some:
  "reply_content data = Inr (Some c) \<longleftrightarrow>
   (\<exists>kvs ms. data = JObj kvs \<and> map_of kvs ''message'' = Some (JObj ms) \<and> ms \<noteq> [] \<and>
             map_of ms ''content'' = Some c \<and> truthy c)"
proof (cases data)
  case (JObj kvs)
  then show ?thesis
    by (auto simp: reply_content_obj split: option.splits json.splits if_splits)
qed (simp_all add: reply_content_not_obj)

lemma reply_content_Some_truthy:
  "reply_content data = Inr (Some c) \<Longrightarrow> truthy c"
  by (simp add: reply_content_Some) blast

lemma request_messages_suffix [chat_simps]:
  "\<exists>pre. request_messages sp h = pre @ h \<and> length pre \<le> 1"
  by (auto simp: request_messages_def Let_def)

lemma request_messages_empty_prompt [chat_simps]:
  "py_strip sp = [] \<Longrightarrow> request_messages sp h = h"
  by (simp add: request_messages_def)

lemma request_messages_prompt [chat_simps]:
  "py_strip sp \<noteq> [] \<Longrightarrow> request_messages sp h = msg ''system'' (JStr (py_strip sp)) # h"
  by (simp add: request_messages_def)

lemma fetch_model_names_length:
  "fetch_model_names (JObj kvs) = Inr names \<Longrightarrow> map_of kvs ''models'' = Some (JArr ms) \<Longrightarrow>
   length names = length ms"
  by (auto simp: fetch_model_names_def py_get_def py_bind_eq_Inr dest: py_map_Inr_length)

section \<open>Properties of the exchange\<close>

text \<open>The reply test accepts any truthy \<open>content\<close>, not only text: a reply whose
  content is a number, a list or a dict is taken as the assistant's answer and stored in the
  history as it is.\<close>

theorem reply_accepts_any_truthy_content:
  assumes "truthy c"
  shows "reply_content (JObj [(''message'', JObj [(''content'', c)])]) = Inr (Some c)"
  using assms by (simp add: reply_content_obj)

theorem reply_accepts_any_truthy_content_witness:
  "truthy (JInt 5) \<and>
   reply_content (JObj [(''message'', JObj [(''content'', JInt 5)])]) = Inr (Some (JInt 5))"
proof -
  have "truthy (JInt 5)" by simp
  with reply_accepts_any_truthy_content [OF this] show ?thesis by simp
qed

text \<open>A reply body without a \<open>message\<close> key is handled exactly like a reply whose
  content is empty: the code does not tell a malformed body from an empty answer.\<close>

theorem missing_message_reads_as_empty:
  assumes "map_of kvs ''message'' = None"
  shows "reply_content (JObj kvs) = Inr None \<and>
         reply_content (JObj kvs) = reply_content (JObj [(''message'', JObj [(''content'', JStr [])])])"
  using assms by (simp add: reply_content_obj)

theorem missing_message_reads_as_empty_witness:
  "reply_content (JObj [(''done'', JBool True)]) = Inr None"
proof -
  have "map_of [(''done'', JBool True)] ''message'' = None" by simp
  from missing_message_reads_as_empty [OF this] show ?thesis by simp
qed

text \<open>A system prompt made of whitespace only is omitted from the request, which
  is then the history alone.\<close>

theorem blank_prompt_omitted:
  assumes "\<forall>c \<in> set sp. py_isspace c"
  shows "request_messages sp h = h"
proof -
  from assms have "py_strip sp = []" by (rule py_strip_all_space)
  then show ?thesis by (rule request_messages_empty_prompt)
qed

theorem blank_prompt_omitted_witness:
  "request_messages '' \<newline> '' [msg ''user'' (JStr ''Hello'')] = [msg ''user'' (JStr ''Hello'')]"
proof -
  have "\<forall>c \<in> set '' \<newline> ''. py_isspace c" by (simp add: py_isspace_def)
  from blank_prompt_omitted [OF this] show ?thesis .
qed

end
