(* ===== verification/Tk_Client.thy ===== *)
theory Tk_Client
  imports Chat_Protocol
begin

text \<open>
  The Tk client \<open>src/gui_app/ollama_gui.py\<close>, class \<open>OllamaChatGUI\<close>: its state and
  the handlers that change it, each as a function on the state record \<open>tk_gui\<close>, in the
  order of the source. The work done off the UI thread (the \<open>generate\<close> and \<open>fetch\<close>
  closures) is modelled as the callbacks it schedules with \<open>root.after(0, ...)\<close>; the
  threads themselves and their interleaving with the UI are the subject of
  \<open>Tk_Session\<close>.

  Widgets are modelled by their content: the input box and the system-prompt box by their
  text, the Tk variables \<open>temperature\<close> and \<open>max_tokens\<close> by the value they hold (a JSON
  number when set from the UI; \<open>get()\<close> raises \<open>TclError\<close> on anything else), the chat
  display by the list of entries \<open>add_to_chat\<close> inserted (tag and message; the timestamp
  and the code-block formatting are presentation), the status label by a value of
  \<open>status\<close>, and message boxes by the list of dialogs shown.
\<close>

section \<open>State\<close>

text \<open>The tag \<open>add_to_chat\<close> chooses from the role: \<open>"user"\<close>, \<open>"assistant"\<close>, and
  everything else shown as a system line.\<close>

datatype tag = Tag_user | Tag_assistant | Tag_system

datatype chat_text =
    Text json               \<comment> \<open>a message's content\<close>
  | Notice notice           \<comment> \<open>an error notice\<close>
  | Welcome                 \<comment> \<open>\<open>"Welcome to Ollama Chat! Select a model to start chatting."\<close>\<close>
  | Model_selected string   \<comment> \<open>\<open>f"Model '{model}' selected. Start chatting!"\<close>\<close>
  | Loaded_from string      \<comment> \<open>\<open>f"Chat loaded from {basename}"\<close>\<close>

datatype status =
    St_ready | St_fetching_models | St_found_models nat | St_no_models_found
  | St_api_returned nat | St_generating | St_error
  | St_saved string | St_loaded string   \<comment> \<open>\<open>f"Chat saved to {basename}"\<close>, \<open>"Chat loaded from ..."\<close>\<close>
  | St_text_copied | St_no_text_selected        \<comment> \<open>\<open>copy_selected\<close>\<close>
  | St_response_copied | St_no_response         \<comment> \<open>\<open>copy_last_response\<close>\<close>

datatype dialog =
    Warning string          \<comment> \<open>\<open>messagebox.showwarning\<close>, by title\<close>
  | Error_box string        \<comment> \<open>\<open>messagebox.showerror\<close>, by title\<close>
  | Ask_yes_no string       \<comment> \<open>\<open>messagebox.askyesno\<close>, by title\<close>
  | Info_box string         \<comment> \<open>\<open>messagebox.showinfo\<close>, by title\<close>

record tk_gui =
  models :: "json list"
  selected_model :: string
  temperature :: json
  max_tokens :: json
  system_prompt_text :: string
  user_input :: string
  chat_history :: json
  is_generating :: bool
  chat_display :: "(tag \<times> chat_text) list"
  status_label :: status
  dialogs :: "dialog list"

text \<open>\<open>__init__\<close>: the variables, the welcome line of \<open>setup_chat_panel\<close>, and the
  status \<open>fetch_models\<close> sets before it starts its thread.\<close>

definition tk_gui_init :: tk_gui where
  "tk_gui_init =
     \<lparr>models = [], selected_model = [], temperature = JFloat (7 / 10), max_tokens = JInt 1024,
      system_prompt_text = [], user_input = [], chat_history = JArr [], is_generating = False,
      chat_display = [(Tag_system, Welcome)], status_label = St_fetching_models, dialogs = []\<rparr>"

section \<open>Reading the Tk variables\<close>

definition tk_get_double :: "json \<Rightarrow> py_error + real" where
  "tk_get_double v =
     (case v of JFloat r \<Rightarrow> Inr r | JInt i \<Rightarrow> Inr (of_int i) | _ \<Rightarrow> Inl TclError)"

text \<open>\<open>IntVar.get()\<close> falls back to \<open>int(getdouble(value))\<close>, which truncates.\<close>

definition tk_get_int :: "json \<Rightarrow> py_error + int" where
  "tk_get_int v =
     (case v of
        JInt i \<Rightarrow> Inr i
      | JFloat r \<Rightarrow> Inr (if 0 \<le> r then \<lfloor>r\<rfloor> else \<lceil>r\<rceil>)
      | _ \<Rightarrow> Inl TclError)"

section \<open>Handlers\<close>

text \<open>\<open>update_models\<close>: the catalogue fetched by \<open>fetch\<close>.\<close>

definition update_models :: "json list \<Rightarrow> tk_gui \<Rightarrow> tk_gui" where
  "update_models ms g =
     (if ms \<noteq> [] then g\<lparr>models := ms, status_label := St_found_models (length ms)\<rparr>
      else g\<lparr>models := ms, status_label := St_no_models_found,
              dialogs := dialogs g @ [Warning ''No Models Found'']\<rparr>)"

definition role_tag :: "json \<Rightarrow> tag" where
  "role_tag role =
     (if role = JStr ''user'' then Tag_user
      else if role = JStr ''assistant'' then Tag_assistant
      else Tag_system)"

definition add_to_chat :: "chat_text \<Rightarrow> json \<Rightarrow> tk_gui \<Rightarrow> tk_gui" where
  "add_to_chat message role g = g\<lparr>chat_display := chat_display g @ [(role_tag role, message)]\<rparr>"

definition clear_chat :: "tk_gui \<Rightarrow> tk_gui" where
  "clear_chat g =
     (let g' = g\<lparr>chat_history := JArr [], chat_display := []\<rparr>
      in if selected_model g' \<noteq> []
         then add_to_chat (Model_selected (selected_model g')) (JStr ''system'') g'
         else add_to_chat Welcome (JStr ''system'') g')"

text \<open>\<open>on_model_selected\<close>, run by the combobox after it stored the choice.\<close>

definition on_model_selected :: "tk_gui \<Rightarrow> tk_gui" where
  "on_model_selected g =
     (let model = selected_model g
      in if model \<noteq> []
         then add_to_chat (Model_selected model) (JStr ''system'') (clear_chat g)
         else g)"

text \<open>The body \<open>generate\<close> builds before it posts: the Tk variables are read there.\<close>

definition tk_payload :: "tk_gui \<Rightarrow> string \<Rightarrow> json list \<Rightarrow> py_error + json" where
  "tk_payload g model messages =
     py_bind (tk_get_double (temperature g)) (\<lambda>t.
       py_bind (tk_get_int (max_tokens g)) (\<lambda>n.
         Inr (chat_payload (JStr model) messages (JFloat t) (JInt n))))"

text \<open>What \<open>send_message\<close> ends with: returned early, raised (the history is not a list,
  so \<open>append\<close> fails), or started \<open>generate\<close> on a payload (or on the exception building
  it raises inside \<open>generate\<close>'s \<open>try\<close>).\<close>

datatype send_result =
    Send_ignored
  | Send_raised py_error
  | Send_started "py_error + json"

definition send_message :: "tk_gui \<Rightarrow> tk_gui \<times> send_result" where
  "send_message g =
     (if is_generating g then (g, Send_ignored)
      else
        let message = py_strip (user_input g)
        in if message = [] then (g, Send_ignored)
        else if selected_model g = []
        then (g\<lparr>dialogs := dialogs g @ [Warning ''No Model Selected'']\<rparr>, Send_ignored)
        else
          let g1 = (add_to_chat (Text (JStr message)) (JStr ''user'') g)\<lparr>user_input := []\<rparr>
          in (case py_append (chat_history g1) (msg ''user'' (JStr message)) of
                Inl e \<Rightarrow> (g1, Send_raised e)
              | Inr h \<Rightarrow>
                  let messages = request_messages (system_prompt_text g1) h
                  in (g1\<lparr>chat_history := JArr h, is_generating := True,
                         status_label := St_generating\<rparr>,
                      Send_started (tk_payload g1 (selected_model g1) messages))))"

definition new_chat :: "bool \<Rightarrow> tk_gui \<Rightarrow> tk_gui" where
  "new_chat answer g =
     (if truthy (chat_history g)
      then (let g' = g\<lparr>dialogs := dialogs g @ [Ask_yes_no ''New Chat'']\<rparr>
            in if answer then clear_chat g' else g')
      else clear_chat g)"

definition fetch_models :: "tk_gui \<Rightarrow> tk_gui" where
  "fetch_models g = g\<lparr>status_label := St_fetching_models\<rparr>"

section \<open>The callbacks the worker threads schedule\<close>

text \<open>
  Each \<open>self.root.after(0, lambda: ...)\<close> of \<open>generate\<close> and \<open>fetch\<close> is one value.
  \<open>Cb_name_error\<close> is a lambda of an \<open>except Exception as e:\<close> clause that reads
  \<open>e\<close>: Python 3 deletes \<open>e\<close> when the clause ends, so when the main loop later runs
  the lambda it raises \<open>NameError\<close> and shows nothing.
\<close>

datatype tk_callback =
    Cb_add_to_chat chat_text json
  | Cb_status status
  | Cb_update_models "json list"
  | Cb_name_error
  | Cb_reset_generating

fun run_callback :: "tk_callback \<Rightarrow> tk_gui \<Rightarrow> tk_gui" where
  "run_callback (Cb_add_to_chat m role) g = add_to_chat m role g"
| "run_callback (Cb_status st) g = g\<lparr>status_label := st\<rparr>"
| "run_callback (Cb_update_models ms) g = update_models ms g"
| "run_callback Cb_name_error g = g"
| "run_callback Cb_reset_generating g = g\<lparr>is_generating := False\<rparr>"

text \<open>
  \<open>generate\<close>: from the payload (or the exception building it raised), the result of
  the POST and the history at the moment the reply arrives (the thread appends to
  whatever list \<open>self.chat_history\<close> is then), the new history and the callbacks
  scheduled, the \<open>finally\<close> clause's reset last.
\<close>

definition generate_except :: "tk_callback list" where
  "generate_except = [Cb_name_error, Cb_status St_error]"

fun generate_body :: "py_error + json \<Rightarrow> http_result \<Rightarrow> json \<Rightarrow> json \<times> tk_callback list" where
  "generate_body (Inl e) r h = (h, generate_except)"
| "generate_body (Inr p) (Http_exception s) h = (h, generate_except)"
| "generate_body (Inr p) (Http_response status body) h =
     (if status = 200 then
        (case body of
           None \<Rightarrow> (h, generate_except)
         | Some data \<Rightarrow>
             (case reply_content data of
                Inl e \<Rightarrow> (h, generate_except)
              | Inr None \<Rightarrow>
                  (h, [Cb_add_to_chat (Notice Empty_response) (JStr ''system''), Cb_status St_error])
              | Inr (Some c) \<Rightarrow>
                  (case py_append h (msg ''assistant'' c) of
                     Inl e \<Rightarrow> (h, generate_except)
                   | Inr h' \<Rightarrow>
                       (JArr h', [Cb_add_to_chat (Text c) (JStr ''assistant''), Cb_status St_ready]))))
      else (h, [Cb_add_to_chat (Notice (status_error status body)) (JStr ''system''), Cb_status St_error]))"

definition generate :: "py_error + json \<Rightarrow> http_result \<Rightarrow> json \<Rightarrow> json \<times> tk_callback list" where
  "generate p r h = (let (h', cbs) = generate_body p r h in (h', cbs @ [Cb_reset_generating]))"

text \<open>\<open>fetch\<close> (of \<open>fetch_models\<close>): both lambdas of its \<open>except\<close> clause read \<open>e\<close>.\<close>

definition fetch :: "http_result \<Rightarrow> tk_callback list" where
  "fetch r =
     (case r of
        Http_response status body \<Rightarrow>
          if status = 200 then
            (case body of
               None \<Rightarrow> [Cb_name_error, Cb_name_error]
             | Some data \<Rightarrow>
                 (case fetch_model_names data of
                    Inl e \<Rightarrow> [Cb_name_error, Cb_name_error]
                  | Inr ms \<Rightarrow> [Cb_update_models ms]))
          else [Cb_status (St_api_returned status)]
      | Http_exception s \<Rightarrow> [Cb_name_error, Cb_name_error])"

section \<open>Lemmas\<close>

text \<open>Frame facts: which handler touches which field. They carry the invariant proofs of
  \<open>Tk_Session\<close>.\<close>

lemma add_to_chat_fields [simp]:
  "is_generating (add_to_chat m r g) = is_generating g"
  "chat_history (add_to_chat m r g) = chat_history g"
  "selected_model (add_to_chat m r g) = selected_model g"
  "models (add_to_chat m r g) = models g"
  "status_label (add_to_chat m r g) = status_label g"
  "dialogs (add_to_chat m r g) = dialogs g"
  "temperature (add_to_chat m r g) = temperature g"
  "max_tokens (add_to_chat m r g) = max_tokens g"
  "system_prompt_text (add_to_chat m r g) = system_prompt_text g"
  "user_input (add_to_chat m r g) = user_input g"
  "chat_display (add_to_chat m r g) = chat_display g @ [(role_tag r, m)]"
  by (simp_all add: add_to_chat_def)

lemma clear_chat_fields [simp]:
  "is_generating (clear_chat g) = is_generating g"
  "chat_history (clear_chat g) = JArr []"
  "selected_model (clear_chat g) = selected_model g"
  by (simp_all add: clear_chat_def Let_def)

lemma update_models_generating [simp]:
  "is_generating (update_models ms g) = is_generating g"
  by (simp add: update_models_def)

lemma on_model_selected_generating [simp]:
  "is_generating (on_model_selected g) = is_generating g"
  by (simp add: on_model_selected_def Let_def)

lemma new_chat_generating [simp]:
  "is_generating (new_chat b g) = is_generating g"
  by (simp add: new_chat_def Let_def)

lemma run_callback_generating:
  "c \<noteq> Cb_reset_generating \<Longrightarrow> is_generating (run_callback c g) = is_generating g"
  by (cases c) simp_all

lemma role_tag_simps [simp]:
  "role_tag (JStr ''user'') = Tag_user"
  "role_tag (JStr ''assistant'') = Tag_assistant"
  "role_tag (JStr ''system'') = Tag_system"
  by (simp_all add: role_tag_def)

text \<open>The guard of \<open>send_message\<close> and what a started send did.\<close>

lemma send_message_generating:
  "is_generating g \<Longrightarrow> send_message g = (g, Send_ignored)"
  by (simp add: send_message_def)

lemma send_message_started:
  assumes "send_message g = (g', Send_started p)"
  shows "\<not> is_generating g \<and> is_generating g' \<and> py_strip (user_input g) \<noteq> [] \<and>
         selected_model g \<noteq> [] \<and>
         (\<exists>h. chat_history g = JArr h \<and>
              chat_history g' = JArr (h @ [msg ''user'' (JStr (py_strip (user_input g)))]) \<and>
              p = tk_payload g (selected_model g)
                    (request_messages (system_prompt_text g)
                       (h @ [msg ''user'' (JStr (py_strip (user_input g)))])))"
  using assms
  by (cases "chat_history g")
     (auto simp: send_message_def Let_def py_append_def tk_payload_def split: if_splits)

lemma send_message_not_started_generating:
  "send_message g = (g', r) \<Longrightarrow> (\<forall>p. r \<noteq> Send_started p) \<Longrightarrow>
   is_generating g' = is_generating g"
  by (auto simp: send_message_def Let_def split: if_splits sum.splits)

text \<open>The callbacks of \<open>generate\<close>: the reset comes exactly once, and last.\<close>

lemma generate_body_no_reset:
  "generate_body p r h = (h', cbs) \<Longrightarrow> Cb_reset_generating \<notin> set cbs"
  by (induction p r h rule: generate_body.induct)
     (auto simp: generate_except_def split: if_splits option.splits sum.splits)

lemma generate_reset_once:
  "generate p r h = (h', cbs) \<Longrightarrow> count_list cbs Cb_reset_generating = 1"
  by (auto simp: generate_def count_list_0_iff split: prod.splits dest: generate_body_no_reset)

lemma fetch_no_reset: "count_list (fetch r) Cb_reset_generating = 0"
  by (auto simp: fetch_def split: http_result.splits option.splits sum.splits)

end
