(* ===== verification/Tk_Session.thy ===== *)
theory Tk_Session
  imports Tk_Client
begin

text \<open>
  The Tk client as a concurrent system (\<open>src/gui_app/ollama_gui.py\<close>): the UI thread,
  the daemon threads started by \<open>send_message\<close> (running \<open>generate\<close>) and by
  \<open>fetch_models\<close> (running \<open>fetch\<close>), and the queue of callbacks the threads post with
  \<open>root.after(0, ...)\<close>, which the Tk main loop runs in order. A state \<open>tk_sys\<close> holds
  the UI state, the threads still running and the queue. A step is one of
  \<^item> a UI event, handled to completion by its handler (the main loop runs one at a time);
  \<^item> a running thread finishing, given the result of its HTTP call: it appends to the
    history (\<open>generate\<close> does so itself, from the thread) and posts its callbacks;
  \<^item> the main loop running the first queued callback.
  Any interleaving of the three is allowed: \<open>tk_step\<close> is a relation. \<open>tk_apply\<close>
  computes one step from a named action, so that a run is a list of actions that
  evaluates by \<open>simp\<close>.

  A thread's appends and posts are taken as one step. Nothing the UI thread can do in
  between depends on the difference: the UI reads the history only in handlers, and a
  handler run between the append and the posts sees the same history as one run just
  after them, with the posted callbacks still queued behind it.
\<close>

section \<open>The system\<close>

datatype tk_worker =
    Generate_worker "py_error + json"   \<comment> \<open>\<open>generate\<close>, with the payload it posts\<close>
  | Fetch_worker                        \<comment> \<open>\<open>fetch\<close>\<close>

fun is_generate :: "tk_worker \<Rightarrow> bool" where
  "is_generate (Generate_worker _) = True"
| "is_generate Fetch_worker = False"

record tk_sys =
  gui :: tk_gui
  workers :: "tk_worker list"
  after_queue :: "tk_callback list"

text \<open>\<open>OllamaChatGUI.__init__\<close> ends with \<open>fetch_models()\<close>: one \<open>fetch\<close> thread runs.\<close>

definition tk_init :: tk_sys where
  "tk_init = \<lparr>gui = tk_gui_init, workers = [Fetch_worker], after_queue = []\<rparr>"

text \<open>The UI events bound in \<open>setup_settings_panel\<close> and \<open>setup_chat_panel\<close>.\<close>

datatype tk_event =
    Ev_type_input string          \<comment> \<open>typing in the input box\<close>
  | Ev_edit_system_prompt string  \<comment> \<open>typing in the system-prompt box\<close>
  | Ev_set_temperature real       \<comment> \<open>the temperature \<open>Scale\<close>, range 0 to 1\<close>
  | Ev_set_max_tokens json        \<comment> \<open>the max-tokens \<open>Entry\<close> or \<open>Scale\<close>\<close>
  | Ev_select_model string        \<comment> \<open>\<open><<ComboboxSelected>>\<close>\<close>
  | Ev_send                       \<comment> \<open>Send button, Ctrl+Return\<close>
  | Ev_new_chat bool              \<comment> \<open>New Chat, with the answer to its question\<close>
  | Ev_clear_chat                 \<comment> \<open>Clear Chat\<close>
  | Ev_refresh_models             \<comment> \<open>Model / Refresh Models\<close>

text \<open>The widgets restrict two events: the scale's range and the read-only combobox,
  whose values are the fetched model names.\<close>

fun tk_event_enabled :: "tk_event \<Rightarrow> tk_gui \<Rightarrow> bool" where
  "tk_event_enabled (Ev_set_temperature r) g = (0 \<le> r \<and> r \<le> 1)"
| "tk_event_enabled (Ev_select_model m) g = (JStr m \<in> set (models g))"
| "tk_event_enabled _ g = True"

fun tk_ui :: "tk_event \<Rightarrow> tk_gui \<Rightarrow> tk_gui \<times> tk_worker list" where
  "tk_ui (Ev_type_input s) g = (g\<lparr>user_input := s\<rparr>, [])"
| "tk_ui (Ev_edit_system_prompt s) g = (g\<lparr>system_prompt_text := s\<rparr>, [])"
| "tk_ui (Ev_set_temperature r) g = (g\<lparr>temperature := JFloat r\<rparr>, [])"
| "tk_ui (Ev_set_max_tokens v) g = (g\<lparr>max_tokens := v\<rparr>, [])"
| "tk_ui (Ev_select_model m) g = (on_model_selected (g\<lparr>selected_model := m\<rparr>), [])"
| "tk_ui Ev_send g =
     (case send_message g of
        (g', Send_started p) \<Rightarrow> (g', [Generate_worker p])
      | (g', _) \<Rightarrow> (g', []))"
| "tk_ui (Ev_new_chat b) g = (new_chat b g, [])"
| "tk_ui Ev_clear_chat g = (clear_chat g, [])"
| "tk_ui Ev_refresh_models g = (fetch_models g, [Fetch_worker])"

definition tk_ui_sys :: "tk_event \<Rightarrow> tk_sys \<Rightarrow> tk_sys" where
  "tk_ui_sys ev s =
     (case tk_ui ev (gui s) of (g', ws) \<Rightarrow> s\<lparr>gui := g', workers := workers s @ ws\<rparr>)"

text \<open>A thread finishing with the result \<open>r\<close> of its HTTP call.\<close>

fun finish_worker :: "tk_worker \<Rightarrow> http_result \<Rightarrow> tk_sys \<Rightarrow> tk_sys" where
  "finish_worker (Generate_worker p) r s =
     (case generate p r (chat_history (gui s)) of
        (h', cbs) \<Rightarrow> s\<lparr>gui := (gui s)\<lparr>chat_history := h'\<rparr>, after_queue := after_queue s @ cbs\<rparr>)"
| "finish_worker Fetch_worker r s = s\<lparr>after_queue := after_queue s @ fetch r\<rparr>"

definition tk_finish :: "nat \<Rightarrow> http_result \<Rightarrow> tk_sys \<Rightarrow> tk_sys" where
  "tk_finish i r s =
     finish_worker (workers s ! i) r (s\<lparr>workers := take i (workers s) @ drop (Suc i) (workers s)\<rparr>)"

definition tk_run_next :: "tk_sys \<Rightarrow> tk_sys" where
  "tk_run_next s =
     (case after_queue s of
        [] \<Rightarrow> s
      | c # cs \<Rightarrow> s\<lparr>gui := run_callback c (gui s), after_queue := cs\<rparr>)"

inductive tk_step :: "tk_sys \<Rightarrow> tk_sys \<Rightarrow> bool" where
  ui_event: "tk_event_enabled ev (gui s) \<Longrightarrow> tk_step s (tk_ui_sys ev s)"
| worker_done: "i < length (workers s) \<Longrightarrow> tk_step s (tk_finish i r s)"
| run_after: "after_queue s \<noteq> [] \<Longrightarrow> tk_step s (tk_run_next s)"

definition tk_reachable :: "tk_sys \<Rightarrow> bool" where
  "tk_reachable s \<longleftrightarrow> tk_step\<^sup>*\<^sup>* tk_init s"

section \<open>Runs as lists of actions\<close>

datatype tk_action =
    Act_ui tk_event
  | Act_finish nat http_result
  | Act_callback

fun tk_apply :: "tk_action \<Rightarrow> tk_sys \<Rightarrow> tk_sys option" where
  "tk_apply (Act_ui ev) s = (if tk_event_enabled ev (gui s) then Some (tk_ui_sys ev s) else None)"
| "tk_apply (Act_finish i r) s = (if i < length (workers s) then Some (tk_finish i r s) else None)"
| "tk_apply Act_callback s = (if after_queue s \<noteq> [] then Some (tk_run_next s) else None)"

fun tk_run :: "tk_action list \<Rightarrow> tk_sys \<Rightarrow> tk_sys option" where
  "tk_run [] s = Some s"
| "tk_run (a # acts) s = (case tk_apply a s of None \<Rightarrow> None | Some t \<Rightarrow> tk_run acts t)"

section \<open>The invariant\<close>

text \<open>The generations the system owes: \<open>generate\<close> threads still running, and their
  final reset callbacks still queued. \<open>is_generating\<close> is set exactly while one is owed.\<close>

definition owed_generations :: "tk_sys \<Rightarrow> nat" where
  "owed_generations s =
     length (filter is_generate (workers s)) + count_list (after_queue s) Cb_reset_generating"

definition tk_inv :: "tk_sys \<Rightarrow> bool" where
  "tk_inv s \<longleftrightarrow> owed_generations s = (if is_generating (gui s) then 1 else 0)"


section \<open>Scenario inputs\<close>

text \<open>The replies of a service that offers one model and answers \<open>"Hi there"\<close>, the
  actions that select that model and send \<open>"Hello"\<close>, and the body \<open>generate\<close> then
  posts. The scenario theorems below run the client on them.\<close>

definition demo_tags_reply :: json where
  "demo_tags_reply = JObj [(''models'', JArr [JObj [(''name'', JStr ''llama3'')]])]"

definition demo_chat_reply :: json where
  "demo_chat_reply = JObj [(''message'', JObj [(''content'', JStr ''Hi there'')])]"

definition demo_prefix :: "tk_action list" where
  "demo_prefix =
     [Act_finish 0 (Http_response 200 (Some demo_tags_reply)), Act_callback,
      Act_ui (Ev_select_model ''llama3''), Act_ui (Ev_type_input ''Hello''), Act_ui Ev_send]"

definition demo_payload :: json where
  "demo_payload = chat_payload (JStr ''llama3'') [msg ''user'' (JStr ''Hello'')] (JFloat (7 / 10)) (JInt 1024)"

section \<open>Lemmas: steps, runs and the invariant\<close>

lemmas tk_eval = tk_ui_sys_def tk_finish_def tk_run_next_def tk_init_def tk_gui_init_def
  send_message_def add_to_chat_def on_model_selected_def clear_chat_def update_models_def
  fetch_def fetch_model_names_def generate_def tk_payload_def tk_get_double_def tk_get_int_def
  request_messages_def py_strip_def py_lstrip_def py_isspace_def role_tag_def Let_def
  demo_tags_reply_def demo_chat_reply_def demo_prefix_def demo_payload_def

lemma tk_apply_step: "tk_apply a s = Some t \<Longrightarrow> tk_step s t"
  by (cases a) (auto intro: tk_step.intros split: if_splits)

lemma tk_step_apply: "tk_step s t \<Longrightarrow> \<exists>a. tk_apply a s = Some t"
proof (induction rule: tk_step.induct)
  case (ui_event ev s)
  then show ?case by (intro exI [of _ "Act_ui ev"]) simp
next
  case (worker_done i s r)
  then show ?case by (intro exI [of _ "Act_finish i r"]) simp
next
  case (run_after s)
  then show ?case by (intro exI [of _ Act_callback]) simp
qed

lemma tk_run_steps: "tk_run acts s = Some t \<Longrightarrow> tk_step\<^sup>*\<^sup>* s t"
proof (induction acts arbitrary: s)
  case Nil
  then show ?case by simp
next
  case (Cons a acts)
  then obtain u where u: "tk_apply a s = Some u" and rest: "tk_run acts u = Some t"
    by (auto split: option.splits)
  from u have "tk_step s u" by (rule tk_apply_step)
  then show ?case using Cons.IH [OF rest] by (rule converse_rtranclp_into_rtranclp)
qed

lemma tk_run_append:
  "tk_run (xs @ ys) s = (case tk_run xs s of None \<Rightarrow> None | Some t \<Rightarrow> tk_run ys t)"
  by (induction xs arbitrary: s) (auto split: option.splits)

lemma tk_ui_generating:
  assumes "tk_ui ev g = (g', ws)"
  shows "(\<not> is_generating g \<and> is_generating g' \<and> length (filter is_generate ws) = 1) \<or>
         (is_generating g' = is_generating g \<and> filter is_generate ws = [])"
proof (cases ev)
  case Ev_send
  show ?thesis
  proof (cases "send_message g")
    case (Pair g1 r)
    with assms Ev_send show ?thesis
      by (cases r) (auto dest: send_message_started send_message_not_started_generating)
  qed
qed (use assms in \<open>auto simp: fetch_models_def\<close>)

lemma tk_inv_ui: "tk_inv s \<Longrightarrow> tk_inv (tk_ui_sys ev s)"
  using tk_ui_generating [of ev "gui s"]
  by (auto simp: tk_inv_def owed_generations_def tk_ui_sys_def split: prod.splits)

lemma tk_inv_finish:
  assumes inv: "tk_inv s" and i: "i < length (workers s)"
  shows "tk_inv (tk_finish i r s)"
proof (cases "workers s ! i")
  case (Generate_worker p)
  obtain h' cbs where g: "generate p r (chat_history (gui s)) = (h', cbs)" by fastforce
  then have "count_list cbs Cb_reset_generating = 1" by (rule generate_reset_once)
  with inv i Generate_worker g filter_remove_nth [OF i, of is_generate] show ?thesis
    by (simp add: tk_inv_def owed_generations_def tk_finish_def)
next
  case Fetch_worker
  with inv i filter_remove_nth [OF i, of is_generate] show ?thesis
    by (simp add: tk_inv_def owed_generations_def tk_finish_def fetch_no_reset)
qed

lemma tk_inv_run_next:
  assumes inv: "tk_inv s"
  shows "tk_inv (tk_run_next s)"
proof (cases "after_queue s")
  case Nil
  with inv show ?thesis by (simp add: tk_run_next_def)
next
  case (Cons c cs)
  show ?thesis
  proof (cases "c = Cb_reset_generating")
    case True
    with inv Cons show ?thesis
      by (auto simp: tk_inv_def owed_generations_def tk_run_next_def split: if_splits)
  next
    case False
    with inv Cons show ?thesis
      by (simp add: tk_inv_def owed_generations_def tk_run_next_def run_callback_generating)
  qed
qed

lemma tk_step_inv: "tk_step s t \<Longrightarrow> tk_inv s \<Longrightarrow> tk_inv t"
  by (induction rule: tk_step.induct) (auto intro: tk_inv_ui tk_inv_finish tk_inv_run_next)

lemma tk_inv_init: "tk_inv tk_init"
  by (simp add: tk_inv_def owed_generations_def tk_init_def tk_gui_init_def)

lemma tk_steps_inv: "tk_step\<^sup>*\<^sup>* s t \<Longrightarrow> tk_inv s \<Longrightarrow> tk_inv t"
  by (induction rule: rtranclp_induct) (auto intro: tk_step_inv)

lemma tk_reachable_inv: "tk_reachable s \<Longrightarrow> tk_inv s"
  unfolding tk_reachable_def using tk_inv_init tk_steps_inv by blast


lemma workers_finish_worker [simp]: "workers (finish_worker w r s) = workers s"
  by (cases w) (simp_all split: prod.splits)


lemma tk_finish_all:
  "length (workers s) = k \<Longrightarrow> \<exists>t. tk_run (replicate k (Act_finish 0 r)) s = Some t \<and> workers t = []"
proof (induction k arbitrary: s)
  case 0
  then show ?case by simp
next
  case (Suc k)
  then have "length (workers (tk_finish 0 r s)) = k" by (simp add: tk_finish_def)
  with Suc.IH obtain t where "tk_run (replicate k (Act_finish 0 r)) (tk_finish 0 r s) = Some t \<and> workers t = []"
    by blast
  with Suc.prems show ?case by simp
qed


lemma tk_drain_queue:
  "length (after_queue s) = k \<Longrightarrow>
   \<exists>t. tk_run (replicate k Act_callback) s = Some t \<and> after_queue t = [] \<and> workers t = workers s"
proof (induction k arbitrary: s)
  case 0
  then show ?case by simp
next
  case (Suc k)
  then obtain c cs where q: "after_queue s = c # cs" by (cases "after_queue s") auto
  with Suc.prems have "length (after_queue (tk_run_next s)) = k" by (simp add: tk_run_next_def)
  with Suc.IH obtain t where t: "tk_run (replicate k Act_callback) (tk_run_next s) = Some t"
    "after_queue t = []" "workers t = workers (tk_run_next s)" by blast
  with q show ?case by (simp add: tk_run_next_def)
qed


lemma tk_reachable_run:
  "tk_reachable s \<Longrightarrow> tk_run acts s = Some t \<Longrightarrow> tk_reachable t"
  unfolding tk_reachable_def by (blast dest: tk_run_steps intro: rtranclp_trans)


lemma is_generate_iff: "is_generate w \<longleftrightarrow> (\<exists>p. w = Generate_worker p)"
  by (cases w) simp_all

lemma ex_generate_worker:
  "(\<exists>w\<in>set ws. is_generate w) \<longleftrightarrow> (\<exists>p. Generate_worker p \<in> set ws)"
  by (auto simp: is_generate_iff)

lemma tk_inv_generating:
  assumes inv: "tk_inv s"
  shows "is_generating (gui s) \<longleftrightarrow>
           (\<exists>p. Generate_worker p \<in> set (workers s)) \<or> Cb_reset_generating \<in> set (after_queue s)"
proof -
  have A: "length (filter is_generate (workers s)) \<noteq> 0 \<longleftrightarrow> (\<exists>p. Generate_worker p \<in> set (workers s))"
    by (simp add: filter_empty_conv ex_generate_worker [symmetric])
  have B: "count_list (after_queue s) Cb_reset_generating \<noteq> 0 \<longleftrightarrow> Cb_reset_generating \<in> set (after_queue s)"
    by (simp add: count_list_0_iff)
  from inv have "is_generating (gui s) \<longleftrightarrow> owed_generations s \<noteq> 0"
    by (simp add: tk_inv_def)
  with A B show ?thesis by (simp add: owed_generations_def)
qed


lemma tk_reachable_init: "tk_reachable tk_init"
  by (simp add: tk_reachable_def)

text \<open>The scenario's prefix: a reachable state with the one generation in flight.\<close>

lemma demo_prefix_run:
  "\<exists>t. tk_run demo_prefix tk_init = Some t \<and> tk_reachable t \<and>
       workers t = [Generate_worker (Inr demo_payload)] \<and> after_queue t = [] \<and>
       chat_history (gui t) = JArr [msg ''user'' (JStr ''Hello'')] \<and> is_generating (gui t)"
proof -
  have "\<exists>t. tk_run demo_prefix tk_init = Some t \<and>
       workers t = [Generate_worker (Inr demo_payload)] \<and> after_queue t = [] \<and>
       chat_history (gui t) = JArr [msg ''user'' (JStr ''Hello'')] \<and> is_generating (gui t)"
    by (simp add: tk_eval chat_simps py_simps)
  then show ?thesis using tk_reachable_run [OF tk_reachable_init] by blast
qed


section \<open>Properties of the Tk client\<close>


text \<open>C1. At most one generation is in flight: in every reachable state at most one \<open>generate\<close> thread runs, and \<open>is_generating\<close> is set exactly while a \<open>generate\<close> thread runs or its final reset callback is still queued.\<close>

theorem at_most_one_generation:
  assumes "tk_reachable s"
  shows "length (filter is_generate (workers s)) \<le> 1 \<and>
         (is_generating (gui s) \<longleftrightarrow>
            (\<exists>p. Generate_worker p \<in> set (workers s)) \<or> Cb_reset_generating \<in> set (after_queue s))"
proof
  from assms have inv: "tk_inv s" by (rule tk_reachable_inv)
  then have "owed_generations s \<le> 1" by (simp add: tk_inv_def)
  then show "length (filter is_generate (workers s)) \<le> 1" by (simp add: owed_generations_def)
  from inv show "is_generating (gui s) \<longleftrightarrow>
      (\<exists>p. Generate_worker p \<in> set (workers s)) \<or> Cb_reset_generating \<in> set (after_queue s)"
    by (rule tk_inv_generating)
qed

theorem at_most_one_generation_witness:
  "\<exists>t. tk_reachable t \<and> is_generating (gui t) \<and>
       length (filter is_generate (workers t)) \<le> 1 \<and> Generate_worker (Inr demo_payload) \<in> set (workers t)"
proof -
  obtain t where t: "tk_reachable t" "workers t = [Generate_worker (Inr demo_payload)]"
    using demo_prefix_run by blast
  with at_most_one_generation [OF t(1)] show ?thesis by auto
qed

text \<open>A second send while a generation is in flight is refused: in a reachable state with a running \<open>generate\<close> thread, the Send event leaves the whole system unchanged (no message appended, no thread started).\<close>

theorem send_ignored_while_generating:
  assumes "tk_reachable s" and "Generate_worker p \<in> set (workers s)"
  shows "tk_ui_sys Ev_send s = s"
proof -
  from assms(1) have "tk_inv s" by (rule tk_reachable_inv)
  with assms(2) have "is_generating (gui s)" by (auto simp: tk_inv_generating)
  then show ?thesis by (simp add: tk_ui_sys_def send_message_generating)
qed


theorem send_ignored_while_generating_witness:
  "\<exists>t. tk_reachable t \<and> Generate_worker (Inr demo_payload) \<in> set (workers t) \<and>
       tk_ui_sys Ev_send t = t"
proof -
  obtain t where t: "tk_reachable t" "workers t = [Generate_worker (Inr demo_payload)]"
    using demo_prefix_run by blast
  then have w: "Generate_worker (Inr demo_payload) \<in> set (workers t)" by simp
  from t(1) w send_ignored_while_generating [OF t(1) w] show ?thesis by blast
qed

text \<open>C3. Every generation completes: from any reachable state, when every running thread finishes (with any result \<open>r\<close> of its HTTP call) and the main loop runs the queued callbacks, the system reaches a state with no thread, no callback and \<open>is_generating\<close> cleared.\<close>

theorem generation_completes:
  assumes "tk_reachable s"
  shows "\<exists>n t. tk_run (replicate (length (workers s)) (Act_finish 0 r) @ replicate n Act_callback) s = Some t \<and>
           workers t = [] \<and> after_queue t = [] \<and> \<not> is_generating (gui t)"
proof -
  obtain t1 where t1: "tk_run (replicate (length (workers s)) (Act_finish 0 r)) s = Some t1" "workers t1 = []"
    using tk_finish_all by blast
  obtain t2 where t2: "tk_run (replicate (length (after_queue t1)) Act_callback) t1 = Some t2"
    "after_queue t2 = []" "workers t2 = workers t1"
    using tk_drain_queue by blast
  have run: "tk_run (replicate (length (workers s)) (Act_finish 0 r) @
                     replicate (length (after_queue t1)) Act_callback) s = Some t2"
    using t1 t2 by (simp add: tk_run_append)
  from assms run have "tk_reachable t2" by (rule tk_reachable_run)
  then have "tk_inv t2" by (rule tk_reachable_inv)
  with t1 t2 have "\<not> is_generating (gui t2)" by (simp add: tk_inv_generating)
  with run t1 t2 show ?thesis by auto
qed


theorem generation_completes_witness:
  "\<exists>t. tk_reachable t \<and> is_generating (gui t) \<and>
       (\<exists>n u. tk_run (replicate (length (workers t)) (Act_finish 0 (Http_exception ''timeout'')) @
                       replicate n Act_callback) t = Some u \<and> \<not> is_generating (gui u))"
proof -
  obtain t where t: "tk_reachable t" "is_generating (gui t)" using demo_prefix_run by blast
  with generation_completes [OF t(1), of "Http_exception ''timeout''"] show ?thesis by blast
qed

text \<open>C4. Sending from an idle client with a non-blank input and a selected model appends exactly the stripped input as a user message, sets \<open>is_generating\<close>, clears the input box, and starts one \<open>generate\<close> thread posting the model, the system prompt (when not blank) followed by the whole history, \<open>stream = False\<close>, and the temperature and \<open>num_predict\<close> options.\<close>

theorem send_builds_request:
  assumes "\<not> is_generating g" "chat_history g = JArr h" "py_strip (user_input g) = m" "m \<noteq> []"
    "selected_model g \<noteq> []" "temperature g = JFloat tt" "max_tokens g = JInt n"
  shows "\<exists>g'. tk_ui Ev_send g =
           (g', [Generate_worker (Inr (chat_payload (JStr (selected_model g))
                   (request_messages (system_prompt_text g) (h @ [msg ''user'' (JStr m)]))
                   (JFloat tt) (JInt n)))]) \<and>
         chat_history g' = JArr (h @ [msg ''user'' (JStr m)]) \<and> is_generating g' \<and> user_input g' = []"
  using assms by (simp add: send_message_def Let_def tk_payload_def tk_get_double_def tk_get_int_def)


theorem send_builds_request_witness:
  "\<exists>g'. tk_ui Ev_send (tk_gui_init\<lparr>selected_model := ''llama3'', user_input := '' Hello\<newline>''\<rparr>) =
          (g', [Generate_worker (Inr (chat_payload (JStr (selected_model (tk_gui_init\<lparr>selected_model := ''llama3'', user_input := '' Hello\<newline>''\<rparr>)))
                  (request_messages (system_prompt_text (tk_gui_init\<lparr>selected_model := ''llama3'', user_input := '' Hello\<newline>''\<rparr>)) ([] @ [msg ''user'' (JStr ''Hello'')]))
                  (JFloat (7 / 10)) (JInt 1024)))]) \<and>
        chat_history g' = JArr ([] @ [msg ''user'' (JStr ''Hello'')]) \<and> is_generating g' \<and> user_input g' = []"
proof -
  let ?g = "(tk_gui_init\<lparr>selected_model := ''llama3'', user_input := '' Hello\<newline>''\<rparr>)"
  have h1: "\<not> is_generating ?g" and h2: "chat_history ?g = JArr []"
    and h5: "selected_model ?g \<noteq> []" and h6: "temperature ?g = JFloat (7 / 10)"
    and h7: "max_tokens ?g = JInt 1024"
    by (simp_all add: tk_gui_init_def)
  have h3: "py_strip (user_input ?g) = ''Hello''"
    by (simp add: py_strip_def py_lstrip_def py_isspace_def)
  have h4: "''Hello'' \<noteq> []" by simp
  show ?thesis by (rule send_builds_request [OF h1 h2 h3 h4 h5 h6 h7])
qed

text \<open>C5. A successful reply (status 200 whose body has a truthy \<open>message.content\<close>) appends exactly one assistant message with that content to the history, and schedules its display, the Ready status and the reset of \<open>is_generating\<close>, in that order.\<close>

theorem reply_appended:
  assumes "reply_content data = Inr (Some c)"
  shows "generate (Inr q) (Http_response 200 (Some data)) (JArr hs) =
           (JArr (hs @ [msg ''assistant'' c]),
            [Cb_add_to_chat (Text c) (JStr ''assistant''), Cb_status St_ready, Cb_reset_generating])"
  using assms by (simp add: generate_def)

theorem reply_appended_witness:
  "generate (Inr demo_payload) (Http_response 200 (Some demo_chat_reply)) (JArr [msg ''user'' (JStr ''Hello'')]) =
     (JArr [msg ''user'' (JStr ''Hello''), msg ''assistant'' (JStr ''Hi there'')],
      [Cb_add_to_chat (Text (JStr ''Hi there'')) (JStr ''assistant''), Cb_status St_ready, Cb_reset_generating])"
proof -
  have "reply_content demo_chat_reply = Inr (Some (JStr ''Hi there''))"
    by (simp add: demo_chat_reply_def chat_simps)
  from reply_appended [OF this] show ?thesis by simp
qed

text \<open>C6. Failures never touch the history: whatever the payload and the HTTP result, \<open>generate\<close> leaves the history unchanged unless the payload was built, the status is 200, the body has truthy content \<open>c\<close> and the history is a list, and then it appends exactly the assistant message \<open>c\<close>.\<close>

theorem failed_reply_keeps_history:
  "fst (generate p r h) = h \<or>
   (\<exists>q data c hs. p = Inr q \<and> r = Http_response 200 (Some data) \<and> reply_content data = Inr (Some c) \<and>
                  h = JArr hs \<and> fst (generate p r h) = JArr (hs @ [msg ''assistant'' c]))"
proof (cases "generate_body p r h")
  case (Pair h' cbs)
  then show ?thesis
    by (induction p r h rule: generate_body.induct)
       (auto simp: generate_def py_append_def split: if_splits option.splits sum.splits json.splits)
qed

text \<open>The spec's end-to-end scenario on the Tk client: after the catalogue arrives, the user selects the model, types \<open>Hello\<close> and sends, and the service answers \<open>Hi there\<close>, the history is exactly the user turn followed by the assistant turn, and the client is idle again.\<close>

theorem end_to_end_round:
  "\<exists>t. tk_run [Act_finish 0 (Http_response 200 (Some demo_tags_reply)), Act_callback,
      Act_ui (Ev_select_model ''llama3''), Act_ui (Ev_type_input ''Hello''), Act_ui Ev_send,
      Act_finish 0 (Http_response 200 (Some demo_chat_reply)),
      Act_callback, Act_callback, Act_callback] tk_init = Some t \<and>
   chat_history (gui t) = JArr [msg ''user'' (JStr ''Hello''), msg ''assistant'' (JStr ''Hi there'')] \<and>
   \<not> is_generating (gui t) \<and> workers t = [] \<and> after_queue t = []"
  by (simp add: tk_eval chat_simps py_simps)

text \<open>C8. The reply lands in whatever conversation is current when it arrives: if the user clears the chat while a generation is in flight, a successful reply is appended to the cleared history, which then holds an assistant turn with no user turn before it.\<close>

theorem reply_lands_in_cleared_chat:
  assumes "workers s = [Generate_worker (Inr q)]" and "reply_content data = Inr (Some c)"
  shows "\<exists>t. tk_run [Act_ui Ev_clear_chat, Act_finish 0 (Http_response 200 (Some data))] s = Some t \<and>
             chat_history (gui t) = JArr [msg ''assistant'' c]"
  using assms by (simp add: tk_ui_sys_def tk_finish_def generate_def)

theorem reply_lands_in_cleared_chat_witness:
  "\<exists>t. tk_reachable t \<and>
       (\<exists>u. tk_run [Act_ui Ev_clear_chat, Act_finish 0 (Http_response 200 (Some demo_chat_reply))] t = Some u \<and>
            chat_history (gui u) = JArr [msg ''assistant'' (JStr ''Hi there'')])"
proof -
  obtain t where t: "tk_reachable t" "workers t = [Generate_worker (Inr demo_payload)]"
    using demo_prefix_run by blast
  have "reply_content demo_chat_reply = Inr (Some (JStr ''Hi there''))"
    by (simp add: demo_chat_reply_def chat_simps)
  with reply_lands_in_cleared_chat [OF t(2)] t(1) show ?thesis by blast
qed



text \<open>A failed model fetch is silent: when the \<open>fetch\<close> thread gets a transport exception, both of its callbacks raise \<open>NameError\<close>, so once they ran the UI state is exactly as before: no dialog, and the status still says it is fetching models.\<close>

theorem fetch_failure_silent:
  assumes "workers s = [Fetch_worker]" and "after_queue s = []"
  shows "\<exists>t. tk_run [Act_finish 0 (Http_exception e), Act_callback, Act_callback] s = Some t \<and>
             gui t = gui s \<and> workers t = [] \<and> after_queue t = []"
  using assms by (simp add: tk_finish_def tk_run_next_def fetch_def)

theorem fetch_failure_silent_witness:
  "\<exists>u. tk_run [Act_finish 0 (Http_exception ''Connection refused''), Act_callback, Act_callback] tk_init = Some u \<and>
       gui u = tk_gui_init \<and> status_label (gui u) = St_fetching_models"
proof -
  have w: "workers tk_init = [Fetch_worker]" and q: "after_queue tk_init = []"
    by (simp_all add: tk_init_def)
  have g: "gui tk_init = tk_gui_init" and st: "status_label tk_gui_init = St_fetching_models"
    by (simp_all add: tk_init_def tk_gui_init_def)
  obtain u where u1: "tk_run [Act_finish 0 (Http_exception ''Connection refused''), Act_callback,
                         Act_callback] tk_init = Some u" and u2: "gui u = gui tk_init"
    using fetch_failure_silent [OF w q, of "''Connection refused''"] by blast
  show ?thesis
  proof (intro exI [of _ u] conjI)
    show "tk_run [Act_finish 0 (Http_exception ''Connection refused''), Act_callback,
            Act_callback] tk_init = Some u" by (fact u1)
    show "gui u = tk_gui_init" using u2 g by simp
    show "status_label (gui u) = St_fetching_models" using u2 g st by simp
  qed
qed

end
