(* ===== verification/Tk_Format.thy ===== *)
theory Tk_Format
  imports Tk_Client
begin

text \<open>
  What the Tk client \<open>src/gui_app/ollama_gui.py\<close> shows in its chat area. \<open>Tk_Client\<close>
  keeps the display as its list of entries (\<open>chat_display\<close>: a tag and a text);
  \<open>add_to_chat\<close> writes each entry into the Text widget as runs of text with a Tk tag.
  A user or assistant message goes through two loops. \<open>code_loop\<close> is
  \<open>while "```" in remaining_text\<close>: the text before a fence, then the stripped code
  block between newlines; an unclosed fence inserts the rest and \<open>break\<close>s with
  \<open>remaining_text\<close> unchanged. \<open>inline_loop\<close> is \<open>while "`" in remaining_text\<close> on what
  is left, with the final insert after it. Both loops are \<open>function\<close>s whose termination
  is proved with the length of the remaining text; \<open>find\<close> is \<open>py_find\<close> of the prelude.
  The environment of the rendering (\<open>tk_render\<close>) is the clock of each entry, Python's
  \<open>str()\<close>, Tcl's text of a list or dict, and the text of an error notice.

  The reference \<open>ref_runs\<close> says what a message of text pieces and fenced code blocks
  shows; the loops agree with it. A message with a single backtick is shown twice, and a
  message with an unclosed fence repeats its text. A value that is not a string, list or
  dict makes \<open>"```" in x\<close> raise after the prefix was written (\<open>content_error\<close>).
\<close>

section \<open>Runs of the Text widget\<close>

datatype wtag = W_plain | W_user | W_assistant | W_system | W_code

type_synonym run = "string \<times> wtag"

abbreviation nl :: string where "nl \<equiv> [CHR 0x0A]"

text \<open>The first loop of \<open>add_to_chat\<close>: the runs it inserts and the \<open>remaining_text\<close>
  it leaves.\<close>

function code_loop :: "string \<Rightarrow> run list \<times> string" where
  "code_loop r =
     (case py_find ''```'' r of
        None \<Rightarrow> ([], r)
      | Some i \<Rightarrow>
          (let before = (if 0 < i then [(take i r, W_plain)] else []) in
           case py_find ''```'' (drop (i + 3) r) of
             None \<Rightarrow> (before @ [(drop i r, W_plain)], r)
           | Some j \<Rightarrow>
               (case code_loop (drop (i + 3 + j + 3) r) of
                  (rs, rest) \<Rightarrow>
                    (before @ [(nl, W_plain), (py_strip (take j (drop (i + 3) r)), W_code), (nl, W_plain)] @ rs,
                     rest))))"
  by pat_completeness auto
termination
proof (relation "measure (\<lambda>r. length r)")
  fix r i
  assume "py_find ''```'' r = Some i"
  then have "i + 3 \<le> length r" using py_find_Some [of "''```''" r i] by simp
  then show "(drop (i + 3 + j + 3) r, r) \<in> measure (\<lambda>r. length r)" for j by simp
qed simp

declare code_loop.simps [simp del]

text \<open>The second loop, \<open>if remaining_text:\<close> included: after its \<open>break\<close> the final
  \<open>if remaining_text:\<close> inserts the same text again.\<close>

function inline_loop :: "string \<Rightarrow> run list" where
  "inline_loop r =
     (case py_find ''`'' r of
        None \<Rightarrow> (if r \<noteq> [] then [(r, W_plain)] else [])
      | Some i \<Rightarrow>
          (case py_find ''`'' (drop (i + 1) r) of
             None \<Rightarrow> [(r, W_plain), (r, W_plain)]
           | Some j \<Rightarrow>
               (if 0 < i then [(take i r, W_plain)] else []) @ [(take j (drop (i + 1) r), W_code)] @
               inline_loop (drop (i + 1 + j + 1) r)))"
  by pat_completeness auto
termination
proof (relation "measure (\<lambda>r. length r)")
  fix r i
  assume "py_find ''`'' r = Some i"
  then have "i + 1 \<le> length r" using py_find_Some [of "''`''" r i] by simp
  then show "(drop (i + 1 + j + 1) r, r) \<in> measure (\<lambda>r. length r)" for j by simp
qed simp

declare inline_loop.simps [simp del]

definition format_message :: "string \<Rightarrow> run list" where
  "format_message s = (case code_loop s of (rs, rest) \<Rightarrow> rs @ inline_loop rest @ [(nl @ nl, W_plain)])"

definition shown_text :: "run list \<Rightarrow> string" where
  "shown_text rs = concat (map fst rs)"

text \<open>What \<open>add_to_chat\<close> needs of the message: a string, or a list or dict that has no
  backtick strings among its elements or keys (for these \<open>"```" in x\<close> is a membership
  test and \<open>find\<close> does not exist); \<open>"```" in x\<close> raises on every other value.\<close>

definition content_error :: "json \<Rightarrow> py_error option" where
  "content_error v =
     (case v of
        JStr s \<Rightarrow> None
      | JArr xs \<Rightarrow> if JStr ''```'' \<in> set xs \<or> JStr ''`'' \<in> set xs then Some (AttributeError (py_type_name v)) else None
      | JObj kvs \<Rightarrow> if ''```'' \<in> fst ` set kvs \<or> ''`'' \<in> fst ` set kvs then Some (AttributeError (py_type_name v)) else None
      | _ \<Rightarrow> Some (TypeError (py_type_name v)))"

definition add_to_chat_error :: "json \<Rightarrow> json \<Rightarrow> py_error option" where
  "add_to_chat_error c r = (if role_tag r = Tag_system then None else content_error c)"

text \<open>The environment of the rendering, and the text of a system line
  \<open>f"\n--- {message} ---\n\n"\<close>.\<close>

record tk_render =
  r_time :: "nat \<Rightarrow> string"
  r_str :: "json \<Rightarrow> string"
  r_tcl :: "json \<Rightarrow> string"
  r_notice :: "notice \<Rightarrow> string"

fun system_line :: "tk_render \<Rightarrow> chat_text \<Rightarrow> string" where
  "system_line env (Text v) = (case v of JStr s \<Rightarrow> s | _ \<Rightarrow> r_str env v)"
| "system_line env (Notice n) = r_notice env n"
| "system_line env Welcome = ''Welcome to Ollama Chat! Select a model to start chatting.''"
| "system_line env (Model_selected m) = ''Model '' @ [CHR 0x27] @ m @ [CHR 0x27] @ '' selected. Start chatting!''"
| "system_line env (Loaded_from p) = ''Chat loaded from '' @ p"

definition body_runs :: "tk_render \<Rightarrow> json \<Rightarrow> run list" where
  "body_runs env v =
     (case v of
        JStr s \<Rightarrow> format_message s
      | _ \<Rightarrow> (case content_error v of
               Some e \<Rightarrow> []
             | None \<Rightarrow> (if truthy v then [(r_tcl env v, W_plain)] else []) @ [(nl @ nl, W_plain)]))"

definition entry_json :: "tk_render \<Rightarrow> chat_text \<Rightarrow> json" where
  "entry_json env t = (case t of Text v \<Rightarrow> v | _ \<Rightarrow> JStr (system_line env t))"

fun entry_runs :: "tk_render \<Rightarrow> string \<Rightarrow> tag \<times> chat_text \<Rightarrow> run list" where
  "entry_runs env ts (Tag_system, t) = [(nl @ ''--- '' @ system_line env t @ '' ---'' @ nl @ nl, W_system)]"
| "entry_runs env ts (Tag_user, t) = (''['' @ ts @ ''] You: '', W_user) # body_runs env (entry_json env t)"
| "entry_runs env ts (Tag_assistant, t) = (''['' @ ts @ ''] AI: '', W_assistant) # body_runs env (entry_json env t)"

definition widget_runs :: "tk_render \<Rightarrow> (tag \<times> chat_text) list \<Rightarrow> run list" where
  "widget_runs env es = concat (map (\<lambda>(k, e). entry_runs env (r_time env k) e) (zip [0..<length es] es))"

section \<open>The reference\<close>

text \<open>A message of text pieces and fenced code blocks, none of them holding a backtick,
  and what a reader expects to see of it: each piece of text, and each code block stripped
  between newlines.\<close>

fun fenced_msg :: "string \<Rightarrow> (string \<times> string) list \<Rightarrow> string" where
  "fenced_msg t0 [] = t0"
| "fenced_msg t0 ((c, t) # ps) = t0 @ ''```'' @ c @ ''```'' @ fenced_msg t ps"

fun ref_runs :: "string \<Rightarrow> (string \<times> string) list \<Rightarrow> run list" where
  "ref_runs t0 [] = (if t0 \<noteq> [] then [(t0, W_plain)] else [])"
| "ref_runs t0 ((c, t) # ps) =
     (if t0 \<noteq> [] then [(t0, W_plain)] else []) @ [(nl, W_plain), (py_strip c, W_code), (nl, W_plain)] @
     ref_runs t ps"

definition no_backtick :: "string \<Rightarrow> bool" where
  "no_backtick s \<longleftrightarrow> CHR ''`'' \<notin> set s"

section \<open>Lemmas\<close>

lemma code_loop_none: "no_backtick r \<Longrightarrow> code_loop r = ([], r)"
  by (simp add: code_loop.simps [of r] py_find_None no_backtick_def)

lemma inline_loop_none: "no_backtick r \<Longrightarrow> inline_loop r = (if r \<noteq> [] then [(r, W_plain)] else [])"
  by (simp add: inline_loop.simps [of r] py_find_None no_backtick_def)

lemma code_loop_block:
  assumes "no_backtick t0" "no_backtick c"
  shows "code_loop (t0 @ ''```'' @ c @ ''```'' @ rest) =
           (case code_loop rest of
              (rs, r) \<Rightarrow> ((if t0 \<noteq> [] then [(t0, W_plain)] else []) @
                          [(nl, W_plain), (py_strip c, W_code), (nl, W_plain)] @ rs, r))"
proof -
  let ?s = "t0 @ ''```'' @ c @ ''```'' @ rest"
  have f1: "py_find ''```'' ?s = Some (length t0)"
    using assms py_find_at [of "''```''" t0 "c @ ''```'' @ rest"] by (simp add: no_backtick_def)
  have d1: "drop (length t0 + 3) ?s = c @ ''```'' @ rest" by simp
  have f2: "py_find ''```'' (c @ ''```'' @ rest) = Some (length c)"
    using assms py_find_at [of "''```''" c rest] by (simp add: no_backtick_def)
  have t1: "take (length c) (c @ ''```'' @ rest) = c" by simp
  have d2: "drop (length t0 + 3 + length c + 3) ?s = rest" by (simp add: numeral_eq_Suc)
  have tk: "take (length t0) ?s = t0" by simp
  show ?thesis
    apply (subst code_loop.simps)
    apply (simp only: f1 option.case Let_def d1 f2 t1 d2 tk)
    apply (cases "code_loop rest")
    apply simp
    done
qed

lemma one_backtick_split:
  assumes "count_list s (CHR ''`'') = 1"
  obtains a b where "s = a @ CHR ''`'' # b" "no_backtick a" "no_backtick b"
proof -
  from assms have "CHR ''`'' \<in> set s" by (metis count_list_0_iff zero_neq_one)
  then obtain a b where s: "s = a @ CHR ''`'' # b" and a: "CHR ''`'' \<notin> set a"
    by (blast dest: split_list_first)
  with assms have "count_list b (CHR ''`'') = 0" by (simp add: count_list_0_iff)
  then have "CHR ''`'' \<notin> set b" by (simp add: count_list_0_iff)
  with s a that show ?thesis by (simp add: no_backtick_def)
qed

lemma py_find_fence_one:
  assumes "no_backtick a" "no_backtick b"
  shows "py_find ''```'' (a @ CHR ''`'' # b) = None"
proof -
  have "take 3 (CHR ''`'' # b) \<noteq> ''```''"
    using assms(2) by (cases b) (auto simp: no_backtick_def)
  then have "py_find ''```'' (CHR ''`'' # b) = None"
    using assms(2) py_find_None [of "''```''" b] by (simp add: no_backtick_def numeral_2_eq_2)
  with assms(1) show ?thesis by (simp add: py_find_skip no_backtick_def)
qed

lemma unclosed_fence_repeats:
  assumes a: "no_backtick a" and b: "no_backtick b"
  shows "shown_text (format_message (a @ ''```'' @ b)) =
           a @ ''```'' @ b @ a @ ''`'' @ b @ ''`'' @ b @ nl @ nl"
proof -
  let ?s = "a @ ''```'' @ b"
  have f1: "py_find ''```'' ?s = Some (length a)"
    using a py_find_at [of "''```''" a b] by (simp add: no_backtick_def)
  have f2: "py_find ''```'' (drop (length a + 3) ?s) = None"
    using b py_find_None [of "''```''" b] by (simp add: no_backtick_def)
  have dr: "drop (length a) ?s = ''```'' @ b" and tk: "take (length a) ?s = a" by simp_all
  have c: "code_loop ?s = ((if 0 < length a then [(a, W_plain)] else []) @ [(''```'' @ b, W_plain)], ?s)"
    by (subst code_loop.simps) (simp only: f1 f2 option.case Let_def dr tk)
  have g1: "py_find ''`'' ?s = Some (length a)"
    using a py_find_at [of "''`''" a "''``'' @ b"] by (simp add: no_backtick_def)
  have g2: "py_find ''`'' (drop (length a + 1) ?s) = Some 0" by simp
  have d3: "drop (length a + 1 + 0 + 1) ?s = ''`'' @ b" by (simp add: numeral_2_eq_2)
  have t3: "take 0 (drop (length a + 1) ?s) = []" by simp
  have h1: "py_find ''`'' (''`'' @ b) = Some 0" by simp
  have h2: "py_find ''`'' (drop (0 + 1) (''`'' @ b)) = None"
    using b py_find_None [of "''`''" b] by (simp add: no_backtick_def)
  have i2: "inline_loop (''`'' @ b) = [(''`'' @ b, W_plain), (''`'' @ b, W_plain)]"
    by (subst inline_loop.simps) (simp only: h1 h2 option.case)
  have "inline_loop ?s = (if 0 < length a then [(a, W_plain)] else []) @ [([], W_code)] @
                         [(''`'' @ b, W_plain), (''`'' @ b, W_plain)]"
    by (subst inline_loop.simps) (simp only: g1 g2 option.case d3 t3 tk i2)
  with c show ?thesis by (simp add: format_message_def shown_text_def)
qed

lemma widget_runs_snoc:
  "widget_runs env (es @ [e]) = widget_runs env es @ entry_runs env (r_time env (length es)) e"
  by (simp add: widget_runs_def)

lemma numeric_reply_prefix_only:
  "add_to_chat_error (JInt n) (JStr ''assistant'') = Some (TypeError ''int'') \<and>
   widget_runs env (chat_display (add_to_chat (Text (JInt n)) (JStr ''assistant'') g)) =
     widget_runs env (chat_display g) @ [(''['' @ r_time env (length (chat_display g)) @ ''] AI: '', W_assistant)]"
  by (simp add: add_to_chat_error_def content_error_def add_to_chat_def widget_runs_snoc role_tag_def
      body_runs_def entry_json_def)

section \<open>Properties of the chat area\<close>

text \<open>C2. The two loops of \<open>add_to_chat\<close> agree with the reference on every message made
  of text pieces and fenced code blocks without stray backticks: the runs are the text
  pieces, and each code block stripped and set between newlines with the tag
  \<open>code\<close>, then the blank line. The language name after a fence is part of the block,
  so it is shown as the first line of the code.\<close>

theorem format_balanced_blocks:
  assumes "no_backtick t0" "list_all (\<lambda>(c, t). no_backtick c \<and> no_backtick t) ps"
  shows "format_message (fenced_msg t0 ps) = ref_runs t0 ps @ [(nl @ nl, W_plain)]"
proof -
  have "no_backtick t0 \<Longrightarrow> list_all (\<lambda>(c, t). no_backtick c \<and> no_backtick t) ps \<Longrightarrow>
        (case code_loop (fenced_msg t0 ps) of (rs, rest) \<Rightarrow> rs @ inline_loop rest) = ref_runs t0 ps"
    for t0
  proof (induction ps arbitrary: t0)
    case Nil
    then show ?case by (simp add: code_loop_none inline_loop_none)
  next
    case (Cons p ps)
    obtain c t where p: "p = (c, t)" by fastforce
    with Cons.prems have c: "no_backtick c" and t: "no_backtick t"
      and rest: "list_all (\<lambda>(c, t). no_backtick c \<and> no_backtick t) ps" by simp_all
    obtain rs r where cl: "code_loop (fenced_msg t ps) = (rs, r)" by fastforce
    with Cons.IH [OF t rest] have ih: "rs @ inline_loop r = ref_runs t ps" by simp
    show ?case
      unfolding p fenced_msg.simps(2) code_loop_block [OF Cons.prems(1) c] cl
      using ih by simp
  qed
  from this [OF assms] show ?thesis
    by (cases "code_loop (fenced_msg t0 ps)") (simp add: format_message_def)
qed

theorem format_balanced_blocks_witness:
  "no_backtick ''Try:'' \<and>
   list_all (\<lambda>(c, t). no_backtick c \<and> no_backtick t) [(''python'' @ nl @ ''print(1)'' @ nl, [])] \<and>
   format_message (fenced_msg ''Try:'' [(''python'' @ nl @ ''print(1)'' @ nl, [])]) =
     [(''Try:'', W_plain), (nl, W_plain), (''python'' @ nl @ ''print(1)'', W_code), (nl, W_plain),
      (nl @ nl, W_plain)]"
proof -
  have h: "no_backtick ''Try:''"
    "list_all (\<lambda>(c, t). no_backtick c \<and> no_backtick t) [(''python'' @ nl @ ''print(1)'' @ nl, [])]"
    by (simp_all add: no_backtick_def)
  have s: "py_strip (''python'' @ nl @ ''print(1)'' @ nl) = ''python'' @ nl @ ''print(1)''"
    by (simp add: py_strip_def py_lstrip_def py_isspace_def)
  from h format_balanced_blocks [OF h] s show ?thesis by simp
qed

text \<open>C7. A message with exactly one backtick, as in \<open>don`t\<close>, is shown twice. The
  inline loop finds no closing backtick, inserts the whole remaining text and breaks; the
  final \<open>if remaining_text:\<close> inserts it again.\<close>

theorem single_backtick_shown_twice:
  assumes "count_list s (CHR ''`'') = 1"
  shows "shown_text (format_message s) = s @ s @ nl @ nl"
proof -
  obtain a b where s: "s = a @ CHR ''`'' # b" and a: "no_backtick a" and b: "no_backtick b"
    using assms by (rule one_backtick_split)
  have c: "code_loop s = ([], s)"
    by (subst code_loop.simps) (simp add: s py_find_fence_one [OF a b])
  have f1: "py_find ''`'' s = Some (length a)"
    using a py_find_at [of "''`''" a b] by (simp add: s no_backtick_def)
  have f2: "py_find ''`'' (drop (length a + 1) s) = None"
    using b py_find_None [of "''`''" b] by (simp add: s no_backtick_def)
  have "inline_loop s = [(s, W_plain), (s, W_plain)]"
    by (subst inline_loop.simps) (simp only: f1 f2 option.case)
  with c show ?thesis by (simp add: format_message_def shown_text_def)
qed

theorem single_backtick_shown_twice_witness:
  "count_list ''don`t'' (CHR ''`'') = 1 \<and>
   shown_text (format_message ''don`t'') = ''don`t'' @ ''don`t'' @ nl @ nl"
proof -
  have h: "count_list ''don`t'' (CHR ''`'') = 1" by simp
  from h single_backtick_shown_twice [OF h] show ?thesis by simp
qed

end
