(* ===== verification/Tk_Files.thy ===== *)
theory Tk_Files
  imports Tk_Format
begin

text \<open>
  Saving and loading chats in the Tk client \<open>src/gui_app/ollama_gui.py\<close>
  (\<open>save_chat\<close>, \<open>load_chat\<close>), over the file store of \<open>Py_Prelude\<close>. The path is the
  one the file dialog returned (empty: cancelled), and \<open>now\<close> is the time
  \<open>datetime.now().isoformat()\<close> gives. The theory also holds the handlers that leave the
  conversation alone: \<open>copy_selected\<close> and \<open>copy_last_response\<close> (the status they
  set and the text they put on the clipboard), \<open>show_about\<close> and \<open>on_close\<close>. It ends with the round trip of a save and a load.
\<close>

section \<open>Saving\<close>

definition tk_app_version :: string where
  "tk_app_version = ''1.0.0''"

text \<open>The document \<open>save_chat\<close> writes, built from the state. The Tk variables are read
  with \<open>get()\<close>, which raises on a value that is not a number. The system prompt is
  the text box's content, stripped.\<close>

definition chat_document :: "string \<Rightarrow> tk_gui \<Rightarrow> py_error + json" where
  "chat_document now g =
     py_bind (tk_get_double (temperature g)) (\<lambda>t.
       py_bind (tk_get_int (max_tokens g)) (\<lambda>n.
         Inr (JObj [(''model'', JStr (selected_model g)),
                    (''system_prompt'', JStr (py_strip (system_prompt_text g))),
                    (''temperature'', JFloat t), (''max_tokens'', JInt n),
                    (''history'', chat_history g), (''timestamp'', JStr now),
                    (''app_version'', JStr tk_app_version)])))"

text \<open>\<open>save_chat\<close>. \<open>open(file_path, 'w')\<close> creates or empties the file before the dict
  passed to \<open>json.dump\<close> is built. When building it raises, the file is left empty, which
  is text that \<open>json.load\<close> rejects.\<close>

definition save_chat :: "file_store \<Rightarrow> string \<Rightarrow> string \<Rightarrow> tk_gui \<Rightarrow> tk_gui \<times> file_store" where
  "save_chat fs path now g =
     (if \<not> truthy (chat_history g) then (g\<lparr>dialogs := dialogs g @ [Info_box ''Info'']\<rparr>, fs)
      else if path = [] then (g, fs)
      else
        let fs1 = fs(path := Some File_text)
        in (case chat_document now g of
              Inl e \<Rightarrow> (g\<lparr>dialogs := dialogs g @ [Error_box ''Error'']\<rparr>, fs1)
            | Inr doc \<Rightarrow> (g\<lparr>status_label := St_saved (py_basename path)\<rparr>, json_dump fs1 path doc)))"

section \<open>Loading\<close>

text \<open>\<open>StringVar.set(v)\<close> and \<open>Text.insert(v)\<close> of a value read from the file. A string
  is stored as it is. Tcl's rendering of other values (numbers, lists, \<open>None\<close>) is not
  modelled: the model keeps the old text then.\<close>

definition tk_text_of :: "json \<Rightarrow> string \<Rightarrow> string" where
  "tk_text_of v old = (case v of JStr s \<Rightarrow> s | _ \<Rightarrow> old)"

text \<open>The display loop \<open>for msg in self.chat_history: self.add_to_chat(msg["content"],
  msg["role"])\<close>: the state it leaves and the exception that ended it. A subscript raises
  before \<open>add_to_chat\<close> runs; \<open>add_to_chat\<close> itself raises (\<open>add_to_chat_error\<close>) after
  it has written the entry's prefix, so the entry is in the display.\<close>

fun load_display :: "json list \<Rightarrow> tk_gui \<Rightarrow> tk_gui \<times> py_error option" where
  "load_display [] g = (g, None)"
| "load_display (m # ms) g =
     (case py_subscript m ''content'' of
        Inl e \<Rightarrow> (g, Some e)
      | Inr c \<Rightarrow>
          (case py_subscript m ''role'' of
             Inl e \<Rightarrow> (g, Some e)
           | Inr r \<Rightarrow>
               (let g' = add_to_chat (Text c) r g in
                case add_to_chat_error c r of
                  Some e \<Rightarrow> (g', Some e)
                | None \<Rightarrow> load_display ms g')))"

text \<open>The \<open>try\<close> block of \<open>load_chat\<close> after \<open>json.load\<close>: the state it leaves and the
  exception that ended it, if any. \<open>data.get\<close> raises at once on a document that is not
  an object; on an object, every later \<open>in\<close> and subscript succeeds, and only the display
  loop can raise.\<close>

definition load_data :: "string \<Rightarrow> json \<Rightarrow> tk_gui \<Rightarrow> tk_gui \<times> py_error option" where
  "load_data path data g =
     (case data of
        JObj kvs \<Rightarrow>
          let get = (\<lambda>k d. case map_of kvs k of Some v \<Rightarrow> v | None \<Rightarrow> d);
              g1 = (if get ''model'' JNull \<in> set (models g)
                    then g\<lparr>selected_model := tk_text_of (get ''model'' JNull) (selected_model g)\<rparr> else g);
              g2 = (case map_of kvs ''system_prompt'' of
                      Some sp \<Rightarrow> g1\<lparr>system_prompt_text := tk_text_of sp []\<rparr>
                    | None \<Rightarrow> g1);
              g3 = (case map_of kvs ''temperature'' of Some t \<Rightarrow> g2\<lparr>temperature := t\<rparr> | None \<Rightarrow> g2);
              g4 = (case map_of kvs ''max_tokens'' of Some n \<Rightarrow> g3\<lparr>max_tokens := n\<rparr> | None \<Rightarrow> g3);
              h = get ''history'' (JArr []);
              g5 = add_to_chat (Loaded_from (py_basename path)) (JStr ''system'')
                     (g4\<lparr>chat_history := h, chat_display := []\<rparr>)
          in (case py_iter h of
                Inl e \<Rightarrow> (g5, Some e)
              | Inr ms \<Rightarrow>
                  (case load_display ms g5 of
                     (g6, None) \<Rightarrow> (g6\<lparr>status_label := St_loaded (py_basename path)\<rparr>, None)
                   | (g6, Some e) \<Rightarrow> (g6, Some e)))
      | _ \<Rightarrow> (g, Some (AttributeError (py_type_name data))))"

definition load_chat :: "file_store \<Rightarrow> string \<Rightarrow> tk_gui \<Rightarrow> tk_gui" where
  "load_chat fs path g =
     (if path = [] then g
      else (case json_load fs path of
              Inl e \<Rightarrow> g\<lparr>dialogs := dialogs g @ [Error_box ''Error'']\<rparr>
            | Inr data \<Rightarrow>
                (case load_data path data g of
                   (g', None) \<Rightarrow> g'
                 | (g', Some e) \<Rightarrow> g'\<lparr>dialogs := dialogs g' @ [Error_box ''Error'']\<rparr>)))"

section \<open>The clipboard, the About box and closing\<close>

text \<open>\<open>copy_selected\<close>, on the selection of the chat area (\<open>None\<close>: nothing selected,
  where \<open>selection_get()\<close> raises and the bare \<open>except:\<close> sets the status). The result is
  the state and the text put on the clipboard.\<close>

definition copy_selected :: "string option \<Rightarrow> tk_gui \<Rightarrow> tk_gui \<times> string option" where
  "copy_selected sel g =
     (case sel of
        Some s \<Rightarrow> (g\<lparr>status_label := St_text_copied\<rparr>, Some s)
      | None \<Rightarrow> (g\<lparr>status_label := St_no_text_selected\<rparr>, None))"

text \<open>\<open>copy_last_response\<close>: the loop over \<open>reversed(self.chat_history)\<close>. The result is
  what goes to the clipboard (\<open>None\<close>: no assistant message), or the exception the loop
  raised.\<close>

fun last_assistant :: "json list \<Rightarrow> py_error + json option" where
  "last_assistant [] = Inr None"
| "last_assistant (m # ms) =
     py_bind (py_subscript m ''role'') (\<lambda>r.
       if r = JStr ''assistant'' then py_bind (py_subscript m ''content'') (\<lambda>c. Inr (Some c))
       else last_assistant ms)"

definition copy_last_response :: "tk_gui \<Rightarrow> py_error + json option" where
  "copy_last_response g = py_bind (py_iter (chat_history g)) (\<lambda>ms. last_assistant (rev ms))"

text \<open>The whole handler: the content found goes to the clipboard and the status says so;
  otherwise the status says there is nothing to copy. An exception of the loop leaves
  the handler before anything changed (Tk reports it on the console).\<close>

definition tk_copy_last_response :: "tk_gui \<Rightarrow> tk_gui \<times> json option" where
  "tk_copy_last_response g =
     (case copy_last_response g of
        Inl e \<Rightarrow> (g, None)
      | Inr (Some c) \<Rightarrow> (g\<lparr>status_label := St_response_copied\<rparr>, Some c)
      | Inr None \<Rightarrow> (g\<lparr>status_label := St_no_response\<rparr>, None))"

text \<open>\<open>show_about\<close>: the About box, by its title.\<close>

definition show_about :: "tk_gui \<Rightarrow> tk_gui" where
  "show_about g = g\<lparr>dialogs := dialogs g @ [Info_box ''About Ollama Chat GUI'']\<rparr>"

text \<open>\<open>on_close\<close>, with the answers to its two questions: whether the window closes.\<close>

definition tk_on_close :: "bool \<Rightarrow> bool \<Rightarrow> tk_gui \<Rightarrow> bool" where
  "tk_on_close exit_anyway exit_unsaved g =
     (if is_generating g \<and> \<not> exit_anyway then False
      else if truthy (chat_history g) \<and> \<not> exit_unsaved then False
      else True)"

text \<open>The fields a loaded file sets, for the lemmas below.\<close>

definition loaded_fields :: "tk_gui \<Rightarrow> json \<times> json \<times> json \<times> string \<times> string" where
  "loaded_fields g = (chat_history g, temperature g, max_tokens g, system_prompt_text g, selected_model g)"

section \<open>Lemmas\<close>

lemma loaded_fields_frame [simp]:
  "loaded_fields (g\<lparr>chat_display := x\<rparr>) = loaded_fields g"
  "loaded_fields (g\<lparr>status_label := y\<rparr>) = loaded_fields g"
  "loaded_fields (g\<lparr>dialogs := z\<rparr>) = loaded_fields g"
  "loaded_fields (add_to_chat m r g) = loaded_fields g"
  by (simp_all add: loaded_fields_def add_to_chat_def)

text \<open>The clipboard handlers and the About box change neither the conversation nor the
  chat area.\<close>

lemma clipboard_handlers_keep_chat:
  "loaded_fields (fst (copy_selected sel g)) = loaded_fields g \<and>
   chat_display (fst (copy_selected sel g)) = chat_display g"
  "loaded_fields (fst (tk_copy_last_response g)) = loaded_fields g \<and>
   chat_display (fst (tk_copy_last_response g)) = chat_display g"
  "loaded_fields (show_about g) = loaded_fields g \<and> chat_display (show_about g) = chat_display g"
  by (simp_all add: copy_selected_def tk_copy_last_response_def show_about_def
      split: option.split sum.split)

lemma load_display_fields:
  "loaded_fields (fst (load_display ms g)) = loaded_fields g"
  by (induction ms arbitrary: g) (simp_all add: Let_def split: sum.split option.split)

lemma fields_after_display:
  "loaded_fields (fst (case py_iter h of
                         Inl e \<Rightarrow> (g5, Some e)
                       | Inr ms \<Rightarrow>
                           (case load_display ms g5 of
                              (g6, None) \<Rightarrow> (g6\<lparr>status_label := s\<rparr>, None)
                            | (g6, Some e) \<Rightarrow> (g6, Some e)))) = loaded_fields g5"
  by (auto split: sum.split prod.split option.split dest: arg_cong [where f = "\<lambda>p. loaded_fields (fst p)"] simp: load_display_fields)

text \<open>What a load of an object leaves in those fields, whether or not the display loop
  raised.\<close>

lemma load_data_obj_fields:
  "loaded_fields (fst (load_data path (JObj kvs) g)) =
     (case map_of kvs ''history'' of Some h \<Rightarrow> h | None \<Rightarrow> JArr [],
      case map_of kvs ''temperature'' of Some t \<Rightarrow> t | None \<Rightarrow> temperature g,
      case map_of kvs ''max_tokens'' of Some n \<Rightarrow> n | None \<Rightarrow> max_tokens g,
      case map_of kvs ''system_prompt'' of Some sp \<Rightarrow> tk_text_of sp [] | None \<Rightarrow> system_prompt_text g,
      let m = (case map_of kvs ''model'' of Some v \<Rightarrow> v | None \<Rightarrow> JNull)
      in if m \<in> set (models g) then tk_text_of m (selected_model g) else selected_model g)"
  unfolding load_data_def Let_def json.case fields_after_display
  by (simp add: loaded_fields_def split: option.split)

lemma load_chat_fields:
  "json_load fs path = Inr data \<Longrightarrow> path \<noteq> [] \<Longrightarrow>
   loaded_fields (load_chat fs path g) = loaded_fields (fst (load_data path data g))"
  by (simp add: load_chat_def split: prod.split option.split)

lemma save_chat_ok:
  assumes "truthy (chat_history g)" and "path \<noteq> []"
    and "tk_get_double (temperature g) = Inr t" and "tk_get_int (max_tokens g) = Inr n"
  shows "json_load (snd (save_chat fs path now g)) path =
           Inr (JObj [(''model'', JStr (selected_model g)),
                      (''system_prompt'', JStr (py_strip (system_prompt_text g))),
                      (''temperature'', JFloat t), (''max_tokens'', JInt n),
                      (''history'', chat_history g), (''timestamp'', JStr now),
                      (''app_version'', JStr tk_app_version)])"
  using assms by (simp add: save_chat_def chat_document_def)

lemma last_assistant_msgs:
  "last_assistant (map (\<lambda>(r, c). msg r c) xs) =
     Inr (case filter (\<lambda>(r, c). r = ''assistant'') xs of [] \<Rightarrow> None | y # _ \<Rightarrow> Some (snd y))"
  by (induction xs) (auto simp: msg_def py_subscript_def)

section \<open>Properties of saving and loading\<close>

text \<open>C33. A saved chat loads back. After a successful save, loading the file into any
  session restores the history, the temperature and the token limit as the values
  \<open>get()\<close> read, and the system prompt as stripped text. The model is restored only when
  the loading session's catalogue contains it.\<close>

theorem tk_save_load_roundtrip:
  assumes "truthy (chat_history g)" and "path \<noteq> []"
    and "tk_get_double (temperature g) = Inr t" and "tk_get_int (max_tokens g) = Inr n"
  shows "loaded_fields (load_chat (snd (save_chat fs path now g)) path g2) =
           (chat_history g, JFloat t, JInt n, py_strip (system_prompt_text g),
            if JStr (selected_model g) \<in> set (models g2) then selected_model g else selected_model g2)"
  using load_chat_fields [OF save_chat_ok [OF assms] assms(2)]
  by (simp add: load_data_obj_fields tk_text_of_def)

theorem tk_save_load_roundtrip_witness:
  "loaded_fields (load_chat (snd (save_chat (\<lambda>p. None) ''chat.json'' ''2026-11-09T10:00:00''
       (tk_gui_init\<lparr>selected_model := ''llama3'', chat_history := JArr [msg ''user'' (JStr ''Hello'')]\<rparr>)))
       ''chat.json'' (tk_gui_init\<lparr>models := [JStr ''llama3'']\<rparr>)) =
     (JArr [msg ''user'' (JStr ''Hello'')], JFloat (7 / 10), JInt 1024,
      py_strip (system_prompt_text tk_gui_init), ''llama3'')"
proof -
  let ?g = "tk_gui_init\<lparr>selected_model := ''llama3'', chat_history := JArr [msg ''user'' (JStr ''Hello'')]\<rparr>"
  have h1: "truthy (chat_history ?g)" by simp
  have h2: "''chat.json'' \<noteq> []" by simp
  have h3: "tk_get_double (temperature ?g) = Inr (7 / 10)" by (simp add: tk_gui_init_def tk_get_double_def)
  have h4: "tk_get_int (max_tokens ?g) = Inr 1024" by (simp add: tk_gui_init_def tk_get_int_def)
  from tk_save_load_roundtrip [OF h1 h2 h3 h4, of "\<lambda>p. None" "''2026-11-09T10:00:00''"
         "tk_gui_init\<lparr>models := [JStr ''llama3'']\<rparr>"]
  show ?thesis by simp
qed

text \<open>C34. A failed save destroys the file. \<open>open(file_path, 'w')\<close> empties the file
  before the document is built, so when \<open>max_tokens.get()\<close> raises (a token limit typed
  as text), the error box appears and the file that was there can no longer be loaded.\<close>

theorem tk_failed_save_empties_file:
  assumes "truthy (chat_history g)" and "path \<noteq> []" and "tk_get_int (max_tokens g) = Inl e"
  shows "json_load (snd (save_chat fs path now g)) path = Inl JSONDecodeError \<and>
         dialogs (fst (save_chat fs path now g)) = dialogs g @ [Error_box ''Error'']"
  using assms
  by (cases "tk_get_double (temperature g)")
     (simp_all add: save_chat_def chat_document_def json_load_def)

theorem tk_failed_save_empties_file_witness:
  "json_load (snd (save_chat (\<lambda>p. if p = ''chat.json'' then Some (File_json (JObj [(''history'', JArr [])])) else None)
       ''chat.json'' ''2026-11-09T10:00:00''
       (tk_gui_init\<lparr>chat_history := JArr [msg ''user'' (JStr ''Hello'')], max_tokens := JStr ''abc''\<rparr>)))
     ''chat.json'' = Inl JSONDecodeError \<and>
   dialogs (fst (save_chat (\<lambda>p. if p = ''chat.json'' then Some (File_json (JObj [(''history'', JArr [])])) else None)
       ''chat.json'' ''2026-11-09T10:00:00''
       (tk_gui_init\<lparr>chat_history := JArr [msg ''user'' (JStr ''Hello'')], max_tokens := JStr ''abc''\<rparr>))) =
     dialogs (tk_gui_init\<lparr>chat_history := JArr [msg ''user'' (JStr ''Hello'')], max_tokens := JStr ''abc''\<rparr>) @
       [Error_box ''Error'']"
proof -
  have h1: "truthy (chat_history (tk_gui_init\<lparr>chat_history := JArr [msg ''user'' (JStr ''Hello'')], max_tokens := JStr ''abc''\<rparr>))"
    by simp
  have h2: "''chat.json'' \<noteq> []" by simp
  have h3: "tk_get_int (max_tokens (tk_gui_init\<lparr>chat_history := JArr [msg ''user'' (JStr ''Hello'')], max_tokens := JStr ''abc''\<rparr>)) =
              Inl TclError" by (simp add: tk_get_int_def)
  from tk_failed_save_empties_file [OF h1 h2 h3] show ?thesis .
qed

text \<open>A file without a \<open>history\<close> key loads as an empty chat, with no error. The
  spec's example \<open>{"foo": 1}\<close> should be rejected as an invalid chat file.\<close>

theorem tk_load_without_history_empty:
  assumes "path \<noteq> []" and "json_load fs path = Inr (JObj kvs)" and "map_of kvs ''history'' = None"
  shows "chat_history (load_chat fs path g) = JArr [] \<and> dialogs (load_chat fs path g) = dialogs g"
  using assms by (simp add: load_chat_def load_data_def Let_def add_to_chat_def split: option.split)

theorem tk_load_without_history_empty_witness:
  "chat_history (load_chat (\<lambda>p. if p = ''foo.json'' then Some (File_json (JObj [(''foo'', JInt 1)])) else None)
       ''foo.json'' tk_gui_init) = JArr [] \<and>
   dialogs (load_chat (\<lambda>p. if p = ''foo.json'' then Some (File_json (JObj [(''foo'', JInt 1)])) else None)
       ''foo.json'' tk_gui_init) = dialogs tk_gui_init"
proof -
  have "''foo.json'' \<noteq> []" by simp
  moreover have "json_load (\<lambda>p. if p = ''foo.json'' then Some (File_json (JObj [(''foo'', JInt 1)])) else None)
                   ''foo.json'' = Inr (JObj [(''foo'', JInt 1)])" by (simp add: json_load_def)
  moreover have "map_of [(''foo'', JInt 1)] ''history'' = None" by simp
  ultimately show ?thesis by (rule tk_load_without_history_empty)
qed

text \<open>C36. \<open>copy_last_response\<close>, a backward scan that stops at the first assistant
  message, copies the content of the last assistant message of a history of messages:
  it agrees with the reference definition that filters the assistant messages and takes
  the last.\<close>

theorem copy_last_response_equiv:
  "copy_last_response (g\<lparr>chat_history := JArr (map (\<lambda>(r, c). msg r c) rc)\<rparr>) =
     Inr (let xs = filter (\<lambda>(r, c). r = ''assistant'') rc in if xs = [] then None else Some (snd (last xs)))"
proof -
  have "copy_last_response (g\<lparr>chat_history := JArr (map (\<lambda>(r, c). msg r c) rc)\<rparr>) =
          last_assistant (map (\<lambda>(r, c). msg r c) (rev rc))"
    by (simp add: copy_last_response_def rev_map)
  also have "\<dots> = Inr (case rev (filter (\<lambda>(r, c). r = ''assistant'') rc) of [] \<Rightarrow> None | y # _ \<Rightarrow> Some (snd y))"
    by (simp add: last_assistant_msgs rev_filter)
  also have "\<dots> = Inr (let xs = filter (\<lambda>(r, c). r = ''assistant'') rc in if xs = [] then None else Some (snd (last xs)))"
    by (cases "filter (\<lambda>(r, c). r = ''assistant'') rc" rule: rev_cases) simp_all
  finally show ?thesis .
qed

end
