(* ===== verification/Web_Proxy.thy ===== *)
theory Web_Proxy
  imports Chat_Protocol
begin

text \<open>
  The Flask server \<open>src/python_app/app.py\<close>: three routes that forward to the service.
  Each handler is a function from its input (the decoded request body, the result of the
  upstream call) to the response it returns: a status and a JSON body, or, from an
  \<open>except Exception as e\<close> clause, \<open>({"error": str(e)}, 500)\<close> with the exception
  kept as a value (\<open>str(e)\<close> is not rendered). The upstream call of \<open>/api/chat\<close>
  depends on the payload, so the handler takes the service as a function \<open>post\<close> from
  the payload to the HTTP result.
\<close>

section \<open>Responses\<close>

datatype proxy_response =
    Proxy_json nat json            \<comment> \<open>\<open>jsonify(body)\<close> with a status\<close>
  | Proxy_error nat exn            \<comment> \<open>\<open>jsonify({"error": str(e)}), status\<close>\<close>
  | Proxy_json_error nat json exn  \<comment> \<open>a body with an added \<open>"error": str(e)\<close>\<close>

text \<open>\<open>response.json()\<close> of an upstream result: the decoded body, or the exception that
  the call or the decoding raised.\<close>

definition upstream_json :: "http_result \<Rightarrow> exn + json" where
  "upstream_json r =
     (case r of
        Http_response status (Some body) \<Rightarrow> Inr body
      | Http_response status None \<Rightarrow> Inl (Runtime_error JSONDecodeError)
      | Http_exception s \<Rightarrow> Inl (Transport_error s))"

section \<open>Routes\<close>

text \<open>\<open>GET /api/models\<close>.\<close>

definition get_models :: "http_result \<Rightarrow> proxy_response" where
  "get_models r =
     (case upstream_json r of
        Inr body \<Rightarrow> Proxy_json 200 body
      | Inl e \<Rightarrow> Proxy_error 500 e)"

text \<open>\<open>POST /api/chat\<close>: the payload built from the request body (\<open>None\<close>: the request
  carries no JSON, and \<open>request.json\<close> raises).\<close>

definition proxy_payload :: "json option \<Rightarrow> py_error + json" where
  "proxy_payload req =
     (case req of
        None \<Rightarrow> Inl (TypeError ''request.json'')
      | Some data \<Rightarrow>
          py_bind (py_get data ''model'' JNull) (\<lambda>model.
            py_bind (py_get data ''messages'' (JArr [])) (\<lambda>messages.
              py_bind (py_get data ''options'' (JObj [])) (\<lambda>options.
                let ollama_payload =
                      [(''model'', model), (''messages'', messages), (''stream'', JBool False)]
                in Inr (JObj (if truthy options then ollama_payload @ [(''options'', options)]
                              else ollama_payload))))))"

definition proxy_chat :: "json option \<Rightarrow> (json \<Rightarrow> http_result) \<Rightarrow> proxy_response" where
  "proxy_chat req post =
     (case proxy_payload req of
        Inl e \<Rightarrow> Proxy_error 500 (Runtime_error e)
      | Inr p \<Rightarrow>
          (case upstream_json (post p) of
             Inr body \<Rightarrow> Proxy_json 200 body
           | Inl e \<Rightarrow> Proxy_error 500 e))"

text \<open>\<open>GET /api/version\<close>: the service's version, or \<open>"unknown (could not connect)"\<close>
  with the error added; the status is 200 either way. \<open>PYTHON_VERSION\<close> is read from the
  environment, given here as \<open>pyver\<close>.\<close>

definition ollama_version :: "http_result \<Rightarrow> exn + json" where
  "ollama_version r =
     (case upstream_json r of
        Inl e \<Rightarrow> Inl e
      | Inr body \<Rightarrow>
          (case py_get body ''version'' (JStr ''unknown'') of
             Inl e \<Rightarrow> Inl (Runtime_error e)
           | Inr v \<Rightarrow> Inr v))"

definition proxy_version :: "http_result \<Rightarrow> string \<Rightarrow> proxy_response" where
  "proxy_version r pyver =
     (case ollama_version r of
        Inr v \<Rightarrow>
          Proxy_json 200 (JObj [(''app_version'', JStr ''1.0.0''), (''ollama_version'', v),
                                (''python_version'', JStr pyver)])
      | Inl e \<Rightarrow>
          Proxy_json_error 200
            (JObj [(''app_version'', JStr ''1.0.0''),
                   (''ollama_version'', JStr ''unknown (could not connect)''),
                   (''python_version'', JStr pyver)]) e)"

section \<open>Lemmas\<close>

lemma proxy_payload_obj:
  "proxy_payload (Some (JObj kvs)) =
     Inr (JObj ((let opts = (case map_of kvs ''options'' of Some ov \<Rightarrow> ov | None \<Rightarrow> JObj [])
                 in [(''model'', case map_of kvs ''model'' of Some m \<Rightarrow> m | None \<Rightarrow> JNull),
                     (''messages'', case map_of kvs ''messages'' of Some ms \<Rightarrow> ms | None \<Rightarrow> JArr []),
                     (''stream'', JBool False)] @
                    (if truthy opts then [(''options'', opts)] else []))))"
  by (simp add: proxy_payload_def py_get_def Let_def)


lemma proxy_payload_not_obj:
  "(\<forall>kvs. data \<noteq> JObj kvs) \<Longrightarrow>
   proxy_payload (Some data) = Inl (AttributeError (py_type_name data))"
  by (simp add: proxy_payload_def py_get_not_obj)

section \<open>Properties of the proxy\<close>

text \<open>\<open>/api/chat\<close> forwards the request: the payload has the request's messages
  (an empty list when absent), \<open>stream = False\<close>, and an \<open>options\<close> entry exactly when
  the request's options are truthy.\<close>

theorem proxy_forwards_request:
  "\<exists>ps. proxy_payload (Some (JObj kvs)) = Inr (JObj ps) \<and>
        map_of ps ''stream'' = Some (JBool False) \<and>
        map_of ps ''messages'' = Some (case map_of kvs ''messages'' of Some ms \<Rightarrow> ms | None \<Rightarrow> JArr []) \<and>
        (''options'' \<in> fst ` set ps \<longleftrightarrow>
           truthy (case map_of kvs ''options'' of Some ov \<Rightarrow> ov | None \<Rightarrow> JObj []))"
  by (auto simp: proxy_payload_obj Let_def)

text \<open>C16. The proxy hides the service's failure status: whatever status the service
  answers with, a JSON body is passed on with status 200.\<close>

theorem proxy_hides_upstream_status:
  assumes "proxy_payload req = Inr p" and "post p = Http_response status (Some body)"
  shows "proxy_chat req post = Proxy_json 200 body"
  using assms by (simp add: proxy_chat_def upstream_json_def)

theorem proxy_hides_upstream_status_witness:
  "proxy_chat (Some (JObj [(''model'', JStr ''llama3'')]))
     (\<lambda>p. Http_response 404 (Some (JObj [(''error'', JStr ''model not found'')]))) =
   Proxy_json 200 (JObj [(''error'', JStr ''model not found'')])"
proof -
  obtain p where p: "proxy_payload (Some (JObj [(''model'', JStr ''llama3'')])) = Inr p"
    by (simp add: proxy_payload_obj)
  have "(\<lambda>p. Http_response 404 (Some (JObj [(''error'', JStr ''model not found'')]))) p =
          Http_response 404 (Some (JObj [(''error'', JStr ''model not found'')]))" by simp
  from proxy_hides_upstream_status [OF p this] show ?thesis .
qed

text \<open>A request body that is JSON but not an object is answered with status 500 and
  the \<open>AttributeError\<close> of \<open>data.get\<close>, without calling the service.\<close>

theorem proxy_rejects_non_object:
  assumes "\<forall>kvs. data \<noteq> JObj kvs"
  shows "proxy_chat (Some data) post = Proxy_error 500 (Runtime_error (AttributeError (py_type_name data)))"
  using assms by (simp add: proxy_chat_def proxy_payload_not_obj)

theorem proxy_rejects_non_object_witness:
  "proxy_chat (Some (JArr [])) (\<lambda>p. Http_exception ''refused'') =
   Proxy_error 500 (Runtime_error (AttributeError ''list''))"
proof -
  have "\<forall>kvs. JArr [] \<noteq> JObj kvs" by simp
  from proxy_rejects_non_object [OF this] show ?thesis by simp
qed

end
