(* ===== verification/Terminal_Client.thy ===== *)
theory Terminal_Client
  imports Chat_Protocol
begin

text \<open>
  The curses client \<open>src/terminal_app/ollama_chat.py\<close>: class \<open>OllamaChat\<close> and the
  \<open>__main__\<close> block. It is synchronous: \<open>send_message\<close> posts and waits, so the model is a
  state record \<open>term_state\<close> and one function per method. The service enters as a function
  \<open>post\<close> from the payload to the HTTP result, and the catalogue as the result \<open>tags\<close> of
  \<open>GET /tags\<close>. The user's input is a list of lines: the \<open>input()\<close> answers of the model
  prompt, then the lines \<open>Textbox.edit()\<close> returns. The end of the list is Ctrl+C.
  Python's \<open>int()\<close>, \<open>float()\<close>, \<open>str()\<close> and \<open>textwrap.wrap\<close> are library functions
  the client only calls; they are the parameters collected in \<open>py_lib\<close>. The terminal's size is a
  parameter: \<open>init_curses\<close> derives the geometry \<open>term_screen\<close> from it and creates the
  windows, with \<open>newwin\<close>, \<open>addstr\<close> and \<open>box\<close> as ncurses does them. Of the drawing of the
  chat, only the failures that \<open>redraw_chat\<close> can raise are modelled, because the loop
  reacts to them. \<open>handle_resize\<close> runs as a signal handler in the middle of whatever the
  loop is doing; it is modelled as an operation, not as a step of the loop.
\<close>

section \<open>State and library interface\<close>

record term_state =
  t_models :: json
  current_model :: json            \<comment> \<open>\<open>None\<close> is \<open>JNull\<close>\<close>
  t_chat_history :: "json list"
  t_temperature :: real
  t_max_tokens :: int
  exit_requested :: bool

definition term_init :: term_state where
  "term_init =
     \<lparr>t_models = JArr [], current_model = JNull, t_chat_history = [], t_temperature = 7 / 10,
      t_max_tokens = 1024, exit_requested = False\<rparr>"

text \<open>A Python float: a finite value, or \<open>inf\<close> / \<open>nan\<close>. For these every comparison in
  the range test \<open>0 <= t <= 1\<close> fails.\<close>

datatype py_float = Finite real | Not_finite

record py_lib =
  py_int :: "string \<Rightarrow> int option"            \<comment> \<open>\<open>int(s)\<close>; \<open>None\<close> is \<open>ValueError\<close>\<close>
  py_float_of :: "string \<Rightarrow> py_float option"  \<comment> \<open>\<open>float(s)\<close>\<close>
  py_float_str :: "real \<Rightarrow> string"           \<comment> \<open>\<open>f"{x}"\<close> of a float\<close>
  py_str :: "json \<Rightarrow> string"                 \<comment> \<open>\<open>f"{v}"\<close> of a value\<close>
  py_exc_str :: "py_error \<Rightarrow> string"         \<comment> \<open>\<open>str(e)\<close> of an exception\<close>
  wrap_count :: "nat \<Rightarrow> string \<Rightarrow> nat"       \<comment> \<open>\<open>len(textwrap.wrap(s, width))\<close>\<close>

text \<open>\<open>max_x\<close> is the terminal's width; \<open>chat_height\<close> is \<open>max_y - 7\<close>, the number of rows
  of the chat window.\<close>

record term_screen =
  max_x :: nat
  chat_height :: nat

section \<open>Strings\<close>

text \<open>\<open>str.lower\<close> on ASCII text: the capital letters map to the small ones.\<close>

definition py_lower_char :: "char \<Rightarrow> char" where
  "py_lower_char c =
     (case map_of (zip ''ABCDEFGHIJKLMNOPQRSTUVWXYZ'' ''abcdefghijklmnopqrstuvwxyz'') c of
        Some l \<Rightarrow> l
      | None \<Rightarrow> c)"

definition py_lower :: "string \<Rightarrow> string" where
  "py_lower s = map py_lower_char s"

text \<open>\<open>s.split(sep)\<close> with an explicit separator: every occurrence splits, and empty
  fields are kept.\<close>

fun py_split :: "char \<Rightarrow> string \<Rightarrow> string list" where
  "py_split c [] = [[]]"
| "py_split c (x # xs) =
     (let ws = py_split c xs in if x = c then [] # ws else (x # hd ws) # tl ws)"

section \<open>Talking to the service\<close>

text \<open>\<open>fetch_models\<close>: \<open>response.json().get('models', [])\<close> on status 200, and \<open>[]\<close>
  otherwise and on every exception.\<close>

definition term_fetch_models :: "http_result \<Rightarrow> json" where
  "term_fetch_models r =
     (case r of
        Http_response status (Some data) \<Rightarrow>
          if status = 200
          then (case py_get data ''models'' (JArr []) of Inl _ \<Rightarrow> JArr [] | Inr ms \<Rightarrow> ms)
          else JArr []
      | _ \<Rightarrow> JArr [])"

text \<open>The value \<open>send_message\<close> returns. Its only caller drops it.\<close>

datatype term_reply =
    T_no_model              \<comment> \<open>\<open>"No model selected."\<close>\<close>
  | T_content json          \<comment> \<open>the assistant's content\<close>
  | T_empty                 \<comment> \<open>\<open>"Error: Received empty response from model."\<close>\<close>
  | T_status nat            \<comment> \<open>\<open>f"Error: {status_code} - {text}"\<close>\<close>
  | T_exception exn         \<comment> \<open>\<open>f"Error: {str(e)}"\<close>\<close>

definition term_payload :: "term_state \<Rightarrow> json" where
  "term_payload st =
     chat_payload (current_model st) (t_chat_history st) (JFloat (t_temperature st))
       (JInt (t_max_tokens st))"

definition term_send_message ::
  "(json \<Rightarrow> http_result) \<Rightarrow> string \<Rightarrow> term_state \<Rightarrow> term_state \<times> term_reply" where
  "term_send_message post message st =
     (if \<not> truthy (current_model st) then (st, T_no_model)
      else
        let st1 = st\<lparr>t_chat_history := t_chat_history st @ [msg ''user'' (JStr message)]\<rparr>
        in (case post (term_payload st1) of
              Http_exception s \<Rightarrow> (st1, T_exception (Transport_error s))
            | Http_response status body \<Rightarrow>
                if status \<noteq> 200 then (st1, T_status status)
                else (case body of
                        None \<Rightarrow> (st1, T_exception (Runtime_error JSONDecodeError))
                      | Some data \<Rightarrow>
                          (case reply_content data of
                             Inl e \<Rightarrow> (st1, T_exception (Runtime_error e))
                           | Inr None \<Rightarrow> (st1, T_empty)
                           | Inr (Some c) \<Rightarrow>
                               (st1\<lparr>t_chat_history := t_chat_history st1 @ [msg ''assistant'' c]\<rparr>,
                                T_content c)))))"

section \<open>Drawing the chat\<close>

text \<open>\<open>redraw_chat\<close>, as far as it can fail. For each message from the oldest:
  \<open>msg["role"]\<close> and \<open>msg["content"]\<close>, then \<open>textwrap.wrap(content, max_x - len(prefix)
  - 2)\<close>. This raises \<open>AttributeError\<close> on a content that is not a string, and
  \<open>ValueError\<close> on a width below 1. Then \<open>addstr\<close> of the prefix at row \<open>y\<close> and of line
  \<open>i\<close> at row \<open>y + i\<close>; \<open>curses.error\<close> is raised outside the window. After the message,
  \<open>y_pos += 2\<close>, and the loop stops once the window is full.\<close>

fun redraw_lines :: "term_screen \<Rightarrow> py_lib \<Rightarrow> nat \<Rightarrow> json list \<Rightarrow> py_error + unit" where
  "redraw_lines S L y [] = Inr ()"
| "redraw_lines S L y (m # ms) =
     py_bind (py_subscript m ''role'') (\<lambda>role.
       py_bind (py_subscript m ''content'') (\<lambda>content.
         let plen = (if role = JStr ''user'' then 5 else if role = JStr ''assistant'' then 4 else 8) :: nat;
             width = int (max_x S) - int plen - 2
         in (case content of
               JStr s \<Rightarrow>
                 if width \<le> 0 then Inl (ValueError ''invalid width'')
                 else
                   let n = wrap_count L (nat width) s
                   in if chat_height S \<le> y \<or> (0 < n \<and> chat_height S \<le> y + (n - 1))
                      then Inl CursesError
                      else
                        let y' = y + (n - 1) + 2
                        in if chat_height S \<le> y' then Inr () else redraw_lines S L y' ms
             | _ \<Rightarrow> Inl (AttributeError (py_type_name content)))))"

definition redraw_chat :: "term_screen \<Rightarrow> py_lib \<Rightarrow> term_state \<Rightarrow> py_error + unit" where
  "redraw_chat S L st = redraw_lines S L 0 (t_chat_history st)"

section \<open>The curses windows\<close>

text \<open>What the client asks of curses, as ncurses does it (library behaviour the client
  only calls). \<open>curses.newwin(nlines, ncols, begin_y, begin_x)\<close> on a screen of
  \<open>LINES\<close> by \<open>COLS\<close>: a negative argument fails, a size of 0 stands for the rest of the
  screen, and a window without a row or a column fails. A window's content is a map from
  its cells (row, column) to what they show: a character, or the border that \<open>box()\<close>
  draws. Python raises \<open>curses.error\<close> where ncurses answers \<open>NULL\<close> or \<open>ERR\<close>.\<close>

datatype cell = Ch char | Border

record curses_win =
  win_y :: int
  win_x :: int
  win_lines :: int
  win_cols :: int
  win_cells :: "int \<times> int \<Rightarrow> cell option"

definition newwin :: "int \<times> int \<Rightarrow> int \<Rightarrow> int \<Rightarrow> int \<Rightarrow> int \<Rightarrow> py_error + curses_win" where
  "newwin scr nl nc by bx =
     (if by < 0 \<or> bx < 0 \<or> nl < 0 \<or> nc < 0 then Inl CursesError
      else
        let nl' = (if nl = 0 then fst scr - by else nl);
            nc' = (if nc = 0 then snd scr - bx else nc)
        in if nl' \<le> 0 \<or> nc' \<le> 0 then Inl CursesError
           else Inr \<lparr>win_y = by, win_x = bx, win_lines = nl', win_cols = nc', win_cells = (\<lambda>p. None)\<rparr>)"

definition in_win :: "curses_win \<Rightarrow> int \<Rightarrow> int \<Rightarrow> bool" where
  "in_win w y x \<longleftrightarrow> 0 \<le> y \<and> y < win_lines w \<and> 0 \<le> x \<and> x < win_cols w"

text \<open>\<open>win.addstr(y, x, s)\<close>: the cursor moves to (y, x), which fails outside the window;
  each character is put at the cursor, which moves right and wraps to the next row.
  Scrolling is off, so putting a character in the bottom-right cell fails: the cursor
  cannot move on.\<close>

fun waddstr :: "curses_win \<Rightarrow> int \<Rightarrow> int \<Rightarrow> string \<Rightarrow> py_error + curses_win" where
  "waddstr w y x [] = (if in_win w y x then Inr w else Inl CursesError)"
| "waddstr w y x (c # s) =
     (if in_win w y x
      then let w' = w\<lparr>win_cells := (win_cells w)((y, x) \<mapsto> Ch c)\<rparr>
           in if x + 1 < win_cols w then waddstr w' y (x + 1) s
              else if y + 1 < win_lines w then waddstr w' (y + 1) 0 s
              else Inl CursesError
      else Inl CursesError)"

text \<open>\<open>win.box()\<close>: the border over the first and last row and column.\<close>

definition box :: "curses_win \<Rightarrow> curses_win" where
  "box w =
     w\<lparr>win_cells := (\<lambda>(r, c).
         if in_win w r c \<and> (r = 0 \<or> r = win_lines w - 1 \<or> c = 0 \<or> c = win_cols w - 1)
         then Some Border else win_cells w (r, c))\<rparr>"

text \<open>The curses fields of \<open>OllamaChat\<close>: the terminal's size (\<open>getmaxyx\<close>), the rows
  \<open>init_curses\<close> derives from it, and the windows \<open>create_windows\<close> makes. \<open>input_win\<close> is
  a local of \<open>create_windows\<close>; it is kept because it stays on the screen.\<close>

record curses_ui =
  ui_max_y :: int
  ui_max_x :: int
  input_start_y :: int
  ui_chat_height :: int
  status_win :: curses_win
  chat_win :: curses_win
  input_win :: curses_win
  input_box :: curses_win

definition term_prompt :: string where
  "term_prompt = ''You: ''"

definition status_text :: "py_lib \<Rightarrow> term_state \<Rightarrow> string" where
  "status_text L st =
     '' Model: '' @ py_str L (current_model st) @ '' | Temp: '' @ py_float_str L (t_temperature st) @
     '' | Press Ctrl+C to exit''"

text \<open>\<open>create_windows\<close>: the status line, the chat window of \<open>chat_height\<close> rows below it,
  the input window of three rows at \<open>input_start_y\<close> with the prompt and a box, and the
  one-row text box after the prompt's width.\<close>

definition create_windows :: "py_lib \<Rightarrow> int \<Rightarrow> int \<Rightarrow> int \<Rightarrow> int \<Rightarrow> term_state \<Rightarrow> py_error + curses_ui" where
  "create_windows L my mx isy ch st =
     (let scr = (my, mx); p = int (length term_prompt) in
      py_bind (newwin scr 1 mx 0 0) (\<lambda>sw.
      py_bind (waddstr sw 0 0 (py_take (mx - 1) (status_text L st))) (\<lambda>sw'.
      py_bind (newwin scr ch mx 1 0) (\<lambda>cw.
      py_bind (newwin scr 3 mx isy 0) (\<lambda>iw.
      py_bind (waddstr iw 0 0 term_prompt) (\<lambda>iw'.
      py_bind (newwin scr 1 (mx - p - 2) isy p) (\<lambda>ib.
        Inr \<lparr>ui_max_y = my, ui_max_x = mx, input_start_y = isy, ui_chat_height = ch,
             status_win = sw', chat_win = cw, input_win = box iw', input_box = ib\<rparr>)))))))"

text \<open>\<open>init_curses\<close> on a terminal of \<open>max_y\<close> rows and \<open>max_x\<close> columns. The cursor, colour
  and signal set-up is taken to succeed; then \<open>input_start_y = max_y - 5\<close>,
  \<open>chat_height = input_start_y - 2\<close> and \<open>create_windows\<close>.\<close>

definition init_curses :: "py_lib \<Rightarrow> int \<times> int \<Rightarrow> term_state \<Rightarrow> py_error + curses_ui" where
  "init_curses L tsz st =
     (let my = fst tsz; mx = snd tsz; isy = my - 5; ch = isy - 2
      in create_windows L my mx isy ch st)"

text \<open>The geometry \<open>redraw_chat\<close> reads from the curses fields.\<close>

definition ui_screen :: "curses_ui \<Rightarrow> term_screen" where
  "ui_screen ui = \<lparr>max_x = nat (ui_max_x ui), chat_height = nat (ui_chat_height ui)\<rparr>"

text \<open>\<open>handle_resize\<close>, the \<open>SIGWINCH\<close> handler: the new size, the rows derived from it,
  \<open>create_windows\<close> and \<open>redraw_chat\<close>.\<close>

definition handle_resize :: "py_lib \<Rightarrow> int \<times> int \<Rightarrow> term_state \<Rightarrow> py_error + curses_ui" where
  "handle_resize L tsz st =
     py_bind (init_curses L tsz st) (\<lambda>ui. py_bind (redraw_chat (ui_screen ui) L st) (\<lambda>_. Inr ui))"

text \<open>Where a window lies: inside a screen of the given size, and rows shared by two
  windows.\<close>

definition on_screen :: "int \<times> int \<Rightarrow> curses_win \<Rightarrow> bool" where
  "on_screen tsz w \<longleftrightarrow>
     0 \<le> win_y w \<and> win_y w + win_lines w \<le> fst tsz \<and> 0 \<le> win_x w \<and> win_x w + win_cols w \<le> snd tsz"

definition rows_apart :: "curses_win \<Rightarrow> curses_win \<Rightarrow> bool" where
  "rows_apart w1 w2 \<longleftrightarrow> win_y w1 + win_lines w1 \<le> win_y w2 \<or> win_y w2 + win_lines w2 \<le> win_y w1"

section \<open>The command loop\<close>

definition system_note :: "string \<Rightarrow> term_state \<Rightarrow> term_state" where
  "system_note text st = st\<lparr>t_chat_history := t_chat_history st @ [msg ''system'' (JStr text)]\<rparr>"

definition help_text :: string where
  "help_text =
     ''Commands:'' @ [CHR 0x0A] @ ''/exit or /quit - Exit the application'' @ [CHR 0x0A] @
     ''/temp [value] - Set temperature (0-1)'' @ [CHR 0x0A] @ ''/clear - Clear chat history'' @
     [CHR 0x0A] @ ''/help - Show this help''"

text \<open>The \<open>/temp\<close> command: \<open>float(user_input.split(' ')[1])\<close>, whose failure the bare
  \<open>except:\<close> turns into a note.\<close>

definition set_temperature :: "py_lib \<Rightarrow> string \<Rightarrow> term_state \<Rightarrow> term_state" where
  "set_temperature L user_input st =
     (case py_float_of L (py_split CHR '' '' user_input ! 1) of
        None \<Rightarrow> system_note ''Invalid temperature format. Use /temp 0.7'' st
      | Some (Finite t) \<Rightarrow>
          if 0 \<le> t \<and> t \<le> 1
          then system_note (''Temperature set to '' @ py_float_str L t) (st\<lparr>t_temperature := t\<rparr>)
          else system_note ''Temperature must be between 0 and 1'' st
      | Some Not_finite \<Rightarrow> system_note ''Temperature must be between 0 and 1'' st)"

text \<open>The body of the \<open>try\<close> in the loop of \<open>run_curses_ui\<close>, on the line the text box
  returned: the state it leaves, and the exception a \<open>redraw_chat\<close> call raised, if any.
  \<open>None\<close> as a whole is the \<open>break\<close> of \<open>/exit\<close> and \<open>/quit\<close>.\<close>

definition term_body ::
  "term_screen \<Rightarrow> py_lib \<Rightarrow> (json \<Rightarrow> http_result) \<Rightarrow> string \<Rightarrow> term_state \<Rightarrow>
   (term_state \<times> py_error option) option" where
  "term_body S L post line st =
     (let user_input = py_strip line; cmd = py_lower user_input;
          redraw = (\<lambda>st'. (st', case redraw_chat S L st' of Inl e \<Rightarrow> Some e | Inr _ \<Rightarrow> None))
      in if cmd = ''/exit'' \<or> cmd = ''/quit'' then None
      else if take 6 cmd = ''/temp '' then Some (redraw (set_temperature L user_input st))
      else if cmd = ''/clear''
      then Some (redraw (system_note ''Chat history cleared.'' (st\<lparr>t_chat_history := []\<rparr>)))
      else if cmd = ''/help'' then Some (redraw (system_note help_text st))
      else if user_input = [] then Some (st, None)
      else (case redraw_chat S L st of
              Inl e \<Rightarrow> Some (st, Some e)
            | Inr _ \<Rightarrow> Some (redraw (fst (term_send_message post user_input st)))))"

text \<open>One pass of \<open>while not self.exit_requested\<close>. An exception of the body is caught by
  \<open>except Exception as e\<close>, which adds a note and redraws. An exception of that redraw
  leaves the loop and \<open>run_curses_ui\<close>.\<close>

datatype term_step =
    Step_continue term_state
  | Step_exit term_state
  | Step_crash py_error term_state

definition term_iteration ::
  "term_screen \<Rightarrow> py_lib \<Rightarrow> (json \<Rightarrow> http_result) \<Rightarrow> string \<Rightarrow> term_state \<Rightarrow> term_step" where
  "term_iteration S L post line st =
     (case term_body S L post line st of
        None \<Rightarrow> Step_exit (st\<lparr>exit_requested := True\<rparr>)
      | Some (st', None) \<Rightarrow> Step_continue st'
      | Some (st', Some e) \<Rightarrow>
          let st'' = system_note (''Error: '' @ py_exc_str L e) st'
          in (case redraw_chat S L st'' of
                Inl e' \<Rightarrow> Step_crash e' st''
              | Inr _ \<Rightarrow> Step_continue st''))"

text \<open>The loop over the input lines. The end of the input is Ctrl+C, caught as
  \<open>KeyboardInterrupt\<close>. The second component is the exception that ended the UI.\<close>

fun term_loop ::
  "term_screen \<Rightarrow> py_lib \<Rightarrow> (json \<Rightarrow> http_result) \<Rightarrow> string list \<Rightarrow> term_state \<Rightarrow>
   term_state \<times> py_error option" where
  "term_loop S L post [] st = (st\<lparr>exit_requested := True\<rparr>, None)"
| "term_loop S L post (l # ls) st =
     (case term_iteration S L post l st of
        Step_continue st' \<Rightarrow> term_loop S L post ls st'
      | Step_exit st' \<Rightarrow> (st', None)
      | Step_crash e st' \<Rightarrow> (st', Some e))"

definition welcome_note :: "py_lib \<Rightarrow> term_state \<Rightarrow> term_state" where
  "welcome_note L st =
     system_note (''Welcome to Ollama Chat Terminal! You are chatting with '' @
                  py_str L (current_model st) @ ''.'') st"

definition run_curses_ui ::
  "int \<times> int \<Rightarrow> py_lib \<Rightarrow> (json \<Rightarrow> http_result) \<Rightarrow> string list \<Rightarrow> term_state \<Rightarrow>
   term_state \<times> py_error option" where
  "run_curses_ui tsz L post lines st =
     (case init_curses L tsz st of
        Inl e \<Rightarrow> (st, Some e)
      | Inr ui \<Rightarrow>
          (let S = ui_screen ui; st1 = welcome_note L st
           in (case redraw_chat S L st1 of
                 Inl e \<Rightarrow> (st1, Some e)
               | Inr _ \<Rightarrow> term_loop S L post lines st1)))"

section \<open>Start-up\<close>

text \<open>The prompt of \<open>select_model\<close>, repeated until \<open>int(choice) - 1\<close> is an index of the
  catalogue. Ctrl+C (the end of the input) cancels. The result is the chosen name and
  the input that is left.\<close>

fun choose_model :: "py_lib \<Rightarrow> json list \<Rightarrow> string list \<Rightarrow> (json \<times> string list) option" where
  "choose_model L names [] = None"
| "choose_model L names (c # cs) =
     (case py_int L c of
        None \<Rightarrow> choose_model L names cs
      | Some i \<Rightarrow>
          if 0 \<le> i - 1 \<and> i - 1 < int (length names) then Some (names ! nat (i - 1), cs)
          else choose_model L names cs)"

text \<open>\<open>select_model\<close>: an empty catalogue gives \<open>None\<close>. Otherwise the menu prints
  \<open>model['name']\<close> of every entry, which nothing catches when it raises (\<open>Inl\<close>), and
  then the prompt runs. \<open>self.models\<close> is set first.\<close>

definition model_names :: "json \<Rightarrow> py_error + json list" where
  "model_names models = py_bind (py_iter models) (py_map (\<lambda>m. py_subscript m ''name''))"

definition select_model ::
  "py_lib \<Rightarrow> http_result \<Rightarrow> string list \<Rightarrow> py_error + json \<times> (json \<times> string list) option" where
  "select_model L tags inputs =
     (let models = term_fetch_models tags
      in if \<not> truthy models then Inr (models, None)
      else py_bind (model_names models) (\<lambda>names. Inr (models, choose_model L names inputs)))"

text \<open>How the program ends.\<close>

datatype term_exit =
    No_model_selected              \<comment> \<open>\<open>"No model selected. Exiting."\<close>\<close>
  | Model_not_found                \<comment> \<open>\<open>--model\<close> names no model of the catalogue\<close>
  | Chat_ended "py_error option"   \<comment> \<open>\<open>"Chat session ended."\<close>, with the UI's exception\<close>

text \<open>\<open>OllamaChat.run\<close>: \<open>self.current_model = self.select_model()\<close>, then the UI. An
  exception of the UI is caught and printed.\<close>

definition term_run ::
  "int \<times> int \<Rightarrow> py_lib \<Rightarrow> http_result \<Rightarrow> (json \<Rightarrow> http_result) \<Rightarrow> string list \<Rightarrow>
   term_state \<Rightarrow> py_error + term_state \<times> term_exit" where
  "term_run tsz L tags post inputs st =
     (case select_model L tags inputs of
        Inl e \<Rightarrow> Inl e
      | Inr (models, None) \<Rightarrow> Inr (st\<lparr>t_models := models, current_model := JNull\<rparr>, No_model_selected)
      | Inr (models, Some (m, rest)) \<Rightarrow>
          let st1 = st\<lparr>t_models := models, current_model := m\<rparr>
          in if \<not> truthy m then Inr (st1, No_model_selected)
          else (case run_curses_ui tsz L post rest st1 of (st2, e) \<Rightarrow> Inr (st2, Chat_ended e)))"

text \<open>The command line: \<open>--model\<close> (absent: \<open>None\<close>), \<open>--temp\<close>, \<open>--max-tokens\<close>.
  \<open>--api-url\<close> only changes the address that \<open>post\<close> and \<open>tags\<close> stand for.\<close>

record term_args =
  arg_model :: "string option"
  arg_temp :: real
  arg_max_tokens :: int

text \<open>The \<open>__main__\<close> block. With \<open>--model\<close> the catalogue is fetched and checked. A
  name that is not in it is reported with \<open>', '.join(model_names)\<close>, which raises
  \<open>TypeError\<close> on a name that is not a string.\<close>

definition term_main ::
  "int \<times> int \<Rightarrow> py_lib \<Rightarrow> term_args \<Rightarrow> http_result \<Rightarrow> (json \<Rightarrow> http_result) \<Rightarrow> string list \<Rightarrow>
   py_error + term_state \<times> term_exit" where
  "term_main tsz L args tags post inputs =
     (let chat = term_init\<lparr>t_temperature := arg_temp args, t_max_tokens := arg_max_tokens args\<rparr>
      in (case arg_model args of
            Some a \<Rightarrow>
              if a = [] then term_run tsz L tags post inputs chat
              else py_bind (model_names (term_fetch_models tags)) (\<lambda>names.
                     if JStr a \<in> set names
                     then term_run tsz L tags post inputs (chat\<lparr>current_model := JStr a\<rparr>)
                     else if list_all (\<lambda>n. case n of JStr _ \<Rightarrow> True | _ \<Rightarrow> False) names then Inr (chat, Model_not_found)
                     else Inl (TypeError ''sequence item: expected str instance''))
          | None \<Rightarrow> term_run tsz L tags post inputs chat))"

text \<open>The state a loop step leaves, whichever way the step ends.\<close>

fun step_state :: "term_step \<Rightarrow> term_state" where
  "step_state (Step_continue st) = st"
| "step_state (Step_exit st) = st"
| "step_state (Step_crash e st) = st"

text \<open>A concrete setting for the scenarios below: an 80 by 24 terminal, a catalogue of
  two models, and library functions that answer the inputs used.\<close>

definition demo_term :: "int \<times> int" where
  "demo_term = (24, 80)"

definition demo_screen :: term_screen where
  "demo_screen = \<lparr>max_x = 80, chat_height = 17\<rparr>"

definition demo_lib :: py_lib where
  "demo_lib =
     \<lparr>py_int = (\<lambda>s. if s = ''1'' then Some 1 else if s = ''2'' then Some 2 else None),
      py_float_of = (\<lambda>s. if s = ''0.2'' then Some (Finite (1 / 5)) else None),
      py_float_str = (\<lambda>x. ''0.2''),
      py_str = (\<lambda>v. case v of JStr s \<Rightarrow> s | _ \<Rightarrow> ''None''),
      py_exc_str = (\<lambda>e. ''error''),
      wrap_count = (\<lambda>w s. 1)\<rparr>"

definition demo_catalog :: http_result where
  "demo_catalog =
     Http_response 200 (Some (JObj [(''models'', JArr [JObj [(''name'', JStr ''llama3'')],
                                                       JObj [(''name'', JStr ''mistral'')]])]))"

section \<open>Lemmas\<close>

lemma system_note_fields [simp]:
  "current_model (system_note n st) = current_model st"
  "t_temperature (system_note n st) = t_temperature st"
  "t_max_tokens (system_note n st) = t_max_tokens st"
  "t_chat_history (system_note n st) = t_chat_history st @ [msg ''system'' (JStr n)]"
  by (simp_all add: system_note_def)

lemma set_temperature_model [simp]:
  "current_model (set_temperature L u st) = current_model st"
  by (simp add: set_temperature_def split: option.split py_float.split)

lemma set_temperature_range:
  "0 \<le> t_temperature st \<and> t_temperature st \<le> 1 \<Longrightarrow>
   0 \<le> t_temperature (set_temperature L u st) \<and> t_temperature (set_temperature L u st) \<le> 1"
  by (simp add: set_temperature_def split: option.split py_float.split)

lemma term_send_message_frame [simp]:
  "current_model (fst (term_send_message post u st)) = current_model st"
  "t_temperature (fst (term_send_message post u st)) = t_temperature st"
  by (simp_all add: term_send_message_def Let_def
      split: http_result.split option.split sum.split)

lemma term_send_message_not_content:
  assumes "truthy (current_model st)" and "\<forall>c. snd (term_send_message post u st) \<noteq> T_content c"
  shows "fst (term_send_message post u st) =
           st\<lparr>t_chat_history := t_chat_history st @ [msg ''user'' (JStr u)]\<rparr>"
  using assms by (auto simp: term_send_message_def Let_def
      split: http_result.splits option.splits sum.splits if_splits)

lemma term_body_frame:
  assumes "term_body S L post line st = Some (st', e)"
  shows "current_model st' = current_model st \<and>
         (0 \<le> t_temperature st \<and> t_temperature st \<le> 1 \<longrightarrow>
          0 \<le> t_temperature st' \<and> t_temperature st' \<le> 1)"
  using assms set_temperature_range [of st L "py_strip line"]
  by (auto simp: term_body_def Let_def split: if_splits sum.splits)

lemma term_iteration_frame:
  "current_model (step_state (term_iteration S L post line st)) = current_model st \<and>
   (0 \<le> t_temperature st \<and> t_temperature st \<le> 1 \<longrightarrow>
    0 \<le> t_temperature (step_state (term_iteration S L post line st)) \<and>
    t_temperature (step_state (term_iteration S L post line st)) \<le> 1)"
proof (cases "term_body S L post line st")
  case None
  then show ?thesis by (simp add: term_iteration_def)
next
  case (Some r)
  obtain st' e where r: "r = (st', e)" by (cases r)
  with Some have "term_body S L post line st = Some (st', e)" by simp
  from term_body_frame [OF this] Some r show ?thesis
    by (auto simp: term_iteration_def Let_def split: option.split sum.split)
qed

lemma term_loop_frame:
  "current_model (fst (term_loop S L post ls st)) = current_model st \<and>
   (0 \<le> t_temperature st \<and> t_temperature st \<le> 1 \<longrightarrow>
    0 \<le> t_temperature (fst (term_loop S L post ls st)) \<and>
    t_temperature (fst (term_loop S L post ls st)) \<le> 1)"
proof (induction ls arbitrary: st)
  case Nil
  then show ?case by simp
next
  case (Cons l ls)
  have step: "current_model (step_state (term_iteration S L post l st)) = current_model st \<and>
   (0 \<le> t_temperature st \<and> t_temperature st \<le> 1 \<longrightarrow>
    0 \<le> t_temperature (step_state (term_iteration S L post l st)) \<and>
    t_temperature (step_state (term_iteration S L post l st)) \<le> 1)"
    by (rule term_iteration_frame)
  show ?case
  proof (cases "term_iteration S L post l st")
    case (Step_continue st')
    with step Cons.IH [of st'] show ?thesis by simp
  qed (use step in simp_all)
qed

lemma welcome_note_fields [simp]:
  "current_model (welcome_note L st) = current_model st"
  "t_temperature (welcome_note L st) = t_temperature st"
  by (simp_all add: welcome_note_def)

lemma run_curses_ui_model:
  "current_model (fst (run_curses_ui tsz L post ls st)) = current_model st"
  by (simp add: run_curses_ui_def Let_def term_loop_frame split: sum.split)

lemma model_names_truthy:
  "model_names v = Inr names \<Longrightarrow> names \<noteq> [] \<Longrightarrow> truthy v"
  by (auto simp: model_names_def py_bind_eq_Inr dest: py_map_Inr_length py_iter_truthy)

lemma choose_model_index:
  "choose_model L names cs = Some (m, rest) \<Longrightarrow> m \<in> set names"
  by (induction L names cs rule: choose_model.induct)
     (auto split: option.splits if_splits simp: nat_less_iff)

lemma term_run_chat:
  assumes "select_model L tags inputs = Inr (models, Some (m, rest))" and "truthy m"
  shows "\<exists>st' e. term_run tsz L tags post inputs st = Inr (st', Chat_ended e) \<and> current_model st' = m"
proof -
  let ?st1 = "st\<lparr>t_models := models, current_model := m\<rparr>"
  obtain st2 e where ui: "run_curses_ui tsz L post rest ?st1 = (st2, e)" by fastforce
  have "current_model st2 = m"
    using run_curses_ui_model [of tsz L post rest ?st1] ui by simp
  with assms ui show ?thesis by (simp add: term_run_def)
qed

lemma waddstr_row:
  assumes "in_win w y x" and "x + int (length s) < win_cols w"
  shows "waddstr w y x s =
           Inr (w\<lparr>win_cells := (\<lambda>(r, c). if r = y \<and> x \<le> c \<and> c < x + int (length s)
                                       then Some (Ch (s ! nat (c - x))) else win_cells w (r, c))\<rparr>)"
  using assms
proof (induction s arbitrary: w x)
  case Nil
  have "w\<lparr>win_cells := (\<lambda>(r, c). if r = y \<and> x \<le> c \<and> c < x + int (length ([] :: string))
            then Some (Ch ([] ! nat (c - x))) else win_cells w (r, c))\<rparr> = w"
    by (cases w) (auto intro!: ext)
  with Nil show ?case by (simp only: waddstr.simps) simp
next
  case (Cons a s)
  let ?w' = "w\<lparr>win_cells := (win_cells w)((y, x) \<mapsto> Ch a)\<rparr>"
  have x1: "x + 1 < win_cols w" using Cons.prems(2) by simp
  have "in_win ?w' y (x + 1)" "x + 1 + int (length s) < win_cols ?w'"
    using Cons.prems by (auto simp: in_win_def)
  note ih = Cons.IH [OF this]
  have cells: "(\<lambda>(r, c). if r = y \<and> x + 1 \<le> c \<and> c < x + 1 + int (length s)
                        then Some (Ch (s ! nat (c - (x + 1)))) else win_cells ?w' (r, c)) =
               (\<lambda>(r, c). if r = y \<and> x \<le> c \<and> c < x + int (length (a # s))
                        then Some (Ch ((a # s) ! nat (c - x))) else win_cells w (r, c))"
  proof (intro ext, clarify)
    fix r c :: int
    show "(if r = y \<and> x + 1 \<le> c \<and> c < x + 1 + int (length s)
             then Some (Ch (s ! nat (c - (x + 1)))) else win_cells ?w' (r, c)) =
          (if r = y \<and> x \<le> c \<and> c < x + int (length (a # s))
             then Some (Ch ((a # s) ! nat (c - x))) else win_cells w (r, c))"
    proof (cases "r = y \<and> x + 1 \<le> c \<and> c < x + 1 + int (length s)")
      case True
      then have "nat (c - x) = Suc (nat (c - (x + 1)))"
        by (subst Suc_nat_eq_nat_zadd1) (simp_all add: algebra_simps)
      with True show ?thesis by simp
    qed auto
  qed
  from Cons.prems(1) x1 ih show ?case by (simp add: cells)
qed

lemma length_term_prompt [simp]: "length term_prompt = 5"
  by (simp add: term_prompt_def)

text \<open>What \<open>init_curses\<close> makes on a terminal of at least 7 rows and 7 columns: the
  windows, and what the status line and the text box show. The input window is described
  by the next lemma.\<close>

lemma init_curses_big:
  assumes "7 \<le> my" and "7 \<le> mx"
  shows "\<exists>iw. init_curses L (my, mx) st =
    Inr \<lparr>ui_max_y = my, ui_max_x = mx, input_start_y = my - 5, ui_chat_height = my - 7,
         status_win = \<lparr>win_y = 0, win_x = 0, win_lines = 1, win_cols = mx,
            win_cells = \<lambda>(r, c). if r = 0 \<and> 0 \<le> c \<and> c < int (length (py_take (mx - 1) (status_text L st)))
                                then Some (Ch (py_take (mx - 1) (status_text L st) ! nat c)) else None\<rparr>,
         chat_win = \<lparr>win_y = 1, win_x = 0, win_lines = (if my = 7 then 6 else my - 7), win_cols = mx,
            win_cells = \<lambda>p. None\<rparr>,
         input_win = iw,
         input_box = \<lparr>win_y = my - 5, win_x = 5, win_lines = 1, win_cols = (if mx = 7 then 2 else mx - 7),
            win_cells = \<lambda>p. None\<rparr>\<rparr> \<and>
    win_y iw = my - 5 \<and> win_x iw = 0 \<and> win_lines iw = 3 \<and> win_cols iw = mx"
proof -
  have len: "int (length (py_take (mx - 1) (status_text L st))) < mx"
    using assms by (simp add: py_take_def)
  show ?thesis
    using assms len
    by (simp add: init_curses_def create_windows_def newwin_def py_bind_def waddstr_row in_win_def
        box_def Let_def cong: if_cong)
qed

lemma init_curses_input_win:
  assumes "7 \<le> my" and "7 \<le> mx" and "init_curses L (my, mx) st = Inr ui"
  shows "input_win ui =
           box \<lparr>win_y = my - 5, win_x = 0, win_lines = 3, win_cols = mx,
                win_cells = \<lambda>(r, c). if r = 0 \<and> 0 \<le> c \<and> c < 5 then Some (Ch (term_prompt ! nat c)) else None\<rparr>"
    (is "_ = ?iw")
proof -
  have len: "int (length (py_take (mx - 1) (status_text L st))) < mx"
    using assms by (simp add: py_take_def)
  have "map_sum id input_win (init_curses L (my, mx) st) = Inr ?iw"
    using assms(1,2) len
    by (simp add: init_curses_def create_windows_def newwin_def py_bind_def waddstr_row in_win_def
        Let_def cong: if_cong)
  with assms(3) show ?thesis by simp
qed

lemma waddstr_error: "waddstr w y x s = Inl e \<Longrightarrow> e = CursesError"
  by (induction w y x s rule: waddstr.induct) (auto simp: Let_def split: if_splits)

lemma newwin_error: "newwin scr nl nc by bx = Inl e \<Longrightarrow> e = CursesError"
  by (auto simp: newwin_def Let_def split: if_splits)

lemma py_bind_error:
  "py_bind m f = Inl e \<Longrightarrow> (m = Inl e \<or> (\<exists>a. m = Inr a \<and> f a = Inl e))"
  by (cases m) simp_all

text \<open>Below 7 rows the chat window has a negative height; below 7 columns the text box
  has a negative width. Either makes \<open>newwin\<close> fail, and no other error is possible.\<close>

lemma init_curses_small:
  assumes "\<not> (7 \<le> my \<and> 7 \<le> mx)"
  shows "init_curses L (my, mx) st = Inl CursesError"
proof (cases "init_curses L (my, mx) st")
  case (Inl e)
  then show ?thesis
    by (auto simp: init_curses_def create_windows_def Let_def
        dest!: py_bind_error dest: newwin_error waddstr_error)
next
  case (Inr ui)
  with assms show ?thesis
    by (auto simp: init_curses_def create_windows_def Let_def py_bind_eq_Inr newwin_def
        split: if_splits)
qed

lemma init_curses_screen:
  assumes "7 \<le> my" and "7 \<le> mx" and "init_curses L (my, mx) st = Inr ui"
  shows "ui_screen ui = \<lparr>max_x = nat mx, chat_height = nat (my - 7)\<rparr>"
  using init_curses_big [OF assms(1,2), of L st] assms(3) by (auto simp: ui_screen_def)

text \<open>A resize to fewer than 7 rows or columns makes \<open>handle_resize\<close> raise
  \<open>curses.error\<close> inside the signal handler.\<close>

lemma handle_resize_small:
  "\<not> (7 \<le> my \<and> 7 \<le> mx) \<Longrightarrow> handle_resize L (my, mx) st = Inl CursesError"
  by (simp add: handle_resize_def init_curses_small)

lemma run_curses_ui_big:
  assumes "7 \<le> my" and "7 \<le> mx"
  shows "run_curses_ui (my, mx) L post ls st =
           (let S = \<lparr>max_x = nat mx, chat_height = nat (my - 7)\<rparr>; st1 = welcome_note L st
            in case redraw_chat S L st1 of
                 Inl e \<Rightarrow> (st1, Some e)
               | Inr _ \<Rightarrow> term_loop S L post ls st1)"
proof -
  obtain ui where ui: "init_curses L (my, mx) st = Inr ui"
    using init_curses_big [OF assms, of L st] by blast
  with init_curses_screen [OF assms ui] show ?thesis by (simp add: run_curses_ui_def Let_def)
qed

text \<open>From 8 rows and 7 columns up, the windows lie on the screen, the status line, the
  chat window and the input window have no row in common, and the chat window has
  \<open>max_y - 7\<close> rows. With 7 rows, \<open>chat_height\<close> is 0, which \<open>newwin\<close> reads as "to the
  bottom of the screen": the chat window then covers the input window.\<close>

lemma curses_layout:
  assumes "8 \<le> my" and "7 \<le> mx" and "init_curses L (my, mx) st = Inr ui"
  shows "list_all (on_screen (my, mx)) [status_win ui, chat_win ui, input_win ui, input_box ui] \<and>
         rows_apart (status_win ui) (chat_win ui) \<and> rows_apart (chat_win ui) (input_win ui) \<and>
         rows_apart (status_win ui) (input_win ui) \<and> win_lines (chat_win ui) = my - 7"
  using init_curses_big [of my mx L st] assms by (auto simp: on_screen_def rows_apart_def)

lemma seven_rows_chat_covers_input:
  assumes "7 \<le> mx" and "init_curses L (7, mx) st = Inr ui"
  shows "\<not> rows_apart (chat_win ui) (input_win ui)"
  using init_curses_big [of 7 mx L st] assms by (auto simp: rows_apart_def)

lemmas term_eval = demo_term_def demo_lib_def demo_catalog_def term_init_def
  term_main_def term_run_def select_model_def model_names_def term_fetch_models_def
  run_curses_ui_big welcome_note_def term_iteration_def term_body_def term_send_message_def
  term_payload_def redraw_chat_def system_note_def set_temperature_def py_lower_def
  py_lower_char_def py_strip_def py_lstrip_def py_isspace_def Let_def py_get_def py_subscript_def
  reply_content_obj

section \<open>Properties of the terminal client\<close>

text \<open>C18. \<open>--model\<close> does not skip the model selection, as its help text says it does:
  when the named model is in the catalogue, \<open>run()\<close> still prompts, and the chat runs with
  the model chosen at the prompt, whatever \<open>--model\<close> named.\<close>

theorem model_flag_overridden:
  assumes "arg_model args = Some a" and "a \<noteq> []"
    and "model_names (term_fetch_models tags) = Inr names" and "JStr a \<in> set names"
    and "choose_model L names inputs = Some (m, rest)" and "truthy m"
  shows "\<exists>st e. term_main tsz L args tags post inputs = Inr (st, Chat_ended e) \<and> current_model st = m"
proof -
  have "truthy (term_fetch_models tags)"
    using assms(3,4) by (auto intro: model_names_truthy)
  with assms(3,5) have "select_model L tags inputs = Inr (term_fetch_models tags, Some (m, rest))"
    by (simp add: select_model_def)
  from term_run_chat [OF this assms(6)] assms(1-4) show ?thesis
    by (simp add: term_main_def)
qed

theorem model_flag_overridden_witness:
  "\<exists>st e. term_main demo_term demo_lib
            \<lparr>arg_model = Some ''llama3'', arg_temp = 7 / 10, arg_max_tokens = 1024\<rparr>
            demo_catalog (\<lambda>p. Http_exception ''refused'') [''2''] = Inr (st, Chat_ended e) \<and>
          current_model st = JStr ''mistral''"
proof -
  have names: "model_names (term_fetch_models demo_catalog) = Inr [JStr ''llama3'', JStr ''mistral'']"
    by (simp add: demo_catalog_def term_fetch_models_def model_names_def py_get_def py_subscript_def)
  have "choose_model demo_lib [JStr ''llama3'', JStr ''mistral''] [''2''] = Some (JStr ''mistral'', [])"
    by (simp add: demo_lib_def)
  from model_flag_overridden [OF _ _ names _ this] show ?thesis by simp
qed

text \<open>C19. Everything in the history is sent to the model, the client's own notes
  included: the request of \<open>send_message\<close> is the whole \<open>chat_history\<close> with the new user
  message, so the welcome line, the \<open>/temp\<close> and \<open>/help\<close> notes and the \<open>"Error: ..."\<close>
  lines reach the model as \<open>system\<close> messages. Its reply depends on nothing but the
  service's answer to that payload.\<close>

theorem notes_sent_to_model:
  assumes "truthy (current_model st)"
  shows "term_send_message post u st =
           term_send_message
             (\<lambda>_. post (chat_payload (current_model st) (t_chat_history st @ [msg ''user'' (JStr u)])
                          (JFloat (t_temperature st)) (JInt (t_max_tokens st)))) u st"
  using assms by (simp add: term_send_message_def term_payload_def Let_def)

theorem notes_sent_to_model_witness:
  "term_send_message (\<lambda>p. Http_exception ''refused'') ''Hi''
     (welcome_note demo_lib (term_init\<lparr>current_model := JStr ''llama3''\<rparr>)) =
   term_send_message
     (\<lambda>_. (\<lambda>p. Http_exception ''refused'')
            (chat_payload (current_model (welcome_note demo_lib (term_init\<lparr>current_model := JStr ''llama3''\<rparr>)))
              (t_chat_history (welcome_note demo_lib (term_init\<lparr>current_model := JStr ''llama3''\<rparr>)) @
               [msg ''user'' (JStr ''Hi'')])
              (JFloat (t_temperature (welcome_note demo_lib (term_init\<lparr>current_model := JStr ''llama3''\<rparr>))))
              (JInt (t_max_tokens (welcome_note demo_lib (term_init\<lparr>current_model := JStr ''llama3''\<rparr>))))))
     ''Hi'' (welcome_note demo_lib (term_init\<lparr>current_model := JStr ''llama3''\<rparr>))"
proof -
  have "truthy (current_model (welcome_note demo_lib (term_init\<lparr>current_model := JStr ''llama3''\<rparr>)))"
    by simp
  then show ?thesis by (rule notes_sent_to_model)
qed

text \<open>C20. A failed request leaves no trace but the user's message: when the service
  fails (a transport error, a non-200 status, a body without content), the line is added
  to the history as a \<open>user\<close> message and nothing else. The error text that
  \<open>send_message\<close> returns is dropped by \<open>run_curses_ui\<close>.\<close>

theorem failed_send_not_reported:
  assumes "py_strip line = u" and "u \<noteq> []"
    and "py_lower u \<notin> {''/exit'', ''/quit'', ''/clear'', ''/help''}" and "take 6 (py_lower u) \<noteq> ''/temp ''"
    and "truthy (current_model st)" and "redraw_chat S L st = Inr ()"
    and "\<forall>c. snd (term_send_message post u st) \<noteq> T_content c"
  shows "\<exists>e. term_body S L post line st =
               Some (st\<lparr>t_chat_history := t_chat_history st @ [msg ''user'' (JStr u)]\<rparr>, e)"
  using assms term_send_message_not_content [OF assms(5,7)]
  by (simp add: term_body_def Let_def)

theorem failed_send_not_reported_witness:
  "\<exists>e. term_body demo_screen demo_lib (\<lambda>p. Http_response 500 None) '' Hello''
          (welcome_note demo_lib (term_init\<lparr>current_model := JStr ''llama3''\<rparr>)) =
        Some ((welcome_note demo_lib (term_init\<lparr>current_model := JStr ''llama3''\<rparr>))
                \<lparr>t_chat_history := t_chat_history (welcome_note demo_lib (term_init\<lparr>current_model := JStr ''llama3''\<rparr>)) @
                                    [msg ''user'' (JStr ''Hello'')]\<rparr>, e)"
proof -
  have h1: "py_strip '' Hello'' = ''Hello''" by (simp add: py_strip_def py_lstrip_def py_isspace_def)
  have h3: "py_lower ''Hello'' \<notin> {''/exit'', ''/quit'', ''/clear'', ''/help''}"
    by (simp add: py_lower_def py_lower_char_def)
  have h4: "take 6 (py_lower ''Hello'') \<noteq> ''/temp ''" by (simp add: py_lower_def py_lower_char_def)
  have h5: "truthy (current_model (welcome_note demo_lib (term_init\<lparr>current_model := JStr ''llama3''\<rparr>)))"
    by simp
  have h6: "redraw_chat demo_screen demo_lib (welcome_note demo_lib (term_init\<lparr>current_model := JStr ''llama3''\<rparr>)) = Inr ()"
    by (simp add: redraw_chat_def welcome_note_def system_note_def term_init_def demo_screen_def
        demo_lib_def msg_def py_subscript_def)
  have h7: "\<forall>c. snd (term_send_message (\<lambda>p. Http_response 500 None) ''Hello''
              (welcome_note demo_lib (term_init\<lparr>current_model := JStr ''llama3''\<rparr>))) \<noteq> T_content c"
    by (simp add: term_send_message_def Let_def)
  from failed_send_not_reported [OF h1 _ h3 h4 h5 h6 h7] show ?thesis by simp
qed


text \<open>C22. The temperature stays in [0, 1] while the chat runs: \<open>/temp\<close> only accepts a
  value in range, and no other command or reply changes it. The range is not checked at
  start-up (see C23).\<close>

theorem temperature_stays_in_range:
  assumes "0 \<le> t_temperature st" and "t_temperature st \<le> 1"
  shows "0 \<le> t_temperature (fst (term_loop S L post ls st)) \<and>
         t_temperature (fst (term_loop S L post ls st)) \<le> 1"
  using assms term_loop_frame [of S L post ls st] by simp

theorem temperature_stays_in_range_witness:
  "0 \<le> t_temperature (fst (term_loop demo_screen demo_lib (\<lambda>p. Http_exception ''refused'')
                         [''/temp 0.2'', ''/temp 5'', ''Hello''] term_init)) \<and>
   t_temperature (fst (term_loop demo_screen demo_lib (\<lambda>p. Http_exception ''refused'')
                         [''/temp 0.2'', ''/temp 5'', ''Hello''] term_init)) \<le> 1"
proof -
  have "0 \<le> t_temperature term_init" and "t_temperature term_init \<le> 1"
    by (simp_all add: term_init_def)
  then show ?thesis by (rule temperature_stays_in_range)
qed

text \<open>\<open>--temp\<close> is not checked against the domain [0, 1] that its help text and
  \<open>/temp\<close> use: started with \<open>--temp 5\<close>, the chat runs with temperature 5.\<close>

theorem temp_flag_unchecked:
  "\<exists>st e. term_main demo_term demo_lib
            \<lparr>arg_model = None, arg_temp = 5, arg_max_tokens = 1024\<rparr> demo_catalog
            (\<lambda>p. Http_exception ''refused'') [''1''] = Inr (st, Chat_ended e) \<and>
          t_temperature st = 5"
  by (simp add: term_eval msg_def)

text \<open>\<open>/clear\<close>, in any letter case and with surrounding blanks, replaces the
  history by the single note \<open>"Chat history cleared."\<close>, whatever it held.\<close>

theorem clear_resets_history:
  assumes "py_lower (py_strip line) = ''/clear''"
  shows "\<exists>e. term_body S L post line st =
               Some (st\<lparr>t_chat_history := [msg ''system'' (JStr ''Chat history cleared.'')]\<rparr>, e)"
  using assms by (simp add: term_body_def system_note_def Let_def)

theorem clear_resets_history_witness:
  "\<exists>e. term_body demo_screen demo_lib (\<lambda>p. Http_exception ''refused'') '' /CLEAR '' term_init =
        Some (term_init\<lparr>t_chat_history := [msg ''system'' (JStr ''Chat history cleared.'')]\<rparr>, e)"
proof -
  have "py_lower (py_strip '' /CLEAR '') = ''/clear''"
    by (simp add: py_lower_def py_lower_char_def py_strip_def py_lstrip_def py_isspace_def)
  from clear_resets_history [OF this] show ?thesis .
qed

text \<open>C11. The prompt of the input box is never shown, and the text box sits on the box's
  border. \<open>create_windows\<close> writes \<open>"You: "\<close> on the first row of the input window and
  then calls \<open>box()\<close>, which draws the border over that row; the one-row text box is
  created at \<open>input_start_y\<close>, the row of that border, not inside the box. On every
  terminal where \<open>init_curses\<close> succeeds, no cell of the input window holds a
  character.\<close>

theorem input_prompt_hidden:
  assumes "init_curses L tsz st = Inr ui"
  shows "(\<forall>p. win_cells (input_win ui) p = None \<or> win_cells (input_win ui) p = Some Border) \<and>
         win_y (input_box ui) = win_y (input_win ui) \<and>
         win_x (input_box ui) = int (length term_prompt)"
proof -
  obtain my mx where tsz: "tsz = (my, mx)" by fastforce
  have big: "7 \<le> my" "7 \<le> mx"
    using assms init_curses_small [of my mx L st] by (auto simp: tsz)
  from assms big init_curses_big [OF big, of L st] show ?thesis
    by (auto simp: tsz init_curses_input_win [OF big] box_def in_win_def)
qed

theorem input_prompt_hidden_witness:
  "\<exists>ui. init_curses demo_lib demo_term term_init = Inr ui \<and>
        (\<forall>p. win_cells (input_win ui) p = None \<or> win_cells (input_win ui) p = Some Border) \<and>
        win_y (input_box ui) = win_y (input_win ui) \<and>
        win_x (input_box ui) = int (length term_prompt)"
proof -
  have "\<exists>ui. init_curses demo_lib demo_term term_init = Inr ui"
    using init_curses_big [of 24 80 demo_lib term_init] by (auto simp: demo_term_def)
  then obtain ui where ui: "init_curses demo_lib demo_term term_init = Inr ui" ..
  from ui input_prompt_hidden [OF ui] show ?thesis by blast
qed



end
