(* ===== verification/ChatGPT_Client.thy ===== *)
theory ChatGPT_Client
  imports Tk_Client "HOL-Library.AList"
begin

text \<open>
  The Tk client in the style of ChatGPT, \<open>src/gui_app/chatgpt.py\<close>, class
  \<open>ChatGPTStyle\<close> and \<open>main\<close>. The state record \<open>cg_state\<close> holds the fields of the object
  that the chat uses. A Tk variable holds the Python value it was set with; Tcl's
  conversion to a string on \<open>get()\<close> is not modelled, and it is the identity on the strings
  the code sets. The sidebar is a list of frames, each with the title its menu's lambdas
  captured. The module's globals are an association list, because line 17 of the file
  defines \<open>OLLAMA_API_URLRSION\<close> where \<open>OLLAMA_API_URL\<close> and \<open>APP_VERSION\<close> are
  expected. Every handler is a function that returns the state it leaves. A handler that
  raises leaves the changes it made before the exception: Tk reports the exception and
  goes on. The worker threads are functions from the HTTP result to the callbacks they
  post, as in \<open>Tk_Client\<close>.
\<close>

section \<open>State\<close>

text \<open>The system lines of the chat area.\<close>

datatype cg_note =
    Note_welcome                 \<comment> \<open>\<open>"Welcome to Ollama Chat! Select a model to start chatting."\<close>\<close>
  | Note_model_selected json     \<comment> \<open>\<open>f"Model '{model}' selected. Start chatting!"\<close>\<close>
  | Note_empty_response          \<comment> \<open>\<open>"Error: Received empty response from model."\<close>\<close>
  | Note_notice notice           \<comment> \<open>\<open>error_msg\<close> of a non-200 reply\<close>
  | Note_loaded string           \<comment> \<open>\<open>f"Chat loaded from {basename}"\<close>\<close>

text \<open>The frames of \<open>messages_frame\<close>: \<open>add_system_message\<close>, \<open>add_user_message\<close>,
  \<open>add_assistant_message\<close>, and the numbered \<open>"Thinking..."\<close> frame of a send.\<close>

datatype cg_item = Sys_msg cg_note | User_msg json | Assistant_msg json | Thinking nat

datatype cg_dialog = Cg_info string | Cg_warning string | Cg_error string | Cg_ask string

text \<open>A progress window of \<open>download_model\<close>: its title, the text of its
  \<open>status_label\<close> and whether its progress bar runs.\<close>

record cg_progress =
  pg_title :: string
  pg_status :: json
  pg_running :: bool

record cg_state =
  cg_globals :: "(string \<times> string) list"
  cg_models :: "json list"
  cg_selected_model :: json
  cg_temperature :: json
  cg_max_tokens :: json
  cg_system_prompt :: json
  cg_chat_history :: json
  cg_is_generating :: bool
  current_chats :: "json list"
  sidebar :: "(nat \<times> json) list"
  cg_display :: "cg_item list"
  cg_user_input :: string
  cg_api_url :: string
  connection_status :: string
  has_status_indicator :: bool
  settings_open :: bool
  cg_dialogs :: "cg_dialog list"
  title_prompts :: nat
  next_widget :: nat
  settings_window :: nat
  models_listbox :: "json list"
  progress :: "(nat \<times> cg_progress) list"

text \<open>The module's globals after line 17: only \<open>OLLAMA_API_URLRSION\<close>.\<close>

definition cg_module_globals :: "(string \<times> string) list" where
  "cg_module_globals = [(''OLLAMA_API_URLRSION'', ''1.0.0'')]"

definition placeholder :: string where
  "placeholder = ''Message Ollama...''"

section \<open>Sidebar\<close>

text \<open>\<open>add_chat_to_sidebar\<close>: a frame whose menu captures \<open>title\<close>.\<close>

definition add_chat_to_sidebar :: "json \<Rightarrow> cg_state \<Rightarrow> cg_state" where
  "add_chat_to_sidebar title st =
     st\<lparr>sidebar := sidebar st @ [(next_widget st, title)], current_chats := current_chats st @ [title],
        next_widget := Suc (next_widget st)\<rparr>"

text \<open>\<open>save_rename\<close> of \<open>rename_chat\<close>, for the frame whose menu captured \<open>old_title\<close>.
  \<open>current_chats.index(old_title)\<close> raises when the title is no longer in the list; the
  dialog then stays open and nothing changes.\<close>

definition rename_chat :: "json \<Rightarrow> string \<Rightarrow> cg_state \<Rightarrow> cg_state" where
  "rename_chat old_title entry st =
     (let new_title = py_strip entry
      in if new_title \<noteq> [] \<and> JStr new_title \<noteq> old_title
         then (case py_index (current_chats st) old_title of
                 Inl _ \<Rightarrow> st
               | Inr idx \<Rightarrow> st\<lparr>current_chats := (current_chats st)[idx := JStr new_title]\<rparr>)
         else st)"

text \<open>\<open>send_invites\<close> of the dialog \<open>invite_friends\<close> opens from a chat's menu, on the
  text of its e-mail entry. Nothing is sent: with a recipient it shows a confirmation and
  closes the dialog, without one it shows a warning. The dialog window is not kept in the
  state; its grab, like the settings window's, is not modelled.\<close>

definition invite_friends :: "string \<Rightarrow> cg_state \<Rightarrow> cg_state" where
  "invite_friends emails st =
     st\<lparr>cg_dialogs := cg_dialogs st @
          [if py_strip emails \<noteq> [] then Cg_info ''Invitations Sent'' else Cg_warning ''No Recipients'']\<rparr>"

text \<open>\<open>delete_chat\<close> of frame \<open>f\<close>, on the answer to its \<open>askyesno\<close>.\<close>

definition delete_chat :: "nat \<Rightarrow> json \<Rightarrow> bool \<Rightarrow> cg_state \<Rightarrow> cg_state" where
  "delete_chat f title yes st =
     (let st1 = st\<lparr>cg_dialogs := cg_dialogs st @ [Cg_ask ''Confirm Delete'']\<rparr>
      in if yes
         then st1\<lparr>sidebar := filter (\<lambda>x. fst x \<noteq> f) (sidebar st1),
                  current_chats := (if title \<in> set (current_chats st1)
                                    then remove1 title (current_chats st1)
                                    else current_chats st1)\<rparr>
         else st1)"

section \<open>Chat area\<close>

definition add_item :: "cg_item \<Rightarrow> cg_state \<Rightarrow> cg_state" where
  "add_item it st = st\<lparr>cg_display := cg_display st @ [it]\<rparr>"

text \<open>\<open>clear_placeholder\<close> and \<open>add_placeholder\<close> (focus in and out of the input).\<close>

definition clear_placeholder :: "cg_state \<Rightarrow> cg_state" where
  "clear_placeholder st = (if cg_user_input st = placeholder then st\<lparr>cg_user_input := []\<rparr> else st)"

definition add_placeholder :: "cg_state \<Rightarrow> cg_state" where
  "add_placeholder st =
     (if py_strip (cg_user_input st) = [] then st\<lparr>cg_user_input := placeholder\<rparr> else st)"

text \<open>A model name that \<open>send_message\<close>, \<open>on_model_selected\<close> and \<open>new_chat\<close> accept.\<close>

definition model_ok :: "json \<Rightarrow> bool" where
  "model_ok m =
     (case m of
        JStr s \<Rightarrow> s \<noteq> [] \<and> s \<noteq> ''Loading models...'' \<and> s \<noteq> ''No models available''
      | _ \<Rightarrow> truthy m)"

text \<open>\<open>update_models\<close>: the first model is selected and announced. With no model,
  \<open>model_combobox.current(0)\<close> puts \<open>"No models available"\<close> into the variable.\<close>

definition cg_update_models :: "json list \<Rightarrow> cg_state \<Rightarrow> cg_state" where
  "cg_update_models ms st =
     (if ms \<noteq> []
      then add_item (Sys_msg (Note_model_selected (hd ms))) (st\<lparr>cg_models := ms, cg_selected_model := hd ms\<rparr>)
      else st\<lparr>cg_models := ms, cg_selected_model := JStr ''No models available'',
              cg_dialogs := cg_dialogs st @ [Cg_warning ''No Models Found'']\<rparr>)"

text \<open>\<open>new_chat\<close>: the history is replaced by a new list, the chat area by one system
  line, and with \<open>prompt_for_title\<close> the title dialog opens.\<close>

definition cg_new_chat :: "bool \<Rightarrow> cg_state \<Rightarrow> cg_state" where
  "cg_new_chat prompt st =
     (let st1 = st\<lparr>cg_chat_history := JArr [],
                   cg_display := [Sys_msg (if model_ok (cg_selected_model st)
                                           then Note_model_selected (cg_selected_model st)
                                           else Note_welcome)]\<rparr>
      in if prompt then st1\<lparr>title_prompts := Suc (title_prompts st1)\<rparr> else st1)"

text \<open>The title dialog of \<open>prompt_for_chat_title\<close>, answered: \<open>Some text\<close> for Create
  (or Enter), \<open>None\<close> for Cancel. Both end in \<open>finish_new_chat\<close>.\<close>

definition default_title :: "cg_state \<Rightarrow> json" where
  "default_title st = JStr (''Chat '' @ py_nat_str (length (current_chats st) + 1))"

definition finish_new_chat :: "string option \<Rightarrow> cg_state \<Rightarrow> cg_state" where
  "finish_new_chat answer st =
     (let title = (case answer of
                     Some text \<Rightarrow> if py_strip text = [] then default_title st else JStr (py_strip text)
                   | None \<Rightarrow> default_title st)
      in add_chat_to_sidebar title (st\<lparr>title_prompts := title_prompts st - 1\<rparr>))"

definition cg_on_model_selected :: "cg_state \<Rightarrow> cg_state" where
  "cg_on_model_selected st =
     (if model_ok (cg_selected_model st)
      then add_item (Sys_msg (Note_model_selected (cg_selected_model st))) (cg_new_chat True st)
      else st)"

section \<open>Sending\<close>

text \<open>The request: the system prompt is always the first message, even when it is
  empty, then the history (\<open>messages.extend\<close>).\<close>

definition cg_request_messages :: "json \<Rightarrow> json list \<Rightarrow> json list" where
  "cg_request_messages system_prompt history = msg ''system'' system_prompt # history"

definition cg_payload :: "cg_state \<Rightarrow> json \<Rightarrow> json list \<Rightarrow> py_error + json" where
  "cg_payload st model messages =
     py_bind (tk_get_double (cg_temperature st)) (\<lambda>t.
       py_bind (tk_get_int (cg_max_tokens st)) (\<lambda>n.
         Inr (chat_payload model messages (JFloat t) (JInt n))))"

text \<open>A thread: \<open>generate\<close> with its payload and the number of its thinking frame,
  \<open>fetch\<close> of \<open>fetch_models\<close>, \<open>test\<close> of \<open>test_connection\<close> with the URL it
  requests, \<open>fetch\<close> of \<open>fetch_models_for_listbox\<close> with the settings window whose
  listbox it fills, and \<open>download\<close> of \<open>download_model\<close> with its progress window and
  the model name.\<close>

datatype cg_worker =
    Cg_generate "py_error + json" nat
  | Cg_fetch
  | Cg_test string
  | Cg_listbox nat
  | Cg_download nat string

text \<open>\<open>send_message\<close>. The result is the state and the thread it starts. When the history
  is not a list (a loaded file can make it anything), \<open>append\<close> raises after the user's
  line was shown and the input cleared.\<close>

definition cg_send_message :: "cg_state \<Rightarrow> cg_state \<times> cg_worker option" where
  "cg_send_message st =
     (if cg_is_generating st then (st, None)
      else
        let message_text = py_strip (cg_user_input st)
        in if message_text = [] \<or> message_text = placeholder then (st, None)
        else
          let model = cg_selected_model st
          in if \<not> model_ok model
             then (st\<lparr>cg_dialogs := cg_dialogs st @ [Cg_warning ''No Model Selected'']\<rparr>, None)
             else
               let st1 = (add_item (User_msg (JStr message_text)) st)\<lparr>cg_user_input := []\<rparr>
               in (case py_append (cg_chat_history st1) (msg ''user'' (JStr message_text)) of
                     Inl e \<Rightarrow> (st1, None)
                   | Inr h \<Rightarrow>
                       let messages = cg_request_messages (cg_system_prompt st1) h;
                           f = next_widget st1;
                           st2 = (add_item (Thinking f) (st1\<lparr>cg_chat_history := JArr h\<rparr>))
                                   \<lparr>cg_is_generating := True, next_widget := Suc f\<rparr>
                       in (st2, Some (Cg_generate (cg_payload st1 model messages) f))))"

text \<open>The callbacks the threads post with \<open>self.after(0, ...)\<close>.\<close>

datatype cg_callback =
    Cb_destroy nat                  \<comment> \<open>\<open>thinking_frame.destroy()\<close>\<close>
  | Cb_assistant json               \<comment> \<open>\<open>add_assistant_message(content)\<close>\<close>
  | Cb_system cg_note               \<comment> \<open>\<open>add_system_message(...)\<close>\<close>
  | Cb_cg_name_error                \<comment> \<open>a lambda reading the deleted exception variable\<close>
  | Cb_cg_reset                     \<comment> \<open>\<open>setattr(self, 'is_generating', False)\<close>\<close>
  | Cb_cg_update_models "json list" \<comment> \<open>\<open>update_models(models)\<close>\<close>
  | Cb_connection string            \<comment> \<open>\<open>connection_status.set(...)\<close>\<close>
  | Cb_dialog cg_dialog             \<comment> \<open>a message box\<close>
  | Cb_listbox_clear nat            \<comment> \<open>\<open>listbox.delete(0, tk.END)\<close> of a settings window\<close>
  | Cb_listbox_insert nat json      \<comment> \<open>\<open>listbox.insert(tk.END, m)\<close>\<close>
  | Cb_pg_stop nat                  \<comment> \<open>\<open>progress.stop()\<close> of a progress window\<close>
  | Cb_pg_status nat json           \<comment> \<open>\<open>status_label.config(text=s)\<close>\<close>
  | Cb_pg_title nat string          \<comment> \<open>\<open>progress_window.title(...)\<close>\<close>

text \<open>A callback on a widget of a window that was closed raises \<open>TclError\<close>, which Tk
  reports: it changes nothing. The listbox is the one of the settings window that is
  open, when it is the window the thread was started from.\<close>

definition listbox_live :: "nat \<Rightarrow> cg_state \<Rightarrow> bool" where
  "listbox_live n st \<longleftrightarrow> settings_open st \<and> settings_window st = n"

definition upd_progress :: "nat \<Rightarrow> (cg_progress \<Rightarrow> cg_progress) \<Rightarrow> cg_state \<Rightarrow> cg_state" where
  "upd_progress w f st = st\<lparr>progress := map (\<lambda>(k, p). if k = w then (k, f p) else (k, p)) (progress st)\<rparr>"

fun cg_run_callback :: "cg_callback \<Rightarrow> cg_state \<Rightarrow> cg_state" where
  "cg_run_callback (Cb_destroy f) st = st\<lparr>cg_display := filter (\<lambda>it. it \<noteq> Thinking f) (cg_display st)\<rparr>"
| "cg_run_callback (Cb_assistant c) st = add_item (Assistant_msg c) st"
| "cg_run_callback (Cb_system n) st = add_item (Sys_msg n) st"
| "cg_run_callback Cb_cg_name_error st = st"
| "cg_run_callback Cb_cg_reset st = st\<lparr>cg_is_generating := False\<rparr>"
| "cg_run_callback (Cb_cg_update_models ms) st = cg_update_models ms st"
| "cg_run_callback (Cb_connection s) st = st\<lparr>connection_status := s\<rparr>"
| "cg_run_callback (Cb_dialog d) st = st\<lparr>cg_dialogs := cg_dialogs st @ [d]\<rparr>"
| "cg_run_callback (Cb_listbox_clear n) st =
     (if listbox_live n st then st\<lparr>models_listbox := []\<rparr> else st)"
| "cg_run_callback (Cb_listbox_insert n m) st =
     (if listbox_live n st then st\<lparr>models_listbox := models_listbox st @ [m]\<rparr> else st)"
| "cg_run_callback (Cb_pg_stop w) st = upd_progress w (\<lambda>p. p\<lparr>pg_running := False\<rparr>) st"
| "cg_run_callback (Cb_pg_status w s) st = upd_progress w (\<lambda>p. p\<lparr>pg_status := s\<rparr>) st"
| "cg_run_callback (Cb_pg_title w t) st = upd_progress w (\<lambda>p. p\<lparr>pg_title := t\<rparr>) st"

text \<open>\<open>generate\<close>: the history it appends to (the one current when the reply arrives)
  and the callbacks it posts. The \<open>except\<close> clause destroys the frame and posts a message
  that reads \<open>e\<close>; \<open>finally\<close> resets \<open>is_generating\<close>.\<close>

definition cg_generate_except :: "nat \<Rightarrow> cg_callback list" where
  "cg_generate_except f = [Cb_destroy f, Cb_cg_name_error]"

fun cg_generate_body :: "py_error + json \<Rightarrow> nat \<Rightarrow> http_result \<Rightarrow> json \<Rightarrow> json \<times> cg_callback list" where
  "cg_generate_body (Inl e) f r h = (h, cg_generate_except f)"
| "cg_generate_body (Inr p) f (Http_exception s) h = (h, cg_generate_except f)"
| "cg_generate_body (Inr p) f (Http_response status body) h =
     (if status = 200 then
        (case body of
           None \<Rightarrow> (h, Cb_destroy f # cg_generate_except f)
         | Some data \<Rightarrow>
             (case reply_content data of
                Inl e \<Rightarrow> (h, Cb_destroy f # cg_generate_except f)
              | Inr None \<Rightarrow> (h, [Cb_destroy f, Cb_system Note_empty_response])
              | Inr (Some c) \<Rightarrow>
                  (case py_append h (msg ''assistant'' c) of
                     Inl e \<Rightarrow> (h, Cb_destroy f # cg_generate_except f)
                   | Inr h' \<Rightarrow> (JArr h', [Cb_destroy f, Cb_assistant c]))))
      else (h, [Cb_destroy f, Cb_system (Note_notice (status_error status body))]))"

definition cg_generate :: "py_error + json \<Rightarrow> nat \<Rightarrow> http_result \<Rightarrow> json \<Rightarrow> json \<times> cg_callback list" where
  "cg_generate p f r h = (let (h', cbs) = cg_generate_body p f r h in (h', cbs @ [Cb_cg_reset]))"

text \<open>\<open>fetch\<close> of \<open>fetch_models\<close>. The status indicator exists only once the settings
  window was opened; its colour is not modelled, the status text is. The \<open>except\<close>
  clause's message box reads \<open>e\<close>.\<close>

definition cg_fetch :: "bool \<Rightarrow> http_result \<Rightarrow> cg_callback list" where
  "cg_fetch ind r =
     (case r of
        Http_response status body \<Rightarrow>
          if status = 200 then
            (case body of
               None \<Rightarrow> (if ind then [Cb_connection ''Error''] else []) @ [Cb_cg_name_error]
             | Some data \<Rightarrow>
                 (case fetch_model_names data of
                    Inl e \<Rightarrow> (if ind then [Cb_connection ''Error''] else []) @ [Cb_cg_name_error]
                  | Inr ms \<Rightarrow> Cb_cg_update_models ms # (if ind then [Cb_connection ''Connected''] else [])))
          else (if ind then [Cb_connection ''Error''] else []) @ [Cb_dialog (Cg_error ''API Error'')]
      | Http_exception s \<Rightarrow> (if ind then [Cb_connection ''Error''] else []) @ [Cb_cg_name_error])"

text \<open>\<open>fetch_models\<close>: the status text, then a \<open>fetch\<close> thread.\<close>

definition cg_fetch_models :: "cg_state \<Rightarrow> cg_state" where
  "cg_fetch_models st =
     (if has_status_indicator st then st\<lparr>connection_status := ''Connecting...''\<rparr> else st)"

section \<open>The threads of the settings window\<close>

text \<open>What a request of a thread ends with: the result of an ordinary request, the
  \<open>requests.exceptions.Timeout\<close> of a request with a \<open>timeout\<close> (only \<open>test\<close> passes
  one), or the status code and the lines of a streamed reply (\<open>stream=True\<close>,
  \<open>iter_lines\<close>), each decoded by \<open>json.loads\<close> (\<open>None\<close> when it is not JSON); the
  empty lines, which the loop skips, are left out.\<close>

datatype cg_reply = Reply http_result | Reply_timeout | Reply_stream nat "json option list"

text \<open>The replies a thread's request can end with: only \<open>download\<close> streams, and it
  ends with a stream or an exception.\<close>

fun reply_fits :: "cg_worker \<Rightarrow> cg_reply \<Rightarrow> bool" where
  "reply_fits (Cg_download w m) (Reply (Http_exception e)) = True"
| "reply_fits (Cg_download w m) (Reply_stream status ls) = True"
| "reply_fits (Cg_download w m) _ = False"
| "reply_fits (Cg_test u) (Reply_stream status ls) = False"
| "reply_fits (Cg_test u) _ = True"
| "reply_fits w (Reply r) = True"
| "reply_fits w _ = False"

text \<open>\<open>test_connection\<close>: the status text, then a \<open>test\<close> thread on the URL read now.
  The colour of the status light is not modelled.\<close>

definition test_connection :: "cg_state \<Rightarrow> cg_state \<times> cg_worker" where
  "test_connection st = (st\<lparr>connection_status := ''Testing...''\<rparr>, Cg_test (cg_api_url st))"

text \<open>\<open>test\<close>: the \<open>except Exception\<close> clause's message box reads \<open>e\<close>, deleted when
  the clause ended.\<close>

definition cg_test :: "cg_reply \<Rightarrow> cg_callback list" where
  "cg_test r =
     (case r of
        Reply (Http_response status body) \<Rightarrow>
          if status = 200 then [Cb_connection ''Connected'', Cb_dialog (Cg_info ''Connection Successful'')]
          else [Cb_connection ''Error'', Cb_dialog (Cg_error ''API Error'')]
      | Reply_timeout \<Rightarrow> [Cb_connection ''Timeout'', Cb_dialog (Cg_error ''Connection Timeout'')]
      | _ \<Rightarrow> [Cb_connection ''Error'', Cb_cg_name_error])"

text \<open>\<open>fetch_models_for_listbox(models_listbox)\<close> of the open settings window.\<close>

definition fetch_models_for_listbox :: "cg_state \<Rightarrow> cg_state \<times> cg_worker" where
  "fetch_models_for_listbox st =
     (st\<lparr>models_listbox := [JStr ''Fetching models...'']\<rparr>, Cg_listbox (settings_window st))"

text \<open>Its \<open>fetch\<close>: a failure while decoding raises before any callback is posted; the
  \<open>except\<close> clause's insert reads \<open>e\<close>.\<close>

definition cg_listbox_fetch :: "nat \<Rightarrow> cg_reply \<Rightarrow> cg_callback list" where
  "cg_listbox_fetch n r =
     (case r of
        Reply (Http_response status body) \<Rightarrow>
          if status = 200 then
            (case body of
               None \<Rightarrow> [Cb_listbox_clear n, Cb_cg_name_error]
             | Some data \<Rightarrow>
                 (case fetch_model_names data of
                    Inl e \<Rightarrow> [Cb_listbox_clear n, Cb_cg_name_error]
                  | Inr ms \<Rightarrow> Cb_listbox_clear n # map (Cb_listbox_insert n) ms))
          else [Cb_listbox_clear n, Cb_listbox_insert n (JStr (''Error: API returned '' @ py_nat_str status))]
      | _ \<Rightarrow> [Cb_listbox_clear n, Cb_cg_name_error])"

text \<open>\<open>download_model(model_entry.get())\<close>: an empty name is refused; otherwise a new
  progress window, running, and a \<open>download\<close> thread.\<close>

definition download_model :: "string \<Rightarrow> cg_state \<Rightarrow> cg_state \<times> cg_worker option" where
  "download_model model_name st =
     (if model_name = [] then (st\<lparr>cg_dialogs := cg_dialogs st @ [Cg_warning ''Error'']\<rparr>, None)
      else
        let w = next_widget st
        in (st\<lparr>progress := progress st @
                  [(w, \<lparr>pg_title = ''Downloading '' @ model_name,
                        pg_status = JStr ''Starting download...'', pg_running = True\<rparr>)],
               next_widget := Suc w\<rparr>,
            Some (Cg_download w model_name)))"

text \<open>\<open>progress_window.destroy\<close>, from its close button or from the delayed callback.\<close>

definition destroy_progress :: "nat \<Rightarrow> cg_state \<Rightarrow> cg_state" where
  "destroy_progress w st = st\<lparr>progress := filter (\<lambda>(k, p). k \<noteq> w) (progress st)\<rparr>"

text \<open>The callbacks posted with a delay: \<open>self.after(1000, self.fetch_models)\<close> and
  \<open>self.after(2000, progress_window.destroy)\<close>.\<close>

datatype cg_timer = Tm_fetch_models | Tm_destroy nat

text \<open>The loop \<open>for line in response.iter_lines()\<close> of \<open>download\<close>: one status per line,
  and whether the loop ended without an exception (a line that is not JSON, or a JSON
  value that is not an object, raises).\<close>

fun cg_pull_lines :: "nat \<Rightarrow> json option list \<Rightarrow> cg_callback list \<times> bool" where
  "cg_pull_lines w [] = ([], True)"
| "cg_pull_lines w (None # ls) = ([], False)"
| "cg_pull_lines w (Some d # ls) =
     (case py_get d ''status'' (JStr []) of
        Inl e \<Rightarrow> ([], False)
      | Inr s \<Rightarrow> (case cg_pull_lines w ls of (cbs, ok) \<Rightarrow> (Cb_pg_status w s # cbs, ok)))"

text \<open>\<open>download\<close>: a reply other than 200 only sets the label and returns; an exception
  stops the bar and posts a label text that reads \<open>e\<close>.\<close>

definition cg_download :: "nat \<Rightarrow> string \<Rightarrow> cg_reply \<Rightarrow> cg_callback list \<times> cg_timer list" where
  "cg_download w model_name r =
     (case r of
        Reply_stream status ls \<Rightarrow>
          if status \<noteq> 200 then ([Cb_pg_status w (JStr (''Error: API returned '' @ py_nat_str status))], [])
          else
            (case cg_pull_lines w ls of
               (cbs, True) \<Rightarrow>
                 (cbs @ [Cb_pg_stop w, Cb_pg_status w (JStr ''Download complete!''),
                         Cb_pg_title w (model_name @ '' Downloaded'')],
                  [Tm_fetch_models, Tm_destroy w])
             | (cbs, False) \<Rightarrow> (cbs @ [Cb_pg_stop w, Cb_cg_name_error], []))
      | _ \<Rightarrow> ([Cb_pg_stop w, Cb_cg_name_error], []))"

section \<open>Files\<close>

text \<open>\<open>load_chat_from_file\<close> on the path the file dialog returned (empty: cancelled).\<close>

definition load_messages :: "json \<Rightarrow> cg_state \<Rightarrow> py_error + cg_state" where
  "load_messages history st =
     py_bind (py_iter history) (\<lambda>ms.
       fold (\<lambda>m acc. py_bind acc (\<lambda>st'.
               py_bind (py_subscript m ''role'') (\<lambda>role.
                 if role = JStr ''user''
                 then py_bind (py_subscript m ''content'') (\<lambda>c. Inr (add_item (User_msg c) st'))
                 else if role = JStr ''assistant''
                 then py_bind (py_subscript m ''content'') (\<lambda>c. Inr (add_item (Assistant_msg c) st'))
                 else Inr st')))
         ms (Inr st))"

text \<open>A step of the \<open>try\<close> block that may raise: on an exception, the state the
  earlier steps left is kept with it.\<close>

definition keep_bind :: "cg_state \<Rightarrow> py_error + 'a \<Rightarrow> ('a \<Rightarrow> cg_state \<times> py_error option) \<Rightarrow>
                          cg_state \<times> py_error option" where
  "keep_bind st r f = (case r of Inl e \<Rightarrow> (st, Some e) | Inr a \<Rightarrow> f a)"

definition load_chat_data :: "json list \<Rightarrow> string \<Rightarrow> json \<Rightarrow> cg_state \<Rightarrow> cg_state \<times> py_error option" where
  "load_chat_data catalogue path chat_data st =
     (let st1 = cg_new_chat False st
      in keep_bind st1 (py_contains chat_data ''title'') (\<lambda>has_title.
         keep_bind st1 (if has_title then py_subscript chat_data ''title''
                        else Inr (JStr (''Loaded Chat '' @ py_nat_str (length (current_chats st1) + 1)))) (\<lambda>title.
         let st2 = add_chat_to_sidebar title st1
         in keep_bind st2 (py_contains chat_data ''model'') (\<lambda>has_model.
            keep_bind st2 (if has_model then py_subscript chat_data ''model'' else Inr JNull) (\<lambda>m.
            let st3 = (if has_model \<and> m \<in> set catalogue then st2\<lparr>cg_selected_model := m\<rparr> else st2)
            in keep_bind st3 (py_contains chat_data ''system_prompt'') (\<lambda>has_sp.
               keep_bind st3 (if has_sp then py_subscript chat_data ''system_prompt''
                              else Inr (cg_system_prompt st3)) (\<lambda>sp.
               let st4 = st3\<lparr>cg_system_prompt := sp\<rparr>
               in keep_bind st4 (py_subscript chat_data ''messages'') (\<lambda>history.
                  let st5 = add_item (Sys_msg (Note_loaded (py_basename path)))
                              (st4\<lparr>cg_chat_history := history\<rparr>)
                  in keep_bind st5 (load_messages history st5) (\<lambda>st6. (st6, None))))))))))"

definition load_chat_from_file :: "file_store \<Rightarrow> string \<Rightarrow> cg_state \<Rightarrow> cg_state" where
  "load_chat_from_file fs path st =
     (if path = [] then st
      else
        let err = (\<lambda>st'. st'\<lparr>cg_dialogs := cg_dialogs st' @ [Cg_error ''Error Loading Chat'']\<rparr>)
        in (case json_load fs path of
              Inl e \<Rightarrow> err st
            | Inr chat_data \<Rightarrow>
                (case py_contains chat_data ''messages'' of
                   Inl e \<Rightarrow> err st
                 | Inr False \<Rightarrow> st\<lparr>cg_dialogs := cg_dialogs st @ [Cg_error ''Invalid Chat File'']\<rparr>
                 | Inr True \<Rightarrow>
                     (case load_chat_data (cg_models st) path chat_data st of
                        (st', None) \<Rightarrow> st'\<lparr>cg_dialogs := cg_dialogs st' @ [Cg_info ''Chat Loaded'']\<rparr>
                      | (st', Some e) \<Rightarrow> err st'))))"

text \<open>\<open>save_chat_to_file\<close> on the path the dialog returned and the time \<open>now\<close>.
  Building \<open>chat_data\<close> reads the global \<open>APP_VERSION\<close>; when the module does not define
  it, \<open>NameError\<close> is raised before the file is opened. The result is the state and the
  file store.\<close>

definition save_chat_to_file :: "file_store \<Rightarrow> string \<Rightarrow> string \<Rightarrow> cg_state \<Rightarrow> cg_state \<times> file_store" where
  "save_chat_to_file fs path now st =
     (if \<not> truthy (cg_chat_history st)
      then (st\<lparr>cg_dialogs := cg_dialogs st @ [Cg_info ''No Chat to Save'']\<rparr>, fs)
      else if path = [] then (st, fs)
      else
        (case map_of (cg_globals st) ''APP_VERSION'' of
           None \<Rightarrow> (st\<lparr>cg_dialogs := cg_dialogs st @ [Cg_error ''Error Saving Chat'']\<rparr>, fs)
         | Some v \<Rightarrow>
             let chat_data =
                   JObj [(''title'', if current_chats st \<noteq> [] then last (current_chats st) else JStr ''Untitled Chat''),
                         (''model'', cg_selected_model st), (''timestamp'', JStr now),
                         (''system_prompt'', cg_system_prompt st), (''messages'', cg_chat_history st),
                         (''app_version'', JStr v)]
             in (st\<lparr>cg_dialogs := cg_dialogs st @ [Cg_info ''Chat Saved'']\<rparr>, json_dump fs path chat_data)))"

section \<open>Settings, closing and start-up\<close>

text \<open>\<open>show_settings\<close>: a new window, whose canvas becomes \<open>status_indicator\<close> and
  whose listbox shows \<open>self.models\<close>. Its URL entry is bound to \<open>self.ollama_api_url\<close>
  (\<open>textvariable\<close>), so typing there changes the variable at once; so are the scale
  (\<open>self.temperature\<close>) and the max tokens entry.\<close>

definition show_settings :: "cg_state \<Rightarrow> cg_state" where
  "show_settings st =
     st\<lparr>has_status_indicator := True, settings_open := True,
        settings_window := Suc (settings_window st), models_listbox := cg_models st\<rparr>"

text \<open>\<open>save_settings(system_prompt_text.get(...), api_url_entry.get(), window)\<close>: the
  entry's text is the variable's value, so the test \<open>api_url != self.ollama_api_url.get()\<close>
  compares the variable with itself. The result says whether a \<open>fetch\<close> thread starts.\<close>

definition save_settings :: "string \<Rightarrow> string \<Rightarrow> cg_state \<Rightarrow> cg_state \<times> bool" where
  "save_settings system_prompt api_url st =
     (let st1 = st\<lparr>cg_system_prompt := JStr system_prompt\<rparr>
      in if api_url \<noteq> cg_api_url st1
         then (cg_fetch_models (st1\<lparr>cg_api_url := api_url,
                                    cg_globals := AList.update ''OLLAMA_API_URL'' api_url (cg_globals st1),
                                    settings_open := False\<rparr>), True)
         else (st1\<lparr>settings_open := False\<rparr>, False))"

text \<open>\<open>on_close\<close> with the answers to its two questions: whether the window closes.\<close>

definition cg_on_close :: "bool \<Rightarrow> bool \<Rightarrow> cg_state \<Rightarrow> bool" where
  "cg_on_close exit_anyway exit_unsaved st =
     (if cg_is_generating st \<and> \<not> exit_anyway then False
      else if truthy (cg_chat_history st) \<and> \<not> exit_unsaved then False
      else True)"

text \<open>\<open>__init__\<close> (through \<open>create_ui\<close>: the two sample chats of the sidebar, the
  placeholder, the welcome line) and its \<open>fetch_models\<close>. \<open>tk.StringVar(value=
  OLLAMA_API_URL)\<close> raises \<open>NameError\<close> when the global is not defined.\<close>

definition cg_init :: "(string \<times> string) list \<Rightarrow> py_error + cg_state" where
  "cg_init globals =
     (case map_of globals ''OLLAMA_API_URL'' of
        None \<Rightarrow> Inl (NameError ''OLLAMA_API_URL'')
      | Some url \<Rightarrow>
          Inr (cg_fetch_models
                 (add_chat_to_sidebar (JStr ''My first conversation'')
                   (add_chat_to_sidebar (JStr ''Welcome to Ollama Chat'')
                     \<lparr>cg_globals = globals, cg_models = [], cg_selected_model = JStr [],
                      cg_temperature = JFloat (7 / 10), cg_max_tokens = JInt 1024,
                      cg_system_prompt = JStr ''You are a helpful assistant.'', cg_chat_history = JArr [],
                      cg_is_generating = False, current_chats = [], sidebar = [],
                      cg_display = [Sys_msg Note_welcome], cg_user_input = placeholder,
                      cg_api_url = url, connection_status = ''Not Connected'',
                      has_status_indicator = False, settings_open = False, cg_dialogs = [], title_prompts = 0,
                      next_widget = 0, settings_window = 0, models_listbox = [], progress = []\<rparr>))))"

text \<open>\<open>main\<close>: \<open>--api-url\<close> (empty when absent) defines the global before the window is
  built.\<close>

definition cg_main :: "string \<Rightarrow> py_error + cg_state" where
  "cg_main api_url =
     (let globals = (if api_url \<noteq> [] then AList.update ''OLLAMA_API_URL'' api_url cg_module_globals
                     else cg_module_globals)
      in py_bind (cg_init globals) (\<lambda>app.
           Inr (if api_url \<noteq> [] then app\<lparr>cg_api_url := api_url\<rparr> else app)))"

text \<open>A client in a concrete state for the scenarios below: the model \<open>llama3\<close> is
  selected, the system prompt is empty, and the user has typed \<open>Hello\<close>.\<close>

definition cg_demo_state :: cg_state where
  "cg_demo_state =
     \<lparr>cg_globals = [(''OLLAMA_API_URL'', ''http://localhost:11434/api'')], cg_models = [JStr ''llama3''],
      cg_selected_model = JStr ''llama3'', cg_temperature = JFloat (7 / 10), cg_max_tokens = JInt 1024,
      cg_system_prompt = JStr [], cg_chat_history = JArr [], cg_is_generating = False,
      current_chats = [], sidebar = [], cg_display = [], cg_user_input = ''Hello'',
      cg_api_url = ''http://localhost:11434/api'', connection_status = ''Not Connected'',
      has_status_indicator = False, settings_open = False, cg_dialogs = [], title_prompts = 0,
      next_widget = 0, settings_window = 0, models_listbox = [], progress = []\<rparr>"

section \<open>Lemmas\<close>

text \<open>Which handlers touch \<open>is_generating\<close> and the module's globals: the frame
  lemmas the invariant of \<open>ChatGPT_Session\<close> is built from.\<close>

named_theorems cg_frame

lemma add_item_frame [simp, cg_frame]:
  "cg_is_generating (add_item it st) = cg_is_generating st"
  "cg_globals (add_item it st) = cg_globals st"
  "cg_chat_history (add_item it st) = cg_chat_history st"
  "current_chats (add_item it st) = current_chats st"
  "sidebar (add_item it st) = sidebar st"
  "cg_models (add_item it st) = cg_models st"
  by (simp_all add: add_item_def)

lemma add_chat_to_sidebar_frame [simp, cg_frame]:
  "cg_is_generating (add_chat_to_sidebar t st) = cg_is_generating st"
  "cg_globals (add_chat_to_sidebar t st) = cg_globals st"
  "cg_chat_history (add_chat_to_sidebar t st) = cg_chat_history st"
  by (simp_all add: add_chat_to_sidebar_def)

lemma cg_new_chat_frame [simp, cg_frame]:
  "cg_is_generating (cg_new_chat b st) = cg_is_generating st"
  "cg_globals (cg_new_chat b st) = cg_globals st"
  "current_chats (cg_new_chat b st) = current_chats st"
  "cg_models (cg_new_chat b st) = cg_models st"
  by (simp_all add: cg_new_chat_def Let_def)

lemma cg_handlers_frame [cg_frame]:
  "cg_is_generating (rename_chat t x st) = cg_is_generating st"
  "cg_globals (rename_chat t x st) = cg_globals st"
  "cg_is_generating (invite_friends e st) = cg_is_generating st"
  "cg_globals (invite_friends e st) = cg_globals st"
  "cg_is_generating (delete_chat f t b st) = cg_is_generating st"
  "cg_globals (delete_chat f t b st) = cg_globals st"
  "cg_is_generating (clear_placeholder st) = cg_is_generating st"
  "cg_globals (clear_placeholder st) = cg_globals st"
  "cg_is_generating (add_placeholder st) = cg_is_generating st"
  "cg_globals (add_placeholder st) = cg_globals st"
  "cg_is_generating (cg_update_models ms st) = cg_is_generating st"
  "cg_globals (cg_update_models ms st) = cg_globals st"
  "cg_is_generating (finish_new_chat a st) = cg_is_generating st"
  "cg_globals (finish_new_chat a st) = cg_globals st"
  "cg_is_generating (cg_on_model_selected st) = cg_is_generating st"
  "cg_globals (cg_on_model_selected st) = cg_globals st"
  "cg_is_generating (show_settings st) = cg_is_generating st"
  "cg_globals (show_settings st) = cg_globals st"
  by (simp_all add: rename_chat_def invite_friends_def delete_chat_def clear_placeholder_def add_placeholder_def
      cg_update_models_def finish_new_chat_def cg_on_model_selected_def show_settings_def Let_def
      split: sum.split)

lemma load_messages_frame:
  "load_messages h st = Inr st' \<Longrightarrow>
   cg_is_generating st' = cg_is_generating st \<and> cg_globals st' = cg_globals st \<and>
   cg_chat_history st' = cg_chat_history st"
proof -
  have "\<And>acc. fold (\<lambda>m acc. py_bind acc (\<lambda>st'.
               py_bind (py_subscript m ''role'') (\<lambda>role.
                 if role = JStr ''user''
                 then py_bind (py_subscript m ''content'') (\<lambda>c. Inr (add_item (User_msg c) st'))
                 else if role = JStr ''assistant''
                 then py_bind (py_subscript m ''content'') (\<lambda>c. Inr (add_item (Assistant_msg c) st'))
                 else Inr st'))) ms acc = Inr st' \<Longrightarrow>
        (\<exists>st0. acc = Inr st0 \<and> cg_is_generating st' = cg_is_generating st0 \<and>
               cg_globals st' = cg_globals st0 \<and> cg_chat_history st' = cg_chat_history st0)" for ms
  proof (induction ms)
    case Nil
    then show ?case by simp
  next
    case (Cons m ms)
    then show ?case
      by (fastforce simp: py_bind_def split: sum.splits if_splits)
  qed
  then show "load_messages h st = Inr st' \<Longrightarrow> ?thesis"
    by (fastforce simp: load_messages_def py_bind_eq_Inr)
qed

lemma keep_bind_prop:
  "(\<And>e. P (st, Some e)) \<Longrightarrow> (\<And>a. P (f a)) \<Longrightarrow> P (keep_bind st r f)"
  by (cases r) (simp_all add: keep_bind_def)

lemma keep_bind_load_messages:
  "cg_is_generating st' = g \<Longrightarrow> cg_globals st' = gl \<Longrightarrow>
   cg_is_generating (fst (keep_bind st' (load_messages h st') (\<lambda>st6. (st6, None)))) = g \<and>
   cg_globals (fst (keep_bind st' (load_messages h st') (\<lambda>st6. (st6, None)))) = gl"
  by (cases "load_messages h st'") (auto simp: keep_bind_def dest: load_messages_frame)

lemma load_chat_data_frame:
  "cg_is_generating (fst (load_chat_data cat path d st)) = cg_is_generating st \<and>
   cg_globals (fst (load_chat_data cat path d st)) = cg_globals st"
  unfolding load_chat_data_def Let_def
  by (rule keep_bind_load_messages, simp, simp
      | rule keep_bind_prop [where P = "\<lambda>x. cg_is_generating (fst x) = cg_is_generating st \<and>
                                             cg_globals (fst x) = cg_globals st"], simp)+

lemma load_chat_data_frame_eq:
  "load_chat_data cat path d st = (st', e) \<Longrightarrow>
   cg_is_generating st' = cg_is_generating st \<and> cg_globals st' = cg_globals st"
  using load_chat_data_frame [of cat path d st] by simp

lemma load_chat_from_file_frame [cg_frame]:
  "cg_is_generating (load_chat_from_file fs path st) = cg_is_generating st \<and>
   cg_globals (load_chat_from_file fs path st) = cg_globals st"
  by (auto simp: load_chat_from_file_def Let_def split: sum.split bool.split prod.split option.split
      dest: load_chat_data_frame_eq)

lemma save_chat_to_file_frame [cg_frame]:
  "cg_is_generating (fst (save_chat_to_file fs path now st)) = cg_is_generating st \<and>
   cg_globals (fst (save_chat_to_file fs path now st)) = cg_globals st"
  by (simp add: save_chat_to_file_def Let_def split: option.split)

lemma cg_run_callback_frame [cg_frame]:
  "c \<noteq> Cb_cg_reset \<Longrightarrow> cg_is_generating (cg_run_callback c st) = cg_is_generating st"
  "cg_globals (cg_run_callback c st) = cg_globals st"
  by (cases c; simp add: cg_handlers_frame upd_progress_def)+

lemma cg_send_message_cases:
  assumes "cg_send_message st = (st', w)"
  shows "(w = None \<and> cg_is_generating st' = cg_is_generating st) \<or>
         (\<exists>p f. w = Some (Cg_generate p f) \<and> \<not> cg_is_generating st \<and> cg_is_generating st')"
  using assms by (auto simp: cg_send_message_def Let_def split: if_splits sum.splits)

lemma cg_send_message_globals:
  "cg_globals (fst (cg_send_message st)) = cg_globals st"
  by (simp add: cg_send_message_def Let_def split: sum.split)

lemma cg_generate_reset_once:
  "cg_generate p f r h = (h', cbs) \<Longrightarrow> count_list cbs Cb_cg_reset = 1"
  by (cases "(p, f, r, h)" rule: cg_generate_body.cases)
     (auto simp: cg_generate_def cg_generate_except_def split: if_splits option.splits sum.splits)

lemma cg_fetch_no_reset: "count_list (cg_fetch ind r) Cb_cg_reset = 0"
  by (simp add: cg_fetch_def split: http_result.split option.split sum.split)

lemma load_messages_history:
  "cg_chat_history (fst (keep_bind st' (load_messages h st') (\<lambda>st6. (st6, None)))) = cg_chat_history st'"
  by (cases "load_messages h st'") (auto simp: keep_bind_def dest: load_messages_frame)

lemma keep_bind_Inr [simp]: "keep_bind st (Inr a) f = f a"
  by (simp add: keep_bind_def)

lemma load_chat_data_obj:
  assumes "map_of kvs ''messages'' = Some h"
  shows "cg_chat_history (fst (load_chat_data cat path (JObj kvs) st)) = h"
  using assms
  by (cases "map_of kvs ''title''"; cases "map_of kvs ''model''"; cases "map_of kvs ''system_prompt''")
     (simp_all add: load_chat_data_def Let_def py_contains_obj_map_of py_subscript_obj
      load_messages_history)

lemma settings_handlers_frame [simp, cg_frame]:
  "cg_is_generating (fst (test_connection st)) = cg_is_generating st"
  "cg_globals (fst (test_connection st)) = cg_globals st"
  "cg_is_generating (fst (fetch_models_for_listbox st)) = cg_is_generating st"
  "cg_globals (fst (fetch_models_for_listbox st)) = cg_globals st"
  "cg_is_generating (fst (download_model m st)) = cg_is_generating st"
  "cg_globals (fst (download_model m st)) = cg_globals st"
  "cg_is_generating (destroy_progress w st) = cg_is_generating st"
  "cg_globals (destroy_progress w st) = cg_globals st"
  "cg_is_generating (cg_fetch_models st) = cg_is_generating st"
  "cg_globals (cg_fetch_models st) = cg_globals st"
  by (simp_all add: test_connection_def fetch_models_for_listbox_def download_model_def
      destroy_progress_def cg_fetch_models_def Let_def)

text \<open>The threads the settings window starts: none of them is a \<open>generate\<close>.\<close>

lemma settings_workers [simp]:
  "snd (test_connection st) = Cg_test (cg_api_url st)"
  "snd (fetch_models_for_listbox st) = Cg_listbox (settings_window st)"
  "snd (download_model m st) = (if m = [] then None else Some (Cg_download (next_widget st) m))"
  by (simp_all add: test_connection_def fetch_models_for_listbox_def download_model_def Let_def)

lemma pull_lines_no_reset: "Cb_cg_reset \<notin> set (fst (cg_pull_lines w ls))"
  by (induction w ls rule: cg_pull_lines.induct) (auto split: sum.split prod.split)

lemma settings_threads_no_reset:
  "count_list (cg_test r) Cb_cg_reset = 0"
  "count_list (cg_listbox_fetch n r) Cb_cg_reset = 0"
  "count_list (fst (cg_download w m r)) Cb_cg_reset = 0"
proof -
  show "count_list (cg_test r) Cb_cg_reset = 0"
    by (simp add: cg_test_def split: cg_reply.split http_result.split)
  show "count_list (cg_listbox_fetch n r) Cb_cg_reset = 0"
    by (auto simp: cg_listbox_fetch_def count_list_0_iff
        split: cg_reply.split http_result.split option.split sum.split)
  show "count_list (fst (cg_download w m r)) Cb_cg_reset = 0"
  proof (cases r)
    case (Reply_stream status ls)
    obtain cbs ok where pl: "cg_pull_lines w ls = (cbs, ok)" by fastforce
    with pull_lines_no_reset [of w ls] have "Cb_cg_reset \<notin> set cbs" by simp
    with Reply_stream pl show ?thesis
      by (cases ok) (simp_all add: cg_download_def count_list_0_iff)
  qed (simp_all add: cg_download_def)
qed

lemma listbox_other_callbacks:
  "(\<And>n. c \<noteq> Cb_listbox_clear n) \<Longrightarrow> (\<And>n m. c \<noteq> Cb_listbox_insert n m) \<Longrightarrow>
   models_listbox (cg_run_callback c st) = models_listbox st"
  by (cases c) (auto simp: upd_progress_def cg_update_models_def add_item_def)

lemma fold_listbox_other:
  "\<forall>c\<in>set cs. (\<forall>n. c \<noteq> Cb_listbox_clear n) \<and> (\<forall>n m. c \<noteq> Cb_listbox_insert n m) \<Longrightarrow>
   models_listbox (fold cg_run_callback cs st) = models_listbox st"
  by (induction cs arbitrary: st) (simp_all add: listbox_other_callbacks)

lemma pull_lines_pg: "c \<in> set (fst (cg_pull_lines w ls)) \<Longrightarrow> \<exists>s. c = Cb_pg_status w s"
  by (induction w ls rule: cg_pull_lines.induct) (auto split: sum.splits prod.splits)

lemma map_of_upd_progress:
  "map_of (progress (upd_progress w f st)) k =
     (if k = w then map_option f (map_of (progress st) k) else map_of (progress st) k)"
proof -
  have "map_of (map (\<lambda>(k, p). if k = w then (k, f p) else (k, p)) xs) k =
          (if k = w then map_option f (map_of xs k) else map_of xs k)" for xs :: "(nat \<times> cg_progress) list"
    by (induction xs) auto
  then show ?thesis by (simp add: upd_progress_def)
qed

section \<open>Properties of the ChatGPT-style client\<close>

text \<open>C27. The client starts only when \<open>--api-url\<close> is given. \<open>__init__\<close> reads the
  global \<open>OLLAMA_API_URL\<close>, which line 17 does not define (it defines
  \<open>OLLAMA_API_URLRSION\<close>). Only \<open>main\<close>'s handling of \<open>--api-url\<close> creates it, so
  without the flag the program dies with \<open>NameError\<close>.\<close>

theorem cg_startup_needs_api_url:
  "(\<exists>st. cg_main api_url = Inr st) \<longleftrightarrow> api_url \<noteq> []"
  by (cases "api_url = []")
     (simp_all add: cg_main_def cg_init_def cg_module_globals_def update_conv')

text \<open>C28. The request always starts with a system message holding the system prompt,
  also when the prompt is empty. The spec and \<open>ollama_gui.py\<close> omit an empty prompt. The
  rest of the request is the history with the new user message.\<close>

theorem cg_always_sends_system_message:
  assumes "cg_send_message st = (st', Some (Cg_generate p f))"
  shows "\<exists>h. cg_chat_history st' = JArr h \<and>
             p = cg_payload st (cg_selected_model st) (msg ''system'' (cg_system_prompt st) # h)"
  using assms
  by (auto simp: cg_send_message_def cg_request_messages_def cg_payload_def add_item_def Let_def
      split: if_splits sum.splits)

theorem cg_always_sends_system_message_witness:
  "\<exists>st' p f. cg_send_message cg_demo_state = (st', Some (Cg_generate p f)) \<and>
     (\<exists>h. cg_chat_history st' = JArr h \<and>
          p = cg_payload cg_demo_state (JStr ''llama3'') (msg ''system'' (JStr []) # h))"
proof -
  have "\<exists>st' p f. cg_send_message cg_demo_state = (st', Some (Cg_generate p f))"
    by (simp add: cg_send_message_def cg_demo_state_def placeholder_def model_ok_def Let_def
        py_strip_def py_lstrip_def py_isspace_def)
  then obtain st' p f where sm: "cg_send_message cg_demo_state = (st', Some (Cg_generate p f))"
    by blast
  from cg_always_sends_system_message [OF sm] sm show ?thesis by (auto simp: cg_demo_state_def)
qed

text \<open>C30. Loading takes the file's \<open>messages\<close> value as the new history without
  checking it. For any JSON object with a \<open>messages\<close> key, the history after the load is
  that value, whatever its shape. This holds also when the display loop then raises and
  the error box says the load failed.\<close>

theorem cg_load_history_unchecked:
  assumes "json_load fs path = Inr (JObj kvs)" and "map_of kvs ''messages'' = Some h"
    and "path \<noteq> []"
  shows "cg_chat_history (load_chat_from_file fs path st) = h"
proof -
  have "''messages'' \<in> fst ` set kvs" using assms(2) by (rule map_of_Some_key)
  with assms load_chat_data_obj [OF assms(2), of "cg_models st" path st] show ?thesis
    by (auto simp: load_chat_from_file_def py_simps split: prod.split option.split)
qed

theorem cg_load_history_unchecked_witness:
  "cg_chat_history
     (load_chat_from_file (\<lambda>p. if p = ''chat.json'' then Some (File_json (JObj [(''messages'', JInt 7)])) else None)
        ''chat.json'' cg_demo_state) = JInt 7"
proof -
  have "json_load (\<lambda>p. if p = ''chat.json'' then Some (File_json (JObj [(''messages'', JInt 7)])) else None)
          ''chat.json'' = Inr (JObj [(''messages'', JInt 7)])" by (simp add: json_load_def)
  moreover have "map_of [(''messages'', JInt 7)] ''messages'' = Some (JInt 7)" by simp
  moreover have "''chat.json'' \<noteq> []" by simp
  ultimately show ?thesis by (rule cg_load_history_unchecked)
qed

text \<open>C31. After a load that left a history that is not a list, a send shows the user's
  line and clears the input. Then \<open>chat_history.append\<close> raises, so no request is made
  and \<open>is_generating\<close> stays false. The user sees their message and never an answer.\<close>

theorem cg_send_after_bad_load:
  assumes "\<forall>xs. cg_chat_history st \<noteq> JArr xs" and "\<not> cg_is_generating st"
    and "py_strip (cg_user_input st) \<noteq> []" and "py_strip (cg_user_input st) \<noteq> placeholder"
    and "model_ok (cg_selected_model st)"
  shows "cg_send_message st =
           ((add_item (User_msg (JStr (py_strip (cg_user_input st)))) st)\<lparr>cg_user_input := []\<rparr>, None)"
  using assms py_append_not_list [of "cg_chat_history st"]
  by (auto simp: cg_send_message_def Let_def split: sum.split)

theorem cg_send_after_bad_load_witness:
  "cg_send_message (cg_demo_state\<lparr>cg_chat_history := JInt 7\<rparr>) =
     ((add_item (User_msg (JStr (py_strip (cg_user_input (cg_demo_state\<lparr>cg_chat_history := JInt 7\<rparr>)))))
        (cg_demo_state\<lparr>cg_chat_history := JInt 7\<rparr>))\<lparr>cg_user_input := []\<rparr>, None)"
proof -
  have h1: "\<forall>xs. cg_chat_history (cg_demo_state\<lparr>cg_chat_history := JInt 7\<rparr>) \<noteq> JArr xs" by simp
  have h2: "\<not> cg_is_generating (cg_demo_state\<lparr>cg_chat_history := JInt 7\<rparr>)" by (simp add: cg_demo_state_def)
  have h3: "py_strip (cg_user_input (cg_demo_state\<lparr>cg_chat_history := JInt 7\<rparr>)) \<noteq> []"
    by (simp add: cg_demo_state_def py_strip_def py_lstrip_def py_isspace_def)
  have h4: "py_strip (cg_user_input (cg_demo_state\<lparr>cg_chat_history := JInt 7\<rparr>)) \<noteq> placeholder"
    by (simp add: cg_demo_state_def py_strip_def py_lstrip_def py_isspace_def placeholder_def)
  have h5: "model_ok (cg_selected_model (cg_demo_state\<lparr>cg_chat_history := JInt 7\<rparr>))"
    by (simp add: cg_demo_state_def model_ok_def)
  from cg_send_after_bad_load [OF h1 h2 h3 h4 h5] show ?thesis .
qed

text \<open>C12. A finished download never refreshes the list of models in the settings window,
  although the code comments the delayed \<open>self.fetch_models\<close> as "Refresh models list".
  Whatever the pull request ends with, the callbacks of \<open>download\<close>, the delayed
  \<open>fetch_models\<close> and the callbacks of the \<open>fetch\<close> thread it starts leave
  \<open>models_listbox\<close> as it was. Only the main window's model menu is updated.\<close>

theorem download_never_refreshes_listbox:
  "models_listbox (fold cg_run_callback (fst (cg_download w m r)) st) = models_listbox st \<and>
   models_listbox (cg_fetch_models st) = models_listbox st \<and>
   models_listbox (fold cg_run_callback (cg_fetch ind r') st) = models_listbox st"
proof (intro conjI)
  have "\<forall>c\<in>set (fst (cg_download w m r)). (\<forall>n. c \<noteq> Cb_listbox_clear n) \<and> (\<forall>n m. c \<noteq> Cb_listbox_insert n m)"
  proof (cases r)
    case (Reply_stream status ls)
    obtain cbs ok where pl: "cg_pull_lines w ls = (cbs, ok)" by fastforce
    with pull_lines_pg [of _ w ls] have "\<forall>c\<in>set cbs. \<exists>s. c = Cb_pg_status w s" by auto
    with Reply_stream pl show ?thesis by (cases ok) (auto simp: cg_download_def)
  qed (auto simp: cg_download_def)
  then show "models_listbox (fold cg_run_callback (fst (cg_download w m r)) st) = models_listbox st"
    by (rule fold_listbox_other)
  show "models_listbox (cg_fetch_models st) = models_listbox st"
    by (simp add: cg_fetch_models_def)
  show "models_listbox (fold cg_run_callback (cg_fetch ind r') st) = models_listbox st"
    by (rule fold_listbox_other)
       (auto simp: cg_fetch_def split: http_result.splits option.splits sum.splits)
qed

end
