(* ===== verification/ChatGPT_Session.thy ===== *)
theory ChatGPT_Session
  imports ChatGPT_Client
begin

text \<open>
  \<open>chatgpt.py\<close> as a concurrent system, built like \<open>Tk_Session\<close>. The state is the UI
  state, the running threads, the queue of \<open>after\<close> callbacks and the file system.
  A step is a UI event, a thread finishing with any reply that fits its request, the main
  loop running the next callback, or a delayed callback firing. The invariant \<open>cg_inv\<close> has two parts. The first counts the
  generations owed against \<open>is_generating\<close>. The second says that no step defines the
  global \<open>APP_VERSION\<close>, which is why saving always fails. \<open>cg_settle\<close> shows that
  every reachable state can run to a quiet one, and the download scenarios show what a
  refused download leaves behind.
\<close>

section \<open>System state and steps\<close>

record cg_sys =
  cg_gui :: cg_state
  cg_workers :: "cg_worker list"
  cg_queue :: "cg_callback list"
  cg_files :: file_store
  cg_timers :: "cg_timer list"

text \<open>The UI events: the bindings of \<open>setup_sidebar\<close>, \<open>setup_chat_area\<close>, the chat
  menus, the title dialog and the settings window.\<close>

datatype cg_event =
    Cg_type string                   \<comment> \<open>the input text becomes this\<close>
  | Cg_focus_in | Cg_focus_out        \<comment> \<open>the placeholder handlers\<close>
  | Cg_send                          \<comment> \<open>Send button or Control-Return\<close>
  | Cg_new_chat                      \<comment> \<open>"+ New chat" or Control-n\<close>
  | Cg_title_answer "string option"  \<comment> \<open>Create / Cancel in the title dialog\<close>
  | Cg_select_model json             \<comment> \<open>\<open><<ComboboxSelected>>\<close>\<close>
  | Cg_rename nat string             \<comment> \<open>Save in the rename dialog of a sidebar frame\<close>
  | Cg_invite nat string             \<comment> \<open>Send Invitations in the invite dialog of a frame\<close>
  | Cg_delete nat bool               \<comment> \<open>Delete chat of a frame, with the answer\<close>
  | Cg_load string                   \<comment> \<open>Load, with the chosen path\<close>
  | Cg_save string string            \<comment> \<open>Save, with the chosen path and the time\<close>
  | Cg_open_settings
  | Cg_set_temperature real          \<comment> \<open>the scale of the settings window\<close>
  | Cg_set_max_tokens json           \<comment> \<open>the entry of the settings window\<close>
  | Cg_edit_api_url string           \<comment> \<open>the URL entry of the settings window\<close>
  | Cg_save_settings string          \<comment> \<open>Save, with the system prompt text\<close>
  | Cg_cancel_settings
  | Cg_test_connection               \<comment> \<open>Test Connection\<close>
  | Cg_refresh_models                \<comment> \<open>Refresh Models\<close>
  | Cg_pull string                   \<comment> \<open>Download, with the text of the model entry\<close>
  | Cg_close_progress nat            \<comment> \<open>the close button of a progress window\<close>

definition cg_event_enabled :: "cg_event \<Rightarrow> cg_state \<Rightarrow> bool" where
  "cg_event_enabled ev st =
     (case ev of
        Cg_title_answer _ \<Rightarrow> 0 < title_prompts st
      | Cg_select_model m \<Rightarrow> m \<in> set (cg_models st)
      | Cg_rename f _ \<Rightarrow> f \<in> fst ` set (sidebar st)
      | Cg_invite f _ \<Rightarrow> f \<in> fst ` set (sidebar st)
      | Cg_delete f _ \<Rightarrow> f \<in> fst ` set (sidebar st)
      | Cg_set_temperature t \<Rightarrow> settings_open st \<and> 0 \<le> t \<and> t \<le> 1
      | Cg_set_max_tokens _ \<Rightarrow> settings_open st
      | Cg_edit_api_url _ \<Rightarrow> settings_open st
      | Cg_save_settings _ \<Rightarrow> settings_open st
      | Cg_cancel_settings \<Rightarrow> settings_open st
      | Cg_test_connection \<Rightarrow> settings_open st
      | Cg_refresh_models \<Rightarrow> settings_open st
      | Cg_pull _ \<Rightarrow> settings_open st
      | Cg_close_progress w \<Rightarrow> w \<in> fst ` set (progress st)
      | _ \<Rightarrow> True)"

text \<open>The title a frame's lambdas captured.\<close>

definition frame_title :: "nat \<Rightarrow> cg_state \<Rightarrow> json" where
  "frame_title f st = (case map_of (sidebar st) f of Some t \<Rightarrow> t | None \<Rightarrow> JNull)"

text \<open>One event on the whole system: the new UI state, the threads it starts, the new
  file system.\<close>

fun cg_ui :: "cg_event \<Rightarrow> cg_sys \<Rightarrow> cg_sys" where
  "cg_ui (Cg_type s) S = S\<lparr>cg_gui := (cg_gui S)\<lparr>cg_user_input := s\<rparr>\<rparr>"
| "cg_ui Cg_focus_in S = S\<lparr>cg_gui := clear_placeholder (cg_gui S)\<rparr>"
| "cg_ui Cg_focus_out S = S\<lparr>cg_gui := add_placeholder (cg_gui S)\<rparr>"
| "cg_ui Cg_send S =
     (case cg_send_message (cg_gui S) of
        (st, None) \<Rightarrow> S\<lparr>cg_gui := st\<rparr>
      | (st, Some w) \<Rightarrow> S\<lparr>cg_gui := st, cg_workers := cg_workers S @ [w]\<rparr>)"
| "cg_ui Cg_new_chat S = S\<lparr>cg_gui := cg_new_chat True (cg_gui S)\<rparr>"
| "cg_ui (Cg_title_answer a) S = S\<lparr>cg_gui := finish_new_chat a (cg_gui S)\<rparr>"
| "cg_ui (Cg_select_model m) S = S\<lparr>cg_gui := cg_on_model_selected ((cg_gui S)\<lparr>cg_selected_model := m\<rparr>)\<rparr>"
| "cg_ui (Cg_rename f text) S = S\<lparr>cg_gui := rename_chat (frame_title f (cg_gui S)) text (cg_gui S)\<rparr>"
| "cg_ui (Cg_invite f emails) S = S\<lparr>cg_gui := invite_friends emails (cg_gui S)\<rparr>"
| "cg_ui (Cg_delete f yes) S = S\<lparr>cg_gui := delete_chat f (frame_title f (cg_gui S)) yes (cg_gui S)\<rparr>"
| "cg_ui (Cg_load path) S = S\<lparr>cg_gui := load_chat_from_file (cg_files S) path (cg_gui S)\<rparr>"
| "cg_ui (Cg_save path now) S =
     (case save_chat_to_file (cg_files S) path now (cg_gui S) of
        (st, fs) \<Rightarrow> S\<lparr>cg_gui := st, cg_files := fs\<rparr>)"
| "cg_ui Cg_open_settings S = S\<lparr>cg_gui := show_settings (cg_gui S)\<rparr>"
| "cg_ui (Cg_set_temperature t) S = S\<lparr>cg_gui := (cg_gui S)\<lparr>cg_temperature := JFloat t\<rparr>\<rparr>"
| "cg_ui (Cg_set_max_tokens v) S = S\<lparr>cg_gui := (cg_gui S)\<lparr>cg_max_tokens := v\<rparr>\<rparr>"
| "cg_ui (Cg_edit_api_url u) S = S\<lparr>cg_gui := (cg_gui S)\<lparr>cg_api_url := u\<rparr>\<rparr>"
| "cg_ui (Cg_save_settings sp) S =
     (case save_settings sp (cg_api_url (cg_gui S)) (cg_gui S) of
        (st, False) \<Rightarrow> S\<lparr>cg_gui := st\<rparr>
      | (st, True) \<Rightarrow> S\<lparr>cg_gui := st, cg_workers := cg_workers S @ [Cg_fetch]\<rparr>)"
| "cg_ui Cg_cancel_settings S = S\<lparr>cg_gui := (cg_gui S)\<lparr>settings_open := False\<rparr>\<rparr>"
| "cg_ui Cg_test_connection S =
     (case test_connection (cg_gui S) of (st, w) \<Rightarrow> S\<lparr>cg_gui := st, cg_workers := cg_workers S @ [w]\<rparr>)"
| "cg_ui Cg_refresh_models S =
     (case fetch_models_for_listbox (cg_gui S) of
        (st, w) \<Rightarrow> S\<lparr>cg_gui := st, cg_workers := cg_workers S @ [w]\<rparr>)"
| "cg_ui (Cg_pull name) S =
     (case download_model name (cg_gui S) of
        (st, None) \<Rightarrow> S\<lparr>cg_gui := st\<rparr>
      | (st, Some w) \<Rightarrow> S\<lparr>cg_gui := st, cg_workers := cg_workers S @ [w]\<rparr>)"
| "cg_ui (Cg_close_progress w) S = S\<lparr>cg_gui := destroy_progress w (cg_gui S)\<rparr>"

text \<open>A thread finishing with a reply: \<open>generate\<close> appends to the history current at
  that moment; \<open>fetch\<close> reads \<open>hasattr(self, 'status_indicator')\<close> then; \<open>download\<close>
  also posts its delayed callbacks. The steps offer a thread only the replies that fit it
  (\<open>reply_fits\<close>); on the others nothing is posted.\<close>

fun cg_finish_worker :: "cg_worker \<Rightarrow> cg_reply \<Rightarrow> cg_sys \<Rightarrow> cg_sys" where
  "cg_finish_worker (Cg_generate p f) (Reply r) S =
     (case cg_generate p f r (cg_chat_history (cg_gui S)) of
        (h', cbs) \<Rightarrow> S\<lparr>cg_gui := (cg_gui S)\<lparr>cg_chat_history := h'\<rparr>, cg_queue := cg_queue S @ cbs\<rparr>)"
| "cg_finish_worker Cg_fetch (Reply r) S =
     S\<lparr>cg_queue := cg_queue S @ cg_fetch (has_status_indicator (cg_gui S)) r\<rparr>"
| "cg_finish_worker (Cg_test u) r S = S\<lparr>cg_queue := cg_queue S @ cg_test r\<rparr>"
| "cg_finish_worker (Cg_listbox n) r S = S\<lparr>cg_queue := cg_queue S @ cg_listbox_fetch n r\<rparr>"
| "cg_finish_worker (Cg_download w m) r S =
     (case cg_download w m r of
        (cbs, tms) \<Rightarrow> S\<lparr>cg_queue := cg_queue S @ cbs, cg_timers := cg_timers S @ tms\<rparr>)"
| "cg_finish_worker w r S = S"

definition cg_finish :: "nat \<Rightarrow> cg_reply \<Rightarrow> cg_sys \<Rightarrow> cg_sys" where
  "cg_finish i r S =
     cg_finish_worker (cg_workers S ! i) r
       (S\<lparr>cg_workers := take i (cg_workers S) @ drop (Suc i) (cg_workers S)\<rparr>)"

definition cg_run_next :: "cg_sys \<Rightarrow> cg_sys" where
  "cg_run_next S =
     (case cg_queue S of
        [] \<Rightarrow> S
      | c # cs \<Rightarrow> S\<lparr>cg_gui := cg_run_callback c (cg_gui S), cg_queue := cs\<rparr>)"

text \<open>A delayed callback firing: \<open>fetch_models\<close> starts a \<open>fetch\<close> thread.\<close>

fun cg_run_timer :: "cg_timer \<Rightarrow> cg_sys \<Rightarrow> cg_sys" where
  "cg_run_timer Tm_fetch_models S =
     S\<lparr>cg_gui := cg_fetch_models (cg_gui S), cg_workers := cg_workers S @ [Cg_fetch]\<rparr>"
| "cg_run_timer (Tm_destroy w) S = S\<lparr>cg_gui := destroy_progress w (cg_gui S)\<rparr>"

definition cg_fire :: "nat \<Rightarrow> cg_sys \<Rightarrow> cg_sys" where
  "cg_fire i S =
     cg_run_timer (cg_timers S ! i) (S\<lparr>cg_timers := take i (cg_timers S) @ drop (Suc i) (cg_timers S)\<rparr>)"

text \<open>The delayed callbacks may fire at any step: the model does not measure time, so it
  allows every order Tk allows, and more.\<close>

inductive cg_step :: "cg_sys \<Rightarrow> cg_sys \<Rightarrow> bool" where
  cg_ui_event: "cg_event_enabled ev (cg_gui S) \<Longrightarrow> cg_step S (cg_ui ev S)"
| cg_worker_done: "i < length (cg_workers S) \<Longrightarrow> reply_fits (cg_workers S ! i) r \<Longrightarrow> cg_step S (cg_finish i r S)"
| cg_run_after: "cg_queue S \<noteq> [] \<Longrightarrow> cg_step S (cg_run_next S)"
| cg_timer_fires: "i < length (cg_timers S) \<Longrightarrow> cg_step S (cg_fire i S)"

text \<open>The start: \<open>main\<close> with the \<open>--api-url\<close> argument (empty when absent) on a file
  system \<open>fs\<close>; \<open>__init__\<close> started one \<open>fetch\<close> thread.\<close>

definition cg_start :: "string \<Rightarrow> file_store \<Rightarrow> cg_sys option" where
  "cg_start api_url fs =
     (case cg_main api_url of
        Inl e \<Rightarrow> None
      | Inr st \<Rightarrow> Some \<lparr>cg_gui = st, cg_workers = [Cg_fetch], cg_queue = [], cg_files = fs, cg_timers = []\<rparr>)"

definition cg_reachable :: "cg_sys \<Rightarrow> bool" where
  "cg_reachable S \<longleftrightarrow> (\<exists>api_url fs S0. cg_start api_url fs = Some S0 \<and> cg_step\<^sup>*\<^sup>* S0 S)"

section \<open>Runs as lists of actions\<close>

datatype cg_action = Cg_act_ui cg_event | Cg_act_finish nat cg_reply | Cg_act_callback | Cg_act_timer nat

fun cg_apply :: "cg_action \<Rightarrow> cg_sys \<Rightarrow> cg_sys option" where
  "cg_apply (Cg_act_ui ev) S = (if cg_event_enabled ev (cg_gui S) then Some (cg_ui ev S) else None)"
| "cg_apply (Cg_act_finish i r) S =
     (if i < length (cg_workers S) \<and> reply_fits (cg_workers S ! i) r then Some (cg_finish i r S) else None)"
| "cg_apply Cg_act_callback S = (if cg_queue S \<noteq> [] then Some (cg_run_next S) else None)"
| "cg_apply (Cg_act_timer i) S = (if i < length (cg_timers S) then Some (cg_fire i S) else None)"

fun cg_run :: "cg_action list \<Rightarrow> cg_sys \<Rightarrow> cg_sys option" where
  "cg_run [] S = Some S"
| "cg_run (a # acts) S = (case cg_apply a S of None \<Rightarrow> None | Some T \<Rightarrow> cg_run acts T)"

section \<open>Running to the end\<close>

text \<open>The main loop running the queued callbacks until the queue is empty, and a
  schedule that lets everything end: the queue runs first, then a thread finishes (with a
  refused connection, a reply every thread can get), then a delayed callback fires. Each
  step of either is a step of \<open>cg_step\<close>; the measures prove that both end.\<close>

function cg_drain :: "cg_sys \<Rightarrow> cg_sys" where
  "cg_drain S = (case cg_queue S of [] \<Rightarrow> S | c # cs \<Rightarrow> cg_drain (cg_run_next S))"
  by pat_completeness auto
termination
  by (relation "measure (\<lambda>S. length (cg_queue S))") (auto simp: cg_run_next_def)

declare cg_drain.simps [simp del]

function cg_settle :: "cg_sys \<Rightarrow> cg_sys" where
  "cg_settle S =
     (if cg_queue S \<noteq> [] then cg_settle (cg_run_next S)
      else if cg_workers S \<noteq> [] then cg_settle (cg_finish 0 (Reply (Http_exception ''refused'')) S)
      else if cg_timers S \<noteq> [] then cg_settle (cg_fire 0 S)
      else S)"
  by pat_completeness auto
termination
proof (relation "measures [\<lambda>S. length (cg_timers S), \<lambda>S. length (cg_workers S), \<lambda>S. length (cg_queue S)]")
  fix S :: cg_sys
  assume "cg_workers S \<noteq> []"
  then show "(cg_finish 0 (Reply (Http_exception ''refused'')) S, S) \<in>
               measures [\<lambda>S. length (cg_timers S), \<lambda>S. length (cg_workers S), \<lambda>S. length (cg_queue S)]"
    by (cases "cg_workers S ! 0") (simp_all add: cg_finish_def cg_download_def prod.case_eq_if)
next
  fix S :: cg_sys
  assume "cg_timers S \<noteq> []"
  then show "(cg_fire 0 S, S) \<in>
               measures [\<lambda>S. length (cg_timers S), \<lambda>S. length (cg_workers S), \<lambda>S. length (cg_queue S)]"
    by (cases "cg_timers S ! 0") (simp_all add: cg_fire_def)
qed (auto simp: cg_run_next_def split: list.split)

declare cg_settle.simps [simp del]


section \<open>The invariant\<close>

fun is_cg_generate :: "cg_worker \<Rightarrow> bool" where
  "is_cg_generate (Cg_generate p f) = True"
| "is_cg_generate _ = False"

definition cg_owed :: "cg_sys \<Rightarrow> nat" where
  "cg_owed S = length (filter is_cg_generate (cg_workers S)) + count_list (cg_queue S) Cb_cg_reset"

definition cg_inv :: "cg_sys \<Rightarrow> bool" where
  "cg_inv S \<longleftrightarrow>
     cg_owed S = (if cg_is_generating (cg_gui S) then 1 else 0) \<and>
     map_of (cg_globals (cg_gui S)) ''APP_VERSION'' = None"

section \<open>Scenario inputs\<close>

text \<open>A service offering one model; the client started with \<open>--api-url\<close> on an empty
  file system; the actions: the model fetch finishes, its callback runs, the user types
  \<open>Hello\<close> and sends.\<close>

definition cg_demo_url :: string where
  "cg_demo_url = ''http://localhost:11434/api''"

definition cg_demo_acts :: "cg_action list" where
  "cg_demo_acts =
     [Cg_act_finish 0 (Reply (Http_response 200 (Some (JObj [(''models'', JArr [JObj [(''name'', JStr ''llama3'')]])])))),
      Cg_act_callback, Cg_act_ui (Cg_type ''Hello''), Cg_act_ui Cg_send]"

section \<open>Lemmas: steps, runs and the invariant\<close>

lemma cg_apply_step: "cg_apply a S = Some T \<Longrightarrow> cg_step S T"
  by (cases a) (auto intro: cg_step.intros split: if_splits)

lemma cg_run_steps: "cg_run acts S = Some T \<Longrightarrow> cg_step\<^sup>*\<^sup>* S T"
proof (induction acts arbitrary: S)
  case Nil
  then show ?case by simp
next
  case (Cons a acts)
  then obtain U where u: "cg_apply a S = Some U" and rest: "cg_run acts U = Some T"
    by (auto split: option.splits)
  from u have "cg_step S U" by (rule cg_apply_step)
  then show ?case using Cons.IH [OF rest] by (rule converse_rtranclp_into_rtranclp)
qed

lemma cg_reachable_run:
  "cg_start api_url fs = Some S0 \<Longrightarrow> cg_run acts S0 = Some S \<Longrightarrow> cg_reachable S"
  unfolding cg_reachable_def by (blast dest: cg_run_steps)

lemma save_settings_frame:
  "cg_is_generating (fst (save_settings sp u st)) = cg_is_generating st"
  "map_of (cg_globals (fst (save_settings sp u st))) ''APP_VERSION'' = map_of (cg_globals st) ''APP_VERSION''"
  by (simp_all add: save_settings_def cg_fetch_models_def Let_def update_conv')

lemma cg_inv_ui:
  assumes inv: "cg_inv S"
  shows "cg_inv (cg_ui ev S)"
proof (cases ev)
  case Cg_send
  obtain st' w where sm: "cg_send_message (cg_gui S) = (st', w)" by fastforce
  have gl: "cg_globals st' = cg_globals (cg_gui S)"
    using cg_send_message_globals [of "cg_gui S"] sm by simp
  from cg_send_message_cases [OF sm] inv gl sm Cg_send show ?thesis
    by (auto simp: cg_inv_def cg_owed_def)
next
  case (Cg_save_settings sp)
  with inv save_settings_frame [of sp "cg_api_url (cg_gui S)" "cg_gui S"] show ?thesis
    by (cases "save_settings sp (cg_api_url (cg_gui S)) (cg_gui S)")
       (auto simp: cg_inv_def cg_owed_def split: bool.splits)
qed (use inv in \<open>auto simp: cg_inv_def cg_owed_def cg_frame prod.case_eq_if\<close>)

lemma cg_inv_finish:
  assumes inv: "cg_inv S" and i: "i < length (cg_workers S)" and fits: "reply_fits (cg_workers S ! i) r"
  shows "cg_inv (cg_finish i r S)"
proof (cases "cg_workers S ! i")
  case (Cg_generate p f)
  with fits obtain hr where r: "r = Reply hr" by (cases r) simp_all
  obtain h' cbs where g: "cg_generate p f hr (cg_chat_history (cg_gui S)) = (h', cbs)" by fastforce
  then have "count_list cbs Cb_cg_reset = 1" by (rule cg_generate_reset_once)
  with inv i Cg_generate g r filter_remove_nth [OF i, of is_cg_generate] show ?thesis
    by (simp add: cg_inv_def cg_owed_def cg_finish_def)
next
  case Cg_fetch
  with fits obtain hr where r: "r = Reply hr" by (cases r) simp_all
  with inv i Cg_fetch filter_remove_nth [OF i, of is_cg_generate] show ?thesis
    by (simp add: cg_inv_def cg_owed_def cg_finish_def cg_fetch_no_reset)
next
  case (Cg_download w m)
  obtain cbs tms where d: "cg_download w m r = (cbs, tms)" by fastforce
  with settings_threads_no_reset(3) [of w m r] have "count_list cbs Cb_cg_reset = 0" by simp
  with inv i Cg_download d filter_remove_nth [OF i, of is_cg_generate] show ?thesis
    by (simp add: cg_inv_def cg_owed_def cg_finish_def)
qed (use inv i filter_remove_nth [OF i, of is_cg_generate] in
      \<open>simp_all add: cg_inv_def cg_owed_def cg_finish_def settings_threads_no_reset\<close>)

lemma cg_inv_fire:
  assumes inv: "cg_inv S" and i: "i < length (cg_timers S)"
  shows "cg_inv (cg_fire i S)"
  using inv by (cases "cg_timers S ! i") (simp_all add: cg_inv_def cg_owed_def cg_fire_def)

lemma cg_inv_run_next:
  assumes inv: "cg_inv S"
  shows "cg_inv (cg_run_next S)"
proof (cases "cg_queue S")
  case Nil
  with inv show ?thesis by (simp add: cg_run_next_def)
next
  case (Cons c cs)
  show ?thesis
  proof (cases "c = Cb_cg_reset")
    case True
    with inv Cons show ?thesis
      by (auto simp: cg_inv_def cg_owed_def cg_run_next_def split: if_splits)
  next
    case False
    with inv Cons show ?thesis
      by (simp add: cg_inv_def cg_owed_def cg_run_next_def cg_run_callback_frame)
  qed
qed

lemma cg_step_inv: "cg_step S T \<Longrightarrow> cg_inv S \<Longrightarrow> cg_inv T"
  by (induction rule: cg_step.induct) (auto intro: cg_inv_ui cg_inv_finish cg_inv_run_next cg_inv_fire)

lemma cg_main_globals:
  "cg_main api_url = Inr st \<Longrightarrow> map_of (cg_globals st) ''APP_VERSION'' = None \<and> \<not> cg_is_generating st"
  by (cases "api_url = []")
     (auto simp: cg_main_def cg_init_def cg_module_globals_def cg_fetch_models_def update_conv'
      add_chat_to_sidebar_def
      py_bind_eq_Inr split: option.splits if_splits)

lemma cg_inv_start: "cg_start api_url fs = Some S0 \<Longrightarrow> cg_inv S0"
  by (auto simp: cg_start_def cg_inv_def cg_owed_def dest: cg_main_globals split: sum.splits)

lemma cg_reachable_inv: "cg_reachable S \<Longrightarrow> cg_inv S"
proof -
  assume "cg_reachable S"
  then obtain api_url fs S0 where s0: "cg_start api_url fs = Some S0" and steps: "cg_step\<^sup>*\<^sup>* S0 S"
    by (auto simp: cg_reachable_def)
  from steps cg_inv_start [OF s0] show ?thesis
    by (induction rule: rtranclp_induct) (auto intro: cg_step_inv)
qed

lemmas cg_eval = cg_demo_url_def cg_demo_acts_def cg_start_def cg_main_def cg_init_def
  cg_module_globals_def cg_fetch_models_def add_chat_to_sidebar_def cg_finish_def cg_run_next_def
  cg_fetch_def fetch_model_names_def cg_update_models_def add_item_def cg_send_message_def
  cg_request_messages_def placeholder_def model_ok_def cg_event_enabled_def
  py_strip_def py_lstrip_def py_isspace_def py_get_def py_subscript_def Let_def

lemma cg_demo_run:
  "\<exists>S0 S. cg_start cg_demo_url (\<lambda>p. None) = Some S0 \<and> cg_run cg_demo_acts S0 = Some S \<and>
          cg_is_generating (cg_gui S) \<and> cg_chat_history (cg_gui S) = JArr [msg ''user'' (JStr ''Hello'')]"
  by (simp add: cg_eval)

lemma cg_demo_reachable:
  "\<exists>S. cg_reachable S \<and> cg_is_generating (cg_gui S) \<and>
       cg_chat_history (cg_gui S) = JArr [msg ''user'' (JStr ''Hello'')]"
  using cg_demo_run by (blast intro: cg_reachable_run)

lemma cg_reachable_step: "cg_reachable S \<Longrightarrow> cg_step S T \<Longrightarrow> cg_reachable T"
  unfolding cg_reachable_def by (blast intro: rtranclp.rtrancl_into_rtrancl)

lemma cg_reachable_steps: "cg_reachable S \<Longrightarrow> cg_step\<^sup>*\<^sup>* S T \<Longrightarrow> cg_reachable T"
  unfolding cg_reachable_def by (blast intro: rtranclp_trans)

lemma reply_fits_exception [simp]: "reply_fits w (Reply (Http_exception e))"
  by (cases w) simp_all

lemma cg_drain_Nil [simp]: "cg_queue S = [] \<Longrightarrow> cg_drain S = S"
  by (subst cg_drain.simps) simp

lemma cg_drain_Cons:
  "cg_queue S = c # cs \<Longrightarrow> cg_drain S = cg_drain (S\<lparr>cg_gui := cg_run_callback c (cg_gui S), cg_queue := cs\<rparr>)"
  by (subst cg_drain.simps) (simp add: cg_run_next_def)

lemma cg_settle_quiet:
  "cg_step\<^sup>*\<^sup>* S (cg_settle S) \<and> cg_queue (cg_settle S) = [] \<and> cg_workers (cg_settle S) = [] \<and>
   cg_timers (cg_settle S) = []"
proof (induction S rule: cg_settle.induct)
  case (1 S)
  show ?case
  proof (cases "cg_queue S \<noteq> []")
    case True
    then have s: "cg_step S (cg_run_next S)" by (rule cg_run_after)
    from True have e: "cg_settle S = cg_settle (cg_run_next S)" by (subst cg_settle.simps) simp
    from "1.IH"(1) [OF True] s show ?thesis
      unfolding e by (blast intro: converse_rtranclp_into_rtranclp)
  next
    case q: False
    show ?thesis
    proof (cases "cg_workers S \<noteq> []")
      case True
      then have s: "cg_step S (cg_finish 0 (Reply (Http_exception ''refused'')) S)"
        by (intro cg_worker_done) simp_all
      from q True have e: "cg_settle S = cg_settle (cg_finish 0 (Reply (Http_exception ''refused'')) S)"
        by (subst cg_settle.simps) simp
      from "1.IH"(2) [OF q True] s show ?thesis
        unfolding e by (blast intro: converse_rtranclp_into_rtranclp)
    next
      case w: False
      show ?thesis
      proof (cases "cg_timers S \<noteq> []")
        case True
        then have s: "cg_step S (cg_fire 0 S)" by (intro cg_timer_fires) simp
        from q w True have e: "cg_settle S = cg_settle (cg_fire 0 S)" by (subst cg_settle.simps) simp
        from "1.IH"(3) [OF q w True] s show ?thesis
          unfolding e by (blast intro: converse_rtranclp_into_rtranclp)
      next
        case False
        with q w have e: "cg_settle S = S" by (subst cg_settle.simps) simp
        from q w False show ?thesis unfolding e by simp
      qed
    qed
  qed
qed

lemma cg_pull_run:
  "\<exists>S0 S. cg_start cg_demo_url (\<lambda>p. None) = Some S0 \<and>
          cg_run [Cg_act_ui Cg_open_settings, Cg_act_ui (Cg_pull ''llama3'')] S0 = Some S \<and>
          cg_workers S = [Cg_fetch, Cg_download 2 ''llama3''] \<and> cg_queue S = [] \<and> cg_timers S = [] \<and>
          progress (cg_gui S) =
            [(2, \<lparr>pg_title = ''Downloading llama3'', pg_status = JStr ''Starting download...'', pg_running = True\<rparr>)]"
  by (simp add: cg_eval show_settings_def download_model_def)

section \<open>Properties of the ChatGPT-style client as a system\<close>

text \<open>C25. In every reachable state of the ChatGPT-style client at most one
  \<open>generate\<close> thread runs, and \<open>is_generating\<close> holds exactly while one generation is
  owed: its thread still runs or its final reset is still queued.\<close>

theorem cg_at_most_one_generation:
  assumes "cg_reachable S"
  shows "length (filter is_cg_generate (cg_workers S)) \<le> 1 \<and>
         (cg_is_generating (cg_gui S) \<longleftrightarrow> cg_owed S = 1)"
  using cg_reachable_inv [OF assms] by (auto simp: cg_inv_def cg_owed_def split: if_splits)

theorem cg_at_most_one_generation_witness:
  "\<exists>S. cg_reachable S \<and> cg_is_generating (cg_gui S) \<and>
       length (filter is_cg_generate (cg_workers S)) \<le> 1 \<and>
       (cg_is_generating (cg_gui S) \<longleftrightarrow> cg_owed S = 1)"
proof -
  obtain S where r: "cg_reachable S" and g: "cg_is_generating (cg_gui S)"
    using cg_demo_reachable by blast
  from r g cg_at_most_one_generation [OF r] show ?thesis by blast
qed

text \<open>C26. Saving never works. In every reachable state, Save with a non-empty history
  and a chosen path only adds the error box \<open>"Error Saving Chat"\<close>, and the file system is
  unchanged. Building \<open>chat_data\<close> reads \<open>APP_VERSION\<close>, which the module never
  defines, and no step defines it later.\<close>

theorem cg_save_always_fails:
  assumes "cg_reachable S" and "truthy (cg_chat_history (cg_gui S))" and "path \<noteq> []"
  shows "cg_ui (Cg_save path now) S =
           S\<lparr>cg_gui := (cg_gui S)\<lparr>cg_dialogs := cg_dialogs (cg_gui S) @ [Cg_error ''Error Saving Chat'']\<rparr>\<rparr>"
  using cg_reachable_inv [OF assms(1)] assms(2,3)
  by (simp add: cg_inv_def save_chat_to_file_def)

theorem cg_save_always_fails_witness:
  "\<exists>S. cg_reachable S \<and> truthy (cg_chat_history (cg_gui S)) \<and>
       cg_ui (Cg_save ''/home/user/chat.json'' ''2026-11-09T10:00:00'') S =
         S\<lparr>cg_gui := (cg_gui S)\<lparr>cg_dialogs := cg_dialogs (cg_gui S) @ [Cg_error ''Error Saving Chat'']\<rparr>\<rparr>"
proof -
  obtain S where r: "cg_reachable S" and h: "cg_chat_history (cg_gui S) = JArr [msg ''user'' (JStr ''Hello'')]"
    using cg_demo_reachable by blast
  then have t: "truthy (cg_chat_history (cg_gui S))" by simp
  have "''/home/user/chat.json'' \<noteq> []" by simp
  from cg_save_always_fails [OF r t this] r t show ?thesis by blast
qed

text \<open>C29. A renamed chat cannot be removed from the list of chats. The menu's lambdas
  keep the title the frame was created with. After Rename the list holds the new title,
  so Delete destroys the frame but finds the old title no longer in the list. The new
  title stays in \<open>current_chats\<close>, which \<open>save_chat_to_file\<close> reads for the file's title.\<close>

theorem renamed_chat_survives_delete:
  assumes "map_of (sidebar (cg_gui S)) f = Some t" and "t \<in> set (current_chats (cg_gui S))"
    and "py_strip x \<noteq> []" and "JStr (py_strip x) \<noteq> t"
  shows "JStr (py_strip x) \<in> set (current_chats (cg_gui (cg_ui (Cg_delete f True) (cg_ui (Cg_rename f x) S)))) \<and>
         f \<notin> fst ` set (sidebar (cg_gui (cg_ui (Cg_delete f True) (cg_ui (Cg_rename f x) S))))"
proof -
  obtain i where i: "py_index (current_chats (cg_gui S)) t = Inr i"
    using assms(2) py_index_Inl [of "current_chats (cg_gui S)" t] by (cases "py_index (current_chats (cg_gui S)) t") auto
  then have il: "i < length (current_chats (cg_gui S))" by (simp add: py_index_Inr)
  let ?cs = "(current_chats (cg_gui S))[i := JStr (py_strip x)]"
  have new: "JStr (py_strip x) \<in> set ?cs" using il by (simp add: set_update_memI)
  have "JStr (py_strip x) \<in> set (remove1 t ?cs)" using new assms(4) by (simp add: in_set_remove1)
  with new assms i show ?thesis
    by (auto simp: rename_chat_def delete_chat_def frame_title_def Let_def)
qed

theorem renamed_chat_survives_delete_witness:
  "\<exists>S0. cg_start cg_demo_url (\<lambda>p. None) = Some S0 \<and>
        JStr ''Intro'' \<in> set (current_chats (cg_gui (cg_ui (Cg_delete 0 True) (cg_ui (Cg_rename 0 ''Intro'') S0)))) \<and>
        0 \<notin> fst ` set (sidebar (cg_gui (cg_ui (Cg_delete 0 True) (cg_ui (Cg_rename 0 ''Intro'') S0))))"
proof -
  obtain S0 where s0: "cg_start cg_demo_url (\<lambda>p. None) = Some S0"
    and sb: "sidebar (cg_gui S0) = [(0, JStr ''Welcome to Ollama Chat''), (1, JStr ''My first conversation'')]"
    and cc: "current_chats (cg_gui S0) = [JStr ''Welcome to Ollama Chat'', JStr ''My first conversation'']"
    by (simp add: cg_eval)
  have h1: "map_of (sidebar (cg_gui S0)) 0 = Some (JStr ''Welcome to Ollama Chat'')" by (simp add: sb)
  have h2: "JStr ''Welcome to Ollama Chat'' \<in> set (current_chats (cg_gui S0))" by (simp add: cc)
  have s: "py_strip ''Intro'' = ''Intro''" by (simp add: py_strip_def py_lstrip_def py_isspace_def)
  have h3: "py_strip ''Intro'' \<noteq> []" by (simp add: s)
  have h4: "JStr (py_strip ''Intro'') \<noteq> JStr ''Welcome to Ollama Chat''" by (simp add: s)
  from renamed_chat_survives_delete [OF h1 h2 h3 h4] s0 show ?thesis by (simp only: s) blast
qed

text \<open>Saving the settings never fetches the models again and never changes the
  global \<open>OLLAMA_API_URL\<close>. The URL entry is bound to \<open>self.ollama_api_url\<close>, so the test
  \<open>api_url != self.ollama_api_url.get()\<close> compares the variable with itself, and the
  branch commented "Refresh models with new API URL" is dead.\<close>

theorem save_settings_never_refetches:
  "cg_workers (cg_ui (Cg_save_settings sp) S) = cg_workers S \<and>
   cg_globals (cg_gui (cg_ui (Cg_save_settings sp) S)) = cg_globals (cg_gui S)"
  by (simp add: save_settings_def Let_def)

text \<open>C23. The ChatGPT-style client can always settle. From every reachable state,
  running the queued callbacks, letting the threads finish and firing the delayed
  callbacks reaches a state that is itself reachable, with no thread, no callback and no
  timer left, and with \<open>is_generating\<close> false, so Send works again. The schedule
  \<open>cg_settle\<close> terminates: a delayed callback starts at most one thread, and a thread
  that fails posts no delayed callback.\<close>

theorem cg_settles:
  assumes "cg_reachable S"
  shows "cg_reachable (cg_settle S) \<and> cg_workers (cg_settle S) = [] \<and> cg_queue (cg_settle S) = [] \<and>
         cg_timers (cg_settle S) = [] \<and> \<not> cg_is_generating (cg_gui (cg_settle S))"
proof -
  have q: "cg_step\<^sup>*\<^sup>* S (cg_settle S)" "cg_queue (cg_settle S) = []" "cg_workers (cg_settle S) = []"
    "cg_timers (cg_settle S) = []"
    using cg_settle_quiet [of S] by simp_all
  from assms q(1) have r: "cg_reachable (cg_settle S)" by (rule cg_reachable_steps)
  from cg_reachable_inv [OF r] q(2,3) have "\<not> cg_is_generating (cg_gui (cg_settle S))"
    by (simp add: cg_inv_def cg_owed_def split: if_splits)
  with r q show ?thesis by simp
qed

theorem cg_settles_witness:
  "\<exists>S. cg_reachable S \<and> cg_is_generating (cg_gui S) \<and>
       cg_reachable (cg_settle S) \<and> cg_workers (cg_settle S) = [] \<and> cg_queue (cg_settle S) = [] \<and>
       cg_timers (cg_settle S) = [] \<and> \<not> cg_is_generating (cg_gui (cg_settle S))"
proof -
  obtain S where r: "cg_reachable S" and g: "cg_is_generating (cg_gui S)"
    using cg_demo_reachable by blast
  from r g cg_settles [OF r] show ?thesis by blast
qed

text \<open>C15. A download the service answers with a status other than 200 leaves its
  progress window open for good. Once its callbacks have run, the window shows
  "Error: API returned" and the status, and its bar still runs. No delayed \<open>destroy\<close> is
  scheduled for it. The window grabbed the input when it opened, so the user has to close
  it by hand.\<close>

theorem failed_download_window_stays:
  assumes i: "i < length (cg_workers S)" and w: "cg_workers S ! i = Cg_download w m"
    and q: "cg_queue S = []" and p: "map_of (progress (cg_gui S)) w = Some p"
    and t: "Tm_destroy w \<notin> set (cg_timers S)" and status: "status \<noteq> 200"
  shows "map_of (progress (cg_gui (cg_drain (cg_finish i (Reply_stream status ls) S)))) w =
           Some (p\<lparr>pg_status := JStr (''Error: API returned '' @ py_nat_str status)\<rparr>) \<and>
         Tm_destroy w \<notin> set (cg_timers (cg_drain (cg_finish i (Reply_stream status ls) S)))"
proof -
  let ?e = "JStr (''Error: API returned '' @ py_nat_str status)"
  have f: "cg_queue (cg_finish i (Reply_stream status ls) S) = [Cb_pg_status w ?e]"
    "cg_timers (cg_finish i (Reply_stream status ls) S) = cg_timers S"
    "cg_gui (cg_finish i (Reply_stream status ls) S) = cg_gui S"
    using w q status by (simp_all add: cg_finish_def cg_download_def del: py_nat_str.simps)
  then have "cg_drain (cg_finish i (Reply_stream status ls) S) =
               (cg_finish i (Reply_stream status ls) S)\<lparr>cg_gui := upd_progress w (\<lambda>p. p\<lparr>pg_status := ?e\<rparr>) (cg_gui S),
                                                         cg_queue := []\<rparr>"
    by (simp add: cg_drain_Cons del: py_nat_str.simps)
  with f p t show ?thesis by (simp add: map_of_upd_progress del: py_nat_str.simps)
qed

theorem failed_download_window_stays_witness:
  "\<exists>S. cg_reachable S \<and> 1 < length (cg_workers S) \<and> cg_workers S ! 1 = Cg_download 2 ''llama3'' \<and>
       cg_queue S = [] \<and>
       map_of (progress (cg_gui S)) 2 =
         Some \<lparr>pg_title = ''Downloading llama3'', pg_status = JStr ''Starting download...'', pg_running = True\<rparr> \<and>
       Tm_destroy 2 \<notin> set (cg_timers S) \<and> (404::nat) \<noteq> 200 \<and>
       map_of (progress (cg_gui (cg_drain (cg_finish 1 (Reply_stream 404 []) S)))) 2 =
         Some \<lparr>pg_title = ''Downloading llama3'', pg_status = JStr ''Error: API returned 404'', pg_running = True\<rparr> \<and>
       Tm_destroy 2 \<notin> set (cg_timers (cg_drain (cg_finish 1 (Reply_stream 404 []) S)))"
proof -
  obtain S0 S where s0: "cg_start cg_demo_url (\<lambda>p. None) = Some S0"
    and run: "cg_run [Cg_act_ui Cg_open_settings, Cg_act_ui (Cg_pull ''llama3'')] S0 = Some S"
    and ws: "cg_workers S = [Cg_fetch, Cg_download 2 ''llama3'']" and q: "cg_queue S = []"
    and t: "cg_timers S = []"
    and pg: "progress (cg_gui S) =
            [(2, \<lparr>pg_title = ''Downloading llama3'', pg_status = JStr ''Starting download...'', pg_running = True\<rparr>)]"
    using cg_pull_run by blast
  have r: "cg_reachable S" using s0 run by (rule cg_reachable_run)
  have h: "1 < length (cg_workers S)" "cg_workers S ! 1 = Cg_download 2 ''llama3''"
    "map_of (progress (cg_gui S)) 2 =
       Some \<lparr>pg_title = ''Downloading llama3'', pg_status = JStr ''Starting download...'', pg_running = True\<rparr>"
    "Tm_destroy 2 \<notin> set (cg_timers S)" "(404::nat) \<noteq> 200"
    by (simp_all add: ws pg t)
  have n: "py_nat_str 404 = ''404''" by simp
  from failed_download_window_stays [OF h(1,2) q h(3,4,5), of "[]"] r h q show ?thesis
    by (simp add: n) blast
qed

end
