(* ===== verification/PyQt_Render.thy ===== *)
theory PyQt_Render
  imports Py_Prelude
begin

text \<open>
  How the PyQt client \<open>src/gui_app/ollama_pyqt.py\<close> renders a chat message:
  \<open>MessageWidget.process_text\<close> splits the text at its lines, cuts it into text parts
  and code parts at the lines that start with three backquotes (after stripping), and
  shows one label per text part and one code editor per code part. The loop state is the
  record \<open>render_state\<close> (\<open>parts\<close>, \<open>current_text\<close>, \<open>in_code_block\<close>,
  \<open>code_block_content\<close>); one line is one \<open>process_line\<close>; \<open>process_text\<close> is the
  loop and the final flush. The widgets built for each part, and the syntax highlighting
  of \<open>CodeHighlighter\<close>, are presentation and are not modelled.

  The reference \<open>shown_lines\<close> is what a reader expects to see: every line that is not
  a fence, with its newline. The lemmas relate the loop to it: the text of the parts,
  followed by the open text and the open code block, is always the shown text of the lines
  read so far.
\<close>

section \<open>Parts and the loop state\<close>

datatype part = Part_text string | Part_code string

fun part_content :: "part \<Rightarrow> string" where
  "part_content (Part_text s) = s"
| "part_content (Part_code s) = s"

record render_state =
  rd_parts :: "part list"
  rd_text :: string
  rd_in_code :: bool
  rd_code :: string

abbreviation py_newline :: string where
  "py_newline \<equiv> [CHR 0x0A]"

text \<open>\<open>line.strip().startswith('```')\<close>.\<close>

definition is_fence :: "string \<Rightarrow> bool" where
  "is_fence line \<longleftrightarrow> take 3 (py_strip line) = ''```''"

text \<open>\<open>if current_text: parts.append(('text', current_text))\<close>.\<close>

definition flush_text :: "render_state \<Rightarrow> part list" where
  "flush_text st = (if rd_text st \<noteq> [] then [Part_text (rd_text st)] else [])"

text \<open>One iteration of \<open>for line in text.split('\n')\<close>.\<close>

definition process_line :: "string \<Rightarrow> render_state \<Rightarrow> render_state" where
  "process_line line st =
     (if is_fence line then
        (if rd_in_code st
         then st\<lparr>rd_parts := rd_parts st @ flush_text st @ [Part_code (rd_code st)],
                 rd_text := [], rd_code := [], rd_in_code := False\<rparr>
         else st\<lparr>rd_parts := rd_parts st @ flush_text st, rd_text := [], rd_in_code := True\<rparr>)
      else if rd_in_code st then st\<lparr>rd_code := rd_code st @ line @ py_newline\<rparr>
      else st\<lparr>rd_text := rd_text st @ line @ py_newline\<rparr>)"

definition render_start :: render_state where
  "render_start = \<lparr>rd_parts = [], rd_text = [], rd_in_code = False, rd_code = []\<rparr>"

text \<open>The loop and \<open># Add any remaining text\<close>; an open code block is not added.\<close>

definition process_text :: "string \<Rightarrow> part list" where
  "process_text text =
     (let st = fold process_line (py_split_on (CHR 0x0A) text) render_start
      in rd_parts st @ flush_text st)"

text \<open>The reference: the lines that are not fences, each with its newline.\<close>

definition shown_lines :: "string list \<Rightarrow> string" where
  "shown_lines ls = concat (map (\<lambda>l. l @ py_newline) (filter (\<lambda>l. \<not> is_fence l) ls))"

definition shown :: "render_state \<Rightarrow> string" where
  "shown st = concat (map part_content (rd_parts st)) @ rd_text st @ rd_code st"

definition render_ok :: "render_state \<Rightarrow> bool" where
  "render_ok st \<longleftrightarrow> (\<not> rd_in_code st \<longrightarrow> rd_code st = []) \<and> (rd_in_code st \<longrightarrow> rd_text st = [])"

text \<open>The lines \<open>cs\<close> form a fenced block of \<open>ps\<close>: they lie between two fence lines
  and hold none. \<open>code_parts_ok\<close> is the loop invariant behind it: every code part is the
  shown text of a fenced block of the lines read so far, and an open block holds the lines
  after the last fence.\<close>

definition fenced_block :: "string list \<Rightarrow> string list \<Rightarrow> bool" where
  "fenced_block ps cs \<longleftrightarrow>
     (\<exists>xs f1 f2 ys. ps = xs @ f1 # cs @ f2 # ys \<and> is_fence f1 \<and> is_fence f2 \<and> \<not> list_ex is_fence cs)"

definition code_parts_ok :: "string list \<Rightarrow> render_state \<Rightarrow> bool" where
  "code_parts_ok ps st \<longleftrightarrow>
     (\<forall>c. Part_code c \<in> set (rd_parts st) \<longrightarrow> (\<exists>cs. fenced_block ps cs \<and> c = shown_lines cs)) \<and>
     (rd_in_code st \<longrightarrow>
        (\<exists>xs f1 cs. ps = xs @ f1 # cs \<and> is_fence f1 \<and> \<not> list_ex is_fence cs \<and> rd_code st = shown_lines cs))"

section \<open>Lemmas on the loop\<close>

lemma shown_lines_simps [simp]:
  "shown_lines [] = []"
  "shown_lines (l # ls) = (if is_fence l then shown_lines ls else l @ py_newline @ shown_lines ls)"
  "shown_lines (xs @ ys) = shown_lines xs @ shown_lines ys"
  by (simp_all add: shown_lines_def)

lemma concat_flush_text [simp]: "concat (map part_content (flush_text st)) = rd_text st"
  by (simp add: flush_text_def)

lemma process_line_ok: "render_ok st \<Longrightarrow> render_ok (process_line l st)"
  by (simp add: render_ok_def process_line_def)

lemma process_line_shown:
  "render_ok st \<Longrightarrow> shown (process_line l st) = shown st @ shown_lines [l]"
  by (simp add: render_ok_def process_line_def shown_def)

lemma process_line_in_code:
  "rd_in_code (process_line l st) = (if is_fence l then \<not> rd_in_code st else rd_in_code st)"
  by (simp add: process_line_def)

text \<open>The loop invariant, over any list of lines: the shown text grows by the shown lines,
  and the loop is inside a code block after an odd number of fences.\<close>

lemma fold_process_line:
  "render_ok st \<Longrightarrow>
   render_ok (fold process_line ls st) \<and>
   shown (fold process_line ls st) = shown st @ shown_lines ls \<and>
   rd_in_code (fold process_line ls st) = (rd_in_code st \<noteq> odd (length (filter is_fence ls)))"
proof (induction ls arbitrary: st)
  case Nil
  then show ?case by simp
next
  case (Cons l ls)
  from Cons.prems have ok: "render_ok (process_line l st)" by (rule process_line_ok)
  from Cons.IH [OF ok] process_line_shown [OF Cons.prems, of l] show ?case
    by (auto simp: process_line_in_code)
qed

lemma render_start_ok [simp]: "render_ok render_start"
  by (simp add: render_ok_def render_start_def)

lemma shown_render_start [simp]: "shown render_start = []"
  by (simp add: shown_def render_start_def)

lemma render_start_in_code [simp]: "\<not> rd_in_code render_start"
  by (simp add: render_start_def)

text \<open>What \<open>process_text\<close> displays once the loop has ended outside a code block.\<close>

lemma displayed_closed:
  "render_ok st \<Longrightarrow> \<not> rd_in_code st \<Longrightarrow>
   concat (map part_content (rd_parts st)) @ rd_text st = shown st"
  by (simp add: render_ok_def shown_def)

text \<open>A fence that opens a block moves the open text into the parts.\<close>

lemma open_fence_parts:
  "is_fence f \<Longrightarrow> \<not> rd_in_code st \<Longrightarrow>
   rd_parts (process_line f st) = rd_parts st @ flush_text st \<and> rd_text (process_line f st) = [] \<and>
   rd_in_code (process_line f st)"
  by (simp add: process_line_def)

text \<open>Inside a code block, lines that are not fences change only the block.\<close>

lemma fold_in_code:
  "rd_in_code st \<Longrightarrow> \<not> list_ex is_fence ys \<Longrightarrow>
   rd_parts (fold process_line ys st) = rd_parts st \<and> rd_text (fold process_line ys st) = rd_text st \<and>
   rd_in_code (fold process_line ys st)"
  by (induction ys arbitrary: st) (simp_all add: process_line_def)

text \<open>Every code part \<open>process_text\<close> builds is the text of a fenced block.\<close>

lemma fenced_block_snoc: "fenced_block ps cs \<Longrightarrow> fenced_block (ps @ [l]) cs"
  unfolding fenced_block_def by (metis append.assoc append_Cons)

lemma process_line_code_parts:
  assumes ok: "render_ok st" and cp: "code_parts_ok ps st"
  shows "code_parts_ok (ps @ [l]) (process_line l st)"
proof -
  have old: "\<forall>c. Part_code c \<in> set (rd_parts st) \<longrightarrow> (\<exists>cs. fenced_block (ps @ [l]) cs \<and> c = shown_lines cs)"
    using cp by (auto simp: code_parts_ok_def intro: fenced_block_snoc)
  have open_block: "\<exists>xs f1 cs. ps = xs @ f1 # cs \<and> is_fence f1 \<and> \<not> list_ex is_fence cs \<and> rd_code st = shown_lines cs"
    if "rd_in_code st" using cp that by (simp add: code_parts_ok_def)
  show ?thesis
  proof (cases "is_fence l")
    case fence: True
    show ?thesis
    proof (cases "rd_in_code st")
      case True
      then obtain xs f1 cs where ps: "ps = xs @ f1 # cs" and f1: "is_fence f1"
        and cs: "\<not> list_ex is_fence cs" and code: "rd_code st = shown_lines cs"
        using open_block by blast
      have new: "fenced_block (ps @ [l]) cs"
        unfolding fenced_block_def using ps f1 fence cs
        by (intro exI [of _ xs] exI [of _ f1] exI [of _ l] exI [of _ "[]"]) simp
      show ?thesis
        using old True fence new code
        by (auto simp: code_parts_ok_def process_line_def flush_text_def)
    next
      case False
      with ok have "rd_code st = []" by (simp add: render_ok_def)
      then have "\<exists>xs f1 cs. ps @ [l] = xs @ f1 # cs \<and> is_fence f1 \<and> \<not> list_ex is_fence cs \<and> rd_code st = shown_lines cs"
        using fence by (intro exI [of _ ps] exI [of _ l] exI [of _ "[]"]) simp
      with old False fence show ?thesis
        by (auto simp: code_parts_ok_def process_line_def flush_text_def)
    qed
  next
    case nofence: False
    show ?thesis
    proof (cases "rd_in_code st")
      case True
      then obtain xs f1 cs where ps: "ps = xs @ f1 # cs" and f1: "is_fence f1"
        and cs: "\<not> list_ex is_fence cs" and code: "rd_code st = shown_lines cs"
        using open_block by blast
      have "\<exists>xs' f1' cs'. ps @ [l] = xs' @ f1' # cs' \<and> is_fence f1' \<and> \<not> list_ex is_fence cs' \<and>
              rd_code st @ l @ py_newline = shown_lines cs'"
        using ps f1 cs code nofence by (intro exI [of _ xs] exI [of _ f1] exI [of _ "cs @ [l]"]) simp
      with old True nofence show ?thesis
        by (auto simp: code_parts_ok_def process_line_def simp del: shown_lines_simps)
    next
      case False
      with old nofence show ?thesis
        by (auto simp: code_parts_ok_def process_line_def)
    qed
  qed
qed

lemma fold_code_parts:
  "render_ok st \<Longrightarrow> code_parts_ok ps st \<Longrightarrow> code_parts_ok (ps @ ls) (fold process_line ls st)"
proof (induction ls arbitrary: ps st)
  case Nil
  then show ?case by simp
next
  case (Cons l ls)
  have "render_ok (process_line l st)" using Cons.prems(1) by (rule process_line_ok)
  moreover have "code_parts_ok (ps @ [l]) (process_line l st)"
    using Cons.prems by (rule process_line_code_parts)
  ultimately show ?case using Cons.IH [of "process_line l st" "ps @ [l]"] by simp
qed

lemma code_part_is_fenced_block:
  assumes "Part_code c \<in> set (process_text text)"
  shows "\<exists>cs. fenced_block (py_split_on (CHR 0x0A) text) cs \<and> c = shown_lines cs"
proof -
  have "code_parts_ok [] render_start" by (simp add: code_parts_ok_def render_start_def)
  from fold_code_parts [OF render_start_ok this, of "py_split_on (CHR 0x0A) text"]
  have "code_parts_ok (py_split_on (CHR 0x0A) text) (fold process_line (py_split_on (CHR 0x0A) text) render_start)"
    by simp
  with assms show ?thesis
    by (auto simp: code_parts_ok_def process_text_def Let_def flush_text_def split: if_splits)
qed

section \<open>Properties of the renderer\<close>

text \<open>C39. When the fences of a message are balanced, the parts \<open>process_text\<close> builds
  show exactly the lines of the message that are not fences, in order, each once: the
  loop is equivalent to filtering out the fence lines.\<close>

theorem process_text_balanced:
  assumes "even (length (filter is_fence (py_split_on (CHR 0x0A) text)))"
  shows "concat (map part_content (process_text text)) = shown_lines (py_split_on (CHR 0x0A) text)"
proof -
  let ?st = "fold process_line (py_split_on (CHR 0x0A) text) render_start"
  from fold_process_line [OF render_start_ok, of "py_split_on (CHR 0x0A) text"] assms
  have "render_ok ?st" "\<not> rd_in_code ?st" "shown ?st = shown_lines (py_split_on (CHR 0x0A) text)"
    by simp_all
  then have "concat (map part_content (rd_parts ?st @ flush_text ?st)) =
             shown_lines (py_split_on (CHR 0x0A) text)"
    by (simp add: displayed_closed)
  then show ?thesis by (simp add: process_text_def Let_def)
qed

theorem process_text_balanced_witness:
  "even (length (filter is_fence (py_split_on (CHR 0x0A) (''Use'' @ py_newline @ ''```py'' @ py_newline @ ''x=1'' @ py_newline @ ''```'')))) \<and>
   concat (map part_content (process_text (''Use'' @ py_newline @ ''```py'' @ py_newline @ ''x=1'' @ py_newline @ ''```''))) =
   ''Use'' @ py_newline @ ''x=1'' @ py_newline"
proof -
  have e: "even (length (filter is_fence (py_split_on (CHR 0x0A) (''Use'' @ py_newline @ ''```py'' @ py_newline @ ''x=1'' @ py_newline @ ''```''))))"
    by (simp add: is_fence_def py_strip_def py_lstrip_def py_isspace_def)
  have s: "shown_lines (py_split_on (CHR 0x0A) (''Use'' @ py_newline @ ''```py'' @ py_newline @ ''x=1'' @ py_newline @ ''```'')) =
           ''Use'' @ py_newline @ ''x=1'' @ py_newline"
    by (simp add: is_fence_def py_strip_def py_lstrip_def py_isspace_def)
  from e process_text_balanced [OF e] s show ?thesis by simp
qed

text \<open>C40. A code block that is opened and never closed is lost: when the last fence of a
  message has no closing fence after it, the message shows the lines before that fence
  and nothing of the lines after it.\<close>

theorem process_text_unclosed_block_dropped:
  assumes split: "py_split_on (CHR 0x0A) text = xs @ f # ys"
    and fence: "is_fence f" and rest: "\<not> list_ex is_fence ys"
    and even: "even (length (filter is_fence xs))"
  shows "concat (map part_content (process_text text)) = shown_lines xs"
proof -
  let ?a = "fold process_line xs render_start"
  let ?b = "process_line f ?a"
  from fold_process_line [OF render_start_ok, of xs] even
  have a: "render_ok ?a" "\<not> rd_in_code ?a" "shown ?a = shown_lines xs"
    by simp_all
  from open_fence_parts [OF fence a(2)]
  have b: "rd_parts ?b = rd_parts ?a @ flush_text ?a" "rd_text ?b = []" "rd_in_code ?b" by simp_all
  from fold_in_code [OF b(3) rest] b
  have "rd_parts (fold process_line ys ?b) = rd_parts ?a @ flush_text ?a"
       "rd_text (fold process_line ys ?b) = []" by simp_all
  moreover have "concat (map part_content (rd_parts ?a @ flush_text ?a)) = shown_lines xs"
    using displayed_closed [OF a(1,2)] a(3) by simp
  ultimately show ?thesis by (simp add: process_text_def Let_def split flush_text_def)
qed

theorem process_text_unclosed_block_dropped_witness:
  "py_split_on (CHR 0x0A) (''Run:'' @ py_newline @ ''```sh'' @ py_newline @ ''make'') = [''Run:''] @ ''```sh'' # [''make''] \<and>
   is_fence ''```sh'' \<and> \<not> list_ex is_fence [''make''] \<and> even (length (filter is_fence [''Run:''])) \<and>
   concat (map part_content (process_text (''Run:'' @ py_newline @ ''```sh'' @ py_newline @ ''make''))) = ''Run:'' @ py_newline"
proof -
  have h: "py_split_on (CHR 0x0A) (''Run:'' @ py_newline @ ''```sh'' @ py_newline @ ''make'') = [''Run:''] @ ''```sh'' # [''make'']"
    "is_fence ''```sh''" "\<not> list_ex is_fence [''make'']" "even (length (filter is_fence [''Run:'']))"
    by (simp_all add: is_fence_def py_strip_def py_lstrip_def py_isspace_def)
  have s: "shown_lines [''Run:''] = ''Run:'' @ py_newline"
    by (simp add: is_fence_def py_strip_def py_lstrip_def py_isspace_def)
  from h process_text_unclosed_block_dropped [OF h] s show ?thesis by simp
qed

end
