(* ===== verification/PyQt_Client.thy ===== *)
theory PyQt_Client
  imports PyQt_Render Chat_Protocol
begin

text \<open>
  The window \<open>OllamaChatApp\<close> of \<open>src/gui_app/ollama_pyqt.py\<close> and its handlers.

  Each chat tab is a page of widgets: the message column \<open>messages_layout\<close>, the list of
  attached files, the input box, the reasoning check box and the Send button
  (\<open>qt_page\<close>). \<open>create_chat_tab\<close> assigns these widgets to the attributes
  \<open>self.messages_layout\<close>, \<open>self.input_edit\<close>, \<open>self.send_btn\<close>, ... of the window, so
  the attributes always name the widgets of the page created last. The model keeps the pages
  in a store (\<open>qt_pages\<close>, indexed by creation order) and the index of the page the
  attributes name (\<open>qt_live\<close>); the tab bar is the list of the pages it shows
  (\<open>qt_tabs\<close>) with its current index (\<open>qt_current\<close>). The per-tab histories are
  \<open>self.current_chats\<close> (\<open>qt_current_chats\<close>), indexed by the tab index.

  The handlers are functions on the window state \<open>qt_state\<close>; the threads they start are
  values of \<open>qt_worker\<close> added to \<open>qt_workers\<close>. A handler that raises returns the
  exception as the left value of a sum. Message boxes are recorded with their titles; their
  texts, the colours, fonts and the status indicator are presentation.

  The tab bar follows Qt's documented behaviour: \<open>addTab\<close> appends,
  \<open>setCurrentIndex\<close> ignores an index out of range, and \<open>removeTab\<close> of the current
  tab selects the tab to its right, or the new last tab (\<open>QTabBar.SelectRightTab\<close>, the
  default).
\<close>

section \<open>Widgets, workers and the window state\<close>

datatype api_error =
    Api_status_error nat       \<comment> \<open>\<open>f"API Error: {response.status_code}"\<close>\<close>
  | Api_connection_error exn   \<comment> \<open>\<open>f"Connection Error: {str(e)}"\<close>\<close>

datatype qt_item =
    Msg_widget string "part list"   \<comment> \<open>a \<open>MessageWidget\<close> with its role and its parts\<close>
  | Error_widget api_error          \<comment> \<open>the system message \<open>f"Error: {error}"\<close>\<close>
  | Progress nat                    \<comment> \<open>the progress indicator of a request\<close>

record qt_page =
  pg_messages :: "qt_item list"
  pg_files :: "string list"
  pg_files_visible :: bool
  pg_input :: string
  pg_reasoning :: bool
  pg_send_enabled :: bool
  pg_send_text :: string

datatype qt_box = Box_warning string | Box_critical string | Box_info string

datatype qt_worker =
    Api_worker string json nat   \<comment> \<open>\<open>ApiThread(url, payload)\<close>, with its progress widget\<close>
  | Fetch_worker                 \<comment> \<open>the thread of \<open>fetch_models\<close>\<close>
  | Test_worker string           \<comment> \<open>the thread of \<open>test_connection\<close>, with the tested URL\<close>

record qt_state =
  qt_models :: "json list"
  qt_combo :: "string list"
  qt_selected_model :: string
  qt_temperature :: real
  qt_max_tokens :: int
  qt_system_prompt :: string
  qt_is_generating :: bool
  qt_current_chats :: "(string \<times> json list) list"
  qt_api_url :: string
  qt_api_url_edit :: string
  qt_status_label :: string
  qt_status_bar :: string
  qt_attached :: "(string \<times> string) list"
  qt_boxes :: "qt_box list"
  qt_tabs :: "nat list"
  qt_current :: nat
  qt_chat_list :: "string list"
  qt_pages :: "qt_page list"
  qt_live :: nat
  qt_next_widget :: nat
  qt_files :: "string \<Rightarrow> string option"
  qt_workers :: "qt_worker list"
  qt_clipboard :: string

section \<open>Pages and the tab bar\<close>

definition live_page :: "qt_state \<Rightarrow> qt_page" where
  "live_page s = qt_pages s ! qt_live s"

definition upd_page :: "nat \<Rightarrow> (qt_page \<Rightarrow> qt_page) \<Rightarrow> qt_state \<Rightarrow> qt_state" where
  "upd_page p f s = s\<lparr>qt_pages := (qt_pages s)[p := f (qt_pages s ! p)]\<rparr>"

definition upd_live :: "(qt_page \<Rightarrow> qt_page) \<Rightarrow> qt_state \<Rightarrow> qt_state" where
  "upd_live f s = upd_page (qt_live s) f s"

text \<open>The page of the tab the user sees.\<close>

definition visible_page :: "qt_state \<Rightarrow> nat" where
  "visible_page s = qt_tabs s ! qt_current s"

definition qt_set_current :: "nat \<Rightarrow> qt_state \<Rightarrow> qt_state" where
  "qt_set_current i s = (if i < length (qt_tabs s) then s\<lparr>qt_current := i\<rparr> else s)"

definition qt_remove_tab :: "nat \<Rightarrow> qt_state \<Rightarrow> qt_state" where
  "qt_remove_tab i s =
     (if i < length (qt_tabs s) then
        (let c = qt_current s; n = length (qt_tabs s) - 1 in
         s\<lparr>qt_tabs := take i (qt_tabs s) @ drop (Suc i) (qt_tabs s),
           qt_current := (if i = c then min i (n - 1) else if i < c then c - 1 else c)\<rparr>)
      else s)"

section \<open>Messages\<close>

text \<open>\<open>MessageWidget(text, role)\<close>: \<open>process_text\<close> calls \<open>text.split\<close>, so a text that is
  not a string raises \<open>AttributeError\<close>.\<close>

definition message_widget :: "string \<Rightarrow> json \<Rightarrow> py_error + qt_item" where
  "message_widget role text =
     (case text of
        JStr t \<Rightarrow> Inr (Msg_widget role (process_text t))
      | _ \<Rightarrow> Inl (AttributeError (py_type_name text)))"

text \<open>\<open>self.messages_layout.addWidget(message_widget)\<close>: the page created last.\<close>

definition add_widget :: "qt_item \<Rightarrow> qt_state \<Rightarrow> qt_state" where
  "add_widget w = upd_live (\<lambda>p. p\<lparr>pg_messages := pg_messages p @ [w]\<rparr>)"

definition add_system_message :: "string \<Rightarrow> qt_state \<Rightarrow> qt_state" where
  "add_system_message text = add_widget (Msg_widget ''system'' (process_text text))"

text \<open>\<open>current_tab = self.tabs.currentIndex()\<close> and the append to its history.\<close>

definition append_history :: "json \<Rightarrow> qt_state \<Rightarrow> qt_state" where
  "append_history m s =
     (let i = qt_current s in
      if i < length (qt_current_chats s)
      then s\<lparr>qt_current_chats := (qt_current_chats s)[i :=
               (fst (qt_current_chats s ! i), snd (qt_current_chats s ! i) @ [m])]\<rparr>
      else s)"

definition add_user_message :: "string \<Rightarrow> qt_state \<Rightarrow> qt_state" where
  "add_user_message text s =
     append_history (msg ''user'' (JStr text)) (add_widget (Msg_widget ''user'' (process_text text)) s)"

definition add_assistant_message :: "json \<Rightarrow> qt_state \<Rightarrow> py_error + qt_state" where
  "add_assistant_message text s =
     py_bind (message_widget ''assistant'' text) (\<lambda>w.
       Inr (append_history (msg ''assistant'' text) (add_widget w s)))"

section \<open>Code blocks\<close>

text \<open>The code part \<open>j\<close> of message \<open>k\<close> of a page: the text its "Copy" and "Save as
  File" buttons captured (\<open>lambda _, text=content: ...\<close>).\<close>

definition code_part :: "qt_page \<Rightarrow> nat \<Rightarrow> nat \<Rightarrow> string option" where
  "code_part p k j =
     (if k < length (pg_messages p) then
        (case pg_messages p ! k of
           Msg_widget r parts \<Rightarrow>
             if j < length parts then (case parts ! j of Part_code c \<Rightarrow> Some c | Part_text t \<Rightarrow> None)
             else None
         | _ \<Rightarrow> None)
      else None)"

text \<open>\<open>MessageWidget.save_code_to_file\<close> on the path the file dialog returned (empty:
  cancelled). A write into the file store does not fail, so the \<open>except\<close> clause is not
  reached.\<close>

definition save_code_to_file :: "string \<Rightarrow> string \<Rightarrow> qt_state \<Rightarrow> qt_state" where
  "save_code_to_file code file_path s =
     (if file_path \<noteq> [] then s\<lparr>qt_files := (qt_files s)(file_path \<mapsto> code),
                                  qt_boxes := qt_boxes s @ [Box_info ''Success'']\<rparr>
      else s)"

section \<open>Tabs\<close>

definition new_page :: qt_page where
  "new_page = \<lparr>pg_messages = [], pg_files = [], pg_files_visible = False, pg_input = [],
               pg_reasoning = False, pg_send_enabled = True, pg_send_text = ''Send''\<rparr>"

definition create_chat_tab :: "string \<Rightarrow> qt_state \<Rightarrow> qt_state" where
  "create_chat_tab title s =
     (let p = length (qt_pages s);
          s1 = add_system_message ''Welcome to Ollama Chat! Select a model to start chatting.''
                 (s\<lparr>qt_pages := qt_pages s @ [new_page], qt_live := p\<rparr>)
      in s1\<lparr>qt_tabs := qt_tabs s1 @ [p], qt_current := length (qt_tabs s1),
            qt_chat_list := qt_chat_list s1 @ [title],
            qt_current_chats := qt_current_chats s1 @ [(title, [])]\<rparr>)"

definition close_tab :: "nat \<Rightarrow> qt_state \<Rightarrow> qt_state" where
  "close_tab index s =
     (if 1 < length (qt_tabs s) then
        (let s1 = qt_remove_tab index s;
             s2 = s1\<lparr>qt_chat_list := take index (qt_chat_list s1) @ drop (Suc index) (qt_chat_list s1)\<rparr>
         in if index < length (qt_current_chats s2)
            then s2\<lparr>qt_current_chats := take index (qt_current_chats s2) @ drop (Suc index) (qt_current_chats s2)\<rparr>
            else s2)
      else s)"

definition qt_new_chat :: "qt_state \<Rightarrow> qt_state" where
  "qt_new_chat s = create_chat_tab (''Chat '' @ py_nat_str (length (qt_tabs s) + 1)) s"

text \<open>\<open>load_selected_chat\<close>: the first entry of the chat list with the clicked title.\<close>

definition load_selected_chat :: "nat \<Rightarrow> qt_state \<Rightarrow> qt_state" where
  "load_selected_chat k s =
     (case py_index (qt_chat_list s) (qt_chat_list s ! k) of
        Inr i \<Rightarrow> qt_set_current i s
      | Inl _ \<Rightarrow> s)"

section \<open>Settings\<close>

definition qt_on_model_selected :: "string \<Rightarrow> qt_state \<Rightarrow> qt_state" where
  "qt_on_model_selected name s =
     (if name \<noteq> [] \<and> name \<noteq> qt_selected_model s
      then s\<lparr>qt_selected_model := name, qt_status_bar := ''Model '' @ [CHR 0x27] @ name @ [CHR 0x27] @ '' selected''\<rparr>
      else s)"

definition update_temperature :: "int \<Rightarrow> qt_state \<Rightarrow> qt_state" where
  "update_temperature v s = s\<lparr>qt_temperature := real_of_int v / 100\<rparr>"

definition update_max_tokens :: "int \<Rightarrow> qt_state \<Rightarrow> qt_state" where
  "update_max_tokens v s = s\<lparr>qt_max_tokens := v\<rparr>"

text \<open>\<open>self.model_combo.addItems(models)\<close> takes strings only.\<close>

definition combo_items :: "json list \<Rightarrow> py_error + string list" where
  "combo_items ms = py_map (\<lambda>m. case m of JStr t \<Rightarrow> Inr t | _ \<Rightarrow> Inl (TypeError (py_type_name m))) ms"

text \<open>\<open>update_models\<close>: \<open>self.models\<close> is set and the combo box cleared before
  \<open>addItems\<close> can raise, so the partial state is returned with the exception.\<close>

definition qt_update_models :: "json list \<Rightarrow> qt_state \<Rightarrow> qt_state \<times> py_error option" where
  "qt_update_models models s =
     (let s1 = s\<lparr>qt_models := models, qt_combo := []\<rparr> in
      if models \<noteq> [] then
        (case combo_items models of
           Inl e \<Rightarrow> (s1, Some e)
         | Inr names \<Rightarrow>
             (s1\<lparr>qt_combo := names, qt_selected_model := hd names,
                 qt_status_bar := ''Found '' @ py_nat_str (length models) @ '' models''\<rparr>, None))
      else (s1\<lparr>qt_status_bar := ''No models found'', qt_boxes := qt_boxes s1 @ [Box_warning ''No Models Found'']\<rparr>,
            None))"

section \<open>The model catalogue and the connection test\<close>

definition qt_fetch_models :: "qt_state \<Rightarrow> qt_state" where
  "qt_fetch_models s = s\<lparr>qt_status_label := ''Connecting...'', qt_workers := qt_workers s @ [Fetch_worker]\<rparr>"

definition connection_error :: "qt_state \<Rightarrow> qt_state" where
  "connection_error s = s\<lparr>qt_status_label := ''Error'', qt_boxes := qt_boxes s @ [Box_critical ''Connection Error'']\<rparr>"

text \<open>The body of \<open>fetch()\<close>, run with the result of \<open>requests.get\<close>.\<close>

definition fetch_done :: "http_result \<Rightarrow> qt_state \<Rightarrow> qt_state" where
  "fetch_done r s =
     (case r of
        Http_response status body \<Rightarrow>
          if status = 200 then
            (case body of
               None \<Rightarrow> connection_error s
             | Some data \<Rightarrow>
                 (case fetch_model_names data of
                    Inl _ \<Rightarrow> connection_error s
                  | Inr models \<Rightarrow>
                      (case qt_update_models models s of
                         (s1, None) \<Rightarrow> s1\<lparr>qt_status_label := ''Connected''\<rparr>
                       | (s1, Some _) \<Rightarrow> connection_error s1)))
          else s\<lparr>qt_status_label := ''Error'', qt_boxes := qt_boxes s @ [Box_critical ''API Error'']\<rparr>
      | Http_exception _ \<Rightarrow> connection_error s)"

definition test_connection :: "qt_state \<Rightarrow> qt_state" where
  "test_connection s =
     s\<lparr>qt_status_label := ''Testing...'', qt_workers := qt_workers s @ [Test_worker (qt_api_url_edit s)]\<rparr>"

text \<open>The body of \<open>test()\<close>; \<open>timed_out\<close> tells \<open>requests.exceptions.Timeout\<close> from
  the other exceptions. On a 200 reply the status and the URL are set before the body is
  decoded, so a body that fails keeps the new URL.\<close>

definition test_done :: "string \<Rightarrow> bool \<Rightarrow> http_result \<Rightarrow> qt_state \<Rightarrow> qt_state" where
  "test_done api_url timed_out r s =
     (case r of
        Http_response status body \<Rightarrow>
          if status = 200 then
            (let s1 = s\<lparr>qt_status_label := ''Connected'', qt_api_url := api_url\<rparr> in
             case body of
               None \<Rightarrow> connection_error s1
             | Some data \<Rightarrow>
                 (case fetch_model_names data of
                    Inl _ \<Rightarrow> connection_error s1
                  | Inr models \<Rightarrow>
                      (case qt_update_models models s1 of
                         (s2, None) \<Rightarrow> s2\<lparr>qt_boxes := qt_boxes s2 @ [Box_info ''Connection Successful'']\<rparr>
                       | (s2, Some _) \<Rightarrow> connection_error s2)))
          else s\<lparr>qt_status_label := ''Error'', qt_boxes := qt_boxes s @ [Box_critical ''API Error'']\<rparr>
      | Http_exception _ \<Rightarrow>
          if timed_out
          then s\<lparr>qt_status_label := ''Timeout'', qt_boxes := qt_boxes s @ [Box_critical ''Connection Timeout'']\<rparr>
          else connection_error s)"

section \<open>Attachments\<close>

text \<open>\<open>attach_file\<close> with the path the file dialog returned (empty when cancelled);
  \<open>os.path.getsize\<close> raises on a path that cannot be read.\<close>

definition attach_file :: "string \<Rightarrow> qt_state \<Rightarrow> py_error + qt_state" where
  "attach_file path s =
     (if path = [] then Inr s
      else case qt_files s path of
        None \<Rightarrow> Inl (OSError path)
      | Some content \<Rightarrow>
          if 10 * 1024 * 1024 < length content
          then Inr (s\<lparr>qt_boxes := qt_boxes s @ [Box_warning ''File Too Large'']\<rparr>)
          else (let name = py_basename path in
                Inr (upd_live (\<lambda>p. p\<lparr>pg_files := pg_files p @ [name], pg_files_visible := True\<rparr>)
                       (s\<lparr>qt_attached := qt_attached s @ [(path, name)],
                          qt_status_bar := ''File attached: '' @ name\<rparr>))))"

definition clear_attachments :: "qt_state \<Rightarrow> qt_state" where
  "clear_attachments s =
     upd_live (\<lambda>p. p\<lparr>pg_files := [], pg_files_visible := False\<rparr>)
       (s\<lparr>qt_attached := [], qt_status_bar := ''Attachments cleared''\<rparr>)"

section \<open>Sending a message\<close>

definition reasoning_prompt :: json where
  "reasoning_prompt =
     msg ''system'' (JStr ''Please think step by step and show your reasoning before providing the final answer.'')"

text \<open>One attached file as \<open>send_message\<close> reads it; a file that cannot be opened any
  more gives the text of \<open>FileNotFoundError\<close>.\<close>

fun read_attached :: "(string \<Rightarrow> string option) \<Rightarrow> string \<times> string \<Rightarrow> string" where
  "read_attached fs (path, name) =
     (case fs path of
        Some content \<Rightarrow> ''File: '' @ name @ py_newline @ py_newline @ content @ py_newline @ py_newline
      | None \<Rightarrow> ''Error reading file '' @ name @ '': [Errno 2] No such file or directory: '' @
                [CHR 0x27] @ path @ [CHR 0x27])"

definition attachment_messages :: "(string \<Rightarrow> string option) \<Rightarrow> (string \<times> string) list \<Rightarrow> json list" where
  "attachment_messages fs files =
     (let file_contents = map (read_attached fs) files in
      if file_contents \<noteq> []
      then [msg ''user'' (JStr (''I'm attaching the following files for reference:'' @ py_newline @ py_newline @
                                py_join py_newline file_contents))]
      else [])"

text \<open>The history of the current tab, as \<open>messages.extend\<close> reads it.\<close>

definition current_history :: "qt_state \<Rightarrow> json list" where
  "current_history s =
     (let i = qt_current s in if i < length (qt_current_chats s) then snd (qt_current_chats s ! i) else [])"

definition qt_send_message :: "qt_state \<Rightarrow> qt_state" where
  "qt_send_message s =
     (if qt_is_generating s then s
      else let message = py_strip (pg_input (live_page s)) in
      if message = [] then s
      else if qt_selected_model s = []
      then s\<lparr>qt_boxes := qt_boxes s @ [Box_warning ''No Model Selected'']\<rparr>
      else
        (let s1 = upd_live (\<lambda>p. p\<lparr>pg_input := []\<rparr>) (add_user_message message s);
             sp = py_strip (qt_system_prompt s1);
             messages = (if sp \<noteq> [] then [msg ''system'' (JStr sp)] else []) @
                        (if pg_reasoning (live_page s1) then [reasoning_prompt] else []) @
                        (if qt_attached s1 \<noteq> [] then attachment_messages (qt_files s1) (qt_attached s1) else []) @
                        current_history s1;
             w = qt_next_widget s1;
             s2 = upd_live (\<lambda>p. p\<lparr>pg_send_enabled := False, pg_send_text := ''Generating...'',
                                    pg_messages := pg_messages p @ [Progress w]\<rparr>)
                    (s1\<lparr>qt_is_generating := True, qt_status_bar := ''Generating response...'',
                        qt_next_widget := Suc w\<rparr>);
             payload = chat_payload (JStr (qt_selected_model s2)) messages
                         (JFloat (qt_temperature s2)) (JInt (qt_max_tokens s2))
         in s2\<lparr>qt_workers := qt_workers s2 @ [Api_worker (qt_api_url s2 @ ''/chat'') payload w]\<rparr>))"

section \<open>The API thread and the reply\<close>

text \<open>\<open>ApiThread.run\<close>: the signal it emits. \<open>response_received\<close> is declared
  \<open>pyqtSignal(dict)\<close>, so emitting a body that is not a dict raises \<open>TypeError\<close>, which the
  \<open>except\<close> turns into a connection error like a body that is not JSON.\<close>

datatype api_signal = Response_received json | Error_occurred api_error

definition api_thread_run :: "http_result \<Rightarrow> api_signal" where
  "api_thread_run r =
     (case r of
        Http_response status body \<Rightarrow>
          if status = 200 then
            (case body of
               None \<Rightarrow> Error_occurred (Api_connection_error (Runtime_error JSONDecodeError))
             | Some (JObj kvs) \<Rightarrow> Response_received (JObj kvs)
             | Some v \<Rightarrow> Error_occurred (Api_connection_error (Runtime_error (TypeError (py_type_name v)))))
          else Error_occurred (Api_status_error status)
      | Http_exception m \<Rightarrow> Error_occurred (Api_connection_error (Transport_error m)))"

text \<open>\<open>progress_widget.setParent(None)\<close>, wherever the widget is.\<close>

definition remove_progress :: "nat \<Rightarrow> qt_state \<Rightarrow> qt_state" where
  "remove_progress w s =
     s\<lparr>qt_pages := map (\<lambda>p. p\<lparr>pg_messages := filter (\<lambda>it. it \<noteq> Progress w) (pg_messages p)\<rparr>) (qt_pages s)\<rparr>"

text \<open>\<open># Reset state\<close>: the Send button reset is the one of the page created last.\<close>

definition reset_state :: "string \<Rightarrow> qt_state \<Rightarrow> qt_state" where
  "reset_state status s =
     upd_live (\<lambda>p. p\<lparr>pg_send_enabled := True, pg_send_text := ''Send''\<rparr>)
       (s\<lparr>qt_is_generating := False, qt_status_bar := status\<rparr>)"

definition handle_response :: "json \<Rightarrow> nat \<Rightarrow> qt_state \<Rightarrow> py_error + qt_state" where
  "handle_response data w s =
     (let s1 = remove_progress w s in
      py_bind (reply_content data) (\<lambda>c.
        py_bind (case c of
                   Some content \<Rightarrow> add_assistant_message content s1
                 | None \<Rightarrow> Inr (add_system_message ''Error: Received empty response from model.'' s1))
          (\<lambda>s2. Inr (reset_state ''Response received'' s2))))"

definition handle_error :: "api_error \<Rightarrow> nat \<Rightarrow> qt_state \<Rightarrow> qt_state" where
  "handle_error e w s = reset_state ''Error occurred'' (add_widget (Error_widget e) (remove_progress w s))"

text \<open>The signal runs its slot: \<open>handle_response\<close> or \<open>handle_error\<close>.\<close>

definition api_done :: "nat \<Rightarrow> http_result \<Rightarrow> qt_state \<Rightarrow> py_error + qt_state" where
  "api_done w r s =
     (case api_thread_run r of
        Response_received data \<Rightarrow> handle_response data w s
      | Error_occurred e \<Rightarrow> Inr (handle_error e w s))"

section \<open>Start-up\<close>

text \<open>\<open>OLLAMA_API_URL = os.getenv('OLLAMA_API_URL', 'http://localhost:11434/api')\<close>.\<close>

definition qt_default_url :: "string option \<Rightarrow> string" where
  "qt_default_url env = (case env of Some u \<Rightarrow> u | None \<Rightarrow> ''http://localhost:11434/api'')"

text \<open>\<open>__init__\<close>: the attributes, \<open>setup_ui\<close> (whose only state beyond the widgets is
  the first tab, made by \<open>new_chat\<close>, and the status bar) and \<open>fetch_models\<close>.\<close>

definition qt_init :: "string \<Rightarrow> (string \<Rightarrow> string option) \<Rightarrow> qt_state" where
  "qt_init api_url fs =
     (let s0 = \<lparr>qt_models = [], qt_combo = [], qt_selected_model = [], qt_temperature = 0.7,
                qt_max_tokens = 1024, qt_system_prompt = ''You are a helpful assistant.'',
                qt_is_generating = False, qt_current_chats = [], qt_api_url = api_url,
                qt_api_url_edit = api_url, qt_status_label = ''Not Connected'', qt_status_bar = [],
                qt_attached = [], qt_boxes = [], qt_tabs = [], qt_current = 0, qt_chat_list = [],
                qt_pages = [], qt_live = 0, qt_next_widget = 0, qt_files = fs, qt_workers = [],
                qt_clipboard = []\<rparr>;
          s1 = qt_new_chat s0
      in qt_fetch_models (s1\<lparr>qt_status_bar := ''Ready''\<rparr>))"

text \<open>\<open>main\<close>: \<open>--api-url\<close> (empty when absent) replaces the module's URL.\<close>

definition qt_main :: "string option \<Rightarrow> string \<Rightarrow> (string \<Rightarrow> string option) \<Rightarrow> qt_state" where
  "qt_main env api_url_arg fs = qt_init (if api_url_arg \<noteq> [] then api_url_arg else qt_default_url env) fs"

section \<open>Lemmas: pages other than the live one\<close>

named_theorems qt_frame "the window handlers leave the fields they do not assign"

lemma upd_page_fields [simp, qt_frame]:
  "qt_live (upd_page p f s) = qt_live s"
  "qt_current (upd_page p f s) = qt_current s"
  "qt_tabs (upd_page p f s) = qt_tabs s"
  "qt_current_chats (upd_page p f s) = qt_current_chats s"
  "qt_chat_list (upd_page p f s) = qt_chat_list s"
  "qt_is_generating (upd_page p f s) = qt_is_generating s"
  "qt_workers (upd_page p f s) = qt_workers s"
  "qt_selected_model (upd_page p f s) = qt_selected_model s"
  "qt_system_prompt (upd_page p f s) = qt_system_prompt s"
  "qt_attached (upd_page p f s) = qt_attached s"
  "qt_files (upd_page p f s) = qt_files s"
  "qt_next_widget (upd_page p f s) = qt_next_widget s"
  "qt_temperature (upd_page p f s) = qt_temperature s"
  "qt_max_tokens (upd_page p f s) = qt_max_tokens s"
  "qt_api_url (upd_page p f s) = qt_api_url s"
  "qt_boxes (upd_page p f s) = qt_boxes s"
  "length (qt_pages (upd_page p f s)) = length (qt_pages s)"
  by (simp_all add: upd_page_def)

text \<open>Assignments to the other fields commute with a page update.\<close>

lemma upd_page_record_commute:
  "(upd_page p f s)\<lparr>qt_is_generating := b\<rparr> = upd_page p f (s\<lparr>qt_is_generating := b\<rparr>)"
  "(upd_page p f s)\<lparr>qt_status_bar := t\<rparr> = upd_page p f (s\<lparr>qt_status_bar := t\<rparr>)"
  "(upd_page p f s)\<lparr>qt_next_widget := n\<rparr> = upd_page p f (s\<lparr>qt_next_widget := n\<rparr>)"
  "(upd_page p f s)\<lparr>qt_workers := ws\<rparr> = upd_page p f (s\<lparr>qt_workers := ws\<rparr>)"
  "(upd_page p f s)\<lparr>qt_boxes := bs\<rparr> = upd_page p f (s\<lparr>qt_boxes := bs\<rparr>)"
  by (simp_all add: upd_page_def)

lemma current_history_upd_page [simp]: "current_history (upd_page p f s) = current_history s"
  by (simp add: current_history_def Let_def)

lemma upd_page_commute:
  "p \<noteq> q \<Longrightarrow> upd_page q g (upd_page p f s) = upd_page p f (upd_page q g s)"
  by (simp add: upd_page_def list_update_swap)

lemma live_page_upd_other [simp]:
  "p \<noteq> qt_live s \<Longrightarrow> live_page (upd_page p f s) = live_page s"
  by (simp add: upd_page_def live_page_def)

lemma upd_live_upd_other:
  "p \<noteq> qt_live s \<Longrightarrow> upd_live g (upd_page p f s) = upd_page p f (upd_live g s)"
  by (simp add: upd_live_def upd_page_commute)

lemma append_history_upd_page:
  "append_history m (upd_page p f s) = upd_page p f (append_history m s)"
  by (simp add: append_history_def upd_page_def Let_def)

lemma append_history_fields [simp, qt_frame]:
  "qt_live (append_history m s) = qt_live s"
  "qt_pages (append_history m s) = qt_pages s"
  "qt_is_generating (append_history m s) = qt_is_generating s"
  "qt_workers (append_history m s) = qt_workers s"
  "qt_tabs (append_history m s) = qt_tabs s"
  "qt_current (append_history m s) = qt_current s"
  "qt_chat_list (append_history m s) = qt_chat_list s"
  "length (qt_current_chats (append_history m s)) = length (qt_current_chats s)"
  by (simp_all add: append_history_def Let_def)

lemma add_user_message_upd_other:
  "p \<noteq> qt_live s \<Longrightarrow> add_user_message m (upd_page p f s) = upd_page p f (add_user_message m s)"
  by (simp add: add_user_message_def add_widget_def upd_live_upd_other append_history_upd_page)

lemma upd_live_fields [simp, qt_frame]:
  "qt_live (upd_live g s) = qt_live s"
  "qt_is_generating (upd_live g s) = qt_is_generating s"
  "qt_workers (upd_live g s) = qt_workers s"
  "qt_tabs (upd_live g s) = qt_tabs s"
  "qt_current (upd_live g s) = qt_current s"
  "qt_current_chats (upd_live g s) = qt_current_chats s"
  "qt_chat_list (upd_live g s) = qt_chat_list s"
  "length (qt_pages (upd_live g s)) = length (qt_pages s)"
  by (simp_all add: upd_live_def)

lemma add_user_message_fields [simp, qt_frame]:
  "qt_live (add_user_message m s) = qt_live s"
  "qt_is_generating (add_user_message m s) = qt_is_generating s"
  "qt_workers (add_user_message m s) = qt_workers s"
  "qt_tabs (add_user_message m s) = qt_tabs s"
  "qt_current (add_user_message m s) = qt_current s"
  "qt_chat_list (add_user_message m s) = qt_chat_list s"
  "length (qt_current_chats (add_user_message m s)) = length (qt_current_chats s)"
  "length (qt_pages (add_user_message m s)) = length (qt_pages s)"
  by (simp_all add: add_user_message_def add_widget_def)

section \<open>Properties of the window handlers\<close>

text \<open>C38. \<open>qt_send_message\<close> reads and writes only the widgets of the tab created last:
  whatever a user does to another tab's page (the text in its input box, its reasoning
  check box, its Send button) commutes with sending. So a message typed into an older tab
  is never sent, the request does not depend on it, and the tab is left as it was.\<close>

theorem send_ignores_other_pages:
  assumes "p \<noteq> qt_live s"
  shows "qt_send_message (upd_page p f s) = upd_page p f (qt_send_message s)"
proof -
  have keep: "p \<noteq> qt_live (add_user_message m s)" for m using assms by simp
  show ?thesis
    using assms keep
    by (simp add: qt_send_message_def Let_def add_user_message_upd_other upd_live_upd_other
        upd_page_record_commute)
qed

end
