(* ===== verification/PyQt_Session.thy ===== *)
theory PyQt_Session
  imports PyQt_Client
begin

text \<open>
  The PyQt client as a concurrent system. A step is a UI event of the window (the signal
  connections made in \<open>setup_ui\<close> and \<open>create_chat_tab\<close>) or a thread finishing: the
  \<open>ApiThread\<close> of a request (its signal runs \<open>handle_response\<close> or
  \<open>handle_error\<close>), the thread of \<open>fetch_models\<close> or of \<open>test_connection\<close>. A slot that
  raises has no successor state: PyQt5 calls \<open>qFatal\<close> on an unhandled exception in a slot
  and the process ends. The invariant \<open>qt_inv\<close> says that the tab bar, the chat list and
  \<open>current_chats\<close> stay parallel and non-empty, that the pages they name exist, and that
  one request is in flight exactly while \<open>is_generating\<close> holds. The invariant
  \<open>qt_wf\<close> says that the temperature and the token limit stay in the ranges of the slider
  and the spin box, that every request thread carries them, and that every history entry
  is a user or assistant message with a string content.
\<close>

section \<open>Events and steps\<close>

datatype qt_event =
    Qt_new_chat                     \<comment> \<open>"+ New Chat"\<close>
  | Qt_close_tab nat                \<comment> \<open>\<open>tabCloseRequested\<close>\<close>
  | Qt_select_tab nat               \<comment> \<open>a click on a tab\<close>
  | Qt_click_chat nat               \<comment> \<open>\<open>chat_list.itemClicked\<close>\<close>
  | Qt_select_model string          \<comment> \<open>\<open>model_combo.currentTextChanged\<close>\<close>
  | Qt_temperature int              \<comment> \<open>\<open>temp_slider.valueChanged\<close>\<close>
  | Qt_max_tokens int               \<comment> \<open>\<open>tokens_spin.valueChanged\<close>\<close>
  | Qt_type string                  \<comment> \<open>the input box of the visible tab holds this text\<close>
  | Qt_reasoning bool               \<comment> \<open>the reasoning box of the visible tab\<close>
  | Qt_send                         \<comment> \<open>the Send button of the visible tab\<close>
  | Qt_edit_system_prompt string
  | Qt_edit_api_url string
  | Qt_test                         \<comment> \<open>the Test button\<close>
  | Qt_attach string                \<comment> \<open>"Attach File", with the chosen path\<close>
  | Qt_clear_attachments            \<comment> \<open>"Clear All"\<close>
  | Qt_copy_code nat nat            \<comment> \<open>"Copy" of a code part of a message of the visible tab\<close>
  | Qt_save_code nat nat string     \<comment> \<open>"Save as File" of a code part, with the chosen path\<close>

text \<open>The widgets bound the arguments: indices of existing tabs and list entries, items
  of the combo box, the ranges of the slider (0 to 100) and of the spin box (10 to 4096),
  an enabled Send button, a path the file dialog offers.\<close>

definition qt_enabled :: "qt_event \<Rightarrow> qt_state \<Rightarrow> bool" where
  "qt_enabled ev s =
     (case ev of
        Qt_close_tab i \<Rightarrow> i < length (qt_tabs s)
      | Qt_select_tab i \<Rightarrow> i < length (qt_tabs s)
      | Qt_click_chat k \<Rightarrow> k < length (qt_chat_list s)
      | Qt_select_model m \<Rightarrow> m \<in> set (qt_combo s)
      | Qt_temperature v \<Rightarrow> 0 \<le> v \<and> v \<le> 100
      | Qt_max_tokens v \<Rightarrow> 10 \<le> v \<and> v \<le> 4096
      | Qt_send \<Rightarrow> pg_send_enabled (qt_pages s ! visible_page s)
      | Qt_attach path \<Rightarrow> path = [] \<or> qt_files s path \<noteq> None
      | Qt_copy_code k j \<Rightarrow> code_part (qt_pages s ! visible_page s) k j \<noteq> None
      | Qt_save_code k j path \<Rightarrow> code_part (qt_pages s ! visible_page s) k j \<noteq> None
      | _ \<Rightarrow> True)"

fun qt_ui :: "qt_event \<Rightarrow> qt_state \<Rightarrow> py_error + qt_state" where
  "qt_ui Qt_new_chat s = Inr (qt_new_chat s)"
| "qt_ui (Qt_close_tab i) s = Inr (close_tab i s)"
| "qt_ui (Qt_select_tab i) s = Inr (qt_set_current i s)"
| "qt_ui (Qt_click_chat k) s = Inr (load_selected_chat k s)"
| "qt_ui (Qt_select_model m) s = Inr (qt_on_model_selected m s)"
| "qt_ui (Qt_temperature v) s = Inr (update_temperature v s)"
| "qt_ui (Qt_max_tokens v) s = Inr (update_max_tokens v s)"
| "qt_ui (Qt_type t) s = Inr (upd_page (visible_page s) (\<lambda>p. p\<lparr>pg_input := t\<rparr>) s)"
| "qt_ui (Qt_reasoning b) s = Inr (upd_page (visible_page s) (\<lambda>p. p\<lparr>pg_reasoning := b\<rparr>) s)"
| "qt_ui Qt_send s = Inr (qt_send_message s)"
| "qt_ui (Qt_edit_system_prompt t) s = Inr (s\<lparr>qt_system_prompt := t\<rparr>)"
| "qt_ui (Qt_edit_api_url u) s = Inr (s\<lparr>qt_api_url_edit := u\<rparr>)"
| "qt_ui Qt_test s = Inr (test_connection s)"
| "qt_ui (Qt_attach path) s = attach_file path s"
| "qt_ui Qt_clear_attachments s = Inr (clear_attachments s)"
| "qt_ui (Qt_copy_code k j) s =
     Inr (case code_part (qt_pages s ! visible_page s) k j of Some c \<Rightarrow> s\<lparr>qt_clipboard := c\<rparr> | None \<Rightarrow> s)"
| "qt_ui (Qt_save_code k j path) s =
     Inr (case code_part (qt_pages s ! visible_page s) k j of
            Some c \<Rightarrow> save_code_to_file c path s
          | None \<Rightarrow> s)"

text \<open>Thread \<open>i\<close> finishing with the HTTP result \<open>r\<close>; \<open>timed_out\<close> is read by the
  connection test only.\<close>

definition qt_finish :: "nat \<Rightarrow> http_result \<Rightarrow> bool \<Rightarrow> qt_state \<Rightarrow> py_error + qt_state" where
  "qt_finish i r timed_out s =
     (let s1 = s\<lparr>qt_workers := take i (qt_workers s) @ drop (Suc i) (qt_workers s)\<rparr> in
      case qt_workers s ! i of
        Api_worker url payload w \<Rightarrow> api_done w r s1
      | Fetch_worker \<Rightarrow> Inr (fetch_done r s1)
      | Test_worker u \<Rightarrow> Inr (test_done u timed_out r s1))"

inductive qt_step :: "qt_state \<Rightarrow> qt_state \<Rightarrow> bool" where
  qt_ui_step: "qt_enabled ev s \<Longrightarrow> qt_ui ev s = Inr s' \<Longrightarrow> qt_step s s'"
| qt_worker_step: "i < length (qt_workers s) \<Longrightarrow> qt_finish i r t s = Inr s' \<Longrightarrow> qt_step s s'"

definition qt_reachable :: "qt_state \<Rightarrow> bool" where
  "qt_reachable s \<longleftrightarrow> (\<exists>env arg fs. qt_step\<^sup>*\<^sup>* (qt_main env arg fs) s)"

section \<open>Runs as lists of actions\<close>

datatype qt_action = Act_ui qt_event | Act_finish nat http_result bool

fun qt_apply :: "qt_action \<Rightarrow> qt_state \<Rightarrow> qt_state option" where
  "qt_apply (Act_ui ev) s =
     (if qt_enabled ev s then (case qt_ui ev s of Inr s' \<Rightarrow> Some s' | Inl _ \<Rightarrow> None) else None)"
| "qt_apply (Act_finish i r t) s =
     (if i < length (qt_workers s) then (case qt_finish i r t s of Inr s' \<Rightarrow> Some s' | Inl _ \<Rightarrow> None)
      else None)"

fun qt_run :: "qt_action list \<Rightarrow> qt_state \<Rightarrow> qt_state option" where
  "qt_run [] s = Some s"
| "qt_run (a # acts) s = (case qt_apply a s of None \<Rightarrow> None | Some t \<Rightarrow> qt_run acts t)"

section \<open>The invariant\<close>

fun is_api_worker :: "qt_worker \<Rightarrow> bool" where
  "is_api_worker (Api_worker _ _ _) = True"
| "is_api_worker Fetch_worker = False"
| "is_api_worker (Test_worker _) = False"

definition qt_inv :: "qt_state \<Rightarrow> bool" where
  "qt_inv s \<longleftrightarrow>
     qt_tabs s \<noteq> [] \<and> qt_current s < length (qt_tabs s) \<and>
     length (qt_current_chats s) = length (qt_tabs s) \<and> length (qt_chat_list s) = length (qt_tabs s) \<and>
     qt_live s < length (qt_pages s) \<and> list_all (\<lambda>p. p < length (qt_pages s)) (qt_tabs s) \<and>
     length (filter is_api_worker (qt_workers s)) = (if qt_is_generating s then 1 else 0)"

text \<open>The fields the invariant reads.\<close>

definition qt_shape :: "qt_state \<Rightarrow> nat list \<times> nat \<times> nat \<times> nat \<times> nat \<times> nat \<times> nat \<times> bool" where
  "qt_shape s =
     (qt_tabs s, qt_current s, length (qt_current_chats s), length (qt_chat_list s), qt_live s,
      length (qt_pages s), length (filter is_api_worker (qt_workers s)), qt_is_generating s)"

section \<open>The second invariant: bounds and message types\<close>

text \<open>The options of a request body, \<open>payload["options"]\<close>: its temperature and its token
  limit.\<close>

definition payload_options :: "json \<Rightarrow> (real \<times> int) option" where
  "payload_options p =
     (case p of
        JObj kvs \<Rightarrow>
          (case map_of kvs ''options'' of
             Some (JObj opts) \<Rightarrow>
               (case (map_of opts ''temperature'', map_of opts ''num_predict'') of
                  (Some (JFloat t), Some (JInt n)) \<Rightarrow> Some (t, n)
                | _ \<Rightarrow> None)
           | _ \<Rightarrow> None)
      | _ \<Rightarrow> None)"

text \<open>A request thread whose body carries a temperature in [0, 1] and a token limit in
  [10, 4096].\<close>

definition request_ok :: "qt_worker \<Rightarrow> bool" where
  "request_ok w =
     (case w of
        Api_worker u p _ \<Rightarrow>
          (case payload_options p of
             Some (t, n) \<Rightarrow> 0 \<le> t \<and> t \<le> 1 \<and> 10 \<le> n \<and> n \<le> 4096
           | None \<Rightarrow> False)
      | _ \<Rightarrow> True)"

text \<open>A history entry \<open>{"role": r, "content": c}\<close> with a user or assistant role and a
  string content.\<close>

definition is_text_msg :: "json \<Rightarrow> bool" where
  "is_text_msg m =
     (case m of
        JObj kvs \<Rightarrow>
          map fst kvs = [''role'', ''content''] \<and>
          (case (map_of kvs ''role'', map_of kvs ''content'') of
             (Some (JStr r), Some (JStr c)) \<Rightarrow> r = ''user'' \<or> r = ''assistant''
           | _ \<Rightarrow> False)
      | _ \<Rightarrow> False)"

definition qt_wf :: "qt_state \<Rightarrow> bool" where
  "qt_wf s \<longleftrightarrow>
     0 \<le> qt_temperature s \<and> qt_temperature s \<le> 1 \<and> 10 \<le> qt_max_tokens s \<and> qt_max_tokens s \<le> 4096 \<and>
     list_all request_ok (qt_workers s) \<and> list_all (\<lambda>ch. list_all is_text_msg (snd ch)) (qt_current_chats s)"

text \<open>Two states that differ at most in the catalogue, the status line, the message boxes
  and \<open>ollama_api_url\<close>: what the catalogue threads change.\<close>

definition same_chat_state :: "qt_state \<Rightarrow> qt_state \<Rightarrow> bool" where
  "same_chat_state s s' \<longleftrightarrow>
     qt_temperature s' = qt_temperature s \<and> qt_max_tokens s' = qt_max_tokens s \<and>
     qt_system_prompt s' = qt_system_prompt s \<and> qt_is_generating s' = qt_is_generating s \<and>
     qt_current_chats s' = qt_current_chats s \<and> qt_api_url_edit s' = qt_api_url_edit s \<and>
     qt_attached s' = qt_attached s \<and> qt_tabs s' = qt_tabs s \<and> qt_current s' = qt_current s \<and>
     qt_chat_list s' = qt_chat_list s \<and> qt_pages s' = qt_pages s \<and> qt_live s' = qt_live s \<and>
     qt_next_widget s' = qt_next_widget s \<and> qt_files s' = qt_files s \<and> qt_workers s' = qt_workers s"

section \<open>Scenario inputs\<close>

text \<open>The client started without \<open>--api-url\<close> and without the environment variable, on
  a file system holding nothing; a service offering the model \<open>llama3\<close>.\<close>

definition qt_demo_start :: qt_state where
  "qt_demo_start = qt_main None [] (\<lambda>p. None)"

definition qt_demo_models :: http_result where
  "qt_demo_models = Http_response 200 (Some (JObj [(''models'', JArr [JObj [(''name'', JStr ''llama3'')]])]))"

definition qt_demo_reply :: http_result where
  "qt_demo_reply =
     Http_response 200 (Some (JObj [(''message'', JObj [(''role'', JStr ''assistant''), (''content'', JStr ''Hello!'')])]))"

text \<open>The catalogue arrives, the user asks \<open>Hi\<close> in the first tab.\<close>

definition qt_demo_ask :: "qt_action list" where
  "qt_demo_ask = [Act_finish 0 qt_demo_models False, Act_ui (Qt_type ''Hi''), Act_ui Qt_send]"

text \<open>A second tab is opened and the user goes back to the first.\<close>

definition qt_demo_two_tabs :: qt_state where
  "qt_demo_two_tabs = qt_set_current 0 (qt_new_chat qt_demo_start)"

text \<open>The question of \<open>qt_demo_ask\<close> is pending, the user opens a new tab, the reply
  arrives.\<close>

definition qt_demo_switch :: "qt_action list" where
  "qt_demo_switch = qt_demo_ask @ [Act_ui Qt_new_chat, Act_finish 0 qt_demo_reply False]"

text \<open>Two tabs, the first closed, a new one opened, the second chat-list entry clicked.\<close>

definition qt_demo_titles :: "qt_action list" where
  "qt_demo_titles = [Act_ui Qt_new_chat, Act_ui (Qt_close_tab 0), Act_ui Qt_new_chat, Act_ui (Qt_click_chat 1)]"

text \<open>The reply of \<open>qt_demo_ask\<close> is a short text with a shell code block.\<close>

definition qt_demo_code_reply :: http_result where
  "qt_demo_code_reply =
     Http_response 200 (Some (JObj [(''message'', JObj [(''role'', JStr ''assistant''),
       (''content'', JStr (''Run:'' @ [CHR 0x0A] @ ''```sh'' @ [CHR 0x0A] @ ''make'' @ [CHR 0x0A] @ ''```''))])]))"

section \<open>Lemmas: steps and runs\<close>

lemma qt_apply_step: "qt_apply a s = Some t \<Longrightarrow> qt_step s t"
  by (cases a) (auto intro: qt_step.intros split: if_splits sum.splits)

lemma qt_run_steps: "qt_run acts s = Some t \<Longrightarrow> qt_step\<^sup>*\<^sup>* s t"
proof (induction acts arbitrary: s)
  case Nil
  then show ?case by simp
next
  case (Cons a acts)
  then obtain u where u: "qt_apply a s = Some u" and rest: "qt_run acts u = Some t"
    by (auto split: option.splits)
  from qt_apply_step [OF u] Cons.IH [OF rest] show ?case
    by (rule converse_rtranclp_into_rtranclp)
qed

lemma qt_reachable_run: "qt_run acts (qt_main env arg fs) = Some s \<Longrightarrow> qt_reachable s"
  unfolding qt_reachable_def by (blast dest: qt_run_steps)

section \<open>Lemmas: the handlers that change only the catalogue\<close>

lemma same_chat_state_trans:
  "same_chat_state s s1 \<Longrightarrow> same_chat_state s1 s2 \<Longrightarrow> same_chat_state s s2"
  by (simp add: same_chat_state_def)

lemma same_chat_update_models: "qt_update_models ms s = (s', e) \<Longrightarrow> same_chat_state s s'"
  by (cases "ms = []"; cases "combo_items ms")
     (auto simp: qt_update_models_def Let_def same_chat_state_def)

lemma same_chat_state_refl [simp]: "same_chat_state s s"
  by (simp add: same_chat_state_def)

lemma same_chat_fields [simp]:
  "same_chat_state s (s'\<lparr>qt_status_label := a\<rparr>) = same_chat_state s s'"
  "same_chat_state s (s'\<lparr>qt_boxes := b\<rparr>) = same_chat_state s s'"
  "same_chat_state s (s'\<lparr>qt_api_url := u\<rparr>) = same_chat_state s s'"
  "same_chat_state s (connection_error s') = same_chat_state s s'"
  by (simp_all add: same_chat_state_def connection_error_def)

text \<open>A thread of the catalogue after it decoded the body: \<open>update_models\<close>, then the
  final status or the connection error.\<close>

lemma same_chat_catalogue:
  assumes "same_chat_state s s1" and that: "\<And>s2. same_chat_state s2 (f s2)"
  shows "same_chat_state s (case qt_update_models ms s1 of
                              (s2, None) \<Rightarrow> f s2 | (s2, Some _) \<Rightarrow> connection_error s2)"
proof -
  obtain s2 e where u: "qt_update_models ms s1 = (s2, e)" by fastforce
  have "same_chat_state s s2" using assms(1) same_chat_update_models [OF u] by (rule same_chat_state_trans)
  with that u show ?thesis
    by (cases e) (auto intro: same_chat_state_trans)
qed

lemma same_chat_fetch_done: "same_chat_state s (fetch_done r s)"
proof (cases r)
  case (Http_response status body)
  then show ?thesis
    by (cases body; cases "status = 200")
       (auto simp: fetch_done_def split: sum.splits intro!: same_chat_catalogue)
qed (auto simp: fetch_done_def)

lemma same_chat_test_done: "same_chat_state s (test_done u t r s)"
proof (cases r)
  case (Http_response status body)
  then show ?thesis
    by (cases body; cases "status = 200")
       (auto simp: test_done_def Let_def split: sum.splits intro!: same_chat_catalogue)
qed (auto simp: test_done_def)

section \<open>Lemmas: the handlers that keep the shape\<close>

lemma qt_inv_shape: "qt_shape s' = qt_shape s \<Longrightarrow> qt_inv s' = qt_inv s"
  by (simp add: qt_inv_def qt_shape_def)

lemma shape_upd_page [simp]: "qt_shape (upd_page p f s) = qt_shape s"
  by (simp add: qt_shape_def)

lemma shape_upd_live [simp]: "qt_shape (upd_live f s) = qt_shape s"
  by (simp add: upd_live_def)

lemma shape_add_widget [simp]: "qt_shape (add_widget w s) = qt_shape s"
  by (simp add: add_widget_def)

lemma shape_add_system_message [simp]: "qt_shape (add_system_message t s) = qt_shape s"
  by (simp add: add_system_message_def)

lemma shape_append_history [simp]: "qt_shape (append_history m s) = qt_shape s"
  by (simp add: qt_shape_def)

lemma shape_settings [simp]:
  "qt_shape (qt_on_model_selected m s) = qt_shape s"
  "qt_shape (update_temperature v s) = qt_shape s"
  "qt_shape (update_max_tokens v s) = qt_shape s"
  "qt_shape (test_connection s) = qt_shape s"
  "qt_shape (clear_attachments s) = qt_shape s"
  "qt_shape (connection_error s) = qt_shape s"
  by (simp_all add: qt_shape_def qt_on_model_selected_def update_temperature_def update_max_tokens_def
      test_connection_def clear_attachments_def upd_live_def connection_error_def)

lemma shape_same_chat: "same_chat_state s s' \<Longrightarrow> qt_shape s' = qt_shape s"
  by (simp add: same_chat_state_def qt_shape_def)

lemma shape_fetch_done [simp]: "qt_shape (fetch_done r s) = qt_shape s"
  by (rule shape_same_chat [OF same_chat_fetch_done])

lemma shape_test_done [simp]: "qt_shape (test_done u t r s) = qt_shape s"
  by (rule shape_same_chat [OF same_chat_test_done])

lemma shape_code_buttons [simp]:
  "qt_shape (s\<lparr>qt_clipboard := c\<rparr>) = qt_shape s"
  "qt_shape (save_code_to_file c path s) = qt_shape s"
  by (simp_all add: qt_shape_def save_code_to_file_def)

lemma shape_attach_file: "attach_file path s = Inr s' \<Longrightarrow> qt_shape s' = qt_shape s"
  by (cases "qt_files s path") (auto simp: attach_file_def qt_shape_def Let_def split: if_splits)

lemma shape_remove_progress [simp]: "qt_shape (remove_progress w s) = qt_shape s"
  by (simp add: remove_progress_def qt_shape_def)

lemma shape_add_assistant_message:
  "add_assistant_message t s = Inr s' \<Longrightarrow> qt_shape s' = qt_shape s"
  by (auto simp: add_assistant_message_def py_bind_eq_Inr)

lemma shape_reset_state:
  "qt_shape s' = qt_shape s \<Longrightarrow> qt_shape (reset_state m s') = qt_shape (s\<lparr>qt_is_generating := False\<rparr>)"
  by (simp add: reset_state_def upd_live_def upd_page_def qt_shape_def)

lemma shape_handle_response:
  assumes "handle_response d w s = Inr s'"
  shows "qt_shape s' = qt_shape (s\<lparr>qt_is_generating := False\<rparr>)"
proof -
  from assms obtain c s2 where c: "reply_content d = Inr c"
    and s2: "(case c of Some content \<Rightarrow> add_assistant_message content (remove_progress w s)
              | None \<Rightarrow> Inr (add_system_message ''Error: Received empty response from model.'' (remove_progress w s))) = Inr s2"
    and s': "s' = reset_state ''Response received'' s2"
    by (auto simp: handle_response_def Let_def py_bind_eq_Inr)
  from s2 have "qt_shape s2 = qt_shape s"
    by (cases c) (auto dest: shape_add_assistant_message)
  with s' show ?thesis by (simp add: shape_reset_state)
qed

lemma shape_handle_error:
  "qt_shape (handle_error e w s) = qt_shape (s\<lparr>qt_is_generating := False\<rparr>)"
  unfolding handle_error_def by (rule shape_reset_state) simp

section \<open>Lemmas: the invariant\<close>

lemma qt_inv_create_chat_tab: "qt_inv s \<Longrightarrow> qt_inv (create_chat_tab t s)"
  by (auto simp: create_chat_tab_def Let_def qt_inv_def add_system_message_def add_widget_def
      upd_live_def upd_page_def list_all_iff)

lemma qt_inv_set_current: "qt_inv s \<Longrightarrow> qt_inv (qt_set_current i s)"
  by (simp add: qt_set_current_def qt_inv_def)

lemma qt_inv_load_selected_chat: "qt_inv s \<Longrightarrow> qt_inv (load_selected_chat k s)"
  by (simp add: load_selected_chat_def qt_inv_set_current split: sum.splits)

lemma qt_inv_close_tab:
  assumes inv: "qt_inv s" and i: "i < length (qt_tabs s)"
  shows "qt_inv (close_tab i s)"
proof (cases "1 < length (qt_tabs s)")
  case True
  let ?n = "length (qt_tabs s)"
  have cur: "qt_current s < ?n" using inv by (simp add: qt_inv_def)
  have c': "(if i = qt_current s then min i (?n - 1 - 1) else if i < qt_current s then qt_current s - 1
             else qt_current s) < ?n - 1"
    using True cur i by auto
  have sub: "set (take i (qt_tabs s) @ drop (Suc i) (qt_tabs s)) \<subseteq> set (qt_tabs s)"
    by (auto dest: in_set_takeD in_set_dropD)
  from True inv i c' sub show ?thesis
    by (auto simp: close_tab_def qt_remove_tab_def Let_def qt_inv_def list_all_iff min_def)
qed (use inv in \<open>simp add: close_tab_def\<close>)

lemma qt_inv_send_message:
  assumes inv: "qt_inv s"
  shows "qt_inv (qt_send_message s)"
proof (cases "qt_is_generating s \<or> py_strip (pg_input (live_page s)) = [] \<or> qt_selected_model s = []")
  case True
  with inv show ?thesis by (elim disjE) (simp_all add: qt_send_message_def Let_def qt_inv_def)
next
  case False
  with inv show ?thesis by (simp add: qt_send_message_def Let_def qt_inv_def)
qed

lemma shape_edits [simp]:
  "qt_shape (s\<lparr>qt_system_prompt := t\<rparr>) = qt_shape s"
  "qt_shape (s\<lparr>qt_api_url_edit := u\<rparr>) = qt_shape s"
  by (simp_all add: qt_shape_def)

lemma qt_inv_same_shape: "qt_inv s \<Longrightarrow> qt_shape s' = qt_shape s \<Longrightarrow> qt_inv s'"
  by (metis qt_inv_shape)

text \<open>The events that leave the tab structure and the requests alone.\<close>

lemma qt_ui_shape:
  "qt_ui ev s = Inr s' \<Longrightarrow> ev \<notin> {Qt_new_chat, Qt_send} \<Longrightarrow>
   (\<forall>i. ev \<noteq> Qt_close_tab i \<and> ev \<noteq> Qt_select_tab i \<and> ev \<noteq> Qt_click_chat i) \<Longrightarrow>
   qt_shape s' = qt_shape s"
  by (cases ev) (auto simp: shape_attach_file split: option.splits)

lemma qt_inv_ui:
  assumes inv: "qt_inv s" and en: "qt_enabled ev s" and ui: "qt_ui ev s = Inr s'"
  shows "qt_inv s'"
proof (cases ev)
  case Qt_new_chat
  with ui have "s' = qt_new_chat s" by simp
  moreover have "qt_inv (qt_new_chat s)" unfolding qt_new_chat_def by (rule qt_inv_create_chat_tab [OF inv])
  ultimately show ?thesis by simp
next
  case (Qt_close_tab i)
  with ui have "s' = close_tab i s" by simp
  moreover from en Qt_close_tab have "i < length (qt_tabs s)" by (simp add: qt_enabled_def)
  ultimately show ?thesis using inv by (simp add: qt_inv_close_tab)
next
  case (Qt_select_tab i)
  with ui have "s' = qt_set_current i s" by simp
  with inv show ?thesis by (simp add: qt_inv_set_current)
next
  case (Qt_click_chat k)
  with ui have "s' = load_selected_chat k s" by simp
  with inv show ?thesis by (simp add: qt_inv_load_selected_chat)
next
  case Qt_send
  with ui have "s' = qt_send_message s" by simp
  with inv show ?thesis by (simp add: qt_inv_send_message)
qed (rule qt_inv_same_shape [OF inv], rule qt_ui_shape [OF ui], simp_all)+

lemma qt_inv_finish:
  assumes inv: "qt_inv s" and i: "i < length (qt_workers s)" and fin: "qt_finish i r t s = Inr s'"
  shows "qt_inv s'"
proof -
  let ?s1 = "s\<lparr>qt_workers := take i (qt_workers s) @ drop (Suc i) (qt_workers s)\<rparr>"
  have cnt: "length (filter is_api_worker (qt_workers s)) =
             length (filter is_api_worker (qt_workers ?s1)) + (if is_api_worker (qt_workers s ! i) then 1 else 0)"
    using filter_remove_nth [OF i] by simp
  show ?thesis
  proof (cases "qt_workers s ! i")
    case (Api_worker url payload w)
    with inv cnt have gen: "qt_is_generating s" and none: "length (filter is_api_worker (qt_workers ?s1)) = 0"
      by (auto simp: qt_inv_def split: if_splits)
    have inv0: "qt_inv (?s1\<lparr>qt_is_generating := False\<rparr>)"
      using inv none by (simp add: qt_inv_def)
    from fin Api_worker have "api_done w r ?s1 = Inr s'" by (simp add: qt_finish_def)
    then have "qt_shape s' = qt_shape (?s1\<lparr>qt_is_generating := False\<rparr>)"
      by (auto simp: api_done_def shape_handle_error dest: shape_handle_response split: api_signal.splits)
    with inv0 show ?thesis by (rule qt_inv_same_shape)
  next
    case Fetch_worker
    with cnt have "qt_shape ?s1 = qt_shape s" by (simp add: qt_shape_def)
    moreover from fin Fetch_worker have "s' = fetch_done r ?s1" by (simp add: qt_finish_def)
    ultimately show ?thesis using inv by (metis qt_inv_same_shape shape_fetch_done)
  next
    case (Test_worker u)
    with cnt have "qt_shape ?s1 = qt_shape s" by (simp add: qt_shape_def)
    moreover from fin Test_worker have "s' = test_done u t r ?s1" by (simp add: qt_finish_def)
    ultimately show ?thesis using inv by (metis qt_inv_same_shape shape_test_done)
  qed
qed

lemma qt_step_inv: "qt_step s s' \<Longrightarrow> qt_inv s \<Longrightarrow> qt_inv s'"
  by (induction rule: qt_step.induct) (auto intro: qt_inv_ui qt_inv_finish)

lemma qt_inv_start: "qt_inv (qt_main env arg fs)"
  by (simp add: qt_main_def qt_init_def qt_new_chat_def create_chat_tab_def qt_fetch_models_def
      add_system_message_def add_widget_def upd_live_def upd_page_def qt_inv_def)

lemma qt_reachable_inv: "qt_reachable s \<Longrightarrow> qt_inv s"
proof -
  assume "qt_reachable s"
  then obtain env arg fs where "qt_step\<^sup>*\<^sup>* (qt_main env arg fs) s" by (auto simp: qt_reachable_def)
  then show ?thesis
    by (induction rule: rtranclp_induct) (auto intro: qt_step_inv qt_inv_start)
qed

section \<open>Lemmas: the second invariant\<close>

lemma is_text_msg_msg [simp]: "is_text_msg (msg r (JStr c)) \<longleftrightarrow> r = ''user'' \<or> r = ''assistant''"
  by (simp add: is_text_msg_def msg_def)

lemma is_text_msg_cases: "is_text_msg m \<Longrightarrow> \<exists>r c. m = msg r (JStr c) \<and> (r = ''user'' \<or> r = ''assistant'')"
  by (auto simp: is_text_msg_def msg_def map_eq_Cons_conv split: json.splits option.splits)

lemma payload_options_chat_payload [simp]:
  "payload_options (chat_payload m ms (JFloat t) (JInt n)) = Some (t, n)"
  by (simp add: payload_options_def chat_payload_def)

lemma qt_wf_same: "same_chat_state s s' \<Longrightarrow> qt_wf s \<Longrightarrow> qt_wf s'"
  by (simp add: qt_wf_def same_chat_state_def)

lemma qt_wf_append_history: "qt_wf s \<Longrightarrow> is_text_msg m \<Longrightarrow> qt_wf (append_history m s)"
  by (auto simp: qt_wf_def append_history_def Let_def list_all_length nth_list_update nth_append)

lemma settings_fields [simp]:
  "qt_temperature (append_history m s) = qt_temperature s"
  "qt_max_tokens (append_history m s) = qt_max_tokens s"
  "qt_temperature (upd_live f s) = qt_temperature s"
  "qt_max_tokens (upd_live f s) = qt_max_tokens s"
  "qt_temperature (add_user_message t s) = qt_temperature s"
  "qt_max_tokens (add_user_message t s) = qt_max_tokens s"
  by (simp_all add: append_history_def Let_def upd_live_def add_user_message_def add_widget_def)

lemma qt_wf_pages [simp]:
  "qt_wf (upd_page p f s) = qt_wf s"
  "qt_wf (upd_live f s) = qt_wf s"
  "qt_wf (add_widget w s) = qt_wf s"
  "qt_wf (add_system_message t s) = qt_wf s"
  "qt_wf (remove_progress n s) = qt_wf s"
  "qt_wf (reset_state m s) = qt_wf s"
  by (simp_all add: qt_wf_def upd_live_def add_widget_def add_system_message_def remove_progress_def
      reset_state_def)

lemma qt_wf_add_user_message: "qt_wf s \<Longrightarrow> qt_wf (add_user_message t s)"
  by (simp add: add_user_message_def qt_wf_append_history)

lemma qt_wf_add_assistant_message:
  "add_assistant_message t s = Inr s' \<Longrightarrow> qt_wf s \<Longrightarrow> qt_wf s'"
  by (auto simp: add_assistant_message_def message_widget_def py_bind_eq_Inr qt_wf_append_history
      split: json.splits)

lemma qt_wf_create_chat_tab: "qt_wf s \<Longrightarrow> qt_wf (create_chat_tab t s)"
  by (simp add: create_chat_tab_def Let_def qt_wf_def add_system_message_def add_widget_def upd_live_def)

lemma qt_wf_close_tab: "qt_wf s \<Longrightarrow> qt_wf (close_tab i s)"
  by (auto simp: close_tab_def qt_remove_tab_def Let_def qt_wf_def list_all_iff
      dest: in_set_takeD in_set_dropD)

lemma qt_wf_send_message:
  assumes wf: "qt_wf s"
  shows "qt_wf (qt_send_message s)"
proof (cases "qt_is_generating s \<or> py_strip (pg_input (live_page s)) = [] \<or> qt_selected_model s = []")
  case True
  with wf show ?thesis by (elim disjE) (simp_all add: qt_send_message_def Let_def qt_wf_def)
next
  case False
  let ?s1 = "add_user_message (py_strip (pg_input (live_page s))) s"
  have "qt_wf ?s1" using wf by (rule qt_wf_add_user_message)
  with False show ?thesis
    by (simp add: qt_send_message_def Let_def qt_wf_def request_ok_def)
qed

lemma qt_wf_handle_response:
  assumes "handle_response d w s = Inr s'" and wf: "qt_wf s"
  shows "qt_wf s'"
proof -
  from assms(1) obtain c s2 where
    s2: "(case c of Some content \<Rightarrow> add_assistant_message content (remove_progress w s)
          | None \<Rightarrow> Inr (add_system_message ''Error: Received empty response from model.'' (remove_progress w s))) = Inr s2"
    and s': "s' = reset_state ''Response received'' s2"
    by (auto simp: handle_response_def Let_def py_bind_eq_Inr)
  from wf have "qt_wf (remove_progress w s)" by simp
  with s2 have "qt_wf s2"
    by (cases c) (auto dest: qt_wf_add_assistant_message)
  with s' show ?thesis by simp
qed

lemma qt_wf_ui:
  assumes wf: "qt_wf s" and en: "qt_enabled ev s" and ui: "qt_ui ev s = Inr s'"
  shows "qt_wf s'"
proof (cases ev)
  case Qt_new_chat
  with ui have "s' = qt_new_chat s" by simp
  moreover have "qt_wf (qt_new_chat s)" unfolding qt_new_chat_def by (rule qt_wf_create_chat_tab [OF wf])
  ultimately show ?thesis by simp
next
  case (Qt_close_tab i)
  with wf ui show ?thesis by (auto intro: qt_wf_close_tab)
next
  case Qt_send
  with wf ui show ?thesis by (auto intro: qt_wf_send_message)
next
  case (Qt_temperature v)
  with wf en ui show ?thesis by (auto simp: qt_enabled_def update_temperature_def qt_wf_def)
next
  case (Qt_max_tokens v)
  with wf en ui show ?thesis by (auto simp: qt_enabled_def update_max_tokens_def qt_wf_def)
next
  case (Qt_attach path)
  with wf ui show ?thesis
    by (auto simp: attach_file_def Let_def qt_wf_def split: if_splits option.splits)
qed (use wf ui in \<open>auto simp: qt_wf_def qt_set_current_def load_selected_chat_def
      qt_on_model_selected_def clear_attachments_def test_connection_def request_ok_def
      save_code_to_file_def split: sum.splits option.splits\<close>)

lemma qt_wf_finish:
  assumes wf: "qt_wf s" and i: "i < length (qt_workers s)" and fin: "qt_finish i r t s = Inr s'"
  shows "qt_wf s'"
proof -
  let ?s1 = "s\<lparr>qt_workers := take i (qt_workers s) @ drop (Suc i) (qt_workers s)\<rparr>"
  have wf1: "qt_wf ?s1"
    using wf list_all_remove_nth [of request_ok "qt_workers s" i] by (simp add: qt_wf_def)
  show ?thesis
  proof (cases "qt_workers s ! i")
    case (Api_worker url payload w)
    with fin have "api_done w r ?s1 = Inr s'" by (simp add: qt_finish_def)
    with wf1 show ?thesis
      by (auto simp: api_done_def handle_error_def dest: qt_wf_handle_response split: api_signal.splits)
  next
    case Fetch_worker
    with fin have "s' = fetch_done r ?s1" by (simp add: qt_finish_def)
    with wf1 show ?thesis by (metis qt_wf_same same_chat_fetch_done)
  next
    case (Test_worker u)
    with fin have "s' = test_done u t r ?s1" by (simp add: qt_finish_def)
    with wf1 show ?thesis by (metis qt_wf_same same_chat_test_done)
  qed
qed

lemma qt_wf_step: "qt_step s s' \<Longrightarrow> qt_wf s \<Longrightarrow> qt_wf s'"
  by (induction rule: qt_step.induct) (auto intro: qt_wf_ui qt_wf_finish)

lemma qt_wf_start: "qt_wf (qt_main env arg fs)"
  by (simp add: qt_main_def qt_init_def qt_new_chat_def create_chat_tab_def qt_fetch_models_def
      add_system_message_def add_widget_def upd_live_def upd_page_def qt_wf_def request_ok_def)

lemma qt_reachable_wf: "qt_reachable s \<Longrightarrow> qt_wf s"
proof -
  assume "qt_reachable s"
  then obtain env arg fs where "qt_step\<^sup>*\<^sup>* (qt_main env arg fs) s" by (auto simp: qt_reachable_def)
  then show ?thesis
    by (induction rule: rtranclp_induct) (auto intro: qt_wf_step qt_wf_start)
qed

section \<open>Lemmas: the scenarios\<close>

lemmas qt_eval = qt_demo_start_def qt_main_def qt_init_def qt_default_url_def create_chat_tab_def
  add_system_message_def add_widget_def upd_live_def upd_page_def qt_fetch_models_def new_page_def
  qt_demo_models_def qt_demo_reply_def qt_finish_def fetch_done_def fetch_model_names_def
  qt_update_models_def combo_items_def qt_enabled_def visible_page_def qt_send_message_def live_page_def
  add_user_message_def append_history_def current_history_def api_done_def api_thread_run_def
  handle_response_def reply_content_def add_assistant_message_def message_widget_def remove_progress_def
  reset_state_def close_tab_def qt_remove_tab_def load_selected_chat_def qt_set_current_def
  py_get_def py_subscript_def Let_def py_strip_def py_lstrip_def py_isspace_def

lemma qt_demo_start_live: "qt_live qt_demo_start = 0 \<and> length (qt_pages qt_demo_start) = 1"
  by (simp add: qt_eval qt_new_chat_def)

lemma qt_demo_ask_run:
  "\<exists>S. qt_run qt_demo_ask qt_demo_start = Some S \<and> qt_is_generating S \<and>
       qt_current_chats S = [(''Chat 1'', [msg ''user'' (JStr ''Hi'')])]"
  by (simp add: qt_eval qt_demo_ask_def qt_new_chat_def)

text \<open>The reply goes to the tab that is current when it arrives, not to the tab that asked;
  and the Send button reset is the new tab's, so the first tab's button stays disabled.\<close>

lemma qt_reply_to_current_tab:
  "\<exists>S. qt_run qt_demo_switch qt_demo_start = Some S \<and>
       qt_current_chats S = [(''Chat 1'', [msg ''user'' (JStr ''Hi'')]),
                             (''Chat 2'', [msg ''assistant'' (JStr ''Hello!'')])] \<and>
       \<not> pg_send_enabled (qt_pages S ! 0) \<and> \<not> qt_is_generating S"
  by (simp add: qt_eval qt_demo_switch_def qt_demo_ask_def qt_new_chat_def)

text \<open>\<open>new_chat\<close> names a tab by the number of open tabs, so after a close two tabs share
  a title, and a click on the second entry of the chat list selects the first tab.\<close>

lemma qt_duplicate_titles:
  "\<exists>S. qt_run qt_demo_titles qt_demo_start = Some S \<and>
       qt_chat_list S = [''Chat 2'', ''Chat 2''] \<and> qt_current S = 0"
  by (simp add: qt_eval qt_demo_titles_def qt_new_chat_def)

text \<open>The request of \<open>qt_demo_ask\<close>, with the initial temperature and token limit.\<close>

lemma qt_demo_ask_request:
  "\<exists>S u p w. qt_run qt_demo_ask qt_demo_start = Some S \<and> qt_workers S = [Api_worker u p w] \<and>
             payload_options p = Some (0.7, 1024)"
  by (simp add: qt_eval qt_demo_ask_def qt_new_chat_def)

section \<open>Lemmas: one round\<close>

text \<open>A send from an idle client appends the user's message to the current tab's history
  and starts one request; a 200 reply with text appends the assistant's message there and
  ends the generation.\<close>

lemma qt_send_started:
  assumes idle: "\<not> qt_is_generating s" and cur: "qt_current s < length (qt_current_chats s)"
    and m: "py_strip (pg_input (live_page s)) \<noteq> []" and model: "qt_selected_model s \<noteq> []"
  shows "qt_current (qt_send_message s) = qt_current s \<and> qt_is_generating (qt_send_message s) \<and>
         qt_current_chats (qt_send_message s) =
           (qt_current_chats s)[qt_current s := (fst (qt_current_chats s ! qt_current s),
              snd (qt_current_chats s ! qt_current s) @ [msg ''user'' (JStr (py_strip (pg_input (live_page s))))])] \<and>
         (\<exists>u p w. qt_workers (qt_send_message s) = qt_workers s @ [Api_worker u p w])"
  using assms
  by (simp add: qt_send_message_def Let_def add_user_message_def add_widget_def append_history_def
      upd_live_def)

lemma qt_reply_appended:
  assumes i: "i < length (qt_workers s)" and w: "qt_workers s ! i = Api_worker u p w"
    and cur: "qt_current s < length (qt_current_chats s)"
    and reply: "reply_content data = Inr (Some (JStr c))"
  shows "\<exists>s'. qt_finish i (Http_response 200 (Some data)) t s = Inr s' \<and>
              qt_current s' = qt_current s \<and> \<not> qt_is_generating s' \<and>
              qt_current_chats s' =
                (qt_current_chats s)[qt_current s := (fst (qt_current_chats s ! qt_current s),
                   snd (qt_current_chats s ! qt_current s) @ [msg ''assistant'' (JStr c)])]"
proof -
  from reply obtain kvs where d: "data = JObj kvs" by (auto simp: reply_content_Some)
  show ?thesis
    using w cur reply
    by (simp add: d qt_finish_def api_done_def api_thread_run_def handle_response_def
        add_assistant_message_def message_widget_def append_history_def remove_progress_def
        reset_state_def add_widget_def upd_live_def upd_page_def Let_def)
qed

lemma qt_demo_typed_run:
  "\<exists>S. qt_run [Act_finish 0 qt_demo_models False, Act_ui (Qt_type ''Hi'')] qt_demo_start = Some S \<and>
       \<not> qt_is_generating S \<and> qt_current S = 0 \<and> qt_current_chats S = [(''Chat 1'', [])] \<and>
       qt_selected_model S = ''llama3'' \<and> pg_input (live_page S) = ''Hi''"
  by (simp add: qt_eval qt_new_chat_def)

section \<open>Lemmas: code blocks\<close>

lemma code_part_in_parts:
  "code_part p k j = Some c \<Longrightarrow> pg_messages p ! k = Msg_widget r parts \<Longrightarrow> Part_code c \<in> set parts"
proof -
  assume p: "code_part p k j = Some c" and m: "pg_messages p ! k = Msg_widget r parts"
  then have "j < length parts" and "parts ! j = Part_code c"
    by (auto simp: code_part_def split: if_splits part.splits)
  then show ?thesis by (metis nth_mem)
qed

lemma qt_demo_code_run:
  "\<exists>S. qt_run (qt_demo_ask @ [Act_finish 0 qt_demo_code_reply False]) qt_demo_start = Some S \<and>
       pg_messages (qt_pages S ! visible_page S) ! 2 =
         Msg_widget ''assistant'' (process_text (''Run:'' @ [CHR 0x0A] @ ''```sh'' @ [CHR 0x0A] @ ''make'' @ [CHR 0x0A] @ ''```'')) \<and>
       code_part (qt_pages S ! visible_page S) 2 1 = Some (''make'' @ [CHR 0x0A])"
  by (simp add: qt_eval qt_demo_ask_def qt_new_chat_def qt_demo_code_reply_def code_part_def process_text_def
      process_line_def is_fence_def flush_text_def render_start_def)

section \<open>Properties of the PyQt client as a system\<close>

text \<open>C37. In every reachable state of the PyQt client the tab bar is not empty, its
  current index is a tab, the chat list and \<open>current_chats\<close> have one entry per tab, and at
  most one request thread runs: one exactly while \<open>is_generating\<close> holds.\<close>

theorem qt_tabs_and_requests_consistent:
  assumes "qt_reachable s"
  shows "qt_tabs s \<noteq> [] \<and> qt_current s < length (qt_tabs s) \<and>
         length (qt_current_chats s) = length (qt_tabs s) \<and> length (qt_chat_list s) = length (qt_tabs s) \<and>
         length (filter is_api_worker (qt_workers s)) \<le> 1 \<and>
         (qt_is_generating s \<longleftrightarrow> length (filter is_api_worker (qt_workers s)) = 1)"
  using qt_reachable_inv [OF assms] by (auto simp: qt_inv_def)

theorem qt_tabs_and_requests_consistent_witness:
  "\<exists>S. qt_reachable S \<and> qt_is_generating S \<and> length (filter is_api_worker (qt_workers S)) = 1 \<and>
       length (qt_current_chats S) = length (qt_tabs S)"
proof -
  obtain S where run: "qt_run qt_demo_ask qt_demo_start = Some S" and gen: "qt_is_generating S"
    using qt_demo_ask_run by blast
  have r: "qt_reachable S" using run by (simp add: qt_demo_start_def qt_reachable_run)
  from qt_tabs_and_requests_consistent [OF r] gen r show ?thesis by auto
qed

text \<open>The second tab of \<open>qt_demo_two_tabs\<close> is the one the window's attributes name:
  text typed into the first tab is not sent, the Send click leaves everything as it was.\<close>

theorem send_ignores_other_pages_witness:
  "0 \<noteq> qt_live qt_demo_two_tabs \<and>
   qt_send_message (upd_page 0 (\<lambda>p. p\<lparr>pg_input := ''Hello''\<rparr>) qt_demo_two_tabs) =
   upd_page 0 (\<lambda>p. p\<lparr>pg_input := ''Hello''\<rparr>) (qt_send_message qt_demo_two_tabs) \<and>
   qt_send_message qt_demo_two_tabs = qt_demo_two_tabs"
proof -
  have live: "qt_live qt_demo_two_tabs = 1"
    by (simp add: qt_demo_two_tabs_def qt_eval qt_new_chat_def)
  have same: "qt_send_message qt_demo_two_tabs = qt_demo_two_tabs"
    by (simp add: qt_demo_two_tabs_def qt_eval qt_new_chat_def)
  from live have "0 \<noteq> qt_live qt_demo_two_tabs" by simp
  from send_ignores_other_pages [OF this] live same show ?thesis by simp
qed

text \<open>C17. Every request thread of the PyQt client carries a temperature in [0, 1] and a
  token limit (\<open>num_predict\<close>) in [10, 4096]: the slider and the spin box bound the values
  \<open>send_message\<close> copies into the body.\<close>

theorem qt_requests_within_bounds:
  assumes "qt_reachable s" and "Api_worker u p w \<in> set (qt_workers s)"
  shows "\<exists>t n. payload_options p = Some (t, n) \<and> 0 \<le> t \<and> t \<le> 1 \<and> 10 \<le> n \<and> n \<le> 4096"
proof -
  from qt_reachable_wf [OF assms(1)] assms(2) have "request_ok (Api_worker u p w)"
    by (auto simp: qt_wf_def list_all_iff)
  then show ?thesis by (auto simp: request_ok_def split: option.splits)
qed

theorem qt_requests_within_bounds_witness:
  "\<exists>S u p w. qt_reachable S \<and> Api_worker u p w \<in> set (qt_workers S) \<and>
             payload_options p = Some (0.7, 1024) \<and>
             (\<exists>t n. payload_options p = Some (t, n) \<and> 0 \<le> t \<and> t \<le> 1 \<and> 10 \<le> n \<and> n \<le> 4096)"
proof -
  obtain S u p w where run: "qt_run qt_demo_ask qt_demo_start = Some S"
    and ws: "qt_workers S = [Api_worker u p w]" and opts: "payload_options p = Some (0.7, 1024)"
    using qt_demo_ask_request by blast
  have r: "qt_reachable S" using run by (simp add: qt_demo_start_def qt_reachable_run)
  have "Api_worker u p w \<in> set (qt_workers S)" using ws by simp
  with qt_requests_within_bounds [OF r this] r opts show ?thesis by blast
qed

text \<open>C24. Every entry of every history of the PyQt client is a message
  \<open>{"role": r, "content": c}\<close> with the role \<open>user\<close> or \<open>assistant\<close> and a string content:
  a reply whose content is not a string makes \<open>MessageWidget\<close> raise before the history
  is touched.\<close>

theorem qt_histories_well_typed:
  assumes "qt_reachable s" and "ch \<in> set (qt_current_chats s)" and "m \<in> set (snd ch)"
  shows "\<exists>r c. m = msg r (JStr c) \<and> (r = ''user'' \<or> r = ''assistant'')"
proof -
  from qt_reachable_wf [OF assms(1)] assms(2,3) have "is_text_msg m"
    by (auto simp: qt_wf_def list_all_iff)
  then show ?thesis by (rule is_text_msg_cases)
qed

theorem qt_histories_well_typed_witness:
  "\<exists>S. qt_reachable S \<and> (''Chat 2'', [msg ''assistant'' (JStr ''Hello!'')]) \<in> set (qt_current_chats S) \<and>
       (\<exists>r c. msg ''assistant'' (JStr ''Hello!'') = msg r (JStr c) \<and> (r = ''user'' \<or> r = ''assistant''))"
proof -
  obtain S where run: "qt_run qt_demo_switch qt_demo_start = Some S"
    and chats: "qt_current_chats S = [(''Chat 1'', [msg ''user'' (JStr ''Hi'')]),
                                      (''Chat 2'', [msg ''assistant'' (JStr ''Hello!'')])]"
    using qt_reply_to_current_tab by blast
  have r: "qt_reachable S" using run by (simp add: qt_demo_start_def qt_reachable_run)
  have ch: "(''Chat 2'', [msg ''assistant'' (JStr ''Hello!'')]) \<in> set (qt_current_chats S)" using chats by simp
  have "msg ''assistant'' (JStr ''Hello!'') \<in> set (snd (''Chat 2'', [msg ''assistant'' (JStr ''Hello!'')]))" by simp
  from qt_histories_well_typed [OF r ch this] r ch show ?thesis by blast
qed

text \<open>C10. "Save as File" on a code block writes exactly the code of the message. When
  message \<open>k\<close> of the visible tab was built from the text \<open>t\<close> and its part \<open>j\<close> is a
  code block, saving it to a chosen path stores there the lines of a fenced block of
  \<open>t\<close>: lines between two fence lines, with none between them, each with its newline.
  The dialog "Success" is shown.\<close>

theorem saved_code_is_fenced_block:
  assumes msg: "pg_messages (qt_pages s ! visible_page s) ! k = Msg_widget r (process_text t)"
    and part: "code_part (qt_pages s ! visible_page s) k j = Some c"
    and path: "path \<noteq> []"
  shows "\<exists>s' cs. qt_ui (Qt_save_code k j path) s = Inr s' \<and> qt_files s' path = Some (shown_lines cs) \<and>
           fenced_block (py_split_on (CHR 0x0A) t) cs \<and> qt_boxes s' = qt_boxes s @ [Box_info ''Success'']"
proof -
  from code_part_in_parts [OF part msg] obtain cs where
    "fenced_block (py_split_on (CHR 0x0A) t) cs" and "c = shown_lines cs"
    using code_part_is_fenced_block by blast
  with part path show ?thesis by (simp add: save_code_to_file_def) blast
qed

theorem saved_code_is_fenced_block_witness:
  "\<exists>S. qt_run (qt_demo_ask @ [Act_finish 0 qt_demo_code_reply False]) qt_demo_start = Some S \<and>
       pg_messages (qt_pages S ! visible_page S) ! 2 = Msg_widget ''assistant'' (process_text (''Run:'' @ [CHR 0x0A] @ ''```sh'' @ [CHR 0x0A] @ ''make'' @ [CHR 0x0A] @ ''```'')) \<and>
       code_part (qt_pages S ! visible_page S) 2 1 = Some (''make'' @ [CHR 0x0A]) \<and> ''build.sh'' \<noteq> [] \<and>
       (\<exists>s' cs. qt_ui (Qt_save_code 2 1 ''build.sh'') S = Inr s' \<and> qt_files s' ''build.sh'' = Some (shown_lines cs) \<and>
          fenced_block (py_split_on (CHR 0x0A) (''Run:'' @ [CHR 0x0A] @ ''```sh'' @ [CHR 0x0A] @ ''make'' @ [CHR 0x0A] @ ''```'')) cs \<and> qt_boxes s' = qt_boxes S @ [Box_info ''Success''])"
proof -
  obtain S where run: "qt_run (qt_demo_ask @ [Act_finish 0 qt_demo_code_reply False]) qt_demo_start = Some S"
    and m: "pg_messages (qt_pages S ! visible_page S) ! 2 = Msg_widget ''assistant'' (process_text (''Run:'' @ [CHR 0x0A] @ ''```sh'' @ [CHR 0x0A] @ ''make'' @ [CHR 0x0A] @ ''```''))"
    and c: "code_part (qt_pages S ! visible_page S) 2 1 = Some (''make'' @ [CHR 0x0A])"
    using qt_demo_code_run by blast
  have p: "''build.sh'' \<noteq> []" by simp
  from saved_code_is_fenced_block [OF m c p] run m c p show ?thesis by blast
qed

end
