(* ===== verification/PyQt_Highlight.thy ===== *)
theory PyQt_Highlight
  imports PyQt_Render
begin

text \<open>
  The syntax colouring of the code blocks of \<open>src/gui_app/ollama_pyqt.py\<close>: class
  \<open>CodeHighlighter\<close>, which \<open>MessageWidget\<close> attaches to the document of each code part.
  Qt calls \<open>highlightBlock\<close> on every line (block) of the document. For each rule in order,
  the \<open>while index >= 0\<close> loop colours every match of the rule's \<open>QRegExp\<close>, searching
  again from the end of the match; a later rule overrides an earlier one.

  Each pattern of the source is a constructor of \<open>rule\<close>, and \<open>match_len\<close> says what
  \<open>QRegExp\<close> matches at a position of an ASCII line: the leftmost match with greedy
  repetition, where \<open>\b\<close> is a change between word and non-word characters and \<open>\s\<close> is
  \<open>QChar::isSpace\<close>. \<open>indexIn\<close> is \<open>index_in\<close>. The loop is a \<open>partial_function
  (option)\<close>, because it does not end for a pattern that matches the empty string: the
  search would restart where it was. That it ends for the rules of the source is proved.
\<close>

section \<open>Rules\<close>

text \<open>The formats of \<open>__init__\<close>, by what they mark.\<close>

datatype hl = Hl_keyword | Hl_string | Hl_number | Hl_comment | Hl_function | Hl_class

datatype rule =
    R_word string     \<comment> \<open>\<open>\bword\b\<close>\<close>
  | R_quoted char     \<comment> \<open>\<open>".*"\<close> and \<open>'.*'\<close>\<close>
  | R_number          \<comment> \<open>\<open>\b[0-9]+\b\<close>\<close>
  | R_comment         \<comment> \<open>\<open>#[^\n]*\<close>\<close>
  | R_call            \<comment> \<open>\<open>\b[A-Za-z0-9_]+(?=\()\<close>\<close>
  | R_class           \<comment> \<open>\<open>\bclass\s+[A-Za-z0-9_]+\<close>\<close>

definition py_keywords :: "string list" where
  "py_keywords =
     [''class'', ''def'', ''if'', ''elif'', ''else'', ''for'', ''while'', ''return'', ''import'',
      ''from'', ''try'', ''except'', ''finally'', ''raise'', ''with'', ''as'', ''pass'', ''break'',
      ''continue'', ''in'', ''is'', ''not'', ''and'', ''or'', ''True'', ''False'', ''None'',
      ''lambda'', ''global'', ''nonlocal'', ''assert'']"

definition highlighting_rules :: "(rule \<times> hl) list" where
  "highlighting_rules =
     map (\<lambda>k. (R_word k, Hl_keyword)) py_keywords @
     [(R_quoted (CHR 0x22), Hl_string), (R_quoted (CHR 0x27), Hl_string), (R_number, Hl_number),
      (R_comment, Hl_comment), (R_call, Hl_function), (R_class, Hl_class)]"

section \<open>Matching\<close>

text \<open>Word characters are \<open>[A-Za-z0-9_]\<close>; \<open>\s\<close> is a blank, a tab, or one of
  \<open>\n \v \f \r\<close>.\<close>

definition is_word_char :: "char \<Rightarrow> bool" where
  "is_word_char c \<longleftrightarrow>
     c \<in> set ''abcdefghijklmnopqrstuvwxyzABCDEFGHIJKLMNOPQRSTUVWXYZ0123456789_''"

definition is_digit :: "char \<Rightarrow> bool" where
  "is_digit c \<longleftrightarrow> c \<in> set ''0123456789''"

definition qt_isspace :: "char \<Rightarrow> bool" where
  "qt_isspace c \<longleftrightarrow> c = CHR '' '' \<or> c \<in> set [CHR 0x09, CHR 0x0A, CHR 0x0B, CHR 0x0C, CHR 0x0D]"

definition word_at :: "string \<Rightarrow> nat \<Rightarrow> bool" where
  "word_at t i \<longleftrightarrow> i < length t \<and> is_word_char (t ! i)"

definition boundary :: "string \<Rightarrow> nat \<Rightarrow> bool" where
  "boundary t i \<longleftrightarrow> (0 < i \<and> word_at t (i - 1)) \<noteq> word_at t i"

text \<open>The length of the match of a rule at position \<open>i\<close> of a line, if it matches there.
  Backtracking never gives a shorter match: \<open>\b\<close> or the lookahead fails inside a run of
  word characters, and a \<open>.*\<close> between quotes ends at the last quote of the line.\<close>

fun match_len :: "rule \<Rightarrow> string \<Rightarrow> nat \<Rightarrow> nat option" where
  "match_len (R_word w) t i =
     (if boundary t i \<and> take (length w) (drop i t) = w \<and> boundary t (i + length w)
      then Some (length w) else None)"
| "match_len (R_quoted q) t i =
     (let js = filter (\<lambda>j. t ! j = q) [Suc i..<length t]
      in if i < length t \<and> t ! i = q \<and> js \<noteq> [] then Some (last js - i + 1) else None)"
| "match_len R_number t i =
     (let n = length (takeWhile is_digit (drop i t))
      in if boundary t i \<and> 0 < n \<and> boundary t (i + n) then Some n else None)"
| "match_len R_comment t i =
     (if i < length t \<and> t ! i = CHR ''#''
      then Some (Suc (length (takeWhile (\<lambda>c. c \<noteq> CHR 0x0A) (drop (Suc i) t)))) else None)"
| "match_len R_call t i =
     (let n = length (takeWhile is_word_char (drop i t))
      in if boundary t i \<and> 0 < n \<and> i + n < length t \<and> t ! (i + n) = CHR ''(''
         then Some n else None)"
| "match_len R_class t i =
     (let s = length (takeWhile qt_isspace (drop (i + 5) t));
          n = length (takeWhile is_word_char (drop (i + 5 + s) t))
      in if boundary t i \<and> take 5 (drop i t) = ''class'' \<and> 0 < s \<and> 0 < n
         then Some (5 + s + n) else None)"

text \<open>\<open>expression.indexIn(text, offset)\<close>: the first position from \<open>offset\<close> on where
  the rule matches (\<open>None\<close> is \<open>-1\<close>).\<close>

definition index_in :: "rule \<Rightarrow> string \<Rightarrow> nat \<Rightarrow> nat option" where
  "index_in r t k = find (\<lambda>i. match_len r t i \<noteq> None) [k..<Suc (length t)]"

text \<open>\<open>setFormat(start, count, format)\<close> on the formats of the line's characters.\<close>

definition set_format :: "nat \<Rightarrow> nat \<Rightarrow> hl \<Rightarrow> hl option list \<Rightarrow> hl option list" where
  "set_format start count f fmts =
     map (\<lambda>(k, x). if start \<le> k \<and> k < start + count then Some f else x) (zip [0..<length fmts] fmts)"

section \<open>highlightBlock\<close>

text \<open>The \<open>while index >= 0\<close> loop of one rule. \<open>None\<close> is a loop that does not end.\<close>

partial_function (option) hl_while ::
  "rule \<Rightarrow> hl \<Rightarrow> string \<Rightarrow> nat option \<Rightarrow> hl option list \<Rightarrow> hl option list option" where
  "hl_while r f t idx fmts =
     (case idx of
        None \<Rightarrow> Some fmts
      | Some i \<Rightarrow>
          (case match_len r t i of
             None \<Rightarrow> Some fmts
           | Some l \<Rightarrow> hl_while r f t (index_in r t (i + l)) (set_format i l f fmts)))"

declare hl_while.simps [code]

text \<open>The rules in order, each starting with \<open>expression.indexIn(text)\<close>.\<close>

fun apply_rules :: "(rule \<times> hl) list \<Rightarrow> string \<Rightarrow> hl option list \<Rightarrow> hl option list option" where
  "apply_rules [] t fmts = Some fmts"
| "apply_rules ((r, f) # rs) t fmts =
     Option.bind (hl_while r f t (index_in r t 0) fmts) (apply_rules rs t)"

definition highlight_block :: "string \<Rightarrow> hl option list option" where
  "highlight_block t = apply_rules highlighting_rules t (replicate (length t) None)"

text \<open>\<open>CodeHighlighter(code_edit.document())\<close> on a code part: every line of the
  document, as \<open>setPlainText\<close> splits it.\<close>

definition highlight_code :: "string \<Rightarrow> hl option list list option" where
  "highlight_code c = those (map highlight_block (py_split_on (CHR 0x0A) c))"

section \<open>Lemmas\<close>

lemma index_in_Some:
  "index_in r t k = Some i \<Longrightarrow> k \<le> i \<and> i \<le> length t \<and> match_len r t i \<noteq> None"
  by (auto simp: index_in_def find_Some_iff simp del: upt_Suc)

lemma length_set_format [simp]: "length (set_format i l f fmts) = length fmts"
  by (simp add: set_format_def)

text \<open>No rule of the source matches the empty string: each keyword has a letter, a string
  has its two quotes, and the other patterns need at least one character.\<close>

lemma match_len_pos:
  assumes "(r, f) \<in> set highlighting_rules" and "match_len r t i = Some l"
  shows "0 < l"
  using assms by (auto simp: highlighting_rules_def py_keywords_def Let_def split: if_splits)

text \<open>The loop of a rule whose matches are never empty ends: each pass restarts the search
  after the match, so the offset grows and stays within the line.\<close>

lemma hl_while_returns:
  assumes "\<And>i l. match_len r t i = Some l \<Longrightarrow> 0 < l"
  shows "\<exists>fm. hl_while r f t (index_in r t k) fmts = Some fm \<and> length fm = length fmts"
proof (induction "Suc (length t) - k" arbitrary: k fmts rule: less_induct)
  case less
  show ?case
  proof (cases "index_in r t k")
    case None
    then show ?thesis by (simp add: hl_while.simps)
  next
    case (Some i)
    with index_in_Some obtain l where i: "k \<le> i" "i \<le> length t" and m: "match_len r t i = Some l"
      by blast
    with assms have "0 < l" by blast
    with i have "Suc (length t) - (i + l) < Suc (length t) - k" by simp
    from less [OF this, of "set_format i l f fmts"] Some m show ?thesis
      by (simp add: hl_while.simps)
  qed
qed

lemma apply_rules_returns:
  assumes "\<And>r f i l. (r, f) \<in> set rs \<Longrightarrow> match_len r t i = Some l \<Longrightarrow> 0 < l"
  shows "\<exists>fm. apply_rules rs t fmts = Some fm \<and> length fm = length fmts"
  using assms
proof (induction rs arbitrary: fmts)
  case Nil
  then show ?case by simp
next
  case (Cons rf rs)
  obtain r f where rf: "rf = (r, f)" by fastforce
  with Cons.prems obtain fm where fm: "hl_while r f t (index_in r t 0) fmts = Some fm"
    and len: "length fm = length fmts"
    using hl_while_returns [of r t f 0 fmts] by fastforce
  from Cons.IH [of fm] Cons.prems obtain fm' where "apply_rules rs t fm = Some fm'"
    and "length fm' = length fm" by fastforce
  with rf fm len show ?case by simp
qed

text \<open>Every line of a code part is coloured: the document's highlighting returns.\<close>

lemma highlight_code_returns:
  "\<exists>ls. highlight_code c = Some ls \<and> length ls = length (py_split_on (CHR 0x0A) c)"
proof -
  have hb: "\<exists>fm. highlight_block l = Some fm" for l
    using apply_rules_returns [of highlighting_rules l "replicate (length l) None"] match_len_pos
    by (auto simp: highlight_block_def)
  have "\<exists>ls. those (map highlight_block xs) = Some ls \<and> length ls = length xs" for xs
  proof (induction xs)
    case (Cons a xs)
    with hb [of a] obtain fm ls where "highlight_block a = Some fm"
      and "those (map highlight_block xs) = Some ls" and "length ls = length xs" by blast
    then show ?case by simp
  qed simp
  then show ?thesis by (simp add: highlight_code_def)
qed

text \<open>The rules run in the order of \<open>__init__\<close>, and the comment rule comes after the
  string rules: a \<open>#\<close> inside a string colours the rest of the line as a comment,
  closing quote included. The string rules are greedy: \<open>".*"\<close> runs from the first to
  the last quote of the line, over the code between two string literals.\<close>

lemma hash_in_string_coloured_as_comment:
  "highlight_block ''x = \"#\"'' =
     Some [None, None, None, None, Some Hl_string, Some Hl_comment, Some Hl_comment]"
  by code_simp

lemma greedy_string_spans_two_literals:
  "highlight_block ''f(\"a\") + g(\"b\")'' =
     Some [Some Hl_function, None, Some Hl_string, Some Hl_string, Some Hl_string, Some Hl_string,
           Some Hl_string, Some Hl_string, Some Hl_string, Some Hl_function, Some Hl_string,
           Some Hl_string, Some Hl_string, Some Hl_string, None]"
  by code_simp

section \<open>Properties of the highlighter\<close>

text \<open>C13. \<open>highlightBlock\<close> returns on every line, with a format (or none) for each of
  its characters. Its \<open>while index >= 0\<close> loops search again from \<open>index + length\<close>,
  and would run forever on a rule that matches the empty string; no rule of the source
  does.\<close>

theorem highlight_block_returns:
  "\<exists>fm. highlight_block t = Some fm \<and> length fm = length t"
  using apply_rules_returns [of highlighting_rules t "replicate (length t) None"] match_len_pos
  by (auto simp: highlight_block_def)

theorem highlight_block_returns_witness:
  "\<exists>fm. highlight_block ''while x:'' = Some fm \<and> length fm = length ''while x:''"
  by (rule highlight_block_returns)

end
