(* ===== verification/Spec2Isabelle.thy ===== *)
theory Spec2Isabelle
  imports Tk_Session Tk_Files Web_Proxy Terminal_Client ChatGPT_Session PyQt_Session PyQt_Highlight
begin

text \<open>
  \<^bold>\<open>A verification library for OlamaUI.\<close>

  \<^emph>\<open>The program.\<close> The repository holds five independent clients of a local
  language-model service (Ollama): a Tk GUI (\<open>src/gui_app/ollama_gui.py\<close>), a Tk GUI in
  the style of ChatGPT (\<open>src/gui_app/chatgpt.py\<close>), a PyQt GUI with tabs
  (\<open>src/gui_app/ollama_pyqt.py\<close>), a curses terminal client
  (\<open>src/terminal_app/ollama_chat.py\<close>) and a Flask proxy (\<open>src/python_app/app.py\<close>).
  Each keeps a conversation history, builds a chat request from it, posts it to
  \<open>{base}/chat\<close>, and applies the reply or the error to its state; the GUIs do the HTTP
  call on a daemon thread and hand the result back to the UI thread.

  \<^emph>\<open>The library.\<close>
  \<^item> \<open>Py_Prelude\<close>: the Python runtime the clients use: decoded JSON values
    (\<open>json\<close>), truthiness (\<open>truthy\<close>), \<open>dict.get\<close>, \<open>d[k]\<close>, \<open>k in d\<close>,
    iteration and \<open>list.append\<close> with the exceptions they raise (\<open>py_error\<close>, threaded
    by \<open>py_bind\<close>), and \<open>str.strip\<close> (\<open>py_strip\<close>).
  \<^item> \<open>Chat_Protocol\<close>: the exchange every client repeats: the message dict
    (\<open>msg\<close>), the outgoing message list (\<open>request_messages\<close>), the body
    (\<open>chat_payload\<close>), the HTTP outcome (\<open>http_result\<close>), the reply test
    (\<open>reply_content\<close>), the non-200 report (\<open>status_error\<close>) and the catalogue
    (\<open>fetch_model_names\<close>), from \<open>ollama_gui.py\<close>.
  \<^item> \<open>Tk_Client\<close>: \<open>OllamaChatGUI\<close> of \<open>ollama_gui.py\<close>: the state record
    \<open>tk_gui\<close> (widgets by their content, \<open>chat_history\<close>, \<open>is_generating\<close>, the chat
    display, the status label, the dialogs) and one function per handler
    (\<open>update_models\<close>, \<open>add_to_chat\<close>, \<open>clear_chat\<close>, \<open>on_model_selected\<close>,
    \<open>send_message\<close>, \<open>new_chat\<close>, \<open>fetch_models\<close>); the worker bodies
    \<open>generate\<close> and \<open>fetch\<close> as the history they write and the callbacks they post
    with \<open>root.after\<close>, and \<open>run_callback\<close> for the main loop running one.
  \<^item> \<open>Tk_Format\<close>: what \<open>add_to_chat\<close> writes into the chat area, as runs of text
    with a Tk tag (\<open>wtag\<close>): the prefix or the system line (\<open>entry_runs\<close>), the
    code-block loop \<open>code_loop\<close> and the inline-code loop \<open>inline_loop\<close>
    (\<open>format_message\<close>), the exception a message that is not a string raises after the
    prefix is written (\<open>content_error\<close>), and the whole widget (\<open>widget_runs\<close>) as
    the runs of the entries \<open>Tk_Client\<close> keeps. \<open>str.find\<close> is \<open>py_find\<close> of the prelude.
  \<^item> \<open>Tk_Session\<close>: the client as a concurrent system: a state \<open>tk_sys\<close> of UI
    state, running threads and callback queue; the step relation \<open>tk_step\<close> (a UI
    event, a thread finishing with any HTTP result, the main loop running a callback) in
    any interleaving; reachability from \<open>tk_init\<close> (the state \<open>__init__\<close> leaves);
    runs as lists of actions (\<open>tk_run\<close>) that evaluate by \<open>simp\<close>. The invariant
    \<open>tk_inv\<close> counts the generations owed (running \<open>generate\<close> threads plus queued
    resets) and equates them with \<open>is_generating\<close>; it is proved for every step by rule
    induction and gives the safety and completion theorems C1 to C3.
  \<^item> \<open>Tk_Files\<close>: \<open>save_chat\<close> and \<open>load_chat\<close> of \<open>ollama_gui.py\<close> over the file
    store (the document \<open>chat_document\<close>, the object fields \<open>load_data\<close> reads, the
    display loop \<open>load_display\<close>, which stops at the message \<open>add_to_chat\<close> raises
    on and keeps what it displayed), and the handlers that leave the conversation
    alone: \<open>copy_selected\<close>, \<open>copy_last_response\<close> (\<open>tk_copy_last_response\<close>, with
    its search \<open>copy_last_response\<close>), \<open>show_about\<close> and \<open>on_close\<close>
    (\<open>tk_on_close\<close>).
  \<^item> \<open>Web_Proxy\<close>: the Flask routes of \<open>app.py\<close> (\<open>get_models\<close>, \<open>proxy_chat\<close>,
    \<open>proxy_version\<close>) as functions from the request and the upstream result to the
    response, with the payload the proxy forwards (\<open>proxy_payload\<close>).
  \<^item> \<open>Terminal_Client\<close>: \<open>OllamaChat\<close> of \<open>ollama_chat.py\<close>, which is synchronous: the
    state record \<open>term_state\<close>, \<open>send_message\<close> (\<open>term_send_message\<close>), the body of
    the command loop (\<open>term_body\<close>: \<open>/exit\<close>, \<open>/quit\<close>, \<open>/temp\<close>, \<open>/clear\<close>,
    \<open>/help\<close>, a chat line), its \<open>except\<close> clause (\<open>term_iteration\<close>), the loop over the
    input lines (\<open>term_loop\<close>), \<open>run_curses_ui\<close>, \<open>select_model\<close>, \<open>run\<close> and the
    \<open>__main__\<close> block (\<open>term_main\<close>). The curses set-up is modelled with the windows
    it creates: \<open>init_curses\<close>, \<open>create_windows\<close> and \<open>handle_resize\<close>, over
    \<open>newwin\<close>, \<open>addstr\<close> (\<open>waddstr\<close>) and \<open>box\<close> as ncurses does them, on a terminal
    whose size is a parameter; \<open>ui_screen\<close> is the geometry \<open>redraw_chat\<close> reads. Of
    the drawing of the chat, \<open>redraw_chat\<close> is kept as far as it raises (\<open>textwrap\<close> on
    a non-string, \<open>curses.error\<close> outside the window), because the loop reacts to that.
    Python's \<open>int()\<close>, \<open>float()\<close>, \<open>str()\<close> and \<open>textwrap\<close> are parameters
    (\<open>py_lib\<close>).
  \<^item> \<open>ChatGPT_Client\<close>: \<open>ChatGPTStyle\<close> of \<open>chatgpt.py\<close>: the state record
    \<open>cg_state\<close> (Tk variables by the Python value they hold, the history, the sidebar's
    frames with the titles their menus captured, the chat area, the dialogs, the module's
    globals) and one function per handler: the sidebar (\<open>add_chat_to_sidebar\<close>,
    \<open>rename_chat\<close>, \<open>delete_chat\<close>, \<open>finish_new_chat\<close>), the chat area
    (\<open>cg_update_models\<close>, \<open>cg_new_chat\<close>, \<open>cg_on_model_selected\<close>, the placeholder
    handlers), \<open>cg_send_message\<close> with its worker \<open>cg_generate\<close> and the model fetch
    \<open>cg_fetch\<close>, loading and saving chats over a file store (\<open>load_chat_from_file\<close>,
    \<open>save_chat_to_file\<close>), the settings (\<open>show_settings\<close>, \<open>save_settings\<close>),
    the settings window's threads with the widgets they write (\<open>test_connection\<close>
    with \<open>cg_test\<close>; \<open>fetch_models_for_listbox\<close> with \<open>cg_listbox_fetch\<close> and the
    window's \<open>models_listbox\<close>; \<open>download_model\<close> with \<open>cg_download\<close>, its line loop
    \<open>cg_pull_lines\<close>, its progress windows \<open>cg_progress\<close> and its delayed callbacks
    \<open>cg_timer\<close>), \<open>on_close\<close>, \<open>__init__\<close> and \<open>main\<close> (\<open>cg_init\<close>,
    \<open>cg_main\<close>). A thread's request ends with a \<open>cg_reply\<close>: a result, the timeout of
    the one request that sets one, or a streamed reply as its decoded lines.
  \<^item> \<open>ChatGPT_Session\<close>: that client as a concurrent system, built like
    \<open>Tk_Session\<close> (\<open>cg_step\<close>, \<open>cg_reachable\<close> from \<open>cg_start\<close>), with the invariant
    \<open>cg_inv\<close>: the generations owed match \<open>is_generating\<close>, and the global
    \<open>APP_VERSION\<close> stays undefined. The delayed callbacks of a download
    (\<open>after(1000, ...)\<close>, \<open>after(2000, ...)\<close>) wait in a list of their own and may fire
    at any step (\<open>cg_fire\<close>). \<open>cg_drain\<close> runs the queue to its end and \<open>cg_settle\<close>
    lets everything end; both are \<open>function\<close>s with measures.
  \<^item> \<open>PyQt_Render\<close>: \<open>MessageWidget.process_text\<close> of \<open>ollama_pyqt.py\<close>, the loop
    that cuts a message into text and code parts at its fence lines (\<open>process_line\<close>,
    \<open>process_text\<close>), with the reference \<open>shown_lines\<close> (the lines that are not
    fences) and the loop invariant that relates them; \<open>code_parts_ok\<close> shows that every
    code part is the text of a fenced block (\<open>fenced_block\<close>).
  \<^item> \<open>PyQt_Client\<close>: \<open>OllamaChatApp\<close> of \<open>ollama_pyqt.py\<close>: the window state
    \<open>qt_state\<close>, with the tab pages in an explicit store (\<open>qt_pages\<close>) and the page the
    window's widget attributes name (\<open>qt_live\<close>, the page \<open>create_chat_tab\<close> made
    last), and one function per handler: the tabs (\<open>create_chat_tab\<close>,
    \<open>close_tab\<close>, \<open>qt_new_chat\<close>, \<open>load_selected_chat\<close>), the settings
    (\<open>qt_on_model_selected\<close>, \<open>update_temperature\<close>, \<open>update_max_tokens\<close>,
    \<open>qt_update_models\<close>), the model fetch and the connection test (\<open>qt_fetch_models\<close>,
    \<open>fetch_done\<close>, \<open>test_connection\<close>, \<open>test_done\<close>), attachments
    (\<open>attach_file\<close>, \<open>clear_attachments\<close>), the Copy and Save as File buttons of
    code blocks (\<open>code_part\<close>, \<open>save_code_to_file\<close>), \<open>qt_send_message\<close>, the thread
    \<open>ApiThread.run\<close> (\<open>api_thread_run\<close>) with \<open>handle_response\<close> and
    \<open>handle_error\<close>, and \<open>__init__\<close> and \<open>main\<close> (\<open>qt_init\<close>, \<open>qt_main\<close>).
  \<^item> \<open>PyQt_Session\<close>: that client as a concurrent system (\<open>qt_step\<close>,
    \<open>qt_reachable\<close> from \<open>qt_main\<close>, runs \<open>qt_run\<close>), with the invariant
    \<open>qt_inv\<close>: the tab bar, the chat list and \<open>current_chats\<close> stay parallel and
    non-empty, and one request is in flight exactly while \<open>is_generating\<close> holds; and
    the invariant \<open>qt_wf\<close>: the temperature and the token limit stay in the ranges of
    their widgets, every request thread's body carries them (\<open>request_ok\<close>), and every
    history entry is a user or assistant message with a string content
    (\<open>is_text_msg\<close>).
  \<^item> \<open>PyQt_Highlight\<close>: \<open>CodeHighlighter\<close> of \<open>ollama_pyqt.py\<close>, which colours
    the code parts: the rules of \<open>__init__\<close> in order (\<open>highlighting_rules\<close>), what
    each \<open>QRegExp\<close> pattern matches at a position of a line (\<open>match_len\<close>, leftmost and
    greedy, on ASCII text), \<open>indexIn\<close> (\<open>index_in\<close>), and \<open>highlightBlock\<close>
    (\<open>highlight_block\<close>) with its \<open>while index >= 0\<close> loop as a \<open>partial_function
    (option)\<close> (\<open>hl_while\<close>), where a loop that does not end is \<open>None\<close>.
  \<^item> This theory: the spec's abstract session (\<open>spec_session\<close>, the two latched states
    and the operations of its section 4.1) and the abstraction \<open>abs_history\<close> of a
    client's JSON history into role/text pairs, with the refinement theorems C14 (the
    Tk client) and C35 (the PyQt client).

  \<^emph>\<open>What is proved.\<close> C1: at most one generation in flight. C2: on messages of text
  and fenced code blocks the two loops of \<open>add_to_chat\<close> agree with a reference
  rendering (each block stripped, its language name kept as the first line of code). C3: every generation completes once the threads finish and the
  callbacks run, whatever the service answers. C4 to C6: the request a send builds, the
  append of a successful reply, and that every failure leaves the history unchanged.
  C7: a message with a single backtick is shown twice in the Tk chat area. C8: a reply lands in the conversation that
  is current when it arrives (clearing the chat during a generation yields a history that
  starts with an unanswered assistant turn). C9: exceptions on the worker threads are
  never shown: the \<open>except\<close> clauses post lambdas that read the exception variable Python
  3 deletes at the end of the clause, so they raise \<open>NameError\<close>. C10: "Save as
  File" on a code block of a PyQt message writes exactly the lines of a fenced block of
  the message's text. C11: the terminal client's prompt is never shown: \<open>box()\<close> draws
  the input window's border over it, and the text box lies on that border. C13 (termination):
  \<open>highlightBlock\<close> returns on every line, because no pattern of the source matches the
  empty string. C12: a finished download never refreshes the settings
  window's list of models, although the code comments the step as doing so.
  C14: a send followed by a successful text reply refines the spec's
  \<open>appendUserMessage\<close>; \<open>applyResponse\<close>. C15: a download that the service
  refuses leaves its modal progress window open, with its bar running, for good. C16: the
  proxy passes a failing service's body on with status 200.
  C17 (bounds): every request the PyQt client has in flight carries a temperature in
  [0, 1] and a token limit in [10, 4096]. C18 to C22, the
  terminal client: \<open>--model\<close> is overridden by the interactive prompt; the client's own
  notes are sent to the model as \<open>system\<close> messages; a failed request leaves only the
  user's message and no report; a reply whose content is not a string ends the chat
  (executed from \<open>__main__\<close>); \<open>/temp\<close> keeps the temperature in [0, 1]. C23
  (termination): from every reachable state the ChatGPT-style client can run all its
  callbacks, threads and delayed callbacks to their end, and then it is not generating. C24 (type): every history entry of the PyQt client is a
  user or assistant message with a string content. C25 to C31, the ChatGPT-style
  client: at most one generation in flight; saving always fails, because \<open>APP_VERSION\<close>
  is undefined (line 17 of \<open>chatgpt.py\<close> is a garbled merge); the program starts only
  with \<open>--api-url\<close>; the request always carries a system message, even an empty one; a
  renamed chat stays in the chat list after it is deleted; loading takes the file's
  \<open>messages\<close> unchecked, and a history that is not a list then silently blocks sending;
  and C32, the terminal client again: with fewer than 7 rows or 7 columns
  \<open>run_curses_ui\<close> ends at once with \<open>curses.error\<close>, and otherwise the chat runs with
  \<open>max_y - 7\<close> rows. C33, C34, C36, the Tk client's
  files: a saved chat loads back (history, temperature, token limit, stripped prompt, and
  the model when the catalogue has it); a save whose values cannot be read empties the
  file it was to write; \<open>copy_last_response\<close> agrees with the reference "last
  assistant message". C35: one round of the PyQt client (send, then a 200 reply with
  text) refines the spec's \<open>appendUserMessage\<close>; \<open>applyResponse\<close> on the history of
  the current tab, as C14 does for the Tk client. C37 to
  C40, the PyQt client: the tabs, the chat list and the histories stay consistent and at
  most one request runs; \<open>send_message\<close> reads and writes only the widgets of the tab
  created last, so text typed into an older tab is never sent; with balanced fences the
  rendered parts show exactly the lines that are not fences; an unclosed code block is
  not shown at all. The scenarios of \<open>PyQt_Session\<close> also show that a reply goes to the
  tab current when it arrives, that the asking tab's Send button then stays disabled,
  and that two tabs can share a title after a close.

  \<^emph>\<open>Modelling choices.\<close> A thread's append and posts are one step (\<open>Tk_Session\<close>
  says why that loses no behaviour). Callbacks posted with \<open>after(0, ...)\<close> run in the
  order posted, after the posting thread has left its \<open>except\<close> clause. Floats are
  their real values; strings are byte lists and \<open>strip\<close> removes ASCII whitespace. Tcl's
  parsing of numeric strings held in a Tk variable is not modelled (such a value raises
  \<open>TclError\<close> in the model). The Tk chat area is modelled as the text and tags
  \<open>add_to_chat\<close> inserts; the clock, Python's \<open>str()\<close> of a value and Tcl's text of a
  list or dict are parameters (\<open>tk_render\<close>), and the texts of exception messages are not
  modelled. No fuel or bound is used: every function is total
  by structural recursion, except \<open>cg_drain\<close> and \<open>cg_settle\<close>, whose termination is
  proved with measures (the length of the queue; the timers, then the threads, then the
  queue), and \<open>code_loop\<close> and \<open>inline_loop\<close> of \<open>Tk_Format\<close>, whose termination is
  proved with the length of the remaining text; runs are finite action lists. The one
  loop of the sources that may not end, \<open>highlightBlock\<close>'s search loop, is a
  \<open>partial_function (option)\<close>, and C13 proves that it returns: the offset of the search
  grows by the length of each match, which is positive, and stays within the line.

  The terminal client reads its input as a finite list of lines whose end is Ctrl+C, so
  its loop is structural recursion over that list.

  Files are a store from paths to JSON documents (\<open>file_store\<close>): \<open>json.dump\<close>
  followed by \<open>json.load\<close> is the identity, and a write never fails.

  In the PyQt client a slot that raises ends the process (PyQt5 calls \<open>qFatal\<close>), so
  such a step has no successor. The tab bar follows Qt's documented behaviour
  (\<open>removeTab\<close> of the current tab selects the tab to its right). The combo box's
  \<open>currentTextChanged\<close> signals raised by \<open>update_models\<close> itself are not separate
  steps: they select \<open>models[0]\<close>, which \<open>update_models\<close> selects anyway. Text files
  are a second store (\<open>qt_files\<close>) from paths to their contents; only a missing file is
  a read error.

  A value loaded from a file into a Tk text variable is kept when it is a string; Tcl's
  rendering of other values is not modelled (the model keeps the old text).

  \<^emph>\<open>Not modelled.\<close> Of \<open>ollama_gui.py\<close>, the widget construction of
  \<open>setup_ui\<close> and the theme set-up of \<open>main\<close>, which only picks a ttk style; the
  selection of the chat area is an input of \<open>copy_selected\<close>. Of \<open>chatgpt.py\<close>, \<open>show_chat_options\<close> only builds a
  menu, whose commands carry the title the frame captured (\<open>frame_title\<close>);
  \<open>invite_friends\<close> is modelled by the dialog its Send button shows, not by its window;
  the colour of the status light is not modelled; the grab of the settings window is not modelled either, so the
  model also lets the main window's events happen while it is open (more behaviours than
  Tk allows). Of \<open>ollama_pyqt.py\<close>, the widget construction of \<open>setup_ui\<close>, the text
  formats' colours, and
  \<open>insert_code_snippet\<close> (it inserts at the text cursor, whose position the model does
  not keep) are not modelled. Of \<open>ollama_chat.py\<close>, the text \<open>redraw_chat\<close> draws, the
  colour pairs, and the moment at which the \<open>SIGWINCH\<close> handler interrupts the loop are
  not modelled. The widget layout, colours and the HTTP library are outside the scope:
  they are presentation or code the sources only call.
\<close>

section \<open>The specification's session\<close>

datatype role = System | User | Assistant

record spec_session =
  s_history :: "(role \<times> string) list"
  s_generating :: bool

datatype spec_error = EmptyInput | AlreadyGenerating | EmptyModelResponse

text \<open>\<open>appendUserMessage\<close> together with the guard of \<open>buildRequest\<close>: a blank text is
  refused, a send while generating is refused, otherwise the stripped text is appended and
  the session waits for the response.\<close>

definition spec_send :: "string \<Rightarrow> spec_session \<Rightarrow> spec_error + spec_session" where
  "spec_send t s =
     (if s_generating s then Inl AlreadyGenerating
      else if py_strip t = [] then Inl EmptyInput
      else Inr (s\<lparr>s_history := s_history s @ [(User, py_strip t)], s_generating := True\<rparr>))"

text \<open>\<open>applyResponse\<close>, for a reply that carries text: non-empty content is appended,
  empty content is refused; either way the session is idle again.\<close>

definition spec_apply_response :: "string \<Rightarrow> spec_session \<Rightarrow> spec_error + spec_session" where
  "spec_apply_response c s =
     (if c = [] then Inl EmptyModelResponse
      else Inr (s\<lparr>s_history := s_history s @ [(Assistant, c)], s_generating := False\<rparr>))"

section \<open>Abstraction of a client's history\<close>

fun role_of :: "string \<Rightarrow> role option" where
  "role_of r =
     (if r = ''system'' then Some System
      else if r = ''user'' then Some User
      else if r = ''assistant'' then Some Assistant
      else None)"

fun abs_msg :: "json \<Rightarrow> (role \<times> string) option" where
  "abs_msg (JObj kvs) =
     (case (map_of kvs ''role'', map_of kvs ''content'') of
        (Some (JStr r), Some (JStr c)) \<Rightarrow> map_option (\<lambda>ro. (ro, c)) (role_of r)
      | _ \<Rightarrow> None)"
| "abs_msg _ = None"

fun abs_msgs :: "json list \<Rightarrow> (role \<times> string) list option" where
  "abs_msgs [] = Some []"
| "abs_msgs (m # ms) =
     (case (abs_msg m, abs_msgs ms) of (Some a, Some as) \<Rightarrow> Some (a # as) | _ \<Rightarrow> None)"

fun abs_history :: "json \<Rightarrow> (role \<times> string) list option" where
  "abs_history (JArr ms) = abs_msgs ms"
| "abs_history _ = None"

section \<open>Lemmas\<close>

lemma abs_msg_msg [simp]:
  "role_of r = Some ro \<Longrightarrow> abs_msg (msg r (JStr c)) = Some (ro, c)"
  by (simp add: msg_def del: role_of.simps)

lemma abs_msgs_append:
  "abs_msgs (xs @ ys) =
     (case (abs_msgs xs, abs_msgs ys) of (Some a, Some b) \<Rightarrow> Some (a @ b) | _ \<Rightarrow> None)"
  by (induction xs) (auto split: option.splits)

lemma abs_msgs_snoc:
  "abs_msgs xs = Some as \<Longrightarrow> abs_msg m = Some a \<Longrightarrow> abs_msgs (xs @ [m]) = Some (as @ [a])"
  by (simp add: abs_msgs_append)

section \<open>Refinement\<close>

text \<open>C14. One round of the Tk client refines the specification: from an idle client
  whose history abstracts to \<open>H\<close>, a send that the spec accepts, followed by a 200 reply
  with non-empty text \<open>c\<close>, yields a history that abstracts to the history of
  \<open>spec_send\<close> then \<open>spec_apply_response\<close>.\<close>

theorem tk_round_refines_spec:
  assumes idle: "\<not> is_generating g" and hist: "abs_history (chat_history g) = Some H"
    and model: "selected_model g \<noteq> []"
    and temp: "temperature g = JFloat tt" and toks: "max_tokens g = JInt n"
    and spec1: "spec_send (user_input g) \<lparr>s_history = H, s_generating = False\<rparr> = Inr S1"
    and spec2: "spec_apply_response c S1 = Inr S2"
    and reply: "reply_content data = Inr (Some (JStr c))"
  shows "\<exists>g' p. send_message g = (g', Send_started p) \<and>
           abs_history (fst (generate p (Http_response 200 (Some data)) (chat_history g'))) =
             Some (s_history S2)"
proof -
  obtain hs where hs: "chat_history g = JArr hs" and H: "abs_msgs hs = Some H"
    using hist by (cases "chat_history g") auto
  let ?m = "py_strip (user_input g)"
  from spec1 have m: "?m \<noteq> []" and S1: "s_history S1 = H @ [(User, ?m)]"
    by (auto simp: spec_send_def split: if_splits)
  from spec2 have c: "c \<noteq> []" and S2: "s_history S2 = s_history S1 @ [(Assistant, c)]"
    by (auto simp: spec_apply_response_def split: if_splits)
  obtain g' r where send: "send_message g = (g', r)" by fastforce
  have hist': "chat_history g' = JArr (hs @ [msg ''user'' (JStr ?m)])"
    and r: "r = Send_started (tk_payload g (selected_model g)
                 (request_messages (system_prompt_text g) (hs @ [msg ''user'' (JStr ?m)])))"
    using send idle m model hs
    by (auto simp: send_message_def Let_def tk_payload_def)
  have pay: "\<exists>q. tk_payload g (selected_model g)
                 (request_messages (system_prompt_text g) (hs @ [msg ''user'' (JStr ?m)])) = Inr q"
    using temp toks by (simp add: tk_payload_def tk_get_double_def tk_get_int_def)
  then obtain q where q: "tk_payload g (selected_model g)
                 (request_messages (system_prompt_text g) (hs @ [msg ''user'' (JStr ?m)])) = Inr q"
    by blast
  have "fst (generate (Inr q) (Http_response 200 (Some data)) (chat_history g')) =
          JArr (hs @ [msg ''user'' (JStr ?m), msg ''assistant'' (JStr c)])"
    using reply hist' by (simp add: generate_def)
  moreover have "abs_msgs (hs @ [msg ''user'' (JStr ?m), msg ''assistant'' (JStr c)]) =
                   Some (H @ [(User, ?m), (Assistant, c)])"
    using H abs_msgs_snoc [OF abs_msgs_snoc [OF H, of "msg ''user'' (JStr ?m)" "(User, ?m)"],
                           of "msg ''assistant'' (JStr c)" "(Assistant, c)"]
    by simp
  ultimately show ?thesis
    using send r q S1 S2 by auto
qed

theorem tk_round_refines_spec_witness:
  "abs_history (fst (generate (Inr demo_payload) (Http_response 200 (Some demo_chat_reply))
      (JArr [msg ''user'' (JStr ''Hello'')]))) = Some [(User, ''Hello''), (Assistant, ''Hi there'')] \<and>
   (\<exists>g' p. send_message (tk_gui_init\<lparr>selected_model := ''llama3'', user_input := ''Hello''\<rparr>) =
            (g', Send_started p) \<and>
          abs_history (fst (generate p (Http_response 200 (Some demo_chat_reply)) (chat_history g'))) =
            Some [(User, ''Hello''), (Assistant, ''Hi there'')])"
proof -
  let ?g = "tk_gui_init\<lparr>selected_model := ''llama3'', user_input := ''Hello''\<rparr>"
  have strip: "py_strip ''Hello'' = ''Hello''" by (simp add: py_strip_def py_lstrip_def py_isspace_def)
  have h1: "\<not> is_generating ?g" and h2: "abs_history (chat_history ?g) = Some []"
    and h3: "selected_model ?g \<noteq> []" and h4: "temperature ?g = JFloat (7 / 10)"
    and h5: "max_tokens ?g = JInt 1024"
    by (simp_all add: tk_gui_init_def)
  have h6: "spec_send (user_input ?g) \<lparr>s_history = [], s_generating = False\<rparr> =
              Inr \<lparr>s_history = [(User, ''Hello'')], s_generating = True\<rparr>"
    using strip by (simp add: spec_send_def)
  have h7: "spec_apply_response ''Hi there'' \<lparr>s_history = [(User, ''Hello'')], s_generating = True\<rparr> =
              Inr \<lparr>s_history = [(User, ''Hello''), (Assistant, ''Hi there'')], s_generating = False\<rparr>"
    by (simp add: spec_apply_response_def)
  have h8: "reply_content demo_chat_reply = Inr (Some (JStr ''Hi there''))"
    by (simp add: demo_chat_reply_def chat_simps)
  have round: "\<exists>g' p. send_message ?g = (g', Send_started p) \<and>
          abs_history (fst (generate p (Http_response 200 (Some demo_chat_reply)) (chat_history g'))) =
            Some [(User, ''Hello''), (Assistant, ''Hi there'')]"
    using tk_round_refines_spec [OF h1 h2 h3 h4 h5 h6 h7 h8] by simp
  have direct: "abs_history (fst (generate (Inr demo_payload) (Http_response 200 (Some demo_chat_reply))
      (JArr [msg ''user'' (JStr ''Hello'')]))) = Some [(User, ''Hello''), (Assistant, ''Hi there'')]"
    using h8 by (simp add: generate_def)
  from direct round show ?thesis by blast
qed

text \<open>C35. One round of the PyQt client refines the specification as well. From an idle
  client whose current tab's history abstracts to \<open>H\<close>, Send with the text of the input
  box of the tab created last starts one request. When it ends with a 200 reply with
  non-empty text \<open>c\<close>, the history of the tab current then abstracts to the history of
  \<open>spec_send\<close> then \<open>spec_apply_response\<close>, and the client is idle, as the spec
  session is.\<close>

theorem qt_round_refines_spec:
  assumes idle: "\<not> qt_is_generating s" and cur: "qt_current s < length (qt_current_chats s)"
    and hist: "abs_msgs (snd (qt_current_chats s ! qt_current s)) = Some H"
    and model: "qt_selected_model s \<noteq> []"
    and spec1: "spec_send (pg_input (live_page s)) \<lparr>s_history = H, s_generating = False\<rparr> = Inr S1"
    and spec2: "spec_apply_response c S1 = Inr S2"
    and reply: "reply_content data = Inr (Some (JStr c))"
  shows "\<exists>u p w s'. qt_workers (qt_send_message s) = qt_workers s @ [Api_worker u p w] \<and>
           qt_finish (length (qt_workers s)) (Http_response 200 (Some data)) False (qt_send_message s) = Inr s' \<and>
           abs_msgs (snd (qt_current_chats s' ! qt_current s')) = Some (s_history S2) \<and>
           qt_is_generating s' = s_generating S2"
proof -
  let ?m = "py_strip (pg_input (live_page s))"
  let ?s1 = "qt_send_message s"
  from spec1 have m: "?m \<noteq> []" and S1: "s_history S1 = H @ [(User, ?m)]"
    by (auto simp: spec_send_def split: if_splits)
  from spec2 have S2: "s_history S2 = s_history S1 @ [(Assistant, c)]" "\<not> s_generating S2"
    by (auto simp: spec_apply_response_def split: if_splits)
  from qt_send_started [OF idle cur m model] obtain u p w
    where c1: "qt_current ?s1 = qt_current s"
      and h1: "qt_current_chats ?s1 = (qt_current_chats s)[qt_current s := (fst (qt_current_chats s ! qt_current s),
                 snd (qt_current_chats s ! qt_current s) @ [msg ''user'' (JStr ?m)])]"
      and ws: "qt_workers ?s1 = qt_workers s @ [Api_worker u p w]"
    by blast
  have i: "length (qt_workers s) < length (qt_workers ?s1)" and wi: "qt_workers ?s1 ! length (qt_workers s) = Api_worker u p w"
    using ws by simp_all
  have cur1: "qt_current ?s1 < length (qt_current_chats ?s1)" using cur c1 h1 by simp
  from qt_reply_appended [OF i wi cur1 reply, of False] obtain s' where
    f: "qt_finish (length (qt_workers s)) (Http_response 200 (Some data)) False ?s1 = Inr s'"
    and c2: "qt_current s' = qt_current ?s1" and g: "\<not> qt_is_generating s'"
    and h2: "qt_current_chats s' = (qt_current_chats ?s1)[qt_current ?s1 := (fst (qt_current_chats ?s1 ! qt_current ?s1),
                   snd (qt_current_chats ?s1 ! qt_current ?s1) @ [msg ''assistant'' (JStr c)])]"
    by blast
  have "snd (qt_current_chats s' ! qt_current s') =
          snd (qt_current_chats s ! qt_current s) @ [msg ''user'' (JStr ?m), msg ''assistant'' (JStr c)]"
    using h2 h1 c1 c2 cur by simp
  moreover have "abs_msgs (snd (qt_current_chats s ! qt_current s) @ [msg ''user'' (JStr ?m), msg ''assistant'' (JStr c)]) =
                   Some (H @ [(User, ?m), (Assistant, c)])"
    using abs_msgs_snoc [OF abs_msgs_snoc [OF hist, of "msg ''user'' (JStr ?m)" "(User, ?m)"],
                         of "msg ''assistant'' (JStr c)" "(Assistant, c)"]
    by simp
  ultimately show ?thesis
    using ws f g S1 S2 by auto
qed

theorem qt_round_refines_spec_witness:
  "\<exists>S. qt_run [Act_finish 0 qt_demo_models False, Act_ui (Qt_type ''Hi'')] qt_demo_start = Some S \<and>
       (\<exists>u p w s'. qt_workers (qt_send_message S) = qt_workers S @ [Api_worker u p w] \<and>
          qt_finish (length (qt_workers S))
            (Http_response 200 (Some (JObj [(''message'', JObj [(''role'', JStr ''assistant''), (''content'', JStr ''Hello!'')])])))
            False (qt_send_message S) = Inr s' \<and>
          abs_msgs (snd (qt_current_chats s' ! qt_current s')) = Some [(User, ''Hi''), (Assistant, ''Hello!'')] \<and>
          \<not> qt_is_generating s')"
proof -
  obtain S where run: "qt_run [Act_finish 0 qt_demo_models False, Act_ui (Qt_type ''Hi'')] qt_demo_start = Some S"
    and h: "\<not> qt_is_generating S" "qt_current S = 0" "qt_current_chats S = [(''Chat 1'', [])]"
      "qt_selected_model S = ''llama3''" "pg_input (live_page S) = ''Hi''"
    using qt_demo_typed_run by blast
  have strip: "py_strip ''Hi'' = ''Hi''" by (simp add: py_strip_def py_lstrip_def py_isspace_def)
  have c: "qt_current S < length (qt_current_chats S)" using h by simp
  have a: "abs_msgs (snd (qt_current_chats S ! qt_current S)) = Some []" using h by simp
  have md: "qt_selected_model S \<noteq> []" using h by simp
  have s1: "spec_send (pg_input (live_page S)) \<lparr>s_history = [], s_generating = False\<rparr> =
              Inr \<lparr>s_history = [(User, ''Hi'')], s_generating = True\<rparr>"
    using h strip by (simp add: spec_send_def)
  have s2: "spec_apply_response ''Hello!'' \<lparr>s_history = [(User, ''Hi'')], s_generating = True\<rparr> =
              Inr \<lparr>s_history = [(User, ''Hi''), (Assistant, ''Hello!'')], s_generating = False\<rparr>"
    by (simp add: spec_apply_response_def)
  have r: "reply_content (JObj [(''message'', JObj [(''role'', JStr ''assistant''), (''content'', JStr ''Hello!'')])]) =
             Inr (Some (JStr ''Hello!''))"
    by (simp add: chat_simps)
  from qt_round_refines_spec [OF h(1) c a md s1 s2 r] run show ?thesis by auto
qed

end
